(* ===== verification/Prelude.thy ===== *)
theory Prelude
  imports Main "HOL-Library.Char_ord" "HOL-Library.Log_Nat" "HOL-Library.Multiset"
begin

text \<open>
  What every component theory shares: the collections of simplification rules, the result
  type of operations that return a Go \<open>error\<close> or panic, a fold over lists that stops at the
  first error, and lemmas on association lists.

  A Go \<open>map[string]T\<close> is an association list \<open>(string \<times> 'v) list\<close> whose keys are distinct.  The
  order of the list stands for the order in which \<open>range\<close> visits the map; Go leaves that order
  open, so a theorem about every list is a theorem about every iteration order.  The built-in
  operations \<open>m[k]\<close>, \<open>m[k] = v\<close> and \<open>delete(m, k)\<close> are \<open>map_of\<close>, \<open>map_put\<close> and \<open>map_del\<close>.
\<close>

named_theorems go_defs \<open>definitions of operations that proofs unfold together\<close>
named_theorems inv_intros \<open>preservation of the map and resource invariants\<close>

subsection \<open>Results\<close>

text \<open>A call either returns a value, returns a non-nil \<open>error\<close>, or panics.\<close>

datatype ('e, 'a) outcome = Ok 'a | Err 'e | Panic string

fun bind_out :: "('e, 'a) outcome \<Rightarrow> ('a \<Rightarrow> ('e, 'b) outcome) \<Rightarrow> ('e, 'b) outcome" where
  "bind_out (Ok a) f = f a"
| "bind_out (Err e) f = Err e"
| "bind_out (Panic p) f = Panic p"

lemma bind_out_eq_Ok [simp]: "bind_out r f = Ok b \<longleftrightarrow> (\<exists>a. r = Ok a \<and> f a = Ok b)"
  by (cases r) auto

text \<open>A loop over a slice whose body may return an error: the first error ends it.\<close>

fun fold_sum :: "('s \<Rightarrow> 'a \<Rightarrow> 'e + 's) \<Rightarrow> 's \<Rightarrow> 'a list \<Rightarrow> 'e + 's" where
  "fold_sum f s [] = Inr s"
| "fold_sum f s (x # xs) = (case f s x of Inl e \<Rightarrow> Inl e | Inr s' \<Rightarrow> fold_sum f s' xs)"

lemma fold_sum_append:
  "fold_sum f s (xs @ ys) = (case fold_sum f s xs of Inl e \<Rightarrow> Inl e | Inr s' \<Rightarrow> fold_sum f s' ys)"
  by (induction xs arbitrary: s) (auto split: sum.splits)

lemma fold_sum_invariant:
  assumes "fold_sum f s xs = Inr t" and "P s"
    and "\<And>s x s'. x \<in> set xs \<Longrightarrow> P s \<Longrightarrow> f s x = Inr s' \<Longrightarrow> P s'"
  shows "P t"
  using assms
proof (induction xs arbitrary: s)
  case Nil
  then show ?case by simp
next
  case (Cons x xs)
  from Cons.prems(1) obtain s' where s': "f s x = Inr s'" "fold_sum f s' xs = Inr t"
    by (auto split: sum.splits)
  have "P s'" using Cons.prems(2,3) s'(1) by (meson list.set_intros(1))
  then show ?case using Cons.IH [OF s'(2)] Cons.prems(3) by (meson list.set_intros(2))
qed

text \<open>Parsing every element of a slice, stopping at the first error.\<close>

fun map_sum_list :: "('a \<Rightarrow> 'e + 'b) \<Rightarrow> 'a list \<Rightarrow> 'e + 'b list" where
  "map_sum_list f [] = Inr []"
| "map_sum_list f (x # xs) =
     (case f x of Inl e \<Rightarrow> Inl e
      | Inr y \<Rightarrow> (case map_sum_list f xs of Inl e \<Rightarrow> Inl e | Inr ys \<Rightarrow> Inr (y # ys)))"

lemma map_sum_list_Inr_iff:
  "map_sum_list f xs = Inr ys \<longleftrightarrow> list_all2 (\<lambda>x y. f x = Inr y) xs ys"
proof (induction xs arbitrary: ys)
  case Nil
  then show ?case by auto
next
  case (Cons x xs)
  then show ?case
    by (cases "f x"; cases "map_sum_list f xs") (auto simp: list_all2_Cons1)
qed

lemma map_sum_list_length: "map_sum_list f xs = Inr ys \<Longrightarrow> length ys = length xs"
  by (simp add: map_sum_list_Inr_iff list_all2_lengthD)

lemma map_sum_list_Inl:
  "map_sum_list f xs = Inl e \<longleftrightarrow>
     (\<exists>us x vs. xs = us @ x # vs \<and> (\<forall>u \<in> set us. \<exists>y. f u = Inr y) \<and> f x = Inl e)"
proof (induction xs)
  case Nil
  then show ?case by simp
next
  case (Cons a xs)
  let ?bad = "\<lambda>l. \<exists>us x vs. l = us @ x # vs \<and> (\<forall>u \<in> set us. \<exists>y. f u = Inr y) \<and> f x = Inl e"
  show ?case
  proof (cases "f a")
    case (Inl e')
    have "?bad (a # xs) \<longleftrightarrow> e' = e"
    proof
      assume "?bad (a # xs)"
      then obtain us x vs where eq: "a # xs = us @ x # vs" and
        us: "\<forall>u \<in> set us. \<exists>y. f u = Inr y" and x: "f x = Inl e" by blast
      from eq us Inl have "us = []" by (cases us) auto
      with eq x Inl show "e' = e" by simp
    next
      assume "e' = e"
      with Inl show "?bad (a # xs)" by (metis append_Nil empty_iff list.set(1))
    qed
    with Inl show ?thesis by simp
  next
    case (Inr y)
    have "map_sum_list f (a # xs) = Inl e \<longleftrightarrow> map_sum_list f xs = Inl e"
      using Inr by (cases "map_sum_list f xs") simp_all
    also have "\<dots> \<longleftrightarrow> ?bad xs" by (rule Cons.IH)
    also have "\<dots> \<longleftrightarrow> ?bad (a # xs)"
    proof
      assume "?bad xs"
      then obtain us x vs where "xs = us @ x # vs" "\<forall>u \<in> set us. \<exists>y. f u = Inr y" "f x = Inl e"
        by blast
      with Inr show "?bad (a # xs)"
        by (intro exI [of _ "a # us"] exI [of _ x] exI [of _ vs]) auto
    next
      assume "?bad (a # xs)"
      then obtain us x vs where "a # xs = us @ x # vs" "\<forall>u \<in> set us. \<exists>y. f u = Inr y" "f x = Inl e"
        by blast
      with Inr show "?bad xs" by (cases us) auto
    qed
    finally show ?thesis .
  qed
qed

subsection \<open>Go maps as association lists\<close>

type_synonym 'v gmap = "(string \<times> 'v) list"

fun map_put :: "'k \<Rightarrow> 'v \<Rightarrow> ('k \<times> 'v) list \<Rightarrow> ('k \<times> 'v) list" where
  "map_put k v [] = [(k, v)]"
| "map_put k v ((k', v') # m) = (if k' = k then (k, v) # m else (k', v') # map_put k v m)"

definition map_del :: "'k \<Rightarrow> ('k \<times> 'v) list \<Rightarrow> ('k \<times> 'v) list" where
  "map_del k m = filter (\<lambda>(k', _). k' \<noteq> k) m"

abbreviation keys :: "('k \<times> 'v) list \<Rightarrow> 'k list" where
  "keys m \<equiv> map fst m"

lemma distinct_mapI': "distinct (map f xs) \<Longrightarrow> distinct xs"
  by (simp add: distinct_map)

text \<open>A list whose elements have distinct images that are all the same has at most one element.\<close>

lemma distinct_same_image:
  assumes "distinct (map f xs)" "\<forall>x \<in> set xs. f x = a"
  shows "length xs \<le> 1"
proof -
  have "length xs = card (set (map f xs))" using distinct_card [OF assms(1)] by simp
  also have "\<dots> \<le> card {a}" using assms(2) by (intro card_mono) auto
  finally show ?thesis by simp
qed

lemma mset_short: "mset xs = mset ys \<Longrightarrow> length xs \<le> 1 \<Longrightarrow> xs = ys"
  by (cases xs) (auto simp: mset_single_iff_right)

lemma list_all_pair: "list_all (\<lambda>(k, v). P k v) m \<longleftrightarrow> (\<forall>k v. (k, v) \<in> set m \<longrightarrow> P k v)"
  by (induction m) auto

lemma map_of_map_put [simp]: "map_of (map_put k v m) = (map_of m)(k \<mapsto> v)"
  by (induction k v m rule: map_put.induct) auto

lemma set_keys_map_put [simp]: "fst ` set (map_put k v m) = insert k (fst ` set m)"
  by (induction k v m rule: map_put.induct) auto

lemma distinct_map_put [simp, intro]: "distinct (keys m) \<Longrightarrow> distinct (keys (map_put k v m))"
  by (induction k v m rule: map_put.induct) auto

lemma map_put_fresh: "k \<notin> fst ` set m \<Longrightarrow> map_put k v m = m @ [(k, v)]"
  by (induction k v m rule: map_put.induct) auto

lemma map_of_map_del [simp]: "map_of (map_del k m) = (map_of m)(k := None)"
  by (induction m) (auto simp: map_del_def)

lemma set_keys_map_del [simp]: "fst ` set (map_del k m) = fst ` set m - {k}"
  by (auto simp: map_del_def image_iff)

lemma distinct_map_del [simp, intro]: "distinct (keys m) \<Longrightarrow> distinct (keys (map_del k m))"
  by (induction m) (auto simp: map_del_def image_iff)

lemma set_map_put_subset: "set (map_put k v m) \<subseteq> insert (k, v) (set m)"
  by (induction k v m rule: map_put.induct) auto

lemma distinct_keys_mset:
  "mset m = mset m' \<Longrightarrow> distinct (keys m) \<Longrightarrow> distinct (keys m')"
  by (metis mset_eq_imp_distinct_iff mset_map)

lemma map_of_mset_eq:
  assumes "distinct (keys m)" and "mset m = mset m'"
  shows "map_of m = map_of m'"
  using assms distinct_keys_mset [OF assms(2,1)] by (metis map_of_inject_set mset_eq_setD)

end
