(* ===== verification/Attr_Path.thy ===== *)
theory Attr_Path
  imports Go_Strings
begin

text \<open>
  Attribute paths (\<open>resource/path.go\<close>): \<open>[schema:]attribute[.sub]\<close>, their printing \<open>String\<close>
  and their parser \<open>ParsePath\<close>.  \<open>wf_path\<close> says which paths the parser can return, and
  \<open>ParsePath_iff\<close> that parsing is exactly the inverse of printing on those.
\<close>

text \<open>The error values of the package \<open>resource\<close>.  \<open>ErrBadPatch\<close> carries what \<open>fmt.Errorf\<close> puts
  behind it when it wraps the value with \<open>%w\<close>; \<open>errors.Is\<close> sees through the wrapping.\<close>

datatype res_error = ErrBadFilter | ErrBadPath | ErrBadPatch string | ErrNoTarget

fun res_error_text :: "res_error \<Rightarrow> string" where
  "res_error_text ErrBadFilter = ''scimply: invalid filter expression''"
| "res_error_text ErrBadPath = ''scimply: invalid attribute path''"
| "res_error_text (ErrBadPatch s) = ''scimply: invalid patch operation'' @ s"
| "res_error_text ErrNoTarget = ''scimply: no target for patch operation''"

record attr_path =
  Schema :: string
  AttributeName :: string
  SubAttribute :: string

definition path_String :: "attr_path \<Rightarrow> string" where
  "path_String p =
     (if Schema p \<noteq> [] then Schema p @ '':'' else []) @ AttributeName p @
     (if SubAttribute p \<noteq> [] then ''.'' @ SubAttribute p else [])"

definition isAlpha :: "char \<Rightarrow> bool" where
  "isAlpha ch = (let n = char_code ch in (97 \<le> n \<and> n \<le> 122) \<or> (65 \<le> n \<and> n \<le> 90))"

definition isDigit :: "char \<Rightarrow> bool" where
  "isDigit ch = (let n = char_code ch in 48 \<le> n \<and> n \<le> 57)"

definition isNameChar :: "char \<Rightarrow> bool" where
  "isNameChar ch = (isAlpha ch \<or> isDigit ch \<or> ch = CHR ''-'' \<or> ch = CHR ''_'')"

fun isValidAttrName :: "string \<Rightarrow> bool" where
  "isValidAttrName [] = False"
| "isValidAttrName (ch # cs) = (isAlpha ch \<and> list_all isNameChar cs)"

text \<open>The schema prefix of a path that starts with \<open>urn:\<close> ends at the last colon, provided what
  follows it up to a dot is an attribute name.\<close>

definition split_schema :: "string \<Rightarrow> string \<times> string" where
  "split_schema s =
     (if 4 \<le> length s \<and> EqualFold (take 4 s) ''urn:'' then
        (case cut_last (CHR '':'') s of
           Some (before, candidate) \<Rightarrow>
             (let attrPart = (case cut_first (CHR ''.'') candidate of
                                Some (a, _) \<Rightarrow> a | None \<Rightarrow> candidate)
              in if isValidAttrName attrPart then (before, candidate) else ([], s))
         | None \<Rightarrow> ([], s))
      else ([], s))"

definition ParsePath :: "string \<Rightarrow> res_error + attr_path" where
  "ParsePath s =
     (if s = [] then Inl ErrBadPath
      else if hd s = CHR ''.'' then Inl ErrBadPath
      else (let (schema, remainder) = split_schema s
            in case cut_first (CHR ''.'') remainder of
                 Some (attrName, subAttr) \<Rightarrow>
                   if attrName = [] \<or> subAttr = [] then Inl ErrBadPath
                   else if \<not> isValidAttrName attrName then Inl ErrBadPath
                   else if \<not> isValidAttrName subAttr then Inl ErrBadPath
                   else Inr \<lparr>Schema = schema, AttributeName = attrName, SubAttribute = subAttr\<rparr>
               | None \<Rightarrow>
                   if \<not> isValidAttrName remainder then Inl ErrBadPath
                   else Inr \<lparr>Schema = schema, AttributeName = remainder, SubAttribute = []\<rparr>))"

subsection \<open>Which paths are printed and parsed\<close>

definition is_urn :: "string \<Rightarrow> bool" where
  "is_urn sch = EqualFold (take 4 (sch @ '':'')) ''urn:''"

definition wf_path :: "attr_path \<Rightarrow> bool" where
  "wf_path p =
     (isValidAttrName (AttributeName p) \<and>
      (SubAttribute p = [] \<or> isValidAttrName (SubAttribute p)) \<and>
      (Schema p = [] \<or> is_urn (Schema p)))"

lemma isNameChar_not:
  "isNameChar c \<Longrightarrow> c \<noteq> CHR '':'' \<and> c \<noteq> CHR ''.'' \<and> c \<noteq> CHR '' '' \<and> c \<noteq> CHR 0x09 \<and>
     c \<noteq> CHR ''['' \<and> c \<noteq> CHR '']'' \<and> c \<noteq> CHR ''('' \<and> c \<noteq> CHR '')'' \<and> c \<noteq> CHR 0x22"
  by (auto simp: isNameChar_def isAlpha_def isDigit_def char_code_def)

lemma isAlpha_NameChar: "isAlpha c \<Longrightarrow> isNameChar c"
  by (simp add: isNameChar_def)

lemma valid_name_chars: "isValidAttrName s \<Longrightarrow> c \<in> set s \<Longrightarrow> isNameChar c"
  by (cases s) (auto simp: list_all_iff isAlpha_NameChar)

lemma valid_name_no:
  assumes "isValidAttrName s"
  shows "CHR '':'' \<notin> set s" and "CHR ''.'' \<notin> set s" and "s \<noteq> []"
    and "hd s \<noteq> CHR ''.''"
  using assms valid_name_chars [OF assms] isNameChar_not by (cases s; auto)+

lemma EqualFold_length: "EqualFold s t \<Longrightarrow> length s = length t"
  unfolding EqualFold_def by (metis ToLower_simps(4))

lemma is_urn_props:
  assumes "is_urn sch"
  shows "3 \<le> length sch" and "take 4 (sch @ CHR '':'' # t) = take 4 (sch @ '':'')"
    and "sch \<noteq> [] \<and> hd sch \<noteq> CHR ''.''"
proof -
  have "length (take 4 (sch @ '':'')) = length ''urn:''"
    using assms unfolding is_urn_def by (rule EqualFold_length)
  then show len: "3 \<le> length sch" by simp
  then have "length sch = 3 \<or> 4 \<le> length sch" by linarith
  then show "take 4 (sch @ CHR '':'' # t) = take 4 (sch @ '':'')" by auto
  from len obtain c cs where c: "sch = c # cs" by (cases sch) auto
  with assms have "lower_char c = CHR ''u''"
    by (simp add: is_urn_def EqualFold_def)
  then have "c \<noteq> CHR ''.''" by (auto simp: lower_char_def char_code_def)
  with c show "sch \<noteq> [] \<and> hd sch \<noteq> CHR ''.''" by simp
qed

lemma urn_prefix:
  assumes "is_urn sch"
  shows "4 \<le> length (sch @ CHR '':'' # t) \<and> EqualFold (take 4 (sch @ CHR '':'' # t)) ''urn:''"
proof -
  have "take 4 (sch @ CHR '':'' # t) = take 4 (sch @ '':'')" by (rule is_urn_props(2) [OF assms])
  with assms is_urn_props(1) [OF assms] show ?thesis
    by (simp del: take_append add: is_urn_def)
qed

lemma split_schema_no_colon: "CHR '':'' \<notin> set s \<Longrightarrow> split_schema s = ([], s)"
  by (simp add: split_schema_def)

lemma split_schema_print:
  assumes "is_urn sch" and a: "isValidAttrName a"
    and t: "t = a \<or> (\<exists>b. isValidAttrName b \<and> t = a @ CHR ''.'' # b)"
  shows "split_schema (sch @ CHR '':'' # t) = (sch, t)"
proof -
  have colon: "CHR '':'' \<notin> set t"
    using a t valid_name_no(1) by auto
  have "(case cut_first (CHR ''.'') t of Some (x, _) \<Rightarrow> x | None \<Rightarrow> t) = a"
    using t
  proof
    assume "t = a"
    with valid_name_no(2) [OF a] have "cut_first (CHR ''.'') t = None" by simp
    with \<open>t = a\<close> show ?thesis by simp
  next
    assume "\<exists>b. isValidAttrName b \<and> t = a @ CHR ''.'' # b"
    with valid_name_no(2) [OF a] show ?thesis by auto
  qed
  with a urn_prefix [OF assms(1), of t] colon show ?thesis
    by (simp only: split_schema_def) simp
qed

lemma ParsePath_print:
  assumes "wf_path p"
  shows "ParsePath (path_String p) = Inr p"
proof -
  obtain sch a b where p: "p = \<lparr>Schema = sch, AttributeName = a, SubAttribute = b\<rparr>" by (cases p)
  define t where "t = a @ (if b \<noteq> [] then ''.'' @ b else [])"
  from assms p have a: "isValidAttrName a" and b: "b = [] \<or> isValidAttrName b"
    and sch: "sch = [] \<or> is_urn sch"
    by (auto simp: wf_path_def)
  have t: "t = a \<or> (\<exists>b. isValidAttrName b \<and> t = a @ CHR ''.'' # b)"
    using b by (auto simp: t_def)
  have str: "path_String p = (if sch \<noteq> [] then sch @ CHR '':'' # t else t)"
    by (simp add: p path_String_def t_def)
  have split: "split_schema (path_String p) = (sch, t)"
  proof (cases "sch = []")
    case True
    have "CHR '':'' \<notin> set t" using a t valid_name_no(1) by auto
    with True show ?thesis by (simp add: str split_schema_no_colon)
  next
    case False
    with sch split_schema_print [OF _ a t] show ?thesis by (simp add: str)
  qed
  have hd: "path_String p \<noteq> [] \<and> hd (path_String p) \<noteq> CHR ''.''"
    using sch is_urn_props(3) [of sch] valid_name_no(3,4) [OF a] by (auto simp: str t_def)
  show ?thesis
  proof (cases "b = []")
    case True
    with valid_name_no(2) [OF a] have "cut_first (CHR ''.'') t = None" by (simp add: t_def)
    with True a hd split show ?thesis by (simp add: ParsePath_def t_def p)
  next
    case False
    with valid_name_no(2) [OF a] have "cut_first (CHR ''.'') t = Some (a, b)" by (simp add: t_def)
    with False a b valid_name_no(3) [OF a] hd split show ?thesis by (simp add: ParsePath_def p)
  qed
qed

lemma split_schema_cases:
  assumes "split_schema s = (sch, t)"
  shows "sch = [] \<and> t = s \<or> is_urn sch \<and> s = sch @ CHR '':'' # t"
proof -
  have "sch = [] \<and> t = s \<or> s = sch @ CHR '':'' # t \<and> EqualFold (take 4 s) ''urn:''"
    using assms by (auto simp: split_schema_def Let_def split: if_splits option.splits prod.splits
      dest!: cut_last_SomeD)
  then show ?thesis
  proof
    assume a: "s = sch @ CHR '':'' # t \<and> EqualFold (take 4 s) ''urn:''"
    have low: "ToLower (take 4 (sch @ CHR '':'' # t)) = ''urn:''"
      using a by (auto simp del: take_append simp: EqualFold_def)
    then have "length sch \<noteq> 0" "length sch \<noteq> 1" "length sch \<noteq> 2"
      by (auto simp: length_Suc_conv numeral_2_eq_2)
    then have "length sch = 3 \<or> 4 \<le> length sch" by linarith
    then have "take 4 (sch @ '':'') = take 4 s" using a by auto
    with a have "is_urn sch" by (metis is_urn_def)
    with a show ?thesis by simp
  qed simp
qed

lemma ParsePath_sound:
  assumes "ParsePath s = Inr p"
  shows "wf_path p \<and> path_String p = s"
proof -
  obtain sch t where st: "split_schema s = (sch, t)" by fastforce
  have t: "(t = AttributeName p \<and> SubAttribute p = [] \<or>
      isValidAttrName (SubAttribute p) \<and> t = AttributeName p @ CHR ''.'' # SubAttribute p) \<and>
      isValidAttrName (AttributeName p) \<and> Schema p = sch"
    using assms st
    by (auto simp: ParsePath_def split: if_splits option.splits dest!: cut_first_SomeD)
  with split_schema_cases [OF st] is_urn_props(3) [of sch] show ?thesis
    by (auto simp: wf_path_def path_String_def)
qed

lemma ParsePath_iff: "ParsePath s = Inr p \<longleftrightarrow> wf_path p \<and> s = path_String p"
  using ParsePath_print ParsePath_sound by auto

lemma ParsePath_error: "ParsePath s = Inl e \<Longrightarrow> e = ErrBadPath"
  by (auto simp: ParsePath_def split: if_splits option.splits prod.splits)

text \<open>A text parses as an attribute path exactly when it is the printed form of a well-formed path,
  and then it parses as that path: \<open>ParsePath\<close> and \<open>String\<close> are inverse to each other.\<close>

theorem attr_path_round_trip: "ParsePath s = Inr p \<longleftrightarrow> wf_path p \<and> s = path_String p"
  by (rule ParsePath_iff)

end
