(* ===== verification/Go_Time.thy ===== *)
theory Go_Time
  imports Go_Strings
begin

text \<open>
  What the code uses of Go's \<open>time\<close> package: instants, formatted and parsed with the layout
  \<open>time.RFC3339\<close>.  A \<open>time.Time\<close> is the instant it denotes, in nanoseconds since the zero time
  \<open>0001-01-01T00:00:00Z\<close>; the code formats after \<open>UTC()\<close> only, so the location plays no part.
  The calendar is the proleptic Gregorian one.  The main lemma, \<open>parse_format_rfc3339\<close>, is that
  parsing what formatting printed gives the instant back up to the second, for the years 1 to
  9999.
\<close>

type_synonym time = int

definition IsZero :: "time \<Rightarrow> bool" where "IsZero t = (t = 0)"

definition second_ns :: int where "second_ns = 1000000000"
definition day_ns :: int where "day_ns = 86400 * second_ns"

definition trunc_second :: "time \<Rightarrow> time" where
  "trunc_second t = (t div second_ns) * second_ns"

subsection \<open>The calendar\<close>

definition is_leap :: "int \<Rightarrow> bool" where
  "is_leap y = (y mod 4 = 0 \<and> (y mod 100 \<noteq> 0 \<or> y mod 400 = 0))"

text \<open>Days from 0001-01-01 to the first day of the year \<open>y + 1\<close>.\<close>

definition days_before :: "int \<Rightarrow> int" where
  "days_before y = 365 * y + y div 4 - y div 100 + y div 400"

definition month_lengths :: "bool \<Rightarrow> int list" where
  "month_lengths leap = [31, if leap then 29 else 28, 31, 30, 31, 30, 31, 31, 30, 31, 30, 31]"

definition days_in_month :: "int \<Rightarrow> int \<Rightarrow> int" where
  "days_in_month y m = month_lengths (is_leap y) ! nat (m - 1)"

definition days_of_civil :: "int \<Rightarrow> int \<Rightarrow> int \<Rightarrow> int" where
  "days_of_civil y m d =
     days_before (y - 1) + sum_list (take (nat (m - 1)) (month_lengths (is_leap y))) + (d - 1)"

fun month_day :: "int list \<Rightarrow> int \<Rightarrow> int \<times> int" where
  "month_day [] k = (1, k + 1)"
| "month_day (l # ls) k =
     (if k < l then (1, k + 1) else (let (m, d) = month_day ls (k - l) in (m + 1, d)))"

text \<open>The year and the day in the year: cycles of 400, 100, 4 and 1 years, where the last century
  of four and the last year of four are one day longer.\<close>

definition year_day :: "int \<Rightarrow> int \<times> int" where
  "year_day n =
     (let a = n div 146097; r = n mod 146097;
          b = min (r div 36524) 3; r1 = r - 36524 * b;
          c = r1 div 1461; r2 = r1 mod 1461;
          e = min (r2 div 365) 3; r3 = r2 - 365 * e
      in (400 * a + 100 * b + 4 * c + e + 1, r3))"

definition civil_of_days :: "int \<Rightarrow> int \<times> int \<times> int" where
  "civil_of_days n =
     (let (y, k) = year_day n; (m, d) = month_day (month_lengths (is_leap y)) k in (y, m, d))"

lemma year_day_correct:
  assumes "year_day n = (y, k)"
  shows "days_before (y - 1) + k = n" and "0 \<le> k" and "k < (if is_leap y then 366 else 365)"
proof -
  define a where "a = n div 146097"
  define r where "r = n mod 146097"
  define b where "b = min (r div 36524) 3"
  define r1 where "r1 = r - 36524 * b"
  define c where "c = r1 div 1461"
  define r2 where "r2 = r1 mod 1461"
  define e where "e = min (r2 div 365) 3"
  note d = a_def r_def b_def r1_def c_def r2_def e_def
  have y: "y = 400 * a + 100 * b + 4 * c + e + 1" and k: "k = r2 - 365 * e"
    using assms by (simp_all add: year_day_def Let_def d)
  have n: "n = 146097 * a + r" and r: "0 \<le> r" "r < 146097"
    by (simp_all add: a_def r_def)
  have b: "0 \<le> b" "b \<le> 3" "0 \<le> r1" "b < 3 \<longrightarrow> r1 < 36524" "r1 < 36525"
    using r unfolding b_def r1_def by (auto simp: min_def)
  have r1: "r1 = 1461 * c + r2" "0 \<le> r2" "r2 < 1461"
    by (simp_all add: c_def r2_def)
  have c: "0 \<le> c" "c \<le> 24" "b < 3 \<and> c = 24 \<longrightarrow> r2 < 1460"
    using b r1 by auto
  have e: "0 \<le> e" "e \<le> 3" "0 \<le> k" "e < 3 \<longrightarrow> k < 365" "k < 366"
    using r1 unfolding k e_def by (auto simp: min_def)
  have ce: "0 \<le> 4 * c + e" "4 * c + e \<le> 99" using c e by auto
  have d4: "(y - 1) div 4 = 100 * a + 25 * b + c"
    using e by (simp add: y)
  have d100: "(y - 1) div 100 = 4 * a + b"
    using ce by (simp add: y)
  have d400: "(y - 1) div 400 = a"
    using ce b by (simp add: y)
  show "days_before (y - 1) + k = n"
    unfolding days_before_def d4 d100 d400 using n r1 by (simp add: y k r1_def)
  show "0 \<le> k" by (fact e)
  show "k < (if is_leap y then 366 else 365)"
  proof (cases "e = 3")
    case False
    with e show ?thesis by auto
  next
    case True
    then have m4: "y mod 4 = 0" by (simp add: y)
    show ?thesis
    proof (cases "is_leap y")
      case True
      with e show ?thesis by simp
    next
      case False
      with m4 have m100: "y mod 100 = 0" and m400: "y mod 400 \<noteq> 0" by (auto simp: is_leap_def)
      have "y = 100 * (4 * a + b) + (4 * c + 4)" using \<open>e = 3\<close> by (simp add: y)
      with m100 have m: "(4 * c + 4) mod 100 = 0" by (metis mod_mult_self4 add.commute mult.commute mod_mult_self2)
      have "c = 24"
      proof (rule ccontr)
        assume "c \<noteq> 24"
        with c have "(4 * c + 4) mod 100 = 4 * c + 4" by (intro mod_pos_pos_trivial) auto
        with m c show False by simp
      qed
      moreover from m400 \<open>e = 3\<close> \<open>c = 24\<close> b have "b < 3" by (cases "b = 3") (auto simp: y)
      ultimately have "k < 365" using c \<open>e = 3\<close> by (simp add: k)
      with False show ?thesis by simp
    qed
  qed
qed

lemma month_day_correct:
  assumes "month_day ls k = (m, d)" and "0 \<le> k" and "k < sum_list ls"
  shows "1 \<le> m \<and> m \<le> int (length ls) \<and> 1 \<le> d \<and> d \<le> ls ! nat (m - 1) \<and>
    sum_list (take (nat (m - 1)) ls) + (d - 1) = k"
  using assms
proof (induction ls arbitrary: k m d)
  case Nil
  then show ?case by simp
next
  case (Cons l ls)
  show ?case
  proof (cases "k < l")
    case True
    with Cons.prems show ?thesis by auto
  next
    case False
    obtain m' d' where md: "month_day ls (k - l) = (m', d')" by fastforce
    with False Cons.prems(1) have m: "m = m' + 1" "d = d'" by auto
    from False Cons.prems(3) have "0 \<le> k - l" "k - l < sum_list ls" by auto
    from Cons.IH [OF md this]
    have ih: "1 \<le> m'" "m' \<le> int (length ls)" "1 \<le> d'" "d' \<le> ls ! nat (m' - 1)"
      "sum_list (take (nat (m' - 1)) ls) + (d' - 1) = k - l" by auto
    then have "nat m' = Suc (nat (m' - 1))" by auto
    with ih m show ?thesis by simp
  qed
qed

lemma sum_month_lengths: "sum_list (month_lengths leap) = (if leap then 366 else 365)"
  by (simp add: month_lengths_def)

lemma length_month_lengths [simp]: "length (month_lengths leap) = 12"
  by (simp add: month_lengths_def)

lemma month_lengths_bound: "i < 12 \<Longrightarrow> month_lengths leap ! i \<le> 31"
proof -
  assume "i < 12"
  then have "month_lengths leap ! i \<in> set (month_lengths leap)" by simp
  then show ?thesis by (auto simp: month_lengths_def)
qed

lemma civil_of_days_correct:
  assumes "civil_of_days n = (y, m, d)"
  shows "days_of_civil y m d = n" and "1 \<le> m" and "m \<le> 12" and "1 \<le> d"
    and "d \<le> days_in_month y m" and "d \<le> 31" and "days_before (y - 1) \<le> n"
    and "n < days_before (y - 1) + 366"
proof -
  obtain k where yk: "year_day n = (y, k)" and md: "month_day (month_lengths (is_leap y)) k = (m, d)"
    using assms by (auto simp: civil_of_days_def split: prod.splits)
  note yc = year_day_correct [OF yk]
  have "k < sum_list (month_lengths (is_leap y))"
    using yc(3) by (simp only: sum_month_lengths)
  note mc = month_day_correct [OF md yc(2) this]
  show "1 \<le> m" "m \<le> 12" "1 \<le> d" "d \<le> days_in_month y m"
    using mc by (auto simp: days_in_month_def)
  show "days_of_civil y m d = n"
    using mc yc(1) by (simp add: days_of_civil_def)
  show "d \<le> 31"
    using mc month_lengths_bound [of "nat (m - 1)" "is_leap y"] by (simp add: nat_less_iff)
  show "days_before (y - 1) \<le> n" "n < days_before (y - 1) + 366"
    using yc by (auto split: if_splits)
qed

lemma days_before_mono: "y \<le> z \<Longrightarrow> days_before y + 365 * (z - y) \<le> days_before z"
proof (induction z rule: int_ge_induct)
  case base
  then show ?case by simp
next
  case (step z)
  have arith: "365 * z + c - a + e + 365 \<le> 365 * (z + 1) + d - b + f"
    if "b - a \<le> d - c" and "e \<le> f" for a b c d e f :: int
    using that by (simp add: algebra_simps)
  define q r where "q = z div 100" and "r = z mod 100"
  then have z: "z = 100 * q + r" and r: "0 \<le> r" "r < 100" by simp_all
  have d4: "(100 * q + x) div 4 = 25 * q + x div 4" for x :: int
    using div_mult_self2 [of 4 x "25 * q"] by simp
  have "(z + 1) div 100 - z div 100 \<le> (z + 1) div 4 - z div 4"
  proof (cases "r = 99")
    case True
    then have "z + 1 = 100 * (q + 1)" using z by simp
    then have "(z + 1) div 100 = q + 1" "(z + 1) div 4 = 25 * q + 25"
      using d4 [of 100] by simp_all
    moreover have "z div 4 = 25 * q + 24" using d4 [of 99] z True by simp
    ultimately show ?thesis using q_def by simp
  next
    case False
    then have "(z + 1) div 100 = q" using z r by simp
    moreover have "z div 4 \<le> (z + 1) div 4" by (rule zdiv_mono1) simp_all
    ultimately show ?thesis using q_def by simp
  qed
  moreover have "z div 400 \<le> (z + 1) div 400" by (rule zdiv_mono1) simp_all
  ultimately have "days_before z + 365 \<le> days_before (z + 1)"
    unfolding days_before_def by (rule arith)
  with step show ?case by (simp add: algebra_simps)
qed

lemma civil_year_range:
  assumes "civil_of_days n = (y, m, d)" and "0 \<le> n" and "n < 3652059"
  shows "1 \<le> y" and "y \<le> 9999"
proof -
  note c = civil_of_days_correct(7,8) [OF assms(1)]
  show "1 \<le> y"
  proof (rule ccontr)
    assume "\<not> 1 \<le> y"
    then have "y - 1 \<le> - 1" by simp
    from days_before_mono [OF this] have "days_before (y - 1) + 365 * (- 1 - (y - 1)) \<le> - 366"
      by (simp add: days_before_def)
    with \<open>\<not> 1 \<le> y\<close> c assms(2) show False by simp
  qed
  show "y \<le> 9999"
  proof (rule ccontr)
    assume "\<not> y \<le> 9999"
    then have "9999 \<le> y - 1" by simp
    from days_before_mono [OF this] have "3652059 + 365 * (y - 1 - 9999) \<le> days_before (y - 1)"
      by (simp add: days_before_def)
    with \<open>\<not> y \<le> 9999\<close> c assms(3) show False by simp
  qed
qed

subsection \<open>Format\<close>

definition pad2 :: "int \<Rightarrow> string" where
  "pad2 n = [digit_char (nat n div 10 mod 10), digit_char (nat n mod 10)]"

definition pad4 :: "int \<Rightarrow> string" where
  "pad4 n = pad2 (n div 100) @ pad2 (n mod 100)"

definition fmt_year :: "int \<Rightarrow> string" where
  "fmt_year y =
     (if 0 \<le> y \<and> y \<le> 9999 then pad4 y
      else if y < 0 \<and> - 9999 \<le> y then ''-'' @ pad4 (- y) else int_str y)"

definition format_rfc3339 :: "time \<Rightarrow> string" where
  "format_rfc3339 t =
     (let (y, m, d) = civil_of_days (t div day_ns); s = t mod day_ns div second_ns
      in fmt_year y @ ''-'' @ pad2 m @ ''-'' @ pad2 d @ ''T'' @ pad2 (s div 3600) @ '':'' @
         pad2 (s div 60 mod 60) @ '':'' @ pad2 (s mod 60) @ ''Z'')"

text \<open>The fraction of the second without trailing zeros, the layout \<open>time.RFC3339Nano\<close> and the text of \<open>String()\<close>.\<close>

definition nano_fraction :: "time \<Rightarrow> string" where
  "nano_fraction t =
     (let ds = nat_str (nat (t mod second_ns))
      in if t mod second_ns = 0 then []
         else ''.'' @ TrimRightChar (CHR ''0'') (replicate (9 - length ds) (CHR ''0'') @ ds))"

definition format_rfc3339_nano :: "time \<Rightarrow> string" where
  "format_rfc3339_nano t = butlast (format_rfc3339 t) @ nano_fraction t @ ''Z''"

definition time_string :: "time \<Rightarrow> string" where
  "time_string t =
     map (\<lambda>c. if c = CHR ''T'' then CHR '' '' else c) (butlast (format_rfc3339 t)) @ nano_fraction t @ '' +0000 UTC''"

subsection \<open>Parse\<close>

text \<open>\<open>getnum\<close> with two digits required, and with one allowed (the hour).  \<open>expect\<close> skips a
  literal.\<close>

fun getnum2 :: "string \<Rightarrow> (int \<times> string) option" where
  "getnum2 (a # b # s) =
     (if is_digit_char a \<and> is_digit_char b then Some (int (10 * digit_val a + digit_val b), s) else None)"
| "getnum2 _ = None"

fun getnum12 :: "string \<Rightarrow> (int \<times> string) option" where
  "getnum12 [] = None"
| "getnum12 [a] = (if is_digit_char a then Some (int (digit_val a), []) else None)"
| "getnum12 (a # b # s) =
     (if \<not> is_digit_char a then None
      else if is_digit_char b then Some (int (10 * digit_val a + digit_val b), s)
      else Some (int (digit_val a), b # s))"

definition getnum4 :: "string \<Rightarrow> (int \<times> string) option" where
  "getnum4 s =
     Option.bind (getnum2 s) (\<lambda>(h, s). map_option (\<lambda>(l, s). (100 * h + l, s)) (getnum2 s))"

fun expect :: "char \<Rightarrow> string \<Rightarrow> string option" where
  "expect c [] = None"
| "expect c (d # s) = (if d = c then Some s else None)"

text \<open>A fraction of a second may follow although the layout has none; nine digits count.\<close>

definition parse_frac :: "string \<Rightarrow> int \<times> string" where
  "parse_frac s =
     (case s of c # r \<Rightarrow>
        (let ds = takeWhile is_digit_char r
         in if (c = CHR ''.'' \<or> c = CHR '','') \<and> ds \<noteq> []
            then (int (digits_val (take 9 (ds @ replicate 9 (CHR ''0'')))), drop (length ds) r)
            else (0, s))
      | [] \<Rightarrow> (0, s))"

text \<open>The zone: \<open>Z\<close> or \<open>+hh:mm\<close> or \<open>-hh:mm\<close>, as an offset in seconds.\<close>

definition parse_zone :: "string \<Rightarrow> (int \<times> string) option" where
  "parse_zone s =
     (case s of [] \<Rightarrow> None
      | c # r \<Rightarrow>
        if c = CHR ''Z'' then Some (0, r)
        else if c = CHR ''+'' \<or> c = CHR ''-''
        then Option.bind (getnum2 r) (\<lambda>(h, r). Option.bind (expect (CHR '':'') r) (\<lambda>r.
               Option.bind (getnum2 r) (\<lambda>(mm, r).
                 if h \<le> 24 \<and> mm \<le> 60
                 then Some ((if c = CHR ''-'' then - 1 else 1) * (h * 60 + mm) * 60, r) else None)))
        else None)"

definition mk_time :: "int \<Rightarrow> int \<Rightarrow> int \<Rightarrow> int \<Rightarrow> int \<Rightarrow> int \<Rightarrow> int \<Rightarrow> int \<Rightarrow> time option" where
  "mk_time y m d hh mi ss ns off =
     (if 1 \<le> m \<and> m \<le> 12 \<and> 1 \<le> d \<and> d \<le> days_in_month y m \<and> hh < 24 \<and> mi < 60 \<and> ss < 60
      then Some (days_of_civil y m d * day_ns + (hh * 3600 + mi * 60 + ss - off) * second_ns + ns)
      else None)"

definition parse_rfc3339 :: "string \<Rightarrow> time option" where
  "parse_rfc3339 s =
     Option.bind (getnum4 s) (\<lambda>(y, s). Option.bind (expect (CHR ''-'') s) (\<lambda>s.
     Option.bind (getnum2 s) (\<lambda>(m, s). Option.bind (expect (CHR ''-'') s) (\<lambda>s.
     Option.bind (getnum2 s) (\<lambda>(d, s). Option.bind (expect (CHR ''T'') s) (\<lambda>s.
     Option.bind (getnum12 s) (\<lambda>(hh, s). Option.bind (expect (CHR '':'') s) (\<lambda>s.
     Option.bind (getnum2 s) (\<lambda>(mi, s). Option.bind (expect (CHR '':'') s) (\<lambda>s.
     Option.bind (getnum2 s) (\<lambda>(ss, s). let (ns, s) = parse_frac s in
     Option.bind (parse_zone s) (\<lambda>(off, s).
       if s = [] then mk_time y m d hh mi ss ns off else None))))))))))))"

subsection \<open>Parsing what was formatted\<close>

lemma getnum2_pad2 [simp]: "0 \<le> n \<Longrightarrow> n < 100 \<Longrightarrow> getnum2 (pad2 n @ s) = Some (n, s)"
proof -
  assume n: "0 \<le> n" "n < 100"
  then have "nat n div 10 mod 10 = nat n div 10" by (simp add: nat_less_iff)
  moreover have "int (10 * (nat n div 10) + nat n mod 10) = n" using n by simp
  ultimately show ?thesis using n by (simp add: pad2_def del: of_nat_add of_nat_mult)
qed

lemma getnum12_pad2 [simp]: "0 \<le> n \<Longrightarrow> n < 100 \<Longrightarrow> getnum12 (pad2 n @ s) = Some (n, s)"
  using getnum2_pad2 [of n s] by (simp add: pad2_def split: if_splits)

lemma getnum4_fmt_year [simp]:
  "0 \<le> y \<Longrightarrow> y \<le> 9999 \<Longrightarrow> getnum4 (fmt_year y @ s) = Some (y, s)"
  by (simp add: fmt_year_def pad4_def getnum4_def)

theorem parse_format_rfc3339:
  assumes "0 \<le> t" and "t < 3652059 * day_ns"
  shows "parse_rfc3339 (format_rfc3339 t) = Some (trunc_second t)"
proof -
  obtain y m d where c: "civil_of_days (t div day_ns) = (y, m, d)" by (metis prod_cases3)
  have pos: "0 < day_ns" by (simp add: day_ns_def second_ns_def)
  have "0 \<le> t div day_ns" using assms(1) pos by (simp add: pos_imp_zdiv_nonneg_iff)
  moreover have "t div day_ns < 3652059"
  proof (rule ccontr)
    assume "\<not> t div day_ns < 3652059"
    then have "3652059 * day_ns \<le> t div day_ns * day_ns" using pos by simp
    also have "\<dots> \<le> t" using pos by (metis div_mult_mod_eq le_add_same_cancel1 pos_mod_sign)
    finally show False using assms(2) by simp
  qed
  ultimately have y: "0 \<le> y" "y \<le> 9999" using civil_year_range [OF c] by auto
  note cc = civil_of_days_correct [OF c]
  define s where "s = t mod day_ns div second_ns"
  have snd: "0 < second_ns" by (simp add: second_ns_def)
  have s: "0 \<le> s" "s < 86400"
  proof -
    have r: "0 \<le> t mod day_ns" "t mod day_ns < day_ns" using pos by simp_all
    show "0 \<le> s" unfolding s_def using r(1) snd by (simp add: pos_imp_zdiv_nonneg_iff)
    have "s * second_ns \<le> t mod day_ns"
      unfolding s_def using snd by (metis div_mult_mod_eq le_add_same_cancel1 pos_mod_sign)
    with r(2) have "s * second_ns < 86400 * second_ns" by (simp add: day_ns_def)
    then show "s < 86400" using snd by simp
  qed
  have s3600: "s div 3600 = s div 60 div 60" by (simp add: zdiv_zmult2_eq [of 60 s 60, simplified])
  have "s div 3600 < 24" "0 \<le> s div 3600" using s by simp_all
  have dec: "s div 3600 * 3600 + s div 60 mod 60 * 60 + s mod 60 = s"
  proof -
    have hms: "a * 3600 + b * 60 + c = s" if "(a * 60 + b) * 60 + c = s" for a b c :: int
      using that by simp
    show ?thesis unfolding s3600 by (rule hms) (simp only: div_mult_mod_eq)
  qed
  have val: "t div day_ns * day_ns + s * second_ns = trunc_second t"
  proof -
    have "t div second_ns = (t mod day_ns + (t div day_ns * 86400) * second_ns) div second_ns"
      using div_mult_mod_eq [of t day_ns] by (simp add: day_ns_def algebra_simps)
    also have "\<dots> = t div day_ns * 86400 + s"
      using snd by (simp add: s_def)
    finally show ?thesis by (simp add: trunc_second_def day_ns_def algebra_simps)
  qed
  have "parse_rfc3339 (format_rfc3339 t) =
      mk_time y m d (s div 3600) (s div 60 mod 60) (s mod 60) 0 0"
    using y cc(2-4,6) s \<open>s div 3600 < 24\<close>
    by (simp add: parse_rfc3339_def format_rfc3339_def c parse_frac_def parse_zone_def flip: s_def)
  also have "\<dots> = Some (trunc_second t)"
    using cc s \<open>s div 3600 < 24\<close> by (simp add: mk_time_def dec val)
  finally show ?thesis .
qed

end
