(* ===== verification/Go_Float.thy ===== *)
theory Go_Float
  imports Complex_Main Go_Strings
begin

text \<open>
  The \<open>float64\<close> values of the program: sign, integral significand and binary exponent, so the
  value is \<open>\<plusminus> m * 2 ^ e\<close>.  Infinities and NaN are absent: every number comes from JSON
  or from \<open>strconv.ParseFloat\<close>, which refuse them.  \<open>round_frac\<close> rounds a fraction to nearest,
  ties to even, at the precision of \<open>float64\<close> (53 bits) or \<open>float32\<close> (24 bits); \<open>ParseFloat\<close> and
  the conversions from integers are that rounding of the exact value, and \<open>fmt_float\<close> is the
  \<open>%v\<close> verb: the shortest decimal that rounds back to the number.
\<close>

datatype f64 = F64 (f_neg: bool) (f_man: nat) (f_exp: int)

record fmt_prec =
  p_bits :: nat
  p_emin :: int
  p_emax :: int

definition double_prec :: fmt_prec where
  "double_prec = \<lparr>p_bits = 53, p_emin = - 1074, p_emax = 971\<rparr>"

definition single_prec :: fmt_prec where
  "single_prec = \<lparr>p_bits = 24, p_emin = - 149, p_emax = 104\<rparr>"

subsection \<open>Rounding\<close>

text \<open>\<open>le_pow2 k d n\<close>: \<open>d * 2 ^ k \<le> n\<close> for an integer exponent; \<open>log2_frac n d\<close> is the
  exponent of the leading bit of \<open>n / d\<close>.\<close>

definition le_pow2 :: "int \<Rightarrow> nat \<Rightarrow> nat \<Rightarrow> bool" where
  "le_pow2 k d n = (if 0 \<le> k then d * 2 ^ nat k \<le> n else d \<le> n * 2 ^ nat (- k))"

definition log2_frac :: "nat \<Rightarrow> nat \<Rightarrow> int" where
  "log2_frac n d =
     (let k = int (floorlog 2 n) - int (floorlog 2 d) in if le_pow2 k d n then k else k - 1)"

definition round_half_even :: "nat \<Rightarrow> nat \<Rightarrow> nat" where
  "round_half_even n d =
     (let q = n div d; r = n mod d
      in if 2 * r < d then q else if 2 * r > d then q + 1 else if even q then q else q + 1)"

text \<open>\<open>round_frac p n d\<close> is the significand and exponent nearest to \<open>n / d\<close>; \<open>None\<close> is overflow.\<close>

definition round_frac :: "fmt_prec \<Rightarrow> nat \<Rightarrow> nat \<Rightarrow> (nat \<times> int) option" where
  "round_frac p n d =
     (if n = 0 then Some (0, 0)
      else (let e = max (log2_frac n d - int (p_bits p) + 1) (p_emin p);
                m = (if 0 \<le> e then round_half_even n (d * 2 ^ nat e)
                     else round_half_even (n * 2 ^ nat (- e)) d);
                (m', e') = (if m = 2 ^ p_bits p then (m div 2, e + 1) else (m, e))
            in if m' = 0 then Some (0, 0) else if e' > p_emax p then None else Some (m', e')))"

definition mk_f64 :: "bool \<Rightarrow> (nat \<times> int) \<Rightarrow> f64" where
  "mk_f64 neg me = F64 neg (fst me) (snd me)"

subsection \<open>Conversion, comparison, subtraction\<close>

text \<open>\<open>float64(n)\<close> for an integer of at most 64 bits never overflows.\<close>

definition f64_of_int :: "int \<Rightarrow> f64" where
  "f64_of_int i =
     (case round_frac double_prec (nat \<bar>i\<bar>) 1 of
        Some me \<Rightarrow> mk_f64 (i < 0) me | None \<Rightarrow> F64 (i < 0) 0 0)"

definition f_signed :: "f64 \<Rightarrow> int \<Rightarrow> int" where
  "f_signed f e0 =
     (let v = int (f_man f) * 2 ^ nat (f_exp f - e0) in if f_neg f then - v else v)"

definition f_cmp :: "f64 \<Rightarrow> f64 \<Rightarrow> int" where
  "f_cmp a b =
     (let e0 = min (f_exp a) (f_exp b); x = f_signed a e0; y = f_signed b e0
      in if x < y then - 1 else if y < x then 1 else 0)"

definition f_lt :: "f64 \<Rightarrow> f64 \<Rightarrow> bool" where
  "f_lt a b = (f_cmp a b < 0)"

definition f_abs :: "f64 \<Rightarrow> f64" where
  "f_abs a = F64 False (f_man a) (f_exp a)"

text \<open>The rounded difference; a difference of finite numbers that overflows is an infinity in
  Go, here the largest finite number, which compares the same way with every small bound.\<close>

definition f_max :: "bool \<Rightarrow> f64" where
  "f_max neg = F64 neg (2 ^ 53 - 1) 971"

definition f_sub :: "f64 \<Rightarrow> f64 \<Rightarrow> f64" where
  "f_sub a b =
     (let e0 = min (f_exp a) (f_exp b); v = f_signed a e0 - f_signed b e0; n = nat \<bar>v\<bar>
      in case (if 0 \<le> e0 then round_frac double_prec (n * 2 ^ nat e0) 1
               else round_frac double_prec n (2 ^ nat (- e0))) of
           Some me \<Rightarrow> mk_f64 (v < 0) me
         | None \<Rightarrow> f_max (v < 0))"

text \<open>The constant \<open>1e-15\<close>.\<close>

definition f_1e_15 :: f64 where
  "f_1e_15 = (case round_frac double_prec 1 (10 ^ 15) of Some me \<Rightarrow> mk_f64 False me | None \<Rightarrow> F64 False 0 0)"

text \<open>The conversion \<open>int(f)\<close> truncates; the value is meaningful below \<open>2 ^ 63\<close> in magnitude
  (beyond that Go leaves the result to the implementation).\<close>

definition f_trunc :: "f64 \<Rightarrow> int" where
  "f_trunc f =
     (let v = (if 0 \<le> f_exp f then int (f_man f * 2 ^ nat (f_exp f))
               else int (f_man f div 2 ^ nat (- f_exp f)))
      in if f_neg f then - v else v)"

subsection \<open>strconv.ParseFloat\<close>

text \<open>Decimal literals: an optional minus sign, digits, an optional fraction and an optional
  exponent, the only shapes the filter parser hands over.  \<open>None\<close> is the error (no digit in the
  mantissa or the exponent, other characters, or overflow).\<close>

definition parse_exponent :: "string \<Rightarrow> int option" where
  "parse_exponent s =
     (let (neg, ds) = (case s of c # r \<Rightarrow>
              if c = CHR ''-'' then (True, r) else if c = CHR ''+'' then (False, r) else (False, s)
            | [] \<Rightarrow> (False, []))
      in if all_digits ds then Some (if neg then - int (digits_val ds) else int (digits_val ds))
         else None)"

definition parse_decimal :: "string \<Rightarrow> (bool \<times> nat \<times> int) option" where
  "parse_decimal s =
     (let neg = HasPrefix s ''-'';
          t = TrimPrefix s ''-'';
          ip = takeWhile is_digit_char t; t1 = dropWhile is_digit_char t;
          (fp, t2) = (case t1 of c # r \<Rightarrow>
                if c = CHR ''.'' then (takeWhile is_digit_char r, dropWhile is_digit_char r)
                else ([], t1)
              | [] \<Rightarrow> ([], []));
          ex = (case t2 of [] \<Rightarrow> Some 0
                | c # r \<Rightarrow> if c = CHR ''e'' \<or> c = CHR ''E'' then parse_exponent r else None)
      in if ip @ fp = [] then None
         else map_option (\<lambda>e. (neg, digits_val (ip @ fp), e - int (length fp))) ex)"

definition ParseFloat :: "string \<Rightarrow> f64 option" where
  "ParseFloat s =
     (case parse_decimal s of
        None \<Rightarrow> None
      | Some (neg, m, e) \<Rightarrow>
          map_option (mk_f64 neg)
            (if 0 \<le> e then round_frac double_prec (m * 10 ^ nat e) 1
             else round_frac double_prec m (10 ^ nat (- e))))"

subsection \<open>The verb %v\<close>

text \<open>The decimal exponent of \<open>n / d\<close>: the \<open>x\<close> with \<open>10 ^ x \<le> n / d < 10 ^ (x + 1)\<close>.  A
  non-zero \<open>float64\<close> is at least \<open>10 ^ (-324)\<close>, so the search below 1 stops within 330.\<close>

definition log10_frac :: "nat \<Rightarrow> nat \<Rightarrow> int" where
  "log10_frac n d =
     (if d \<le> n then int (length (nat_str (n div d))) - 1
      else (case find (\<lambda>t. d \<le> n * 10 ^ t) [1..<331] of Some t \<Rightarrow> - int t | None \<Rightarrow> - 331))"

definition f_num :: "nat \<Rightarrow> int \<Rightarrow> nat" where "f_num m e = (if 0 \<le> e then m * 2 ^ nat e else m)"
definition f_den :: "int \<Rightarrow> nat" where "f_den e = (if 0 \<le> e then 1 else 2 ^ nat (- e))"

text \<open>The value \<open>c * 10 ^ t\<close> rounds to \<open>(m, e)\<close>.\<close>

definition decimal_rounds_to :: "fmt_prec \<Rightarrow> nat \<Rightarrow> int \<Rightarrow> nat \<times> int \<Rightarrow> bool" where
  "decimal_rounds_to p c t me =
     ((if 0 \<le> t then round_frac p (c * 10 ^ nat t) 1 else round_frac p c (10 ^ nat (- t))) = Some me)"

text \<open>With \<open>k\<close> significant digits: the neighbours of the value on the grid \<open>10 ^ t\<close> that round
  back to it, the nearer one first.\<close>

definition shortest_at :: "fmt_prec \<Rightarrow> nat \<Rightarrow> int \<Rightarrow> int \<Rightarrow> nat \<Rightarrow> (nat \<times> int) option" where
  "shortest_at p m e x k =
     (let t = x - int k + 1;
          n = f_num m e * (if t < 0 then 10 ^ nat (- t) else 1);
          d = f_den e * (if 0 \<le> t then 10 ^ nat t else 1);
          c = n div d;
          near = (if 2 * (n mod d) \<le> d then [c, c + 1] else [c + 1, c])
      in map_option (\<lambda>c. (c, t)) (find (\<lambda>c. decimal_rounds_to p c t (m, e)) near))"

fun first_some :: "('a \<Rightarrow> 'b option) \<Rightarrow> 'a list \<Rightarrow> 'b option" where
  "first_some f [] = None"
| "first_some f (x # xs) = (case f x of Some y \<Rightarrow> Some y | None \<Rightarrow> first_some f xs)"

text \<open>The digits and the position of the decimal point (after \<open>dp\<close> digits).\<close>

definition shortest :: "fmt_prec \<Rightarrow> nat \<Rightarrow> int \<Rightarrow> string \<times> int" where
  "shortest p m e =
     (if m = 0 then (''0'', 1)
      else (let x = log10_frac (f_num m e) (f_den e)
            in case first_some (shortest_at p m e x) [1..<18] of
                 Some (c, t) \<Rightarrow>
                   (let ds = nat_str c in (TrimRightChar (CHR ''0'') ds, int (length ds) + t))
               | None \<Rightarrow> (''0'', 1)))"

text \<open>\<open>%v\<close> prints a float with the verb \<open>g\<close> in its shortest form: \<open>%e\<close> when the decimal exponent
  is below -4 or at least 6, \<open>%f\<close> otherwise.\<close>

definition fmt_exp :: "string \<Rightarrow> int \<Rightarrow> string" where
  "fmt_exp ds x =
     (case ds of [] \<Rightarrow> ''0'' | d # r \<Rightarrow>
        d # (if r = [] then [] else CHR ''.'' # r) @ ''e'' @ (if x < 0 then ''-'' else ''+'')
          @ (if \<bar>x\<bar> < 10 then ''0'' else []) @ nat_str (nat \<bar>x\<bar>))"

definition fmt_fixed :: "string \<Rightarrow> int \<Rightarrow> string" where
  "fmt_fixed ds dp =
     (if dp \<le> 0 then ''0.'' @ replicate (nat (- dp)) (CHR ''0'') @ ds
      else if int (length ds) \<le> dp then ds @ replicate (nat dp - length ds) (CHR ''0'')
      else take (nat dp) ds @ ''.'' @ drop (nat dp) ds)"

definition fmt_float :: "fmt_prec \<Rightarrow> f64 \<Rightarrow> string" where
  "fmt_float p f =
     (let (ds, dp) = shortest p (f_man f) (f_exp f); x = dp - 1;
          body = (if x < - 4 \<or> 6 \<le> x then fmt_exp ds x else fmt_fixed ds dp)
      in (if f_neg f then ''-'' else []) @ body)"

subsection \<open>Lemmas\<close>

lemma f_cmp_refl [simp]: "f_cmp a a = 0"
  by (simp add: f_cmp_def Let_def)

lemma f_cmp_swap: "f_cmp b a = - f_cmp a b"
  by (simp add: f_cmp_def Let_def min.commute)

lemma f_sub_self: "f_sub a a = F64 False 0 0"
  by (simp add: f_sub_def Let_def round_frac_def mk_f64_def)

subsection \<open>Canonical floats\<close>

text \<open>The representation \<open>round_frac\<close> returns is canonical (a full significand unless the exponent
  is the least one), rounding an exactly representable value is the identity, and
  \<open>exact_decimal\<close> is a decimal literal that \<open>ParseFloat\<close> reads back.\<close>

definition canonical :: "fmt_prec \<Rightarrow> nat \<Rightarrow> int \<Rightarrow> bool" where
  "canonical p m e =
     (if m = 0 then e = 0
      else m < 2 ^ p_bits p \<and> p_emin p \<le> e \<and> e \<le> p_emax p \<and>
           (2 ^ (p_bits p - 1) \<le> m \<or> e = p_emin p))"

lemma le_pow2_real: "le_pow2 k d n \<longleftrightarrow> real d * 2 powi k \<le> real n"
proof (cases "0 \<le> k")
  case True
  then have "real d * 2 powi k \<le> real n \<longleftrightarrow> real (d * 2 ^ nat k) \<le> real n"
    by (simp add: power_int_def)
  then show ?thesis using True unfolding le_pow2_def of_nat_le_iff by simp
next
  case False
  have "real d * 2 powi k \<le> real n \<longleftrightarrow> real d \<le> real n * 2 ^ nat (- k)"
    using False by (simp add: power_int_def field_simps)
  also have "\<dots> \<longleftrightarrow> real d \<le> real (n * 2 ^ nat (- k))" by simp
  finally show ?thesis using False unfolding le_pow2_def of_nat_le_iff by simp
qed

lemma le_pow2_antimono: "le_pow2 k d n \<Longrightarrow> j \<le> k \<Longrightarrow> le_pow2 j d n"
  unfolding le_pow2_real
  by (meson mult_left_mono of_nat_0_le_iff order_trans power_int_increasing one_le_numeral)

lemma floorlog_bounds:
  assumes "0 < n" shows "2 ^ (floorlog 2 n - 1) \<le> n" "n < 2 ^ floorlog 2 n" "0 < floorlog 2 n"
  using floorlog_bounds [of n 2] assms by (auto simp: floorlog_def)

lemma log2_frac_bounds:
  assumes "0 < n" "0 < d"
  shows "le_pow2 (log2_frac n d) d n" and "\<not> le_pow2 (log2_frac n d + 1) d n"
proof -
  let ?a = "floorlog 2 n" let ?b = "floorlog 2 d" let ?k = "int ?a - int ?b"
  have n: "real n < 2 powi int ?a" "2 powi (int ?a - 1) \<le> real n"
    using floorlog_bounds [OF assms(1)] 
    by (simp_all add: power_int_def nat_diff_distrib flip: of_nat_power of_nat_less_iff)
  have d: "real d < 2 powi int ?b" "2 powi (int ?b - 1) \<le> real d"
    using floorlog_bounds [OF assms(2)] by (simp_all add: power_int_def nat_diff_distrib flip: of_nat_power)
  have up: "\<not> le_pow2 (?k + 1) d n"
  proof -
    have "real n < 2 powi (int ?b - 1) * 2 powi (?k + 1)" using n(1) by (simp flip: power_int_add)
    also have "\<dots> \<le> real d * 2 powi (?k + 1)" using d(2) by simp
    finally show ?thesis by (simp add: le_pow2_real)
  qed
  have lo: "le_pow2 (?k - 1) d n"
  proof -
    have "real d * 2 powi (?k - 1) \<le> 2 powi int ?b * 2 powi (?k - 1)" using d(1) by simp
    also have "\<dots> = 2 powi (int ?a - 1)" by (subst power_int_add [symmetric]) simp_all
    also have "\<dots> \<le> real n" by (rule n(2))
    finally show ?thesis by (simp add: le_pow2_real)
  qed
  show "le_pow2 (log2_frac n d) d n" "\<not> le_pow2 (log2_frac n d + 1) d n"
    using up lo by (auto simp: log2_frac_def Let_def)
qed

lemma log2_frac_unique:
  assumes "0 < n" "0 < d" "le_pow2 k d n" "\<not> le_pow2 (k + 1) d n"
  shows "log2_frac n d = k"
proof (rule antisym)
  show "log2_frac n d \<le> k"
    using le_pow2_antimono [OF log2_frac_bounds(1) [OF assms(1,2)], of "k + 1"] assms(4) by fastforce
  show "k \<le> log2_frac n d"
    using le_pow2_antimono [OF assms(3), of "log2_frac n d + 1"] log2_frac_bounds(2) [OF assms(1,2)]
    by fastforce
qed


definition scaled :: "nat \<Rightarrow> nat \<Rightarrow> int \<Rightarrow> nat \<times> nat" where
  "scaled n d e = (if 0 \<le> e then (n, d * 2 ^ nat e) else (n * 2 ^ nat (- e), d))"

lemma scaled_le: "scaled n d e = (N, D) \<Longrightarrow> D * 2 ^ j \<le> N \<longleftrightarrow> le_pow2 (int j + e) d n"
proof (cases "0 \<le> e")
  case True
  assume "scaled n d e = (N, D)"
  then show ?thesis using True by (auto simp: scaled_def le_pow2_def nat_add_distrib power_add ac_simps)
next
  case False
  assume s: "scaled n d e = (N, D)"
  let ?k = "nat (- e)" and ?x = "2 powi (int j + e) :: real"
  have "?x * 2 powi int ?k = 2 powi (int j)" using False by (subst power_int_add [symmetric]) simp_all
  then have x: "?x * 2 ^ ?k = 2 ^ j" by (simp only: power_int_of_nat)
  have "real d * ?x \<le> real n \<longleftrightarrow> real d * ?x * 2 ^ ?k \<le> real n * 2 ^ ?k" by simp
  also have "\<dots> \<longleftrightarrow> real (D * 2 ^ j) \<le> real N"
    using s False x by (auto simp: scaled_def mult.assoc)
  finally have "real d * ?x \<le> real n \<longleftrightarrow> real (D * 2 ^ j) \<le> real N" .
  then show ?thesis unfolding le_pow2_real of_nat_le_iff by simp
qed

lemma round_half_even_bounds:
  "n div d \<le> round_half_even n d" "round_half_even n d \<le> n div d + 1"
  by (auto simp: round_half_even_def Let_def)

lemma round_half_even_exact [simp]: "0 < d \<Longrightarrow> round_half_even (m * d) d = m"
  by (simp add: round_half_even_def Let_def)

lemma round_frac_scaled:
  assumes "0 < n"
  shows "round_frac p n d =
     (let e = max (log2_frac n d - int (p_bits p) + 1) (p_emin p);
          m = (case scaled n d e of (N, D) \<Rightarrow> round_half_even N D);
          (m', e') = (if m = 2 ^ p_bits p then (m div 2, e + 1) else (m, e))
      in if m' = 0 then Some (0, 0) else if e' > p_emax p then None else Some (m', e'))"
  using assms by (simp add: round_frac_def scaled_def Let_def)

lemma round_frac_canonical:
  assumes "round_frac p n d = Some (m, e)" "0 < d" "0 < p_bits p"
  shows "canonical p m e"
proof (cases "n = 0")
  case True
  then show ?thesis using assms by (simp add: round_frac_def canonical_def)
next
  case False
  then have n: "0 < n" by simp
  let ?b = "p_bits p"
  define e0 where "e0 = max (log2_frac n d - int ?b + 1) (p_emin p)"
  obtain N D where ND: "scaled n d e0 = (N, D)" by fastforce
  have D: "0 < D" using ND assms(2) by (auto simp: scaled_def split: if_splits)
  define m0 where "m0 = round_half_even N D"
  have "log2_frac n d + 1 \<le> int ?b + e0" unfolding e0_def by linarith
  then have "N < D * 2 ^ ?b"
    using log2_frac_bounds(2) [OF n assms(2)] le_pow2_antimono [of "int ?b + e0" d n "log2_frac n d + 1"]
      scaled_le [OF ND, of ?b] not_le by blast
  then have "N div D < 2 ^ ?b" using D by (simp add: div_less_iff_less_mult ac_simps)
  then have m0: "m0 \<le> 2 ^ ?b" using round_half_even_bounds(2) [of N D] unfolding m0_def by linarith
  have low: "2 ^ (?b - 1) \<le> m0" if "e0 \<noteq> p_emin p"
  proof -
    have "e0 = log2_frac n d - int ?b + 1" using that by (auto simp: e0_def max_def split: if_splits)
    then have "le_pow2 (int (?b - 1) + e0) d n"
      using log2_frac_bounds(1) [OF n assms(2)] assms(3) by (simp add: of_nat_diff)
    then have "D * 2 ^ (?b - 1) \<le> N" using scaled_le [OF ND] by simp
    then have "2 ^ (?b - 1) \<le> N div D" using D by (simp add: less_eq_div_iff_mult_less_eq ac_simps)
    then show ?thesis using round_half_even_bounds(1) [of N D] unfolding m0_def by linarith
  qed
  have half: "(2::nat) ^ ?b div 2 = 2 ^ (?b - 1)" using assms(3) by (cases ?b) simp_all
  have "p_emin p \<le> e0" by (simp add: e0_def)
  moreover have "(2::nat) ^ (?b - 1) < 2 ^ ?b" using assms(3) by simp
  ultimately show ?thesis using assms(1) m0 low half
    unfolding round_frac_scaled [OF n] Let_def e0_def [symmetric] ND
    by (auto simp: m0_def [symmetric] canonical_def split: if_splits)
qed

lemma round_frac_exact:
  assumes "canonical p m e" "0 < m" "0 < d" "scaled n d e = (m * D, D)" "0 < p_bits p"
  shows "round_frac p n d = Some (m, e)"
proof -
  let ?b = "p_bits p"
  have D: "0 < D" using assms(3,4) by (auto simp: scaled_def split: if_splits)
  have n: "0 < n" using assms(2,4) D by (cases n) (auto simp: scaled_def split: if_splits)
  have up: "\<not> le_pow2 (int ?b + e) d n"
    using scaled_le [OF assms(4), of ?b] assms(1,2) D by (simp add: canonical_def)
  have L: "log2_frac n d < int ?b + e"
    using up le_pow2_antimono [OF log2_frac_bounds(1) [OF n assms(3)]] not_le by blast
  have e: "max (log2_frac n d - int ?b + 1) (p_emin p) = e"
  proof (cases "2 ^ (?b - 1) \<le> m")
    case True
    then have "le_pow2 (int (?b - 1) + e) d n"
      using scaled_le [OF assms(4), of "?b - 1"] by simp
    then have "log2_frac n d = int (?b - 1) + e"
      using up assms(5) by (intro log2_frac_unique [OF n assms(3)]) (simp_all add: of_nat_diff)
    then show ?thesis using assms(1,2,5) by (simp add: of_nat_diff canonical_def)
  next
    case False
    then show ?thesis using assms(1,2) L by (simp add: canonical_def)
  qed
  show ?thesis unfolding round_frac_scaled [OF n] Let_def e assms(4)
    using D assms(1,2) by (simp add: canonical_def)
qed


definition canonical_f :: "f64 \<Rightarrow> bool" where
  "canonical_f f = canonical double_prec (f_man f) (f_exp f)"

text \<open>The exact decimal of a float.\<close>

definition exact_decimal :: "f64 \<Rightarrow> string" where
  "exact_decimal f =
     (if f_neg f then ''-'' else []) @
     (if 0 \<le> f_exp f then nat_str (f_man f * 2 ^ nat (f_exp f))
      else nat_str (f_man f * 5 ^ nat (- f_exp f)) @ ''e-'' @ nat_str (nat (- f_exp f)))"

lemma round_canonical: "canonical double_prec m e \<Longrightarrow> 0 \<le> e \<Longrightarrow> round_frac double_prec (m * 2 ^ nat e) 1 = Some (m, e)"
  using round_frac_exact [of double_prec m e 1 "m * 2 ^ nat e" "2 ^ nat e"]
  by (cases "m = 0") (auto simp: scaled_def double_prec_def canonical_def round_frac_def)

lemma round_canonical_neg:
  assumes "canonical double_prec m e" "e < 0"
  shows "round_frac double_prec (m * 5 ^ nat (- e)) (10 ^ nat (- e)) = Some (m, e)"
proof -
  have "m * 5 ^ nat (- e) * 2 ^ nat (- e) = m * 10 ^ nat (- e)"
    by (simp add: mult.assoc flip: power_mult_distrib)
  then show ?thesis
    using assms round_frac_exact [of double_prec m e "10 ^ nat (- e)" "m * 5 ^ nat (- e)" "10 ^ nat (- e)"]
    by (cases "m = 0") (auto simp: scaled_def double_prec_def canonical_def)
qed

lemma ParseFloat_canonical: "ParseFloat s = Some f \<Longrightarrow> canonical_f f"
  by (auto simp: ParseFloat_def canonical_f_def mk_f64_def split: option.splits prod.splits if_splits
      dest!: round_frac_canonical simp: double_prec_def)

lemma takeWhile_digits [simp]:
  "takeWhile is_digit_char (nat_str n @ t) = nat_str n @ takeWhile is_digit_char t"
  "dropWhile is_digit_char (nat_str n @ t) = dropWhile is_digit_char t"
  using nat_str_digits [of n] by (simp_all add: takeWhile_append dropWhile_append list_all_iff)

lemma takeWhile_digits' [simp]:
  "takeWhile is_digit_char (nat_str n) = nat_str n" "dropWhile is_digit_char (nat_str n) = []"
  using takeWhile_digits [of n "[]"] by simp_all

lemma nat_str_hd: "\<exists>c r. nat_str n = c # r \<and> is_digit_char c"
  using nat_str_digits [of n] nat_str_nonempty [of n] by (cases "nat_str n") auto

lemma HasPrefix_minus [simp]: "HasPrefix (nat_str n @ t) ''-'' = False"
  "TrimPrefix (nat_str n @ t) ''-'' = nat_str n @ t"
  using nat_str_hd [of n] digit_char_not_sign by (auto simp: HasPrefix_def TrimPrefix_def)

lemma nat_str_not_digit [simp]: "is_digit_char (CHR ''e'') = False" "is_digit_char (CHR ''-'') = False"
  by (simp_all add: is_digit_char_def char_code_def)

lemma parse_exponent_neg: "parse_exponent (CHR ''-'' # nat_str k) = Some (- int k)"
  by (simp add: parse_exponent_def all_digits_def nat_str_digits)

lemma parse_decimal_int:
  "parse_decimal ((if neg then ''-'' else []) @ nat_str a) = Some (neg, a, 0)"
  using TrimPrefix_append [of "''-''" "nat_str a"] HasPrefix_append [of "''-''" "nat_str a"]
    HasPrefix_minus [of a "[]"]
  by (simp add: parse_decimal_def Let_def del: TrimPrefix_append HasPrefix_append)

lemma parse_decimal_exp:
  "parse_decimal ((if neg then ''-'' else []) @ nat_str a @ ''e-'' @ nat_str k) = Some (neg, a, - int k)"
  using TrimPrefix_append [of "''-''" "nat_str a @ ''e-'' @ nat_str k"]
    HasPrefix_append [of "''-''" "nat_str a @ ''e-'' @ nat_str k"]
  by (simp add: parse_decimal_def Let_def parse_exponent_neg del: TrimPrefix_append HasPrefix_append)

lemma ParseFloat_exact_decimal:
  assumes "canonical_f f"
  shows "ParseFloat (exact_decimal f) = Some f"
proof (cases "0 \<le> f_exp f")
  case True
  then have "parse_decimal (exact_decimal f) = Some (f_neg f, f_man f * 2 ^ nat (f_exp f), 0)"
    by (simp only: exact_decimal_def parse_decimal_int if_True)
  then show ?thesis
    using assms True by (cases f) (simp add: ParseFloat_def canonical_f_def round_canonical mk_f64_def del: One_nat_def)
next
  case False
  then have "parse_decimal (exact_decimal f) =
      Some (f_neg f, f_man f * 5 ^ nat (- f_exp f), - int (nat (- f_exp f)))"
    by (simp only: exact_decimal_def parse_decimal_exp if_False)
  then show ?thesis
    using assms False
    by (cases f) (simp add: ParseFloat_def canonical_f_def round_canonical_neg mk_f64_def)
qed

end
