(* ===== verification/Go_Value.thy ===== *)
theory Go_Value
  imports Go_Float Go_Time
begin

text \<open>
  The dynamic values behind Go's \<open>interface{}\<close> as far as the code's type switches tell them
  apart: what \<open>encoding/json\<close> decodes (nil, booleans, \<open>float64\<close>, strings, slices, maps) and
  what a Go caller or a database can put into an attribute besides (the other numeric types, \<open>[]string\<close>,
  \<open>[]map[string]interface{}\<close>, \<open>[]byte\<close>, \<open>time.Time\<close>, and with \<open>GNamed\<close> a value of a named type of a library,
  such as \<open>bson.M\<close>, which no type switch of the code recognises).  \<open>fmt_v\<close> is \<open>fmt.Sprintf("%v", x)\<close>, \<open>type_name\<close> the verb
  \<open>%T\<close>, and \<open>json_norm\<close> the value that \<open>json.Unmarshal\<close> rebuilds from what \<open>json.Marshal\<close>
  wrote: numbers become \<open>float64\<close> and typed slices become \<open>[]interface{}\<close>.  Maps have distinct
  keys (\<open>wf_gval\<close>); JSON text is assumed to be valid UTF-8, as \<open>json.Marshal\<close> makes it.
\<close>

datatype ikind = KInt | KInt8 | KInt16 | KInt32 | KInt64 | KUint | KUint8 | KUint16 | KUint32 | KUint64

datatype gval =
    GNil
  | GBool bool
  | GFloat64 f64
  | GFloat32 f64
  | GInt ikind int
  | GStr string
  | GBytes string
  | GTime time
  | GArr "gval list"
  | GStrs "string list"
  | GMaps "(string \<times> gval) list list"
  | GMap "(string \<times> gval) list"
  | GNamed string gval

type_synonym attrs = "gval gmap"

subsection \<open>Printing\<close>

fun ikind_name :: "ikind \<Rightarrow> string" where
  "ikind_name KInt = ''int''"
| "ikind_name KInt8 = ''int8''"
| "ikind_name KInt16 = ''int16''"
| "ikind_name KInt32 = ''int32''"
| "ikind_name KInt64 = ''int64''"
| "ikind_name KUint = ''uint''"
| "ikind_name KUint8 = ''uint8''"
| "ikind_name KUint16 = ''uint16''"
| "ikind_name KUint32 = ''uint32''"
| "ikind_name KUint64 = ''uint64''"

fun type_name :: "gval \<Rightarrow> string" where
  "type_name GNil = ''<nil>''"
| "type_name (GBool b) = ''bool''"
| "type_name (GFloat64 f) = ''float64''"
| "type_name (GFloat32 f) = ''float32''"
| "type_name (GInt k i) = ikind_name k"
| "type_name (GStr s) = ''string''"
| "type_name (GBytes b) = ''[]uint8''"
| "type_name (GTime t) = ''time.Time''"
| "type_name (GArr vs) = ''[]interface {}''"
| "type_name (GStrs ss) = ''[]string''"
| "type_name (GMaps ms) = ''[]map[string]interface {}''"
| "type_name (GMap m) = ''map[string]interface {}''"
| "type_name (GNamed n v) = n"

definition fmt_slice :: "string list \<Rightarrow> string" where
  "fmt_slice ss = ''['' @ Join '' '' ss @ '']''"

definition fmt_map_entries :: "(string \<times> string) list \<Rightarrow> string" where
  "fmt_map_entries m = ''map['' @ Join '' '' (map (\<lambda>(k, s). k @ '':'' @ s) (sort_key fst m)) @ '']''"

fun fmt_v :: "gval \<Rightarrow> string" where
  "fmt_v GNil = ''<nil>''"
| "fmt_v (GBool b) = (if b then ''true'' else ''false'')"
| "fmt_v (GFloat64 f) = fmt_float double_prec f"
| "fmt_v (GFloat32 f) = fmt_float single_prec f"
| "fmt_v (GInt k i) = int_str i"
| "fmt_v (GStr s) = s"
| "fmt_v (GBytes b) = fmt_slice (map (\<lambda>c. nat_str (char_code c)) b)"
| "fmt_v (GTime t) = time_string t"
| "fmt_v (GArr vs) = fmt_slice (map fmt_v vs)"
| "fmt_v (GStrs ss) = fmt_slice ss"
| "fmt_v (GMaps ms) = fmt_slice (map (\<lambda>m. fmt_map_entries (map (\<lambda>(k, v). (k, fmt_v v)) m)) ms)"
| "fmt_v (GMap m) = fmt_map_entries (map (\<lambda>(k, v). (k, fmt_v v)) m)"
| "fmt_v (GNamed n v) = fmt_v v"

subsection \<open>Through JSON and back\<close>

definition f64_of_f32 :: "f64 \<Rightarrow> f64" where
  "f64_of_f32 f = (case ParseFloat (fmt_float single_prec f) of Some g \<Rightarrow> g | None \<Rightarrow> f)"

text \<open>\<open>encoding/base64\<close>: three bytes are four characters, the rest is padded.\<close>

definition base64_char :: "nat \<Rightarrow> char" where
  "base64_char n = (''ABCDEFGHIJKLMNOPQRSTUVWXYZabcdefghijklmnopqrstuvwxyz0123456789+/'' ! (n mod 64))"

fun base64_codes :: "nat list \<Rightarrow> string" where
  "base64_codes (a # b # c # s) =
     [base64_char (a div 4), base64_char (a mod 4 * 16 + b div 16), base64_char (b mod 16 * 4 + c div 64), base64_char c] @
     base64_codes s"
| "base64_codes [a, b] = [base64_char (a div 4), base64_char (a mod 4 * 16 + b div 16), base64_char (b mod 16 * 4), CHR ''='']"
| "base64_codes [a] = [base64_char (a div 4), base64_char (a mod 4 * 16), CHR ''='', CHR ''='']"
| "base64_codes [] = []"

definition base64 :: "string \<Rightarrow> string" where
  "base64 b = base64_codes (map char_code b)"

text \<open>\<open>json.Marshal\<close> refuses a time outside the years 0 to 9999; the model writes it all the same.\<close>

fun json_norm :: "gval \<Rightarrow> gval" where
  "json_norm GNil = GNil"
| "json_norm (GBool b) = GBool b"
| "json_norm (GFloat64 f) = GFloat64 f"
| "json_norm (GFloat32 f) = GFloat64 (f64_of_f32 f)"
| "json_norm (GInt k i) = GFloat64 (f64_of_int i)"
| "json_norm (GStr s) = GStr s"
| "json_norm (GBytes b) = GStr (base64 b)"
| "json_norm (GTime t) = GStr (format_rfc3339_nano t)"
| "json_norm (GArr vs) = GArr (map json_norm vs)"
| "json_norm (GStrs ss) = GArr (map GStr ss)"
| "json_norm (GMaps ms) = GArr (map (\<lambda>m. GMap (map (\<lambda>(k, v). (k, json_norm v)) m)) ms)"
| "json_norm (GMap m) = GMap (map (\<lambda>(k, v). (k, json_norm v)) m)"
| "json_norm (GNamed n v) = json_norm v"

definition json_norm_map :: "attrs \<Rightarrow> attrs" where
  "json_norm_map m = map (\<lambda>(k, v). (k, json_norm v)) m"

text \<open>What \<open>json.Unmarshal\<close> into an \<open>interface{}\<close> yields.\<close>

fun is_json :: "gval \<Rightarrow> bool" where
  "is_json GNil = True"
| "is_json (GBool b) = True"
| "is_json (GFloat64 f) = True"
| "is_json (GStr s) = True"
| "is_json (GArr vs) = list_all is_json vs"
| "is_json (GMap m) = (distinct (keys m) \<and> list_all (\<lambda>(k, v). is_json v) m)"
| "is_json _ = False"

definition is_json_map :: "attrs \<Rightarrow> bool" where
  "is_json_map m = (distinct (keys m) \<and> list_all (\<lambda>(k, v). is_json v) m)"

fun wf_gval :: "gval \<Rightarrow> bool" where
  "wf_gval (GArr vs) = list_all wf_gval vs"
| "wf_gval (GMaps ms) = list_all (\<lambda>m. distinct (keys m) \<and> list_all (\<lambda>(k, v). wf_gval v) m) ms"
| "wf_gval (GMap m) = (distinct (keys m) \<and> list_all (\<lambda>(k, v). wf_gval v) m)"
| "wf_gval (GNamed n v) = wf_gval v"
| "wf_gval _ = True"

lemma keys_map_snd [simp]: "map fst (map (\<lambda>(k, v). (k, f v)) m) = keys m"
  by (induction m) auto

lemma keys_map_snd' [simp]: "map (fst \<circ> (\<lambda>(k, v). (k, f v))) m = keys m"
  by (induction m) auto

lemma json_norm_id: "is_json v \<Longrightarrow> json_norm v = v"
proof (induction v rule: is_json.induct)
  case (5 vs)
  then show ?case by (simp add: list_all_iff map_idI)
next
  case (6 m)
  then have "json_norm v = v" if "(k, v) \<in> set m" for k v
    using that by (auto simp: list_all_iff)
  then have "map (\<lambda>(k, v). (k, json_norm v)) m = m" by (intro map_idI) auto
  then show ?case by simp
qed auto

lemma is_json_json_norm: "wf_gval v \<Longrightarrow> is_json (json_norm v)"
  by (induction v rule: wf_gval.induct) (fastforce simp: list_all_iff)+

lemma json_norm_twice [simp]: "json_norm (json_norm v) = json_norm v"
  by (induction v rule: json_norm.induct) auto

lemma json_norm_idem: "wf_gval v \<Longrightarrow> json_norm (json_norm v) = json_norm v"
  by (simp add: is_json_json_norm json_norm_id)

lemma is_json_GMap [simp]: "is_json (GMap m) = is_json_map m"
  by (simp add: is_json_map_def)

declare is_json.simps(6) [simp del]

lemma is_json_map_Nil [simp]: "is_json_map []"
  by (simp add: is_json_map_def)

lemma json_norm_map_simps [simp]:
  "json_norm_map [] = []"
  "json_norm_map ((k, v) # m) = (k, json_norm v) # json_norm_map m"
  "json_norm_map (m @ n) = json_norm_map m @ json_norm_map n"
  by (simp_all add: json_norm_map_def)

lemma json_norm_map_twice [simp]: "json_norm_map (json_norm_map m) = json_norm_map m"
  by (auto simp: json_norm_map_def)

lemma json_norm_map_id: "is_json_map m \<Longrightarrow> json_norm_map m = m"
  using json_norm_id [of "GMap m"] by (simp add: json_norm_map_def is_json_map_def)

lemma keys_json_norm_map [simp]: "map fst (json_norm_map m) = keys m"
  by (simp add: json_norm_map_def)

lemma is_json_map_norm:
  assumes "distinct (keys m)" and "\<And>k v. (k, v) \<in> set m \<Longrightarrow> wf_gval v"
  shows "is_json_map (json_norm_map m)"
  using assms is_json_json_norm by (fastforce simp: is_json_map_def json_norm_map_def list_all_iff)

lemma map_of_json_norm_map: "map_of (json_norm_map m) k = map_option json_norm (map_of m k)"
  by (simp add: json_norm_map_def map_of_map)

lemma is_json_map_of: "is_json_map m \<Longrightarrow> map_of m k = Some v \<Longrightarrow> is_json v"
  by (auto simp: is_json_map_def list_all_iff dest: map_of_SomeD)

lemma is_json_map_memb: "is_json_map m \<Longrightarrow> (k, v) \<in> set m \<Longrightarrow> is_json v"
  by (auto simp: is_json_map_def list_all_iff)

lemma is_json_wf: "is_json v \<Longrightarrow> wf_gval v"
  by (induction v rule: is_json.induct) (auto simp: list_all_iff is_json_map_def)

text \<open>The order of two keys decides nothing in what \<open>%v\<close> prints of a map: it sorts them.\<close>

lemma fmt_map_entries_mset:
  assumes "mset m = mset m'" and "distinct (keys m)"
  shows "fmt_map_entries m = fmt_map_entries m'"
proof -
  have "inj_on fst (set m)" using assms(2) by (simp add: distinct_map)
  with assms(1) have "sort_key fst m = sort_key fst m'"
    by (intro sort_key_inj_key_eq) simp_all
  then show ?thesis by (simp add: fmt_map_entries_def)
qed

end
