(* ===== verification/Resource.thy ===== *)
theory Resource
  imports Go_Time Go_Value
begin

text \<open>
  The resource of \<open>resource/resource.go\<close>: the common attributes in fields, everything else in the
  map \<open>Attributes\<close>; the conversions \<open>ToMap\<close> and \<open>FromMap\<close>, and \<open>Clone\<close>, which goes through
  JSON text.  \<open>FromMap\<close> ranges over a map, in the order of the list.
\<close>

record meta =
  ResourceType :: string
  Created :: time
  LastModified :: time
  Location :: string
  Version :: string

record resource =
  Schemas :: "string list"
  ID :: string
  ExternalID :: string
  Meta :: meta
  Attributes :: attrs

definition empty_meta :: meta where
  "empty_meta = \<lparr>ResourceType = [], Created = 0, LastModified = 0, Location = [], Version = []\<rparr>"

definition empty_resource :: resource where
  "empty_resource = \<lparr>Schemas = [], ID = [], ExternalID = [], Meta = empty_meta, Attributes = []\<rparr>"

subsection \<open>Conversions\<close>

definition put_str :: "string \<Rightarrow> string \<Rightarrow> attrs \<Rightarrow> attrs" where
  "put_str k s m = (if s \<noteq> [] then map_put k (GStr s) m else m)"

definition put_time :: "string \<Rightarrow> time \<Rightarrow> attrs \<Rightarrow> attrs" where
  "put_time k t m = (if \<not> IsZero t then map_put k (GStr (format_rfc3339 t)) m else m)"

definition meta_map :: "meta \<Rightarrow> attrs" where
  "meta_map mt =
     put_str ''version'' (Version mt) (put_str ''location'' (Location mt)
       (put_time ''lastModified'' (LastModified mt) (put_time ''created'' (Created mt)
         (put_str ''resourceType'' (ResourceType mt) []))))"

definition meta_present :: "meta \<Rightarrow> bool" where
  "meta_present mt =
     (\<not> IsZero (Created mt) \<or> \<not> IsZero (LastModified mt) \<or>
      ResourceType mt \<noteq> [] \<or> Location mt \<noteq> [] \<or> Version mt \<noteq> [])"

definition ToMap :: "resource \<Rightarrow> attrs" where
  "ToMap r =
     (let m = Attributes r;
          m = (if Schemas r \<noteq> [] then map_put ''schemas'' (GStrs (Schemas r)) m else m);
          m = put_str ''id'' (ID r) m;
          m = put_str ''externalId'' (ExternalID r) m
      in if meta_present (Meta r) then map_put ''meta'' (GMap (meta_map (Meta r))) m else m)"

definition meta_entry :: "meta \<Rightarrow> string \<times> gval \<Rightarrow> meta" where
  "meta_entry mt kv =
     (case kv of (k, v) \<Rightarrow>
        (let l = ToLower k
         in case v of
              GStr str \<Rightarrow>
                if l = ''resourcetype'' then mt\<lparr>ResourceType := str\<rparr>
                else if l = ''created'' then
                  (case parse_rfc3339 str of Some t \<Rightarrow> mt\<lparr>Created := t\<rparr> | None \<Rightarrow> mt)
                else if l = ''lastmodified'' then
                  (case parse_rfc3339 str of Some t \<Rightarrow> mt\<lparr>LastModified := t\<rparr> | None \<Rightarrow> mt)
                else if l = ''location'' then mt\<lparr>Location := str\<rparr>
                else if l = ''version'' then mt\<lparr>Version := str\<rparr>
                else mt
            | _ \<Rightarrow> mt))"

definition parseMeta :: "attrs \<Rightarrow> meta" where
  "parseMeta m = foldl meta_entry empty_meta m"

fun str_items :: "gval list \<Rightarrow> string list" where
  "str_items [] = []"
| "str_items (GStr s # vs) = s # str_items vs"
| "str_items (v # vs) = str_items vs"

definition from_entry :: "resource \<Rightarrow> string \<times> gval \<Rightarrow> resource" where
  "from_entry r kv =
     (case kv of (k, v) \<Rightarrow>
        (let l = ToLower k
         in if l = ''schemas'' then
              (case v of GArr sv \<Rightarrow> r\<lparr>Schemas := Schemas r @ str_items sv\<rparr>
               | GStrs sv \<Rightarrow> r\<lparr>Schemas := Schemas r @ sv\<rparr>
               | _ \<Rightarrow> r)
            else if l = ''id'' then (case v of GStr s \<Rightarrow> r\<lparr>ID := s\<rparr> | _ \<Rightarrow> r)
            else if l = ''externalid'' then (case v of GStr s \<Rightarrow> r\<lparr>ExternalID := s\<rparr> | _ \<Rightarrow> r)
            else if l = ''meta'' then (case v of GMap mm \<Rightarrow> r\<lparr>Meta := parseMeta mm\<rparr> | _ \<Rightarrow> r)
            else r\<lparr>Attributes := map_put k v (Attributes r)\<rparr>))"

definition FromMap :: "attrs \<Rightarrow> resource" where
  "FromMap m = foldl from_entry empty_resource m"

text \<open>\<open>json.Marshal\<close> cannot fail on these values, so the fallback of \<open>Clone\<close> is not reached.\<close>

definition Clone :: "resource \<Rightarrow> resource" where
  "Clone r = FromMap (json_norm_map (ToMap r))"

subsection \<open>Well-formed resources\<close>

definition reserved :: "string \<Rightarrow> bool" where
  "reserved k = (ToLower k \<in> {''schemas'', ''id'', ''externalid'', ''meta''})"

definition wf_attrs :: "attrs \<Rightarrow> bool" where
  "wf_attrs m = (distinct (keys m) \<and> list_all (\<lambda>(k, v). \<not> reserved k) m)"

definition wf_resource :: "resource \<Rightarrow> bool" where
  "wf_resource r = wf_attrs (Attributes r)"

text \<open>The instants that RFC 3339 can write: the years 1 to 9999.\<close>

definition time_ok :: "time \<Rightarrow> bool" where
  "time_ok t = (0 \<le> t \<and> t < 3652059 * day_ns)"

definition meta_ok :: "meta \<Rightarrow> bool" where
  "meta_ok mt = (time_ok (Created mt) \<and> time_ok (LastModified mt))"

definition trunc_meta :: "meta \<Rightarrow> meta" where
  "trunc_meta mt = mt\<lparr>Created := trunc_second (Created mt), LastModified := trunc_second (LastModified mt)\<rparr>"

lemma put_str_fresh: "k \<notin> fst ` set m \<Longrightarrow> put_str k s m = m @ (if s \<noteq> [] then [(k, GStr s)] else [])"
  by (simp add: put_str_def map_put_fresh)

lemma put_time_fresh:
  "k \<notin> fst ` set m \<Longrightarrow> put_time k t m = m @ (if \<not> IsZero t then [(k, GStr (format_rfc3339 t))] else [])"
  by (simp add: put_time_def map_put_fresh)

lemma meta_map_eq:
  "meta_map mt =
     (if ResourceType mt \<noteq> [] then [(''resourceType'', GStr (ResourceType mt))] else []) @
     (if \<not> IsZero (Created mt) then [(''created'', GStr (format_rfc3339 (Created mt)))] else []) @
     (if \<not> IsZero (LastModified mt) then [(''lastModified'', GStr (format_rfc3339 (LastModified mt)))] else []) @
     (if Location mt \<noteq> [] then [(''location'', GStr (Location mt))] else []) @
     (if Version mt \<noteq> [] then [(''version'', GStr (Version mt))] else [])"
  by (simp add: meta_map_def put_str_fresh put_time_fresh)

lemma parse_meta_map:
  assumes "meta_ok mt"
  shows "parseMeta (meta_map mt) = trunc_meta mt"
proof -
  have p: "parse_rfc3339 (format_rfc3339 (Created mt)) = Some (trunc_second (Created mt))"
    "parse_rfc3339 (format_rfc3339 (LastModified mt)) = Some (trunc_second (LastModified mt))"
    using assms parse_format_rfc3339 by (simp_all add: meta_ok_def time_ok_def)
  have z: "trunc_second 0 = 0" by (simp add: trunc_second_def)
  show ?thesis
    by (cases mt)
      (use p z in \<open>auto simp: parseMeta_def meta_map_eq meta_entry_def empty_meta_def
        trunc_meta_def IsZero_def ToLower_def\<close>)
qed

lemma meta_map_json [simp]: "json_norm_map (meta_map mt) = meta_map mt"
  by (simp add: meta_map_eq)

lemma meta_map_absent: "\<not> meta_present mt \<Longrightarrow> trunc_meta mt = empty_meta"
  by (cases mt) (auto simp: meta_present_def empty_meta_def trunc_meta_def IsZero_def trunc_second_def)

lemma not_reserved_keys:
  "wf_attrs m \<Longrightarrow> ''schemas'' \<notin> fst ` set m \<and> ''id'' \<notin> fst ` set m \<and>
     ''externalId'' \<notin> fst ` set m \<and> ''meta'' \<notin> fst ` set m"
  by (force simp: wf_attrs_def list_all_pair reserved_def ToLower_def)

lemma ToMap_eq:
  assumes "wf_resource r"
  shows "ToMap r =
     Attributes r @
     (if Schemas r \<noteq> [] then [(''schemas'', GStrs (Schemas r))] else []) @
     (if ID r \<noteq> [] then [(''id'', GStr (ID r))] else []) @
     (if ExternalID r \<noteq> [] then [(''externalId'', GStr (ExternalID r))] else []) @
     (if meta_present (Meta r) then [(''meta'', GMap (meta_map (Meta r)))] else [])"
  using not_reserved_keys [of "Attributes r"] assms
  by (simp add: ToMap_def Let_def put_str_fresh map_put_fresh wf_resource_def)

lemma from_entry_attrs:
  assumes "distinct (keys m)" "list_all (\<lambda>(k, v). \<not> reserved k) m"
    "set (keys m) \<inter> set (keys (Attributes r)) = {}"
  shows "foldl from_entry r m = r\<lparr>Attributes := Attributes r @ m\<rparr>"
  using assms
proof (induction m arbitrary: r)
  case (Cons kv m)
  obtain k v where kv: "kv = (k, v)" by (cases kv)
  have "from_entry r kv = r\<lparr>Attributes := Attributes r @ [(k, v)]\<rparr>"
    using Cons.prems kv by (auto simp: from_entry_def reserved_def map_put_fresh Let_def)
  then show ?case using Cons kv by auto
qed simp

lemma str_items_GStr [simp]: "str_items (map GStr ss) = ss"
  by (induction ss) auto

text \<open>What \<open>FromMap\<close> makes of a map in the layout of \<open>ToMap\<close>.\<close>

lemma FromMap_layout:
  assumes "distinct (keys m)" "list_all (\<lambda>(k, v). \<not> reserved k) m"
    and "sv = GStrs ss \<or> sv = GArr (map GStr ss)" "sb \<or> ss = []" "mb \<or> parseMeta mm = empty_meta"
  shows "FromMap (m @ (if sb then [(''schemas'', sv)] else []) @
       (if i \<noteq> [] then [(''id'', GStr i)] else []) @
       (if x \<noteq> [] then [(''externalId'', GStr x)] else []) @
       (if mb then [(''meta'', GMap mm)] else [])) =
     \<lparr>Schemas = ss, ID = i, ExternalID = x, Meta = parseMeta mm, Attributes = m\<rparr>"
proof -
  have "foldl from_entry empty_resource m = empty_resource\<lparr>Attributes := m\<rparr>"
    using from_entry_attrs [OF assms(1,2), of empty_resource] by (simp add: empty_resource_def)
  then show ?thesis
    using assms(3-5) by (auto simp: FromMap_def from_entry_def empty_resource_def ToLower_def)
qed

lemma FromMap_ToMap:
  assumes "wf_resource r" "meta_ok (Meta r)"
  shows "FromMap (ToMap r) = r\<lparr>Meta := trunc_meta (Meta r)\<rparr>"
proof -
  let ?mm = "if meta_present (Meta r) then meta_map (Meta r) else []"
  have mm: "parseMeta ?mm = trunc_meta (Meta r)"
    using parse_meta_map [OF assms(2)] meta_map_absent by (simp add: parseMeta_def)
  have "ToMap r = Attributes r @ (if Schemas r \<noteq> [] then [(''schemas'', GStrs (Schemas r))] else []) @
       (if ID r \<noteq> [] then [(''id'', GStr (ID r))] else []) @
       (if ExternalID r \<noteq> [] then [(''externalId'', GStr (ExternalID r))] else []) @
       (if meta_present (Meta r) then [(''meta'', GMap ?mm)] else [])"
    by (simp add: ToMap_eq [OF assms(1)])
  then show ?thesis
    using assms(1) mm meta_map_absent
    by (subst (1) \<open>ToMap r = _\<close>, subst FromMap_layout [where ss = "Schemas r"])
      (auto simp: wf_resource_def wf_attrs_def list_all_pair)
qed

lemma Clone_layout:
  assumes "wf_resource r"
  shows "Clone r = \<lparr>Schemas = Schemas r, ID = ID r, ExternalID = ExternalID r,
    Meta = parseMeta (if meta_present (Meta r) then meta_map (Meta r) else []),
    Attributes = json_norm_map (Attributes r)\<rparr>"
proof -
  let ?mm = "if meta_present (Meta r) then meta_map (Meta r) else []"
  have "json_norm_map (ToMap r) = json_norm_map (Attributes r) @
       (if Schemas r \<noteq> [] then [(''schemas'', GArr (map GStr (Schemas r)))] else []) @
       (if ID r \<noteq> [] then [(''id'', GStr (ID r))] else []) @
       (if ExternalID r \<noteq> [] then [(''externalId'', GStr (ExternalID r))] else []) @
       (if meta_present (Meta r) then [(''meta'', GMap ?mm)] else [])"
    by (auto simp: ToMap_eq [OF assms(1)] simp flip: json_norm_map_def)
  moreover have "list_all (\<lambda>(k, v). \<not> reserved k) (json_norm_map (Attributes r))"
    using assms(1) by (auto simp: wf_resource_def wf_attrs_def list_all_pair json_norm_map_def)
  ultimately show ?thesis
    using assms(1) unfolding Clone_def
    by (subst (1) \<open>json_norm_map (ToMap r) = _\<close>, subst FromMap_layout [where ss = "Schemas r"])
      (auto simp: wf_resource_def wf_attrs_def parseMeta_def)
qed

lemma Clone_eq:
  assumes "wf_resource r" "meta_ok (Meta r)"
  shows "Clone r = r\<lparr>Meta := trunc_meta (Meta r), Attributes := json_norm_map (Attributes r)\<rparr>"
  using parse_meta_map [OF assms(2)] meta_map_absent
  by (simp add: Clone_layout [OF assms(1)] parseMeta_def)

lemma Clone_fields [simp]:
  assumes "wf_resource r"
  shows "ID (Clone r) = ID r" "ExternalID (Clone r) = ExternalID r" "Schemas (Clone r) = Schemas r"
    "Attributes (Clone r) = json_norm_map (Attributes r)"
  by (simp_all add: Clone_layout [OF assms])

text \<open>\<open>FromMap\<close> never puts a common attribute among the others, whatever the map.\<close>

lemma wf_attrs_iff: "wf_attrs m \<longleftrightarrow> distinct (keys m) \<and> fst ` set m \<subseteq> {k. \<not> reserved k}"
  by (force simp: wf_attrs_def list_all_pair)

lemma Attributes_from_entry:
  "Attributes (from_entry r (k, v)) = (if reserved k then Attributes r else map_put k v (Attributes r))"
  by (cases v) (auto simp: from_entry_def reserved_def Let_def)

lemma from_entry_wf: "wf_resource r \<Longrightarrow> wf_resource (from_entry r kv)"
  by (cases kv) (simp add: wf_resource_def wf_attrs_iff Attributes_from_entry distinct_map_put)

lemma FromMap_wf: "wf_resource (FromMap m)"
proof -
  have "wf_resource r \<Longrightarrow> wf_resource (foldl from_entry r m)" for r
    by (induction m arbitrary: r) (simp_all add: from_entry_wf)
  then show ?thesis by (simp add: FromMap_def empty_resource_def wf_resource_def wf_attrs_def)
qed

lemma Clone_wf [simp, intro]: "wf_resource (Clone r)"
  by (simp add: Clone_def FromMap_wf)

lemma wf_resource_update [simp]: "wf_resource (r\<lparr>ID := i, Meta := mt\<rparr>) = wf_resource r"
  "wf_resource (r\<lparr>Meta := mt\<rparr>) = wf_resource r"
  by (simp_all add: wf_resource_def)

subsection \<open>The order of a range\<close>

text \<open>\<open>FromMap\<close>, field by field: each depends on the entries of one name.\<close>

definition entries :: "string \<Rightarrow> attrs \<Rightarrow> attrs" where
  "entries name m = filter (\<lambda>kv. ToLower (fst kv) = name) m"

definition id_step :: "string \<Rightarrow> string \<times> gval \<Rightarrow> string" where
  "id_step i kv = (case snd kv of GStr s \<Rightarrow> s | _ \<Rightarrow> i)"
definition schemas_step :: "string list \<Rightarrow> string \<times> gval \<Rightarrow> string list" where
  "schemas_step ss kv = (case snd kv of GArr sv \<Rightarrow> ss @ str_items sv | GStrs sv \<Rightarrow> ss @ sv | _ \<Rightarrow> ss)"
definition meta_step :: "meta \<Rightarrow> string \<times> gval \<Rightarrow> meta" where
  "meta_step mt kv = (case snd kv of GMap mm \<Rightarrow> parseMeta mm | _ \<Rightarrow> mt)"

lemma from_entry_cases:
  "ToLower k = ''schemas'' \<Longrightarrow> from_entry r (k, v) = r\<lparr>Schemas := schemas_step (Schemas r) (k, v)\<rparr>"
  "ToLower k = ''id'' \<Longrightarrow> from_entry r (k, v) = r\<lparr>ID := id_step (ID r) (k, v)\<rparr>"
  "ToLower k = ''externalid'' \<Longrightarrow> from_entry r (k, v) = r\<lparr>ExternalID := id_step (ExternalID r) (k, v)\<rparr>"
  "ToLower k = ''meta'' \<Longrightarrow> from_entry r (k, v) = r\<lparr>Meta := meta_step (Meta r) (k, v)\<rparr>"
  "\<not> reserved k \<Longrightarrow> from_entry r (k, v) = r\<lparr>Attributes := map_put k v (Attributes r)\<rparr>"
  by (cases v; simp add: from_entry_def schemas_step_def id_step_def meta_step_def reserved_def)+

lemma foldl_from_entry:
  "foldl from_entry r m =
     \<lparr>Schemas = foldl schemas_step (Schemas r) (entries ''schemas'' m),
      ID = foldl id_step (ID r) (entries ''id'' m),
      ExternalID = foldl id_step (ExternalID r) (entries ''externalid'' m),
      Meta = foldl meta_step (Meta r) (entries ''meta'' m),
      Attributes = foldl (\<lambda>as (k, v). map_put k v as) (Attributes r) (filter (\<lambda>kv. \<not> reserved (fst kv)) m)\<rparr>"
proof (induction m arbitrary: r)
  case Nil
  then show ?case by (simp add: entries_def)
next
  case (Cons kv m)
  obtain k v where kv: "kv = (k, v)" by (cases kv)
  consider "ToLower k = ''schemas''" | "ToLower k = ''id''" | "ToLower k = ''externalid''"
    | "ToLower k = ''meta''" | "\<not> reserved k"
    by (auto simp: reserved_def)
  then show ?case
    by cases (simp_all add: Cons.IH kv from_entry_cases entries_def reserved_def)
qed

lemma foldl_map_put_fresh:
  "distinct (keys (as @ m)) \<Longrightarrow> foldl (\<lambda>as (k, v). map_put k v as) as m = as @ m"
  by (induction m arbitrary: as) (auto simp: map_put_fresh)

lemma entries_perm:
  assumes "distinct (map (\<lambda>kv. ToLower (fst kv)) m)" "mset m = mset m'"
  shows "entries n m = entries n m'"
proof -
  have "distinct (map (\<lambda>kv. ToLower (fst kv)) (entries n m))"
    unfolding entries_def using assms(1) by (rule distinct_map_filter)
  then have "length (entries n m) \<le> 1"
    by (rule distinct_same_image [where a = n]) (simp add: entries_def)
  moreover have "mset (entries n m) = mset (entries n m')"
    using assms(2) by (simp add: entries_def)
  ultimately show ?thesis by (intro mset_short)
qed

lemma distinct_filter_keys:
  "distinct (map (\<lambda>kv. ToLower (fst kv)) m) \<Longrightarrow> distinct (keys (filter P m))"
proof -
  assume "distinct (map (\<lambda>kv. ToLower (fst kv)) m)"
  then have "distinct (map ToLower (keys m))" by (simp add: comp_def)
  then have "distinct (keys m)" by (rule distinct_mapI')
  then show ?thesis by (rule distinct_map_filter)
qed

text \<open>Decoding a JSON object into a resource does not depend on the iteration order of the map, as long
  as no two keys differ in case alone: the common attributes are the same and the other
  attributes are the same map.\<close>

theorem from_map_order:
  assumes "distinct (map (\<lambda>kv. ToLower (fst kv)) m)" "mset m = mset m'"
  shows "FromMap m' = (FromMap m)\<lparr>Attributes := Attributes (FromMap m')\<rparr> \<and>
    mset (Attributes (FromMap m')) = mset (Attributes (FromMap m))"
proof -
  have d: "distinct (map (\<lambda>kv. ToLower (fst kv)) m')"
    using assms by (metis mset_eq_imp_distinct_iff mset_map)
  have k: "distinct (keys (filter P m))" "distinct (keys (filter P m'))" for P
    using assms(1) d by (auto intro: distinct_filter_keys)
  have "Attributes (FromMap x) = filter (\<lambda>kv. \<not> reserved (fst kv)) x"
    if "distinct (keys (filter (\<lambda>kv. \<not> reserved (fst kv)) x))" for x
    using foldl_map_put_fresh [of "[]"] that by (simp add: FromMap_def foldl_from_entry empty_resource_def)
  then show ?thesis
    using k entries_perm [OF assms] assms(2)
    by (simp add: FromMap_def foldl_from_entry)
qed

theorem from_map_order_witness:
  "FromMap [(''b'', GNil), (''ID'', GStr ''1''), (''a'', GBool True)] =
     (FromMap [(''a'', GBool True), (''ID'', GStr ''1''), (''b'', GNil)])
       \<lparr>Attributes := Attributes (FromMap [(''b'', GNil), (''ID'', GStr ''1''), (''a'', GBool True)])\<rparr>"
  using from_map_order [of "[(''a'', GBool True), (''ID'', GStr ''1''), (''b'', GNil)]"
      "[(''b'', GNil), (''ID'', GStr ''1''), (''a'', GBool True)]"]
  by (simp add: ToLower_def)

text \<open>A clone, which goes through JSON text, is the resource itself with instants truncated to the second
  and attribute values in their JSON form; nothing else is lost or added.\<close>

theorem clone_exact:
  assumes "wf_resource r" "meta_ok (Meta r)"
  shows "Clone r = r\<lparr>Meta := trunc_meta (Meta r), Attributes := json_norm_map (Attributes r)\<rparr>"
  by (rule Clone_eq [OF assms])

theorem clone_exact_witness:
  "ID (Clone \<lparr>Schemas = [''s''], ID = ''7'', ExternalID = [], Meta = empty_meta, Attributes = [(''x'', GNil)]\<rparr>) = ''7''"
  using clone_exact [of "\<lparr>Schemas = [''s''], ID = ''7'', ExternalID = [], Meta = empty_meta, Attributes = [(''x'', GNil)]\<rparr>"]
  by (simp add: wf_resource_def wf_attrs_def reserved_def ToLower_def meta_ok_def time_ok_def empty_meta_def
      day_ns_def second_ns_def)

text \<open>Decoding inverts encoding: a resource with instants in the years 1 to 9999 comes back from the map
  that \<open>ToMap\<close> writes, up to the fraction of a second.\<close>

theorem to_map_round_trip:
  assumes "wf_resource r" "meta_ok (Meta r)"
  shows "FromMap (ToMap r) = r\<lparr>Meta := trunc_meta (Meta r)\<rparr>"
  by (rule FromMap_ToMap [OF assms])

theorem to_map_round_trip_witness:
  "ExternalID (FromMap (ToMap \<lparr>Schemas = [], ID = ''7'', ExternalID = ''x'', Meta = empty_meta, Attributes = []\<rparr>)) = ''x''"
  using to_map_round_trip [of "\<lparr>Schemas = [], ID = ''7'', ExternalID = ''x'', Meta = empty_meta, Attributes = []\<rparr>"]
  by (simp add: wf_resource_def wf_attrs_def meta_ok_def time_ok_def empty_meta_def day_ns_def second_ns_def)

end
