(* ===== verification/Accessor.thy ===== *)
theory Accessor
  imports Attr_Path Resource
begin

text \<open>
  Attribute access by name (\<open>resource/accessor.go\<close>).  Names match without case; \<open>lookupAttr\<close>
  tries the exact name first, all three then range over the map.  The order of the range decides
  only when two keys differ in case alone, so the laws hold for \<open>ci_distinct\<close> maps, which every
  operation keeps.  They are the locale \<open>attr_store\<close>, proved of the code's functions by the
  interpretation \<open>ci\<close>.
\<close>

definition same_name :: "string \<Rightarrow> string \<times> gval \<Rightarrow> bool" where
  "same_name name kv = (ToLower (fst kv) = ToLower name)"

text \<open>The key \<open>lookupAttr\<close> reads, and the first key in range order with the name.\<close>

definition fold_key :: "attrs \<Rightarrow> string \<Rightarrow> string option" where
  "fold_key m name = map_option fst (find (same_name name) m)"

definition lookup_key :: "attrs \<Rightarrow> string \<Rightarrow> string option" where
  "lookup_key m name = (case map_of m name of Some _ \<Rightarrow> Some name | None \<Rightarrow> fold_key m name)"

definition lookupAttr :: "attrs \<Rightarrow> string \<Rightarrow> gval" where
  "lookupAttr m name =
     (case map_of m name of
        Some v \<Rightarrow> v
      | None \<Rightarrow> (case find (same_name name) m of Some (_, v) \<Rightarrow> v | None \<Rightarrow> GNil))"

definition setAttr :: "attrs \<Rightarrow> string \<Rightarrow> gval \<Rightarrow> attrs" where
  "setAttr m name v =
     (case fold_key m name of Some k \<Rightarrow> map_put k v m | None \<Rightarrow> map_put name v m)"

definition deleteAttr :: "attrs \<Rightarrow> string \<Rightarrow> attrs" where
  "deleteAttr m name = (case fold_key m name of Some k \<Rightarrow> map_del k m | None \<Rightarrow> m)"

text \<open>An update in place of the nested map that \<open>lookupAttr\<close> returned: the map is shared with the
  parent, so the entry it was read from changes.\<close>

definition write_back :: "attrs \<Rightarrow> string \<Rightarrow> gval \<Rightarrow> attrs" where
  "write_back m name v = (case lookup_key m name of Some k \<Rightarrow> map_put k v m | None \<Rightarrow> m)"

definition Get :: "resource \<Rightarrow> attr_path \<Rightarrow> gval option" where
  "Get r path =
     (let val = lookupAttr (Attributes r) (AttributeName path)
      in if val = GNil then None
         else if SubAttribute path = [] then Some val
         else (case val of
                 GMap m \<Rightarrow> (let sub = lookupAttr m (SubAttribute path) in if sub = GNil then None else Some sub)
               | _ \<Rightarrow> None))"

definition Set :: "resource \<Rightarrow> attr_path \<Rightarrow> gval \<Rightarrow> resource" where
  "Set r path value =
     (let as = Attributes r
      in if SubAttribute path = [] then r\<lparr>Attributes := setAttr as (AttributeName path) value\<rparr>
         else (case lookupAttr as (AttributeName path) of
                 GMap pm \<Rightarrow>
                   (let pm = GMap (setAttr pm (SubAttribute path) value);
                        as = write_back as (AttributeName path) pm
                    in r\<lparr>Attributes := setAttr as (AttributeName path) pm\<rparr>)
               | _ \<Rightarrow> r\<lparr>Attributes := setAttr as (AttributeName path) (GMap (setAttr [] (SubAttribute path) value))\<rparr>))"

definition Delete :: "resource \<Rightarrow> attr_path \<Rightarrow> resource" where
  "Delete r path =
     (let as = Attributes r
      in if SubAttribute path = [] then r\<lparr>Attributes := deleteAttr as (AttributeName path)\<rparr>
         else (case lookupAttr as (AttributeName path) of
                 GMap pm \<Rightarrow>
                   r\<lparr>Attributes := write_back as (AttributeName path) (GMap (deleteAttr pm (SubAttribute path)))\<rparr>
               | _ \<Rightarrow> r))"

subsection \<open>The contract\<close>

locale attr_store =
  fixes lookup :: "'m \<Rightarrow> string \<Rightarrow> gval" and put :: "'m \<Rightarrow> string \<Rightarrow> gval \<Rightarrow> 'm"
    and del :: "'m \<Rightarrow> string \<Rightarrow> 'm" and inv :: "'m \<Rightarrow> bool"
  assumes inv_put: "inv m \<Longrightarrow> inv (put m n v)"
    and inv_del: "inv m \<Longrightarrow> inv (del m n)"
    and lookup_put: "inv m \<Longrightarrow> lookup (put m n v) x = (if EqualFold n x then v else lookup m x)"
    and lookup_del: "inv m \<Longrightarrow> lookup (del m n) x = (if EqualFold n x then GNil else lookup m x)"
    and lookup_fold: "inv m \<Longrightarrow> EqualFold n x \<Longrightarrow> lookup m n = lookup m x"
begin

lemma put_put: "inv m \<Longrightarrow> EqualFold n n' \<Longrightarrow> lookup (put (put m n v) n' w) x = lookup (put m n' w) x"
  by (metis EqualFold_sym EqualFold_trans inv_put lookup_put)

lemma put_commute:
  "inv m \<Longrightarrow> \<not> EqualFold n n' \<Longrightarrow> lookup (put (put m n v) n' w) x = lookup (put (put m n' w) n v) x"
  by (metis EqualFold_sym EqualFold_trans inv_put lookup_put)

lemma del_put: "inv m \<Longrightarrow> EqualFold n n' \<Longrightarrow> lookup (del (put m n v) n') x = lookup (del m n') x"
  by (metis EqualFold_sym EqualFold_trans inv_put lookup_put lookup_del)

lemma put_nil: "inv m \<Longrightarrow> lookup (put m n GNil) x = lookup (del m n) x"
  by (simp add: lookup_put lookup_del)

lemma puts_inv: "inv m \<Longrightarrow> inv (foldl (\<lambda>m (n, v). put m n v) m kvs)"
  by (induction kvs arbitrary: m) (auto simp: inv_put)

text \<open>A sequence of puts: the last value under the name wins.\<close>

lemma lookup_puts:
  "inv m \<Longrightarrow> lookup (foldl (\<lambda>m (n, v). put m n v) m kvs) x =
     (case find (\<lambda>(n, v). EqualFold n x) (rev kvs) of Some (n, v) \<Rightarrow> v | None \<Rightarrow> lookup m x)"
proof (induction kvs arbitrary: m)
  case (Cons kv kvs)
  obtain n v where kv: "kv = (n, v)" by (cases kv)
  have "find P (xs @ [y]) = (case find P xs of Some z \<Rightarrow> Some z | None \<Rightarrow> if P y then Some y else None)"
    for P :: "string \<times> gval \<Rightarrow> bool" and xs y by (induction xs) auto
  then show ?case using Cons kv
    by (auto simp: inv_put lookup_put split: option.splits)
qed simp

end

subsection \<open>Maps without two spellings of one name\<close>

definition ci_distinct :: "attrs \<Rightarrow> bool" where
  "ci_distinct m = distinct (map ToLower (keys m))"



lemma ci_distinct_keys: "ci_distinct m \<Longrightarrow> distinct (keys m)"
  unfolding ci_distinct_def by (rule distinct_mapI')

lemma ci_distinct_inj: "ci_distinct m \<Longrightarrow> k \<in> fst ` set m \<Longrightarrow> k' \<in> fst ` set m \<Longrightarrow>
    ToLower k = ToLower k' \<Longrightarrow> k = k'"
  by (metis ci_distinct_def distinct_map inj_onD set_map)

lemma fold_key_Some: "fold_key m name = Some k \<Longrightarrow> k \<in> fst ` set m \<and> ToLower k = ToLower name"
  by (auto simp: fold_key_def same_name_def find_Some_iff) (metis imageI nth_mem prod.sel(1))+

lemma fold_key_None: "fold_key m name = None \<longleftrightarrow> (\<forall>k \<in> fst ` set m. ToLower k \<noteq> ToLower name)"
  by (auto simp: fold_key_def same_name_def find_None_iff)

lemma fold_key_unique:
  assumes "ci_distinct m" "k \<in> fst ` set m" "ToLower k = ToLower name"
  shows "fold_key m name = Some k"
proof (cases "fold_key m name")
  case None
  then show ?thesis using assms(2,3) by (auto simp: fold_key_None)
next
  case (Some k')
  then show ?thesis using fold_key_Some [OF Some] ci_distinct_inj assms by metis
qed

lemma find_map_of: "distinct (keys m) \<Longrightarrow> find P m = Some (k, v) \<Longrightarrow> map_of m k = Some v"
  by (auto simp: find_Some_iff dest: nth_mem)

lemma lookupAttr_key:
  assumes "ci_distinct m"
  shows "lookupAttr m name =
    (case fold_key m name of Some k \<Rightarrow> (case map_of m k of Some v \<Rightarrow> v | None \<Rightarrow> GNil) | None \<Rightarrow> GNil)"
proof (cases "map_of m name")
  case None
  then show ?thesis using find_map_of [OF ci_distinct_keys [OF assms]]
    by (auto simp: lookupAttr_def fold_key_def split: option.splits)
next
  case (Some v)
  then have "fold_key m name = Some name"
    using fold_key_unique [OF assms, of name name] by (force dest: map_of_SomeD)
  then show ?thesis using Some by (simp add: lookupAttr_def)
qed

lemma lookup_key_fold: "ci_distinct m \<Longrightarrow> lookup_key m name = fold_key m name"
  using fold_key_unique [of m name name] by (force simp: lookup_key_def dest: map_of_SomeD split: option.splits)

lemma ci_distinct_put_old: "ci_distinct m \<Longrightarrow> k \<in> fst ` set m \<Longrightarrow> ci_distinct (map_put k v m)"
proof -
  have "k \<in> fst ` set m \<Longrightarrow> keys (map_put k v m) = keys m"
    by (induction k v m rule: map_put.induct) auto
  then show "ci_distinct m \<Longrightarrow> k \<in> fst ` set m \<Longrightarrow> ci_distinct (map_put k v m)"
    by (simp add: ci_distinct_def)
qed

lemma ci_distinct_setAttr: "ci_distinct m \<Longrightarrow> ci_distinct (setAttr m name v)"
proof (cases "fold_key m name")
  case None
  assume "ci_distinct m"
  moreover have "name \<notin> fst ` set m" "ToLower name \<notin> ToLower ` fst ` set m"
    using None by (auto simp: fold_key_None)
  ultimately show ?thesis using None
    by (auto simp: setAttr_def ci_distinct_def map_put_fresh)
next
  case (Some k)
  assume "ci_distinct m"
  then show ?thesis using fold_key_Some [OF Some] Some by (simp add: setAttr_def ci_distinct_put_old)
qed

lemma ci_distinct_del: "ci_distinct m \<Longrightarrow> ci_distinct (map_del k m)"
  unfolding ci_distinct_def map_del_def by (metis distinct_map_filter map_map)

lemma ci_distinct_deleteAttr: "ci_distinct m \<Longrightarrow> ci_distinct (deleteAttr m name)"
  by (auto simp: deleteAttr_def ci_distinct_del split: option.splits)

lemma fold_key_setAttr:
  assumes "ci_distinct m"
  shows "fold_key (setAttr m name v) x =
    (if EqualFold name x then Some (case fold_key m name of Some k \<Rightarrow> k | None \<Rightarrow> name) else fold_key m x)"
proof -
  let ?k = "case fold_key m name of Some k \<Rightarrow> k | None \<Rightarrow> name"
  have k: "setAttr m name v = map_put ?k v m" "ToLower ?k = ToLower name"
    using fold_key_Some by (auto simp: setAttr_def split: option.splits)
  have ci: "ci_distinct (map_put ?k v m)" using ci_distinct_setAttr [OF assms] k(1) by metis
  show ?thesis
  proof (cases "EqualFold name x")
    case True
    then have "fold_key (map_put ?k v m) x = Some ?k"
      using k(2) by (intro fold_key_unique [OF ci]) (simp_all add: EqualFold_def)
    then show ?thesis using True k(1) by simp
  next
    case False
    then have ne: "ToLower ?k \<noteq> ToLower x" using k(2) by (simp add: EqualFold_def)
    have "fold_key (map_put ?k v m) x = fold_key m x"
    proof (cases "fold_key m x")
      case None
      then show ?thesis using ne by (simp add: fold_key_None [of "map_put ?k v m"]) (simp add: fold_key_None)
    next
      case (Some j)
      then show ?thesis using fold_key_Some [OF Some] by (simp add: fold_key_unique [OF ci])
    qed
    then show ?thesis using False k(1) by simp
  qed
qed

lemma lookupAttr_setAttr:
  assumes "ci_distinct m"
  shows "lookupAttr (setAttr m name v) x = (if EqualFold name x then v else lookupAttr m x)"
proof -
  let ?k = "case fold_key m name of Some k \<Rightarrow> k | None \<Rightarrow> name"
  have k: "setAttr m name v = map_put ?k v m" "ToLower ?k = ToLower name"
    using fold_key_Some by (auto simp: setAttr_def split: option.splits)
  have "\<not> EqualFold name x \<Longrightarrow> fold_key m x = Some j \<Longrightarrow> j \<noteq> ?k" for j
    using fold_key_Some [of m x j] k(2) by (auto simp: EqualFold_def)
  then show ?thesis
    unfolding lookupAttr_key [OF ci_distinct_setAttr [OF assms]] lookupAttr_key [OF assms]
      fold_key_setAttr [OF assms] unfolding k(1)
    by (auto split: option.splits)
qed

lemma lookupAttr_deleteAttr:
  assumes "ci_distinct m"
  shows "lookupAttr (deleteAttr m name) x = (if EqualFold name x then GNil else lookupAttr m x)"
proof (cases "fold_key m name")
  case None
  then have "EqualFold name x \<Longrightarrow> fold_key m x = None"
    by (auto simp: fold_key_None EqualFold_def)
  then show ?thesis using None by (auto simp: deleteAttr_def lookupAttr_key [OF assms])
next
  case (Some k)
  note ci = ci_distinct_del [OF assms, of k]
  have k: "k \<in> fst ` set m" "ToLower k = ToLower name" using fold_key_Some [OF Some] by auto
  show ?thesis
  proof (cases "EqualFold name x")
    case True
    have "fold_key (map_del k m) x = None"
      using ci_distinct_inj [OF assms _ k(1)] k(2) True by (auto simp: fold_key_None EqualFold_def)
    then show ?thesis using True Some by (simp add: deleteAttr_def lookupAttr_key [OF ci])
  next
    case False
    have "fold_key (map_del k m) x = fold_key m x"
    proof (cases "fold_key m x")
      case None
      then have "fold_key (map_del k m) x = None" by (auto simp: fold_key_None)
      with None show ?thesis by simp
    next
      case (Some j)
      then have "j \<in> fst ` set m" "ToLower j = ToLower x" using fold_key_Some [OF Some] by auto
      moreover have "j \<noteq> k" using False k(2) \<open>ToLower j = _\<close> by (auto simp: EqualFold_def)
      ultimately show ?thesis using Some by (simp add: fold_key_unique [OF ci])
    qed
    moreover have "fold_key m x = Some j \<Longrightarrow> j \<noteq> k" for j
      using fold_key_Some [of m x j] k(2) False by (auto simp: EqualFold_def)
    ultimately show ?thesis using False Some
      by (auto simp: deleteAttr_def lookupAttr_key [OF ci] lookupAttr_key [OF assms] split: option.splits)
  qed
qed

lemma lookupAttr_fold: "ci_distinct m \<Longrightarrow> EqualFold n x \<Longrightarrow> lookupAttr m n = lookupAttr m x"
  by (simp add: lookupAttr_key fold_key_def same_name_def [abs_def] EqualFold_def)

interpretation ci: attr_store lookupAttr setAttr deleteAttr ci_distinct
  by unfold_locales
    (simp_all add: ci_distinct_setAttr ci_distinct_deleteAttr lookupAttr_setAttr
      lookupAttr_deleteAttr lookupAttr_fold)

subsection \<open>Access by path\<close>

fun deep_ci :: "gval \<Rightarrow> bool" where
  "deep_ci (GArr vs) = list_all deep_ci vs"
| "deep_ci (GMaps ms) = list_all (\<lambda>m. ci_distinct m \<and> list_all (\<lambda>(k, v). deep_ci v) m) ms"
| "deep_ci (GMap m) = (ci_distinct m \<and> list_all (\<lambda>(k, v). deep_ci v) m)"
| "deep_ci _ = True"

definition deep_ci_map :: "attrs \<Rightarrow> bool" where
  "deep_ci_map m = (ci_distinct m \<and> (\<forall>(k, v) \<in> set m. deep_ci v))"

lemma deep_ci_GMap [simp]: "deep_ci (GMap m) = deep_ci_map m"
  by (auto simp: deep_ci_map_def list_all_pair)

declare deep_ci.simps(3) [simp del]

lemma deep_ci_map_ci: "deep_ci_map m \<Longrightarrow> ci_distinct m"
  by (simp add: deep_ci_map_def)

lemma deep_ci_map_Nil [simp]: "deep_ci_map []"
  by (simp add: deep_ci_map_def ci_distinct_def)

lemma setAttr_set: "set (setAttr m name v) \<subseteq> insert (case fold_key m name of Some k \<Rightarrow> k | None \<Rightarrow> name, v) (set m)"
  using set_map_put_subset [of _ v m] by (auto simp: setAttr_def split: option.splits)

lemma deep_ci_map_setAttr [inv_intros]: "deep_ci_map m \<Longrightarrow> deep_ci v \<Longrightarrow> deep_ci_map (setAttr m name v)"
  using setAttr_set [of m name v] by (auto simp: deep_ci_map_def ci_distinct_setAttr)

lemma deep_ci_map_deleteAttr [inv_intros]: "deep_ci_map m \<Longrightarrow> deep_ci_map (deleteAttr m name)"
  by (auto simp: deep_ci_map_def ci_distinct_deleteAttr)
    (auto simp: deleteAttr_def map_del_def split: option.splits)

lemma lookupAttr_in: "lookupAttr m name = GNil \<or> (\<exists>k. (k, lookupAttr m name) \<in> set m)"
  by (auto simp: lookupAttr_def dest: map_of_SomeD split: option.splits)
    (metis find_Some_iff nth_mem)

lemma deep_ci_lookup: "deep_ci_map m \<Longrightarrow> deep_ci (lookupAttr m name)"
  using lookupAttr_in [of m name] by (auto simp: deep_ci_map_def)

lemma write_back_setAttr:
  "ci_distinct m \<Longrightarrow> lookupAttr m name \<noteq> GNil \<Longrightarrow> write_back m name v = setAttr m name v"
  by (auto simp: write_back_def lookup_key_fold setAttr_def lookupAttr_key split: option.splits)

definition deep_ci_resource :: "resource \<Rightarrow> bool" where
  "deep_ci_resource r = deep_ci_map (Attributes r)"

definition toSlice :: "gval \<Rightarrow> gval list option" where
  "toSlice v =
     (case v of GArr sv \<Rightarrow> Some sv | GMaps sv \<Rightarrow> Some (map GMap sv) | GStrs sv \<Rightarrow> Some (map GStr sv)
      | _ \<Rightarrow> None)"

subsection \<open>Predicates on values that every write keeps\<close>

text \<open>A property of the values in a resource, with the property of maps it amounts to.  Whatever is
  written into the attributes is put together from values with the property.\<close>

locale value_pred =
  fixes P :: "gval \<Rightarrow> bool" and Pm :: "attrs \<Rightarrow> bool"
  assumes P_nil: "P GNil"
    and P_map: "P (GMap m) = Pm m"
    and P_arr: "P (GArr vs) = list_all P vs"
    and P_slice: "P v \<Longrightarrow> toSlice v = Some vs \<Longrightarrow> list_all P vs"
    and Pm_Nil: "Pm []"
    and Pm_put: "Pm m \<Longrightarrow> P v \<Longrightarrow> Pm (setAttr m n v)"
    and Pm_del: "Pm m \<Longrightarrow> Pm (deleteAttr m n)"
    and Pm_write: "Pm m \<Longrightarrow> P v \<Longrightarrow> Pm (write_back m n v)"
    and Pm_in: "Pm m \<Longrightarrow> (k, v) \<in> set m \<Longrightarrow> P v"
begin

lemma P_lookup: "Pm m \<Longrightarrow> P (lookupAttr m name)"
  using lookupAttr_in [of m name] Pm_in P_nil by metis

lemma Pm_single: "P v \<Longrightarrow> P (GMap [(s, v)])"
  using Pm_put [OF Pm_Nil, of v s] by (simp add: P_map setAttr_def fold_key_def)

lemma Set_keeps: "Pm (Attributes r) \<Longrightarrow> P v \<Longrightarrow> Pm (Attributes (Set r p v))"
  using P_lookup [of "Attributes r" "AttributeName p"] Pm_Nil
  by (auto simp: Set_def Let_def P_map intro!: Pm_put Pm_write split: gval.splits)

lemma Delete_keeps: "Pm (Attributes r) \<Longrightarrow> Pm (Attributes (Delete r p))"
  using P_lookup [of "Attributes r" "AttributeName p"]
  by (auto simp: Delete_def Let_def P_map intro!: Pm_del Pm_write split: gval.splits)

end

lemma deep_ci_map_write_back: "deep_ci_map m \<Longrightarrow> deep_ci v \<Longrightarrow> deep_ci_map (write_back m n v)"
proof (cases "lookup_key m n")
  case (Some k)
  assume m: "deep_ci_map m" "deep_ci v"
  have "fold_key m n = Some k" using m(1) Some by (simp add: deep_ci_map_ci lookup_key_fold)
  then have "write_back m n v = setAttr m n v" using Some by (simp add: write_back_def setAttr_def)
  then show ?thesis using m by (simp add: deep_ci_map_setAttr)
qed (simp add: write_back_def)

interpretation ci_values: value_pred deep_ci deep_ci_map
proof
  show "list_all deep_ci vs" if "deep_ci v" "toSlice v = Some vs" for v vs
    using that by (auto simp: toSlice_def deep_ci_map_def list_all_iff split: gval.splits)
  show "deep_ci v" if "deep_ci_map m" "(k, v) \<in> set m" for m k v
    using that by (auto simp: deep_ci_map_def)
qed (auto intro: deep_ci_map_setAttr deep_ci_map_deleteAttr deep_ci_map_write_back)

lemma is_json_map_put: "is_json_map m \<Longrightarrow> is_json v \<Longrightarrow> is_json_map (map_put k v m)"
  using set_map_put_subset [of k v m] by (auto simp: is_json_map_def list_all_pair)

interpretation json_values: value_pred is_json is_json_map
proof
  show "list_all is_json vs" if "is_json v" "toSlice v = Some vs" for v vs
    using that by (auto simp: toSlice_def split: gval.splits)
  show "is_json_map (deleteAttr m n)" if "is_json_map m" for m n
    using that by (auto simp: deleteAttr_def is_json_map_def list_all_pair map_del_def split: option.splits)
      (metis (mono_tags) distinct_map_del map_del_def)
qed (auto simp: setAttr_def write_back_def is_json_map_put is_json_map_memb split: option.splits)

lemma Set_inv [inv_intros]: "deep_ci_resource r \<Longrightarrow> deep_ci v \<Longrightarrow> deep_ci_resource (Set r p v)"
  unfolding deep_ci_resource_def by (rule ci_values.Set_keeps)

lemma Delete_inv [inv_intros]: "deep_ci_resource r \<Longrightarrow> deep_ci_resource (Delete r p)"
  unfolding deep_ci_resource_def by (rule ci_values.Delete_keeps)

text \<open>What an attribute holds after \<open>Set\<close> and \<open>Delete\<close>.\<close>

lemma lookup_Set:
  assumes "ci_distinct (Attributes r)"
  shows "lookupAttr (Attributes (Set r p v)) n =
    (if EqualFold (AttributeName p) n then
       (if SubAttribute p = [] then v
        else GMap (setAttr (case lookupAttr (Attributes r) (AttributeName p) of GMap pm \<Rightarrow> pm | _ \<Rightarrow> [])
                     (SubAttribute p) v))
     else lookupAttr (Attributes r) n)"
  using assms
  by (auto simp: Set_def Let_def write_back_setAttr ci.lookup_put ci.inv_put split: gval.splits)

lemma lookup_Delete:
  assumes "ci_distinct (Attributes r)"
  shows "lookupAttr (Attributes (Delete r p)) n =
    (if EqualFold (AttributeName p) n then
       (if SubAttribute p = [] then GNil
        else (case lookupAttr (Attributes r) (AttributeName p) of
                GMap pm \<Rightarrow> GMap (deleteAttr pm (SubAttribute p)) | w \<Rightarrow> w))
     else lookupAttr (Attributes r) n)"
  using assms ci.lookup_fold [of "Attributes r" "AttributeName p" n]
  by (auto simp: Delete_def Let_def write_back_setAttr ci.lookup_put ci.lookup_del split: gval.splits)

lemma Get_Set:
  assumes "deep_ci_resource r" "v \<noteq> GNil"
  shows "Get (Set r p v) p = Some v"
proof -
  have ci: "ci_distinct (Attributes r)" using assms(1) by (simp add: deep_ci_resource_def deep_ci_map_ci)
  have "ci_distinct (case lookupAttr (Attributes r) (AttributeName p) of GMap pm \<Rightarrow> pm | _ \<Rightarrow> [])"
    using deep_ci_lookup [of "Attributes r" "AttributeName p"] assms(1)
    by (auto simp: deep_ci_resource_def ci_distinct_def deep_ci_map_def split: gval.splits)
  then show ?thesis using assms(2) by (simp add: Get_def lookup_Set [OF ci] ci.lookup_put)
qed

lemma Get_Set_other:
  assumes "ci_distinct (Attributes r)" "\<not> EqualFold (AttributeName p) (AttributeName q)"
  shows "Get (Set r p v) q = Get r q"
  using assms by (simp add: Get_def lookup_Set)

lemma Get_Set_other_sub:
  assumes "deep_ci_resource r" "EqualFold (AttributeName p) (AttributeName q)"
    and "SubAttribute p \<noteq> []" "SubAttribute q \<noteq> []" "\<not> EqualFold (SubAttribute p) (SubAttribute q)"
    and "lookupAttr (Attributes r) (AttributeName p) = GMap m"
  shows "Get (Set r p v) q = Get r q"
proof -
  have ci: "ci_distinct (Attributes r)" using assms(1) by (simp add: deep_ci_resource_def deep_ci_map_ci)
  have "ci_distinct m"
    using deep_ci_lookup [of "Attributes r" "AttributeName p"] assms(1,6)
    by (simp add: deep_ci_resource_def deep_ci_map_ci)
  moreover have "lookupAttr (Attributes r) (AttributeName q) = GMap m"
    using ci.lookup_fold [OF ci assms(2)] assms(6) by simp
  ultimately show ?thesis using assms(2-6) by (simp add: Get_def lookup_Set [OF ci] ci.lookup_put)
qed

lemma Get_Delete:
  assumes "deep_ci_resource r"
  shows "Get (Delete r p) p = None"
proof -
  have ci: "ci_distinct (Attributes r)" using assms(1) by (simp add: deep_ci_resource_def deep_ci_map_ci)
  have "lookupAttr (Attributes r) (AttributeName p) = GMap m \<Longrightarrow> ci_distinct m" for m
    using deep_ci_lookup [of "Attributes r" "AttributeName p"] assms(1)
    by (auto simp: deep_ci_resource_def deep_ci_map_ci)
  then show ?thesis by (auto simp: Get_def lookup_Delete [OF ci] ci.lookup_del Let_def split: gval.splits)
qed

text \<open>C29: What was set at a path is what is read there, whether the path names an attribute or a
  sub-attribute, in any spelling of the resource's keys.\<close>

theorem get_after_set:
  assumes "deep_ci_resource r" "v \<noteq> GNil"
  shows "Get (Set r p v) p = Some v"
  by (rule Get_Set [OF assms])

theorem get_after_set_witness:
  "Get (Set (empty_resource\<lparr>Attributes := [(''Name'', GMap [(''formatted'', GStr ''x'')])]\<rparr>)
      \<lparr>Schema = [], AttributeName = ''name'', SubAttribute = ''familyName''\<rparr> (GStr ''y''))
      \<lparr>Schema = [], AttributeName = ''name'', SubAttribute = ''familyName''\<rparr> = Some (GStr ''y'')"
  by (rule get_after_set)
    (simp_all add: deep_ci_resource_def deep_ci_map_def ci_distinct_def)

end
