(* ===== verification/Go_Quote.thy ===== *)
theory Go_Quote
  imports Go_Strings
begin

text \<open>
  \<open>strconv.Unquote\<close> on double-quoted literals: the body between the quotes, with Go's escapes
  (not JSON's: \<open>\\/\<close> and a surrogate pair are errors, \<open>\\a\<close>, \<open>\\v\<close>, \<open>\\x41\<close> and octal escapes
  are accepted).  \<open>None\<close> is \<open>ErrSyntax\<close>.  Bytes of 128 or more are part of valid UTF-8 and pass
  through.  \<open>quote_body\<close> escapes what must be escaped, and \<open>unquote_quote\<close> is the round trip.
\<close>

definition dquote :: char where "dquote = CHR 0x22"
definition backslash :: char where "backslash = CHR 0x5C"

fun hex_val :: "char \<Rightarrow> nat option" where
  "hex_val c =
     (let n = char_code c
      in if 48 \<le> n \<and> n \<le> 57 then Some (n - 48)
         else if 97 \<le> n \<and> n \<le> 102 then Some (n - 87)
         else if 65 \<le> n \<and> n \<le> 70 then Some (n - 55)
         else None)"

fun hex_digits :: "nat \<Rightarrow> nat \<Rightarrow> string \<Rightarrow> (nat \<times> string) option" where
  "hex_digits 0 acc s = Some (acc, s)"
| "hex_digits (Suc k) acc [] = None"
| "hex_digits (Suc k) acc (c # s) =
     (case hex_val c of None \<Rightarrow> None | Some d \<Rightarrow> hex_digits k (16 * acc + d) s)"

lemma hex_digits_code [code]:
  "hex_digits k acc s =
     (if k = 0 then Some (acc, s)
      else case s of [] \<Rightarrow> None
           | c # s \<Rightarrow> (case hex_val c of None \<Rightarrow> None | Some d \<Rightarrow> hex_digits (k - 1) (16 * acc + d) s))"
  by (cases k; cases s) (simp_all del: hex_val.simps split: option.split)

definition octal_val :: "char \<Rightarrow> nat option" where
  "octal_val c = (let n = char_code c in if 48 \<le> n \<and> n \<le> 55 then Some (n - 48) else None)"

text \<open>The UTF-8 encoding of a code point.\<close>

definition utf8_encode :: "nat \<Rightarrow> string" where
  "utf8_encode r =
     (if r < 128 then [char_of r]
      else if r < 2048 then [char_of (192 + r div 64), char_of (128 + r mod 64)]
      else if r < 65536 then
        [char_of (224 + r div 4096), char_of (128 + r div 64 mod 64), char_of (128 + r mod 64)]
      else [char_of (240 + r div 262144), char_of (128 + r div 4096 mod 64),
            char_of (128 + r div 64 mod 64), char_of (128 + r mod 64)])"

definition valid_rune :: "nat \<Rightarrow> bool" where
  "valid_rune r = (r < 55296 \<or> (57344 \<le> r \<and> r < 1114112))"

text \<open>One escape, after the backslash: the bytes it denotes and the rest.\<close>

definition unquote_escape :: "string \<Rightarrow> (string \<times> string) option" where
  "unquote_escape s =
     (case s of [] \<Rightarrow> None
      | c # r \<Rightarrow>
        if c = CHR ''a'' then Some ([CHR 0x07], r)
        else if c = CHR ''b'' then Some ([CHR 0x08], r)
        else if c = CHR ''f'' then Some ([CHR 0x0C], r)
        else if c = CHR ''n'' then Some ([CHR 0x0A], r)
        else if c = CHR ''r'' then Some ([CHR 0x0D], r)
        else if c = CHR ''t'' then Some ([CHR 0x09], r)
        else if c = CHR ''v'' then Some ([CHR 0x0B], r)
        else if c = CHR ''x'' then map_option (\<lambda>(v, r). ([char_of v], r)) (hex_digits 2 0 r)
        else if c = CHR ''u'' \<or> c = CHR ''U'' then
          Option.bind (hex_digits (if c = CHR ''u'' then 4 else 8) 0 r)
            (\<lambda>(v, r). if valid_rune v then Some (utf8_encode v, r) else None)
        else if octal_val c \<noteq> None then
          (case r of d # e # r' \<Rightarrow>
             (case (octal_val c, octal_val d, octal_val e) of
                (Some x, Some y, Some z) \<Rightarrow>
                  if 64 * x + 8 * y + z \<le> 255 then Some ([char_of (64 * x + 8 * y + z)], r') else None
              | _ \<Rightarrow> None)
           | _ \<Rightarrow> None)
        else if c = backslash \<or> c = dquote then Some ([c], r)
        else None)"

lemma hex_digits_length: "hex_digits k acc s = Some (v, r) \<Longrightarrow> length r \<le> length s"
  by (induction k acc s rule: hex_digits.induct) (auto split: option.splits)

lemma unquote_escape_length: "unquote_escape s = Some (bs, r) \<Longrightarrow> length r < length s"
  by (cases s)
    (auto simp: unquote_escape_def split: if_splits option.splits list.splits
      dest!: hex_digits_length split: Option.bind_splits)

function unquote_body :: "string \<Rightarrow> string option" where
  "unquote_body [] = Some []"
| "unquote_body (c # s) =
     (if c = CHR 0x0A \<or> c = dquote then None
      else if c = backslash then
        (case unquote_escape s of None \<Rightarrow> None
         | Some (bs, r) \<Rightarrow> map_option (\<lambda>t. bs @ t) (unquote_body r))
      else map_option (\<lambda>t. c # t) (unquote_body s))"
  by pat_completeness auto
termination
  by (relation "measure length") (auto dest!: unquote_escape_length)

subsection \<open>Quoting\<close>

fun quote_char :: "char \<Rightarrow> string" where
  "quote_char c =
     (if c = CHR 0x0A then [backslash, CHR ''n'']
      else if c = dquote \<or> c = backslash then [backslash, c] else [c])"

definition quote_body :: "string \<Rightarrow> string" where
  "quote_body s = concat (map quote_char s)"

lemma unquote_escape_simps [simp]:
  "unquote_escape (CHR ''n'' # r) = Some ([CHR 0x0A], r)"
  "unquote_escape (dquote # r) = Some ([dquote], r)"
  "unquote_escape (backslash # r) = Some ([backslash], r)"
  by (simp_all add: unquote_escape_def dquote_def backslash_def octal_val_def char_code_def)

lemma special_distinct [simp]:
  "dquote \<noteq> backslash" "backslash \<noteq> dquote" "backslash \<noteq> CHR 0x0A" "dquote \<noteq> CHR 0x0A"
  by (simp_all add: dquote_def backslash_def)

lemma unquote_quote [simp]: "unquote_body (quote_body s) = Some s"
  by (induction s) (auto simp: quote_body_def)

subsection \<open>The verb %q\<close>

text \<open>\<open>strconv.Quote\<close> on valid UTF-8 whose non-ASCII characters are printable.\<close>

definition hex_digit :: "nat \<Rightarrow> char" where
  "hex_digit n = (if n < 10 then char_of (48 + n) else char_of (87 + n))"

definition quote_rune :: "char \<Rightarrow> string" where
  "quote_rune c =
     (let n = char_code c
      in if c = dquote \<or> c = backslash then [backslash, c]
         else if 32 \<le> n \<and> n \<noteq> 127 then [c]
         else if n = 7 then [backslash, CHR ''a''] else if n = 8 then [backslash, CHR ''b'']
         else if n = 12 then [backslash, CHR ''f''] else if n = 10 then [backslash, CHR ''n'']
         else if n = 13 then [backslash, CHR ''r''] else if n = 9 then [backslash, CHR ''t'']
         else if n = 11 then [backslash, CHR ''v'']
         else [backslash, CHR ''x'', hex_digit (n div 16), hex_digit (n mod 16)])"

definition Quote :: "string \<Rightarrow> string" where
  "Quote s = dquote # concat (map quote_rune s) @ [dquote]"

end
