(* ===== verification/Filter_Syntax.thy ===== *)
theory Filter_Syntax
  imports Attr_Path Go_Value Go_Quote
begin

text \<open>
  The filter AST and the lexical level of the filter parser (\<open>resource/filter.go\<close>).  The parser
  of the code keeps the input and a position and only ever looks at what lies from the position
  on; its state is therefore modelled by \<open>remaining()\<close>, the rest of the input, and an
  advance of the position by taking characters off the front.  \<open>peek\<close> at the end of the input
  is the byte 0.
\<close>

datatype CompareOp = OpEq | OpNe | OpCo | OpSw | OpEw | OpGt | OpGe | OpLt | OpLe | OpPr

fun CompareOp_String :: "CompareOp \<Rightarrow> string" where
  "CompareOp_String OpEq = ''eq''"
| "CompareOp_String OpNe = ''ne''"
| "CompareOp_String OpCo = ''co''"
| "CompareOp_String OpSw = ''sw''"
| "CompareOp_String OpEw = ''ew''"
| "CompareOp_String OpGt = ''gt''"
| "CompareOp_String OpGe = ''ge''"
| "CompareOp_String OpLt = ''lt''"
| "CompareOp_String OpLe = ''le''"
| "CompareOp_String OpPr = ''pr''"

datatype LogicalOp = LogicalAnd | LogicalOr

datatype FilterExpression =
    AttrExpression attr_path CompareOp gval
  | LogicalExpression FilterExpression LogicalOp FilterExpression
  | NotExpression FilterExpression
  | ValuePathExpression attr_path FilterExpression

subsection \<open>White space, keywords and tokens\<close>

definition is_ws :: "char \<Rightarrow> bool" where
  "is_ws c = (c = CHR '' '' \<or> c = CHR 0x09)"

definition skipWS :: "string \<Rightarrow> string" where
  "skipWS s = dropWhile is_ws s"

definition peek :: "string \<Rightarrow> char" where
  "peek s = (case s of [] \<Rightarrow> CHR 0x00 | c # _ \<Rightarrow> c)"

definition isWordBoundary :: "string \<Rightarrow> bool" where
  "isWordBoundary s =
     (case s of [] \<Rightarrow> True | c # _ \<Rightarrow> is_ws c \<or> c = CHR '')'' \<or> c = CHR '']'')"

text \<open>\<open>None\<close> is the failure, after which the code restores the saved position.\<close>

definition matchKeyword :: "string \<Rightarrow> string \<Rightarrow> string option" where
  "matchKeyword kw s0 =
     (let s = skipWS s0
      in if length s < length kw then None
         else if \<not> EqualFold (take (length kw) s) kw then None
         else (let after = drop (length kw) s
               in if \<not> isWordBoundary after \<and> after \<noteq> [] \<and>
                     (isAlpha (hd after) \<or> isDigit (hd after) \<or> hd after = CHR ''_'' \<or> hd after = CHR ''-'')
                  then None
                  else Some (skipWS after)))"

definition is_delim :: "char \<Rightarrow> bool" where
  "is_delim c = (is_ws c \<or> c = CHR ''['' \<or> c = CHR '']'' \<or> c = CHR ''('' \<or> c = CHR '')'')"

definition token :: "string \<Rightarrow> string \<times> string" where
  "token s = (takeWhile (\<lambda>c. \<not> is_delim c) s, dropWhile (\<lambda>c. \<not> is_delim c) s)"

definition parseAttrPath :: "string \<Rightarrow> res_error + (attr_path \<times> string)" where
  "parseAttrPath s0 =
     (let (raw, s) = token (skipWS s0)
      in if raw = [] then Inl ErrBadFilter
         else (case ParsePath raw of Inl _ \<Rightarrow> Inl ErrBadFilter | Inr attr \<Rightarrow> Inr (attr, s)))"

definition op_of_token :: "string \<Rightarrow> CompareOp option" where
  "op_of_token t =
     (if t = ''eq'' then Some OpEq else if t = ''ne'' then Some OpNe
      else if t = ''co'' then Some OpCo else if t = ''sw'' then Some OpSw
      else if t = ''ew'' then Some OpEw else if t = ''gt'' then Some OpGt
      else if t = ''ge'' then Some OpGe else if t = ''lt'' then Some OpLt
      else if t = ''le'' then Some OpLe else if t = ''pr'' then Some OpPr
      else None)"

definition parseCompareOp :: "string \<Rightarrow> res_error + (CompareOp \<times> string)" where
  "parseCompareOp s0 =
     (let (tok, s) = token (skipWS s0)
      in case op_of_token (ToLower tok) of None \<Rightarrow> Inl ErrBadFilter | Some op \<Rightarrow> Inr (op, s))"

subsection \<open>Literals\<close>

text \<open>The scan of a string literal behind its opening quote: the body up to the closing quote (a
  backslash hides the next character) and the rest.\<close>

fun scan_string :: "string \<Rightarrow> (string \<times> string) option" where
  "scan_string [] = None"
| "scan_string [c] = (if c = dquote then Some ([], []) else None)"
| "scan_string (c # d # s) =
     (if c = backslash then map_option (\<lambda>(b, r). (c # d # b, r)) (scan_string s)
      else if c = dquote then Some ([], d # s)
      else map_option (\<lambda>(b, r). (c # b, r)) (scan_string (d # s)))"

definition parseString :: "string \<Rightarrow> res_error + (string \<times> string)" where
  "parseString s =
     (if peek s \<noteq> dquote then Inl ErrBadFilter
      else (case scan_string (tl s) of
              None \<Rightarrow> Inl ErrBadFilter
            | Some (body, r) \<Rightarrow>
                (case unquote_body body of None \<Rightarrow> Inl ErrBadFilter | Some v \<Rightarrow> Inr (v, r))))"

definition scan_digits :: "string \<Rightarrow> string \<times> string" where
  "scan_digits s = (takeWhile is_digit_char s, dropWhile is_digit_char s)"

text \<open>The scan of a number: an optional minus, digits, an optional fraction, an optional
  exponent.\<close>

definition scan_number :: "string \<Rightarrow> string \<times> string" where
  "scan_number s =
     (let (sg, s1) = (if peek s = CHR ''-'' then (''-'', tl s) else ([], s));
          (ip, s2) = scan_digits s1;
          (fp, s3) = (if s2 \<noteq> [] \<and> hd s2 = CHR ''.''
                      then (let (d, r) = scan_digits (tl s2) in (CHR ''.'' # d, r)) else ([], s2));
          (ex, s4) = (if s3 \<noteq> [] \<and> (hd s3 = CHR ''e'' \<or> hd s3 = CHR ''E'')
                      then (let r = tl s3;
                                (es, r) = (if r \<noteq> [] \<and> (hd r = CHR ''+'' \<or> hd r = CHR ''-'')
                                           then ([hd r], tl r) else ([], r));
                                (d, r) = scan_digits r
                            in (hd s3 # es @ d, r))
                      else ([], s3))
      in (sg @ ip @ fp @ ex, s4))"

definition parseNumber :: "string \<Rightarrow> res_error + (f64 \<times> string)" where
  "parseNumber s =
     (let (numStr, r) = scan_number s
      in case ParseFloat numStr of None \<Rightarrow> Inl ErrBadFilter | Some f \<Rightarrow> Inr (f, r))"

definition parseCompValue :: "string \<Rightarrow> res_error + (gval \<times> string)" where
  "parseCompValue s0 =
     (let s = skipWS s0
      in case s of [] \<Rightarrow> Inl ErrBadFilter
         | ch # _ \<Rightarrow>
           if ch = dquote then
             (case parseString s of Inl e \<Rightarrow> Inl e | Inr (v, r) \<Rightarrow> Inr (GStr v, r))
           else if HasPrefix s ''null'' then
             (if isWordBoundary (drop 4 s) then Inr (GNil, drop 4 s) else Inl ErrBadFilter)
           else if HasPrefix s ''true'' then
             (if isWordBoundary (drop 4 s) then Inr (GBool True, drop 4 s) else Inl ErrBadFilter)
           else if HasPrefix s ''false'' then
             (if isWordBoundary (drop 5 s) then Inr (GBool False, drop 5 s) else Inl ErrBadFilter)
           else if ch = CHR ''-'' \<or> is_digit_char ch then
             (case parseNumber s of Inl e \<Rightarrow> Inl e | Inr (f, r) \<Rightarrow> Inr (GFloat64 f, r))
           else Inl ErrBadFilter)"

subsection \<open>Nothing is put back\<close>

lemma skipWS_length: "length (skipWS s) \<le> length s"
  by (simp add: skipWS_def length_dropWhile_le)

lemma skipWS_idem [simp]: "skipWS (skipWS s) = skipWS s"
  by (simp add: skipWS_def dropWhile_idem)

lemma token_length: "token s = (t, r) \<Longrightarrow> length r + length t = length s"
  unfolding token_def by (metis Pair_inject add.commute length_append takeWhile_dropWhile_id)

lemma matchKeyword_length:
  "matchKeyword kw s = Some r \<Longrightarrow> length r + length kw \<le> length s"
  using skipWS_length [of s] skipWS_length [of "drop (length kw) (skipWS s)"]
  by (auto simp: matchKeyword_def Let_def split: if_splits)

lemma parseAttrPath_length: "parseAttrPath s = Inr (p, r) \<Longrightarrow> length r < length s"
  using skipWS_length [of s]
  by (auto simp: parseAttrPath_def split: if_splits sum.splits prod.splits dest!: token_length)
    (metis add_diff_cancel_left' length_greater_0_conv less_diff_conv not_less_eq_eq order.trans
      le_add1 linorder_not_le add.commute)

lemma parseCompareOp_length: "parseCompareOp s = Inr (op, r) \<Longrightarrow> length r \<le> length s"
  using skipWS_length [of s]
  by (auto simp: parseCompareOp_def split: option.splits prod.splits dest!: token_length)

lemma scan_string_length: "scan_string s = Some (b, r) \<Longrightarrow> length r \<le> length s"
  by (induction s arbitrary: b rule: scan_string.induct) (fastforce split: if_splits)+

lemma scan_digits_length: "scan_digits s = (d, r) \<Longrightarrow> length r \<le> length s"
  by (auto simp: scan_digits_def length_dropWhile_le)

lemma scan_number_length: "scan_number s = (t, r) \<Longrightarrow> length r \<le> length s"
  unfolding scan_number_def Let_def
  by (auto split: prod.splits if_splits dest!: scan_digits_length simp: length_tl)

lemma parseCompValue_length: "parseCompValue s = Inr (v, r) \<Longrightarrow> length r \<le> length s"
  using skipWS_length [of s]
  by (auto simp: parseCompValue_def parseString_def parseNumber_def Let_def
      split: list.splits if_splits sum.splits option.splits prod.splits
      dest!: scan_string_length scan_number_length)

text \<open>The values a comparison can carry.\<close>

fun comp_value :: "gval \<Rightarrow> bool" where
  "comp_value GNil = True"
| "comp_value (GBool b) = True"
| "comp_value (GFloat64 f) = canonical_f f"
| "comp_value (GStr s) = True"
| "comp_value _ = False"

lemma parseCompValue_value: "parseCompValue s = Inr (v, r) \<Longrightarrow> comp_value v"
  by (auto simp: parseCompValue_def Let_def parseNumber_def ParseFloat_canonical
      split: list.splits if_splits sum.splits prod.splits option.splits)

text \<open>The paths a filter can name: no delimiter, and not a path that reads as the keyword
  \<open>not\<close> (an attribute called \<open>not\<close>, or \<open>not.x\<close>, cannot be filtered on).\<close>

definition filter_path :: "attr_path \<Rightarrow> bool" where
  "filter_path p =
     (wf_path p \<and> list_all (\<lambda>c. \<not> is_delim c) (path_String p) \<and>
      (let s = path_String p
       in \<not> EqualFold (take 3 s) ''not'' \<or> (3 < length s \<and> isNameChar (s ! 3))))"

lemma matchKeyword_skipWS [simp]: "matchKeyword kw (skipWS s) = matchKeyword kw s"
  by (simp add: matchKeyword_def)

lemma parseAttrPath_wf: "parseAttrPath s = Inr (p, r) \<Longrightarrow> wf_path p"
  by (auto simp: parseAttrPath_def Let_def ParsePath_iff split: if_splits sum.splits prod.splits)

lemma lexer_errors:
  "parseAttrPath s = Inl e \<Longrightarrow> e = ErrBadFilter"
  "parseCompareOp s = Inl e \<Longrightarrow> e = ErrBadFilter"
  "parseCompValue s = Inl e \<Longrightarrow> e = ErrBadFilter"
  by (auto simp: parseAttrPath_def parseCompareOp_def parseCompValue_def parseString_def
      parseNumber_def Let_def split: list.splits if_splits sum.splits option.splits prod.splits)

lemma parseAttrPath_filter_path:
  assumes "parseAttrPath s = Inr (p, r)" and "matchKeyword ''not'' s = None"
  shows "filter_path p"
proof -
  let ?s = "skipWS s"
  define raw where "raw = takeWhile (\<lambda>c. \<not> is_delim c) ?s"
  have p: "wf_path p" "raw = path_String p" "r = dropWhile (\<lambda>c. \<not> is_delim c) ?s" "raw \<noteq> []"
    using assms(1) by (auto simp: parseAttrPath_def token_def raw_def Let_def ParsePath_iff
        split: if_splits sum.splits)
  have s: "?s = raw @ r" using p(3) by (simp add: raw_def)
  have r: "r = [] \<or> is_delim (hd r)"
    using p(3) hd_dropWhile [of "\<lambda>c. \<not> is_delim c" ?s] by auto
  have nd: "\<forall>c \<in> set raw. \<not> is_delim c" by (auto simp: raw_def dest: set_takeWhileD)
  have "3 < length raw \<and> isNameChar (raw ! 3)" if ef: "EqualFold (take 3 raw) ''not''"
  proof -
    have l3: "3 \<le> length raw" using EqualFold_length [OF ef] by simp
    then have t3: "take 3 ?s = take 3 raw" "drop 3 ?s = drop 3 raw @ r" using s by simp_all
    have len: "length ''not'' = 3" by simp
    have l: "\<not> length ?s < 3" using l3 s by simp
    have b: "\<not> isWordBoundary (drop 3 ?s)" "drop 3 ?s \<noteq> []" "isNameChar (hd (drop 3 ?s))"
      using assms(2) ef l t3(1) unfolding matchKeyword_def Let_def len isNameChar_def
      by (auto simp del: take_append drop_append drop_eq_Nil split: if_splits)
    have "drop 3 raw \<noteq> []"
    proof
      assume e: "drop 3 raw = []"
      then have "is_delim (hd r)" "hd (drop 3 ?s) = hd r" using b(2) r t3 by auto
      then show False using b(3) isNameChar_not [of "hd r"] by (auto simp: is_delim_def is_ws_def)
    qed
    then show ?thesis using b(3) t3 by (auto simp: hd_drop_conv_nth)
  qed
  then show ?thesis using p nd by (auto simp: filter_path_def list_all_iff Let_def)
qed

end
