(* ===== verification/Filter_Eval.thy ===== *)
theory Filter_Eval
  imports Accessor Filter_Syntax
begin

text \<open>
  Evaluation of filters (\<open>resource/filter_eval.go\<close>) over the map of a resource.  A nil
  \<open>interface{}\<close> is \<open>GNil\<close>.  The lemmas give the comparison of values its order laws, show that
  attribute names match without case and that the iteration order of the map plays no part, and
  record what the code does with absent attributes.
\<close>

definition lookupKey :: "attrs \<Rightarrow> string \<Rightarrow> gval" where
  "lookupKey m key =
     (case map_of m key of
        Some v \<Rightarrow> v
      | None \<Rightarrow> (case find (\<lambda>(k, _). ToLower k = ToLower key) m of Some (_, v) \<Rightarrow> v | None \<Rightarrow> GNil))"

definition getAttrValue :: "attrs \<Rightarrow> attr_path \<Rightarrow> gval" where
  "getAttrValue as path =
     (let val = lookupKey as (AttributeName path)
      in if val = GNil then GNil
         else if SubAttribute path = [] then val
         else (case val of GMap m \<Rightarrow> lookupKey m (SubAttribute path) | _ \<Rightarrow> val))"

subsection \<open>Comparing values\<close>

definition toFloat :: "gval \<Rightarrow> f64 option" where
  "toFloat v =
     (case v of GFloat64 n \<Rightarrow> Some n | GFloat32 n \<Rightarrow> Some n
      | GInt k n \<Rightarrow> (if k = KInt \<or> k = KInt64 \<or> k = KInt32 then Some (f64_of_int n) else None)
      | _ \<Rightarrow> None)"

definition valuesEqual :: "gval \<Rightarrow> gval \<Rightarrow> bool" where
  "valuesEqual a b =
     (if a = GNil \<and> b = GNil then True
      else if a = GNil \<or> b = GNil then False
      else (case (a, b) of
              (GBool ab, GBool bb) \<Rightarrow> ab = bb
            | _ \<Rightarrow>
              (case (toFloat a, toFloat b) of
                 (Some af, Some bf) \<Rightarrow> f_lt (f_abs (f_sub af bf)) f_1e_15
               | _ \<Rightarrow> EqualFold (fmt_v a) (fmt_v b))))"

definition compareOrder :: "gval \<Rightarrow> gval \<Rightarrow> int" where
  "compareOrder a b =
     (case (toFloat a, toFloat b) of
        (Some af, Some bf) \<Rightarrow> if f_lt af bf then - 1 else if f_lt bf af then 1 else 0
      | _ \<Rightarrow> Compare (fmt_v a) (fmt_v b))"

fun compareValues :: "CompareOp \<Rightarrow> gval \<Rightarrow> gval \<Rightarrow> bool" where
  "compareValues OpEq a b = valuesEqual a b"
| "compareValues OpNe a b = (\<not> valuesEqual a b)"
| "compareValues OpCo a b = Contains (ToLower (fmt_v a)) (ToLower (fmt_v b))"
| "compareValues OpSw a b = HasPrefix (ToLower (fmt_v a)) (ToLower (fmt_v b))"
| "compareValues OpEw a b = HasSuffix (ToLower (fmt_v a)) (ToLower (fmt_v b))"
| "compareValues OpGt a b = (0 < compareOrder a b)"
| "compareValues OpGe a b = (0 \<le> compareOrder a b)"
| "compareValues OpLt a b = (compareOrder a b < 0)"
| "compareValues OpLe a b = (compareOrder a b \<le> 0)"
| "compareValues OpPr a b = (a \<noteq> GNil)"

subsection \<open>Evaluation\<close>

definition elem_value :: "attr_path \<Rightarrow> gval \<Rightarrow> gval" where
  "elem_value path elem =
     (if SubAttribute path \<noteq> [] then
        (case elem of GMap m \<Rightarrow> lookupKey m (SubAttribute path) | _ \<Rightarrow> GNil)
      else elem)"

definition evalAttrExpr :: "attr_path \<Rightarrow> CompareOp \<Rightarrow> gval \<Rightarrow> attrs \<Rightarrow> bool" where
  "evalAttrExpr path op value as =
     (let val = getAttrValue as path
      in if op = OpPr then val \<noteq> GNil
         else (case toSlice val of
                 Some arr \<Rightarrow> list_ex (\<lambda>elem. compareValues op (elem_value path elem) value) arr
               | None \<Rightarrow> compareValues op val value))"

primrec evalExpr :: "FilterExpression \<Rightarrow> attrs \<Rightarrow> bool" where
  "evalExpr (AttrExpression path op value) as = evalAttrExpr path op value as"
| "evalExpr (LogicalExpression l op r) as =
     (let left = evalExpr l as
      in case op of
           LogicalAnd \<Rightarrow> if \<not> left then False else evalExpr r as
         | LogicalOr \<Rightarrow> if left then True else evalExpr r as)"
| "evalExpr (NotExpression e) as = (\<not> evalExpr e as)"
| "evalExpr (ValuePathExpression path flt) as =
     (let val = lookupKey as (AttributeName path)
      in if val = GNil then False
         else (case toSlice val of
                 None \<Rightarrow> (case val of GMap m \<Rightarrow> evalExpr flt m | _ \<Rightarrow> False)
               | Some arr \<Rightarrow> list_ex (\<lambda>elem. case elem of GMap m \<Rightarrow> evalExpr flt m | _ \<Rightarrow> False) arr))"

definition EvalFilter :: "FilterExpression \<Rightarrow> resource \<Rightarrow> bool" where
  "EvalFilter expr res = evalExpr expr (ToMap res)"

subsection \<open>Order laws\<close>

definition f_val :: "f64 \<Rightarrow> real" where
  "f_val f = (if f_neg f then - 1 else 1) * real (f_man f) * 2 powi f_exp f"

lemma f_signed_val: "e0 \<le> f_exp f \<Longrightarrow> real_of_int (f_signed f e0) * 2 powi e0 = f_val f"
proof -
  assume le: "e0 \<le> f_exp f"
  have "(2::real) ^ nat (f_exp f - e0) * 2 powi e0 = 2 powi (f_exp f - e0) * 2 powi e0"
    using le by (simp add: power_int_def)
  also have "\<dots> = 2 powi f_exp f" by (subst power_int_add [symmetric]) simp_all
  finally show ?thesis by (simp add: f_signed_def f_val_def Let_def)
qed

lemma f_cmp_val: "f_cmp a b = (if f_val a < f_val b then - 1 else if f_val b < f_val a then 1 else 0)"
proof -
  let ?e = "min (f_exp a) (f_exp b)"
  have "(2::real) powi ?e > 0" by simp
  then have "f_signed a ?e < f_signed b ?e \<longleftrightarrow> f_val a < f_val b"
    "f_signed b ?e < f_signed a ?e \<longleftrightarrow> f_val b < f_val a"
    by (simp_all add: f_signed_val [of ?e a, symmetric] f_signed_val [of ?e b, symmetric])
  then show ?thesis by (simp add: f_cmp_def Let_def)
qed

lemma f_lt_val: "f_lt a b \<longleftrightarrow> f_val a < f_val b"
  by (simp add: f_lt_def f_cmp_val)

lemma compareOrder_swap: "compareOrder b a = - compareOrder a b"
  by (auto simp: compareOrder_def f_lt_val Compare_swap [of "fmt_v a"] split: option.splits)

lemma compareOrder_refl [simp]: "compareOrder a a = 0"
  using compareOrder_swap [of a a] by simp

text \<open>Among values of one kind, all numbers or none, the order is transitive.\<close>

definition same_kind :: "gval \<Rightarrow> gval \<Rightarrow> bool" where
  "same_kind a b = ((toFloat a = None) = (toFloat b = None))"

lemma compareOrder_trans:
  assumes "compareOrder a b \<le> 0" "compareOrder b c \<le> 0" "same_kind a b" "same_kind b c"
  shows "compareOrder a c \<le> 0"
  using assms Compare_trans
  by (auto simp: compareOrder_def same_kind_def f_lt_val split: option.splits if_splits)

lemma valuesEqual_sym: "valuesEqual a b = valuesEqual b a"
proof -
  have "f_sub a b = (let d = f_sub b a in F64 (f_neg (f_sub a b)) (f_man d) (f_exp d))" for a b
  proof -
    have *: "\<bar>f_signed a e - f_signed b e\<bar> = \<bar>f_signed b e - f_signed a e\<bar>" for e by simp
    have "min (f_exp a) (f_exp b) = min (f_exp b) (f_exp a)" by simp
    then show ?thesis
      by (auto simp: f_sub_def Let_def * [of "min (f_exp b) (f_exp a)"] mk_f64_def f_max_def
          split: option.splits)
  qed
  then have "f_abs (f_sub a b) = f_abs (f_sub b a)" for a b
    by (metis (full_types) f64.sel(2,3) f_abs_def)
  then show ?thesis
    by (cases a; cases b) (auto simp: valuesEqual_def EqualFold_sym split: option.splits)
qed

subsection \<open>Names and iteration order\<close>

lemma lookupKey_lookupAttr: "lookupKey m n = lookupAttr m n"
proof -
  have *: "same_name n = (\<lambda>(k, _). ToLower k = ToLower n)" by (rule ext) (auto simp: same_name_def)
  show ?thesis unfolding lookupKey_def lookupAttr_def * ..
qed

text \<open>Two spellings of a filter that differ in the case of attribute names only.\<close>

definition path_fold :: "attr_path \<Rightarrow> attr_path \<Rightarrow> bool" where
  "path_fold p q = (EqualFold (AttributeName p) (AttributeName q) \<and> EqualFold (SubAttribute p) (SubAttribute q))"

fun expr_fold :: "FilterExpression \<Rightarrow> FilterExpression \<Rightarrow> bool" where
  "expr_fold (AttrExpression p op v) (AttrExpression q op' v') = (path_fold p q \<and> op = op' \<and> v = v')"
| "expr_fold (LogicalExpression l op r) (LogicalExpression l' op' r') =
     (expr_fold l l' \<and> op = op' \<and> expr_fold r r')"
| "expr_fold (NotExpression e) (NotExpression e') = expr_fold e e'"
| "expr_fold (ValuePathExpression p e) (ValuePathExpression q e') = (path_fold p q \<and> expr_fold e e')"
| "expr_fold _ _ = False"

lemma EqualFold_Nil: "EqualFold a b \<Longrightarrow> a = [] \<longleftrightarrow> b = []"
  using EqualFold_length by fastforce

lemma deep_ci_toSlice: "deep_ci v \<Longrightarrow> toSlice v = Some arr \<Longrightarrow> elem \<in> set arr \<Longrightarrow> deep_ci elem"
  by (auto simp: toSlice_def deep_ci_map_def list_all_iff split: gval.splits)

lemma getAttrValue_fold:
  assumes "deep_ci_map m" "path_fold p q"
  shows "getAttrValue m p = getAttrValue m q"
proof -
  have "lookupKey m (AttributeName p) = lookupKey m (AttributeName q)"
    using assms ci.lookup_fold deep_ci_map_ci by (auto simp: lookupKey_lookupAttr path_fold_def)
  moreover have "lookupKey m' (SubAttribute p) = lookupKey m' (SubAttribute q)"
    if "lookupKey m (AttributeName q) = GMap m'" for m'
    using deep_ci_lookup [OF assms(1), of "AttributeName q"] that assms(2) ci.lookup_fold deep_ci_map_ci
    by (auto simp: lookupKey_lookupAttr path_fold_def)
  moreover have "SubAttribute p = [] \<longleftrightarrow> SubAttribute q = []"
    using assms(2) EqualFold_Nil by (auto simp: path_fold_def)
  ultimately show ?thesis by (simp add: getAttrValue_def Let_def split: gval.splits)
qed

lemma deep_ci_getAttrValue:
  assumes "deep_ci_map m"
  shows "deep_ci (getAttrValue m p)"
proof -
  have d: "deep_ci (lookupKey m (AttributeName p))"
    using assms deep_ci_lookup by (simp add: lookupKey_lookupAttr)
  show ?thesis
  proof (cases "lookupKey m (AttributeName p)")
    case (GMap m')
    then show ?thesis using d deep_ci_lookup [of m' "SubAttribute p"]
      by (simp add: getAttrValue_def lookupKey_lookupAttr Let_def del: deep_ci.simps)
  qed (use d in \<open>simp_all add: getAttrValue_def Let_def del: deep_ci.simps\<close>)
qed

lemma elem_value_fold:
  assumes "deep_ci v" "path_fold p q"
  shows "elem_value p v = elem_value q v"
  using assms EqualFold_Nil [of "SubAttribute p" "SubAttribute q"] ci.lookup_fold
  by (auto simp: elem_value_def lookupKey_lookupAttr path_fold_def deep_ci_map_ci split: gval.splits)

lemma evalExpr_fold:
  "expr_fold e e' \<Longrightarrow> deep_ci_map m \<Longrightarrow> evalExpr e m = evalExpr e' m"
proof (induction e e' arbitrary: m rule: expr_fold.induct)
  case (1 p op v q op' v')
  then show ?case
    using getAttrValue_fold [of m p q] deep_ci_getAttrValue [of m q] elem_value_fold deep_ci_toSlice
    by (auto simp: evalAttrExpr_def Let_def list_ex_iff split: option.splits)
next
  case (4 p e q e')
  have eq: "lookupKey m (AttributeName p) = lookupKey m (AttributeName q)"
    using 4 ci.lookup_fold deep_ci_map_ci by (auto simp: lookupKey_lookupAttr path_fold_def)
  have d: "deep_ci (lookupKey m (AttributeName q))"
    using 4 deep_ci_lookup by (simp add: lookupKey_lookupAttr)
  have "evalExpr e m' = evalExpr e' m'" if "GMap m' \<in> set arr" "toSlice (lookupKey m (AttributeName q)) = Some arr" for m' arr
    using 4 deep_ci_toSlice [OF d that(2,1)] by simp
  then have "list_ex (\<lambda>elem. case elem of GMap m \<Rightarrow> evalExpr e m | _ \<Rightarrow> False) arr =
      list_ex (\<lambda>elem. case elem of GMap m \<Rightarrow> evalExpr e' m | _ \<Rightarrow> False) arr"
    if "toSlice (lookupKey m (AttributeName q)) = Some arr" for arr
    using that by (intro list_ex_cong) (auto split: gval.splits)
  moreover have "evalExpr e m' = evalExpr e' m'" if "lookupKey m (AttributeName q) = GMap m'" for m'
    using 4 d that by simp
  ultimately show ?case unfolding evalExpr.simps eq Let_def
    by (cases "toSlice (lookupKey m (AttributeName q))") (simp_all split: gval.splits)
qed (auto simp: Let_def split: LogicalOp.splits)

text \<open>The list that stands for a map may be in any order.\<close>

lemma lookupAttr_perm: "ci_distinct m \<Longrightarrow> mset m = mset m' \<Longrightarrow> lookupAttr m n = lookupAttr m' n"
proof -
  assume ci: "ci_distinct m" and ms: "mset m = mset m'"
  have ci': "ci_distinct m'"
    using ci ms unfolding ci_distinct_def by (metis mset_eq_imp_distinct_iff mset_map)
  have s: "set m = set m'" using ms by (rule mset_eq_setD)
  have fk: "fold_key m n = fold_key m' n"
  proof (cases "fold_key m n")
    case None
    then show ?thesis using s by (metis fold_key_None)
  next
    case (Some k)
    then have "fold_key m' n = Some k" using fold_key_Some [OF Some] s by (intro fold_key_unique [OF ci']) auto
    with Some show ?thesis by simp
  qed
  have "map_of m = map_of m'" using map_of_mset_eq ci_distinct_keys [OF ci] ms by blast
  then show ?thesis by (simp add: lookupAttr_key [OF ci] lookupAttr_key [OF ci'] fk split: option.splits)
qed

lemma evalExpr_perm: "ci_distinct m \<Longrightarrow> mset m = mset m' \<Longrightarrow> evalExpr e m = evalExpr e m'"
  by (induction e)
    (simp_all add: evalAttrExpr_def getAttrValue_def lookupKey_lookupAttr lookupAttr_perm [of m m'] Let_def
      split: LogicalOp.splits)

subsection \<open>Absent attributes\<close>

lemma fmt_nil_contains: "Contains (ToLower (fmt_v GNil)) (ToLower ''nil'')"
  by code_simp

text \<open>An absent attribute prints as \<open><nil>\<close>, and the substring operators compare that text.\<close>

lemma absent_contains_nil:
  "lookupKey as (AttributeName p) = GNil \<Longrightarrow> evalAttrExpr p OpCo (GStr ''nil'') as"
  using fmt_nil_contains by (simp add: evalAttrExpr_def getAttrValue_def toSlice_def)

lemma absent_eq: "lookupKey as (AttributeName p) = GNil \<Longrightarrow> evalAttrExpr p OpEq v as \<longleftrightarrow> v = GNil"
  by (auto simp: evalAttrExpr_def getAttrValue_def toSlice_def valuesEqual_def)

text \<open>Filters, by their subfilters.\<close>

lemma evalExpr_logic [simp]:
  "evalExpr (LogicalExpression l LogicalAnd r) as \<longleftrightarrow> evalExpr l as \<and> evalExpr r as"
  "evalExpr (LogicalExpression l LogicalOr r) as \<longleftrightarrow> evalExpr l as \<or> evalExpr r as"
  by (simp_all add: Let_def)

text \<open>Attribute names in a filter are case insensitive: two filters that differ only in the case of the
  attribute and sub-attribute names match the same resources.\<close>

theorem filter_names_fold:
  assumes "expr_fold e e'" "deep_ci_map m"
  shows "evalExpr e m = evalExpr e' m"
  by (rule evalExpr_fold [OF assms])

theorem filter_names_fold_witness:
  "evalExpr (AttrExpression \<lparr>Schema = [], AttributeName = ''userName'', SubAttribute = []\<rparr> OpEq (GStr ''bo'')) [(''USERNAME'', GStr ''Bo'')]
   = evalExpr (AttrExpression \<lparr>Schema = [], AttributeName = ''username'', SubAttribute = []\<rparr> OpEq (GStr ''bo'')) [(''USERNAME'', GStr ''Bo'')]"
  by (rule filter_names_fold)
    (simp_all add: path_fold_def EqualFold_def deep_ci_map_def ci_distinct_def)

text \<open>The ordering operators agree with each other: \<open>gt\<close> is the converse of \<open>lt\<close>, \<open>ge\<close> the negation of
  \<open>lt\<close>, \<open>le\<close> the negation of \<open>gt\<close>, and \<open>eq\<close> is symmetric with \<open>ne\<close> as its negation.\<close>

theorem comparison_laws:
  "compareValues OpGt a b = compareValues OpLt b a \<and>
   compareValues OpGe a b = (\<not> compareValues OpLt a b) \<and>
   compareValues OpLe a b = (\<not> compareValues OpGt a b) \<and>
   compareValues OpNe a b = (\<not> compareValues OpEq a b) \<and>
   compareValues OpEq a b = compareValues OpEq b a"
  using compareOrder_swap [of b a] valuesEqual_sym by auto

text \<open>A resource without the attribute matches \<open>attr co "nil"\<close>: the absent value is printed as \<open><nil>\<close>
  and the text is searched.\<close>

theorem absent_matches_nil:
  assumes "lookupKey as (AttributeName p) = GNil"
  shows "evalExpr (AttrExpression p OpCo (GStr ''nil'')) as"
  using absent_contains_nil [OF assms] by simp

theorem absent_matches_nil_witness:
  "evalExpr (AttrExpression \<lparr>Schema = [], AttributeName = ''title'', SubAttribute = []\<rparr> OpCo (GStr ''nil'')) []"
  by (rule absent_matches_nil) (simp add: lookupKey_def)

end
