(* ===== verification/Filter_Parser.thy ===== *)
theory Filter_Parser
  imports Filter_Syntax
begin

text \<open>
  The recursive-descent parser of SCIM filters (\<open>resource/filter.go\<close>: \<open>ParseFilter\<close> and the
  methods of \<open>filterParser\<close>).  A method returns \<open>Some (Inl e)\<close> for an error and
  \<open>Some (Inr (x, s))\<close> for a node and the remaining input.  The methods form one recursion, through
  the brackets of a nested expression: each takes as first argument \<open>rec\<close> the parser it
  calls behind an opening bracket, which \<open>parseOr\<close> ties to itself with one unit less of fuel.
  The two loops have fuel of their own.  \<open>None\<close> is an exhausted fuel; \<open>ParseFilter_total\<close> shows that the
  length of the input is always enough.
\<close>

type_synonym 'a parsed = "(res_error + ('a \<times> string)) option"

definition andThen :: "'a parsed \<Rightarrow> ('a \<Rightarrow> string \<Rightarrow> 'b parsed) \<Rightarrow> 'b parsed" where
  "andThen m f =
     (case m of None \<Rightarrow> None
      | Some (Inl e) \<Rightarrow> Some (Inl e)
      | Some (Inr (x, s)) \<Rightarrow> f x s)"

text \<open>The closing bracket behind a nested expression.\<close>

definition close :: "char \<Rightarrow> 'a \<Rightarrow> string \<Rightarrow> 'a parsed" where
  "close c x s0 =
     (let s = skipWS s0 in if peek s \<noteq> c then Some (Inl ErrBadFilter) else Some (Inr (x, tl s)))"

definition parseAttrOrValuePath ::
  "(string \<Rightarrow> FilterExpression parsed) \<Rightarrow> string \<Rightarrow> FilterExpression parsed" where
  "parseAttrOrValuePath rec s0 =
     (case parseAttrPath s0 of
        Inl e \<Rightarrow> Some (Inl e)
      | Inr (attrPath, s1) \<Rightarrow>
          (let s = skipWS s1
           in if peek s = CHR ''['' then
                andThen (rec (tl s)) (\<lambda>inner s. close (CHR '']'') (ValuePathExpression attrPath inner) s)
              else (case parseCompareOp s of
                      Inl e \<Rightarrow> Some (Inl e)
                    | Inr (op, s) \<Rightarrow>
                        if op = OpPr then Some (Inr (AttrExpression attrPath OpPr GNil, s))
                        else (case parseCompValue (skipWS s) of
                                Inl e \<Rightarrow> Some (Inl e)
                              | Inr (val, s) \<Rightarrow> Some (Inr (AttrExpression attrPath op val, s))))))"

definition parsePrimary ::
  "(string \<Rightarrow> FilterExpression parsed) \<Rightarrow> string \<Rightarrow> FilterExpression parsed" where
  "parsePrimary rec s0 =
     (let s = skipWS s0
      in if peek s = CHR ''('' then andThen (rec (tl s)) (\<lambda>inner s. close (CHR '')'') inner s)
         else parseAttrOrValuePath rec s)"

definition parseNot ::
  "(string \<Rightarrow> FilterExpression parsed) \<Rightarrow> string \<Rightarrow> FilterExpression parsed" where
  "parseNot rec s0 =
     (case matchKeyword ''not'' (skipWS s0) of
        Some s1 \<Rightarrow>
          (let s = skipWS s1
           in if peek s \<noteq> CHR ''('' then Some (Inl ErrBadFilter)
              else andThen (rec (tl s)) (\<lambda>inner s. close (CHR '')'') (NotExpression inner) s))
      | None \<Rightarrow> parsePrimary rec (skipWS s0))"

primrec andLoop ::
  "(string \<Rightarrow> FilterExpression parsed) \<Rightarrow> nat \<Rightarrow> FilterExpression \<Rightarrow> string \<Rightarrow> FilterExpression parsed" where
  "andLoop rec 0 left s = None"
| "andLoop rec (Suc n) left s =
     (case matchKeyword ''and'' (skipWS s) of
        None \<Rightarrow> Some (Inr (left, skipWS s))
      | Some s1 \<Rightarrow> andThen (parseNot rec s1)
                    (\<lambda>right s. andLoop rec n (LogicalExpression left LogicalAnd right) s))"

definition parseAnd ::
  "(string \<Rightarrow> FilterExpression parsed) \<Rightarrow> string \<Rightarrow> FilterExpression parsed" where
  "parseAnd rec s0 = andThen (parseNot rec s0) (\<lambda>left s. andLoop rec (length s0) left s)"

primrec orLoop ::
  "(string \<Rightarrow> FilterExpression parsed) \<Rightarrow> nat \<Rightarrow> FilterExpression \<Rightarrow> string \<Rightarrow> FilterExpression parsed" where
  "orLoop rec 0 left s = None"
| "orLoop rec (Suc n) left s =
     (case matchKeyword ''or'' (skipWS s) of
        None \<Rightarrow> Some (Inr (left, skipWS s))
      | Some s1 \<Rightarrow> andThen (parseAnd rec s1)
                    (\<lambda>right s. orLoop rec n (LogicalExpression left LogicalOr right) s))"

primrec parseOr :: "nat \<Rightarrow> string \<Rightarrow> FilterExpression parsed" where
  "parseOr 0 = (\<lambda>s0. None)"
| "parseOr (Suc n) =
     (\<lambda>s0. andThen (parseAnd (parseOr n) s0) (\<lambda>left s. orLoop (parseOr n) (length s0) left s))"

lemma andLoop_code [code]:
  "andLoop rec n left s =
     (if n = 0 then None
      else case matchKeyword ''and'' (skipWS s) of
        None \<Rightarrow> Some (Inr (left, skipWS s))
      | Some s1 \<Rightarrow> andThen (parseNot rec s1)
                    (\<lambda>right s. andLoop rec (n - 1) (LogicalExpression left LogicalAnd right) s))"
  by (cases n) (simp_all split: option.split)

lemma orLoop_code [code]:
  "orLoop rec n left s =
     (if n = 0 then None
      else case matchKeyword ''or'' (skipWS s) of
        None \<Rightarrow> Some (Inr (left, skipWS s))
      | Some s1 \<Rightarrow> andThen (parseAnd rec s1)
                    (\<lambda>right s. orLoop rec (n - 1) (LogicalExpression left LogicalOr right) s))"
  by (cases n) (simp_all split: option.split)

lemma parseOr_code [code]:
  "parseOr n s0 =
     (if n = 0 then None
      else andThen (parseAnd (parseOr (n - 1)) s0) (\<lambda>left s. orLoop (parseOr (n - 1)) (length s0) left s))"
  by (cases n) (simp_all split: option.split)

text \<open>The outer option is the fuel; \<open>None\<close> is not reached (\<open>ParseFilter_total\<close>).\<close>

definition ParseFilter_fuel :: "nat \<Rightarrow> string \<Rightarrow> (res_error + FilterExpression) option" where
  "ParseFilter_fuel n s =
     (case parseOr n s of
        None \<Rightarrow> None
      | Some (Inl e) \<Rightarrow> Some (Inl e)
      | Some (Inr (expr, r)) \<Rightarrow> if skipWS r \<noteq> [] then Some (Inl ErrBadFilter) else Some (Inr expr))"

definition ParseFilter :: "string \<Rightarrow> res_error + FilterExpression" where
  "ParseFilter s = the (ParseFilter_fuel (Suc (length s)) s)"

subsection \<open>Progress and termination\<close>

lemma andThen_simps [simp]:
  "andThen None f = None"
  "andThen (Some (Inl e)) f = Some (Inl e)"
  "andThen (Some (Inr (x, s))) f = f x s"
  by (simp_all add: andThen_def)

lemma andThen_Inr:
  "andThen m f = Some (Inr y) \<longleftrightarrow> (\<exists>x s. m = Some (Inr (x, s)) \<and> f x s = Some (Inr y))"
  by (auto simp: andThen_def split: option.splits sum.splits)

lemma andThen_Inl:
  "andThen m f = Some (Inl e) \<longleftrightarrow>
     m = Some (Inl e) \<or> (\<exists>x s. m = Some (Inr (x, s)) \<and> f x s = Some (Inl e))"
  by (auto simp: andThen_def split: option.splits sum.splits)

lemma andThen_None:
  "andThen m f = None \<longleftrightarrow> m = None \<or> (\<exists>x s. m = Some (Inr (x, s)) \<and> f x s = None)"
  by (auto simp: andThen_def split: option.splits sum.splits)

lemma close_Inr: "close c x s = Some (Inr (y, r)) \<Longrightarrow> y = x \<and> length r \<le> length s"
  using skipWS_length [of s] by (auto simp: close_def Let_def split: if_splits)

lemma close_not_None [simp]: "close c x s \<noteq> None"
  by (simp add: close_def Let_def)

lemma close_Inl: "close c x s = Some (Inl e) \<Longrightarrow> e = ErrBadFilter"
  by (simp add: close_def Let_def split: if_splits)

lemma peek_length: "peek s = c \<Longrightarrow> c \<noteq> CHR 0x00 \<Longrightarrow> length (tl s) < length s"
  by (cases s) (auto simp: peek_def)

text \<open>What the methods need of the parser of nested expressions: it consumes input, it fails with
  \<open>ErrBadFilter\<close> only, its nodes satisfy \<open>Q\<close>, and its fuel lasts for inputs shorter than \<open>bound\<close>.\<close>

locale nested_parser =
  fixes rec :: "string \<Rightarrow> FilterExpression parsed" and bound :: nat
    and Q :: "FilterExpression \<Rightarrow> bool"
  assumes rec_shrinks: "rec s = Some (Inr (x, r)) \<Longrightarrow> length r < length s"
    and rec_error: "rec s = Some (Inl e) \<Longrightarrow> e = ErrBadFilter"
    and rec_total: "length s < bound \<Longrightarrow> rec s \<noteq> None"
    and rec_node: "rec s = Some (Inr (x, r)) \<Longrightarrow> Q x"
    and Q_attr: "filter_path p \<Longrightarrow> comp_value v \<Longrightarrow> op = OpPr \<longrightarrow> v = GNil \<Longrightarrow> Q (AttrExpression p op v)"
    and Q_valuePath: "filter_path p \<Longrightarrow> Q x \<Longrightarrow> Q (ValuePathExpression p x)"
    and Q_not: "Q x \<Longrightarrow> Q (NotExpression x)"
    and Q_logical: "Q x \<Longrightarrow> Q y \<Longrightarrow> Q (LogicalExpression x lop y)"
begin

lemma attrOrValuePath_ok:
  assumes "parseAttrOrValuePath rec s = Some (Inr (x, r))"
    and "matchKeyword ''not'' s = None"
  shows "length r < length s \<and> Q x"
proof -
  obtain p t where t: "parseAttrPath s = Inr (p, t)"
    using assms by (auto simp: parseAttrOrValuePath_def split: sum.splits)
  have lt: "length (skipWS t) < length s"
    using parseAttrPath_length [OF t] skipWS_length [of t] by simp
  show ?thesis
  proof (cases "peek (skipWS t) = CHR ''[''")
    case True
    then obtain y u where u: "rec (tl (skipWS t)) = Some (Inr (y, u))"
        "x = ValuePathExpression p y" "length r \<le> length u"
      using assms t by (auto simp: parseAttrOrValuePath_def andThen_Inr Let_def dest!: close_Inr)
    then show ?thesis
      using rec_shrinks [OF u(1)] rec_node [OF u(1)] lt Q_valuePath [OF parseAttrPath_filter_path [OF t assms(2)]]
      by simp
  next
    case False
    then obtain op u where u: "parseCompareOp (skipWS t) = Inr (op, u)"
      using assms t by (auto simp: parseAttrOrValuePath_def Let_def split: sum.splits)
    have lu: "length (skipWS u) < length s" "length u < length s"
      using parseCompareOp_length [OF u] lt skipWS_length [of u] by simp_all
    show ?thesis
    proof (cases "op = OpPr")
      case True
      then show ?thesis using assms t u False lu Q_attr [OF parseAttrPath_filter_path [OF t assms(2)], of GNil]
        by (auto simp: parseAttrOrValuePath_def Let_def)
    next
      case False
      obtain v w where "parseCompValue (skipWS u) = Inr (v, w)"
          "x = AttrExpression p op v" "r = w"
        using assms t u False \<open>peek (skipWS t) \<noteq> CHR ''[''\<close>
        by (auto simp: parseAttrOrValuePath_def Let_def split: sum.splits)
      then show ?thesis
        using lu False Q_attr [OF parseAttrPath_filter_path [OF t assms(2)] parseCompValue_value, of _ v w op]
          parseCompValue_length [of "skipWS u" v w] by auto
    qed
  qed
qed

lemma primary_ok:
  assumes "parsePrimary rec s = Some (Inr (x, r))"
    and "matchKeyword ''not'' s = None"
  shows "length r < length s \<and> Q x"
proof (cases "peek (skipWS s) = CHR ''(''")
  case True
  then obtain t where t: "rec (tl (skipWS s)) = Some (Inr (x, t))" "length r \<le> length t"
    using assms by (auto simp: parsePrimary_def andThen_Inr Let_def dest!: close_Inr)
  then show ?thesis using rec_shrinks [OF t(1)] rec_node [OF t(1)] skipWS_length [of s] by simp
next
  case False
  then have "parseAttrOrValuePath rec (skipWS s) = Some (Inr (x, r))"
    using assms by (simp add: parsePrimary_def Let_def)
  from attrOrValuePath_ok [OF this] show ?thesis
    using assms(2) skipWS_length [of s] by simp
qed

lemma not_ok:
  assumes "parseNot rec s = Some (Inr (x, r))"
  shows "length r < length s \<and> Q x"
proof (cases "matchKeyword ''not'' (skipWS s)")
  case None
  then show ?thesis using assms primary_ok [of "skipWS s"] skipWS_length [of s]
    by (simp add: parseNot_def)
next
  case (Some t)
  have lt: "length (skipWS t) < length s"
    using matchKeyword_length [OF Some] skipWS_length [of s] skipWS_length [of t] by simp
  obtain y u where u: "rec (tl (skipWS t)) = Some (Inr (y, u))" "x = NotExpression y"
    "length r \<le> length u"
    using assms Some by (auto simp: parseNot_def andThen_Inr Let_def split: if_splits dest!: close_Inr)
  then show ?thesis using rec_shrinks [OF u(1)] rec_node [OF u(1)] lt Q_not by auto
qed

lemma andLoop_ok:
  "andLoop rec n left s = Some (Inr (x, r)) \<Longrightarrow> Q left \<Longrightarrow> length r \<le> length s \<and> Q x"
proof (induction n arbitrary: left s)
  case (Suc n)
  show ?case
  proof (cases "matchKeyword ''and'' (skipWS s)")
    case None
    then show ?thesis using Suc.prems skipWS_length [of s] by simp
  next
    case (Some t)
    then obtain y u where u: "parseNot rec t = Some (Inr (y, u))"
      "andLoop rec n (LogicalExpression left LogicalAnd y) u = Some (Inr (x, r))"
      using Suc.prems by (auto simp: andThen_Inr)
    then have "length r \<le> length u \<and> Q x" using Suc.IH not_ok Suc.prems(2) Q_logical by blast
    then show ?thesis
      using not_ok [OF u(1)] matchKeyword_length [OF Some] skipWS_length [of s] by simp
  qed
qed simp

lemma and_ok:
  assumes "parseAnd rec s = Some (Inr (x, r))"
  shows "length r < length s \<and> Q x"
  using assms not_ok andLoop_ok unfolding parseAnd_def andThen_Inr
  by (meson dual_order.strict_trans1 order.strict_trans1)

lemma orLoop_ok:
  "orLoop rec n left s = Some (Inr (x, r)) \<Longrightarrow> Q left \<Longrightarrow> length r \<le> length s \<and> Q x"
proof (induction n arbitrary: left s)
  case (Suc n)
  show ?case
  proof (cases "matchKeyword ''or'' (skipWS s)")
    case None
    then show ?thesis using Suc.prems skipWS_length [of s] by simp
  next
    case (Some t)
    then obtain y u where u: "parseAnd rec t = Some (Inr (y, u))"
      "orLoop rec n (LogicalExpression left LogicalOr y) u = Some (Inr (x, r))"
      using Suc.prems by (auto simp: andThen_Inr)
    then have "length r \<le> length u \<and> Q x" using Suc.IH and_ok Suc.prems(2) Q_logical by blast
    then show ?thesis
      using and_ok [OF u(1)] matchKeyword_length [OF Some] skipWS_length [of s] by simp
  qed
qed simp

lemma or_ok:
  assumes "andThen (parseAnd rec s) (\<lambda>left t. orLoop rec n left t) = Some (Inr (x, r))"
  shows "length r < length s \<and> Q x"
  using assms and_ok orLoop_ok unfolding andThen_Inr
  by (meson order.strict_trans1)

text \<open>Errors.\<close>

lemma attrOrValuePath_err: "parseAttrOrValuePath rec s = Some (Inl e) \<Longrightarrow> e = ErrBadFilter"
  by (auto simp: parseAttrOrValuePath_def Let_def andThen_Inl split: if_splits sum.splits
      dest!: lexer_errors close_Inl rec_error)

lemma primary_err: "parsePrimary rec s = Some (Inl e) \<Longrightarrow> e = ErrBadFilter"
  by (auto simp: parsePrimary_def Let_def andThen_Inl split: if_splits
      dest!: close_Inl rec_error attrOrValuePath_err)

lemma not_err: "parseNot rec s = Some (Inl e) \<Longrightarrow> e = ErrBadFilter"
  by (auto simp: parseNot_def Let_def andThen_Inl split: if_splits option.splits
      dest!: close_Inl rec_error primary_err)

lemma andLoop_err: "andLoop rec n left s = Some (Inl e) \<Longrightarrow> e = ErrBadFilter"
  by (induction n arbitrary: left s)
    (auto simp: andThen_Inl split: option.splits dest: not_err)

lemma and_err: "parseAnd rec s = Some (Inl e) \<Longrightarrow> e = ErrBadFilter"
  by (auto simp: parseAnd_def andThen_Inl dest: andLoop_err not_err)

lemma orLoop_err: "orLoop rec n left s = Some (Inl e) \<Longrightarrow> e = ErrBadFilter"
  by (induction n arbitrary: left s)
    (auto simp: andThen_Inl split: option.splits dest: and_err)

lemma or_err:
  "andThen (parseAnd rec s) (\<lambda>left t. orLoop rec n left t) = Some (Inl e) \<Longrightarrow> e = ErrBadFilter"
  by (auto simp: andThen_Inl dest: orLoop_err and_err)

text \<open>Enough fuel.\<close>

lemma attrOrValuePath_total:
  assumes "length s \<le> bound"
  shows "parseAttrOrValuePath rec s \<noteq> None"
proof (cases "parseAttrPath s")
  case (Inr pt)
  obtain p t where t: "pt = (p, t)" by (cases pt)
  have "length (tl (skipWS t)) < bound"
    using parseAttrPath_length [of s p t] Inr t skipWS_length [of t] assms by simp
  from rec_total [OF this] show ?thesis using Inr t
    by (cases "peek (skipWS t) = CHR ''[''")
      (simp_all add: parseAttrOrValuePath_def Let_def andThen_None split: sum.splits)
qed (simp add: parseAttrOrValuePath_def)

lemma primary_total:
  assumes "length s \<le> bound"
  shows "parsePrimary rec s \<noteq> None"
proof (cases "peek (skipWS s) = CHR ''(''")
  case True
  then have "length (tl (skipWS s)) < bound"
    using peek_length [OF True] skipWS_length [of s] assms by simp
  from rec_total [OF this] show ?thesis using True
    by (simp add: parsePrimary_def Let_def andThen_None)
next
  case False
  then show ?thesis using attrOrValuePath_total [of "skipWS s"] skipWS_length [of s] assms
    by (auto simp: parsePrimary_def Let_def)
qed

lemma not_total:
  assumes "length s \<le> bound"
  shows "parseNot rec s \<noteq> None"
proof (cases "matchKeyword ''not'' (skipWS s)")
  case None
  then show ?thesis using primary_total [of "skipWS s"] skipWS_length [of s] assms
    by (auto simp: parseNot_def)
next
  case (Some t)
  have "length (tl (skipWS t)) < bound"
    using matchKeyword_length [OF Some] skipWS_length [of s] skipWS_length [of t] assms by simp
  from rec_total [OF this] show ?thesis using Some
    by (simp add: parseNot_def Let_def andThen_None del: not_None_eq)
qed

lemma andLoop_total: "length s \<le> bound \<Longrightarrow> length s < n \<Longrightarrow> andLoop rec n left s \<noteq> None"
proof (induction n arbitrary: left s)
  case (Suc n)
  show ?case
  proof (cases "matchKeyword ''and'' (skipWS s)")
    case (Some t)
    have lt: "length t < length s" "length t < n"
      using matchKeyword_length [OF Some] skipWS_length [of s] Suc.prems by simp_all
    then have "andLoop rec n (LogicalExpression left LogicalAnd y) u \<noteq> None"
      if "parseNot rec t = Some (Inr (y, u))" for y u
      using not_ok [OF that] Suc.IH Suc.prems by simp
    then show ?thesis using Some not_total [of t] lt Suc.prems by (auto simp: andThen_None)
  qed simp
qed simp

lemma and_total: "length s \<le> bound \<Longrightarrow> parseAnd rec s \<noteq> None"
  using not_total [of s] not_ok [of s] andLoop_total by (auto simp: parseAnd_def andThen_None)

lemma orLoop_total: "length s \<le> bound \<Longrightarrow> length s < n \<Longrightarrow> orLoop rec n left s \<noteq> None"
proof (induction n arbitrary: left s)
  case (Suc n)
  show ?case
  proof (cases "matchKeyword ''or'' (skipWS s)")
    case (Some t)
    have lt: "length t < length s" "length t < n"
      using matchKeyword_length [OF Some] skipWS_length [of s] Suc.prems by simp_all
    then have "orLoop rec n (LogicalExpression left LogicalOr y) u \<noteq> None"
      if "parseAnd rec t = Some (Inr (y, u))" for y u
      using and_ok [OF that] Suc.IH Suc.prems by simp
    then show ?thesis using Some and_total [of t] lt Suc.prems by (auto simp: andThen_None)
  qed simp
qed simp

lemma or_total:
  assumes "length s \<le> bound"
  shows "andThen (parseAnd rec s) (\<lambda>left t. orLoop rec (length s) left t) \<noteq> None"
  using and_total [OF assms] and_ok [of s] orLoop_total assms by (auto simp: andThen_None)

end

text \<open>The nodes the parser builds.\<close>

fun wf_expr :: "FilterExpression \<Rightarrow> bool" where
  "wf_expr (AttrExpression p op v) = (filter_path p \<and> comp_value v \<and> (op = OpPr \<longrightarrow> v = GNil))"
| "wf_expr (LogicalExpression l op r) = (wf_expr l \<and> wf_expr r)"
| "wf_expr (NotExpression e) = wf_expr e"
| "wf_expr (ValuePathExpression p e) = (filter_path p \<and> wf_expr e)"

lemma parseOr_contract: "nested_parser (parseOr n) n wf_expr"
proof (induction n)
  case 0
  show ?case by unfold_locales (simp_all)
next
  case (Suc n)
  show ?case
  proof
    show "length r < length s" if "parseOr (Suc n) s = Some (Inr (x, r))" for s x r
      using nested_parser.or_ok [OF Suc] that by simp
    show "wf_expr x" if "parseOr (Suc n) s = Some (Inr (x, r))" for s x r
      using nested_parser.or_ok [OF Suc] that by simp
    show "e = ErrBadFilter" if "parseOr (Suc n) s = Some (Inl e)" for s e
      using nested_parser.or_err [OF Suc] that by simp
    show "parseOr (Suc n) s \<noteq> None" if "length s < Suc n" for s
      using nested_parser.or_total [OF Suc] that by simp
  qed simp_all
qed

interpretation filter_rec: nested_parser "parseOr n" n wf_expr for n
  by (rule parseOr_contract)

text \<open>Fuel above what is needed changes nothing.\<close>

lemma andThen_mono:
  assumes "andThen m f = Some z" and "\<And>x. m = Some x \<Longrightarrow> m' = Some x"
    and "\<And>x s w. f x s = Some w \<Longrightarrow> f' x s = Some w"
  shows "andThen m' f' = Some z"
  using assms by (cases m) (auto simp: andThen_def split: sum.splits)

lemma method_mono:
  assumes rec: "\<And>s z. rec s = Some z \<Longrightarrow> rec' s = Some z"
  shows "parseAttrOrValuePath rec s = Some z \<Longrightarrow> parseAttrOrValuePath rec' s = Some z"
    and "parsePrimary rec s = Some z \<Longrightarrow> parsePrimary rec' s = Some z"
    and "parseNot rec s = Some z \<Longrightarrow> parseNot rec' s = Some z"
    and "andLoop rec n left s = Some z \<Longrightarrow> andLoop rec' n left s = Some z"
    and "parseAnd rec s = Some z \<Longrightarrow> parseAnd rec' s = Some z"
    and "orLoop rec n left s = Some z \<Longrightarrow> orLoop rec' n left s = Some z"
proof -
  note m = andThen_mono [OF _ rec]
  show A: "parseAttrOrValuePath rec s = Some z \<Longrightarrow> parseAttrOrValuePath rec' s = Some z" for s z
    by (auto simp: parseAttrOrValuePath_def Let_def split: sum.splits if_splits elim!: m)
  show P: "parsePrimary rec s = Some z \<Longrightarrow> parsePrimary rec' s = Some z" for s z
    by (auto simp: parsePrimary_def Let_def A split: if_splits elim!: m)
  show N: "parseNot rec s = Some z \<Longrightarrow> parseNot rec' s = Some z" for s z
    by (auto simp: parseNot_def Let_def P split: option.splits if_splits elim!: m)
  show AL: "andLoop rec n left s = Some z \<Longrightarrow> andLoop rec' n left s = Some z" for n left s z
    by (induction n arbitrary: left s z)
      (auto split: option.splits elim!: andThen_mono intro: N)
  show PA: "parseAnd rec s = Some z \<Longrightarrow> parseAnd rec' s = Some z" for s z
    unfolding parseAnd_def by (erule andThen_mono) (auto intro: N AL)
  show "orLoop rec n left s = Some z \<Longrightarrow> orLoop rec' n left s = Some z"
    by (induction n arbitrary: left s z)
      (auto split: option.splits elim!: andThen_mono intro: PA)
qed

lemma parseOr_Suc: "parseOr n s = Some z \<Longrightarrow> parseOr (Suc n) s = Some z"
proof (induction n arbitrary: s z)
  case (Suc n)
  have *: "\<And>s z. parseOr n s = Some z \<Longrightarrow> parseOr (Suc n) s = Some z" by (rule Suc.IH)
  show ?case
    using Suc.prems method_mono(5,6) [of "parseOr n" "parseOr (Suc n)", OF *]
    unfolding parseOr.simps(2) [of n] parseOr.simps(2) [of "Suc n"]
    by (elim andThen_mono) (auto simp del: parseOr.simps)
qed simp

lemma parseOr_mono: "n \<le> m \<Longrightarrow> parseOr n s = Some z \<Longrightarrow> parseOr m s = Some z"
  by (induction m rule: dec_induct) (auto intro: parseOr_Suc simp del: parseOr.simps)

lemma ParseFilter_fuel_Some: "ParseFilter_fuel (Suc (length s)) s = Some (ParseFilter s)"
  using filter_rec.rec_total [of s "Suc (length s)"]
  by (auto simp: ParseFilter_def ParseFilter_fuel_def simp del: parseOr.simps
      split: option.splits sum.splits)

lemma ParseFilter_fuel_mono:
  assumes "ParseFilter_fuel n s = Some z"
  shows "ParseFilter s = z"
proof -
  obtain w where w: "parseOr n s = Some w"
    using assms by (auto simp: ParseFilter_fuel_def split: option.splits)
  let ?m = "max n (Suc (length s))"
  have a: "parseOr ?m s = Some w" using parseOr_mono [OF _ w] by simp
  obtain w' where w': "parseOr (Suc (length s)) s = Some w'"
    using filter_rec.rec_total [of s "Suc (length s)"] by auto
  then have "parseOr ?m s = Some w'" using parseOr_mono [OF _ w'] by simp
  then have "parseOr (Suc (length s)) s = parseOr n s" using a w w' by simp
  then show ?thesis using assms by (simp add: ParseFilter_def ParseFilter_fuel_def del: parseOr.simps)
qed

lemma ParseFilter_iff:
  "ParseFilter s = Inr e \<longleftrightarrow> (\<exists>n r. parseOr n s = Some (Inr (e, r)) \<and> skipWS r = [])"
proof
  assume "ParseFilter s = Inr e"
  then obtain r where "parseOr (Suc (length s)) s = Some (Inr (e, r))" "skipWS r = []"
    using ParseFilter_fuel_Some [of s]
    by (auto simp: ParseFilter_fuel_def simp del: parseOr.simps
        split: option.splits sum.splits if_splits)
  then show "\<exists>n r. parseOr n s = Some (Inr (e, r)) \<and> skipWS r = []" by blast
next
  assume "\<exists>n r. parseOr n s = Some (Inr (e, r)) \<and> skipWS r = []"
  then obtain n r where "parseOr n s = Some (Inr (e, r))" "skipWS r = []" by blast
  then have "ParseFilter_fuel n s = Some (Inr e)" by (simp add: ParseFilter_fuel_def)
  then show "ParseFilter s = Inr e" by (rule ParseFilter_fuel_mono)
qed

lemma ParseFilter_wf: "ParseFilter s = Inr e \<Longrightarrow> wf_expr e"
  using filter_rec.rec_node by (auto simp: ParseFilter_iff simp del: parseOr.simps)

lemma ParseFilter_error: "ParseFilter s = Inl e \<Longrightarrow> e = ErrBadFilter"
  using ParseFilter_fuel_Some [of s] filter_rec.rec_error [of "Suc (length s)" s]
  by (auto simp: ParseFilter_fuel_def simp del: parseOr.simps
      split: option.splits sum.splits if_splits)

end
