(* ===== verification/Filter_Print.thy ===== *)
theory Filter_Print
  imports Filter_Parser
begin

text \<open>
  A printer for filter expressions and the round trip through the parser.  It writes parentheses
  only where precedence (\<open>not\<close> over \<open>and\<close> over \<open>or\<close>) and the left associativity of
  the two operators need them, so the round trip says that the parser groups expressions in
  exactly that way.  \<open>ParseFilter\<close> is characterised by the fuel-free relations \<open>yields_or\<close> and
  so on first.
\<close>

subsection \<open>The parser without fuel\<close>

definition yields_or :: "string \<Rightarrow> (res_error + FilterExpression \<times> string) \<Rightarrow> bool" where
  "yields_or s z = (\<exists>n. parseOr n s = Some z)"
definition yields_orLoop :: "FilterExpression \<Rightarrow> string \<Rightarrow> (res_error + FilterExpression \<times> string) \<Rightarrow> bool" where
  "yields_orLoop l s z = (\<exists>n k. orLoop (parseOr n) k l s = Some z)"
definition yields_and :: "string \<Rightarrow> (res_error + FilterExpression \<times> string) \<Rightarrow> bool" where
  "yields_and s z = (\<exists>n. parseAnd (parseOr n) s = Some z)"
definition yields_andLoop :: "FilterExpression \<Rightarrow> string \<Rightarrow> (res_error + FilterExpression \<times> string) \<Rightarrow> bool" where
  "yields_andLoop l s z = (\<exists>n k. andLoop (parseOr n) k l s = Some z)"
definition yields_not :: "string \<Rightarrow> (res_error + FilterExpression \<times> string) \<Rightarrow> bool" where
  "yields_not s z = (\<exists>n. parseNot (parseOr n) s = Some z)"

lemma andLoop_mono_fuel: "k \<le> k' \<Longrightarrow> andLoop rec k l s = Some z \<Longrightarrow> andLoop rec k' l s = Some z"
proof (induction k arbitrary: k' l s z)
  case (Suc k)
  then obtain m where "k' = Suc m" "k \<le> m" by (cases k') auto
  then show ?case using Suc by (auto split: option.splits elim!: andThen_mono)
qed simp

lemma orLoop_mono_fuel: "k \<le> k' \<Longrightarrow> orLoop rec k l s = Some z \<Longrightarrow> orLoop rec k' l s = Some z"
proof (induction k arbitrary: k' l s z)
  case (Suc k)
  then obtain m where "k' = Suc m" "k \<le> m" by (cases k') auto
  then show ?case using Suc by (auto split: option.splits elim!: andThen_mono)
qed simp

lemma rec_mono:
  assumes "n \<le> m"
  shows "parseNot (parseOr n) s = Some z \<Longrightarrow> parseNot (parseOr m) s = Some z"
    and "andLoop (parseOr n) k l s = Some z \<Longrightarrow> andLoop (parseOr m) k l s = Some z"
    and "parseAnd (parseOr n) s = Some z \<Longrightarrow> parseAnd (parseOr m) s = Some z"
    and "orLoop (parseOr n) k l s = Some z \<Longrightarrow> orLoop (parseOr m) k l s = Some z"
  using method_mono [of "parseOr n" "parseOr m", OF parseOr_mono [OF assms]] by blast+

lemma andLoop_any_fuel:
  assumes "andLoop (parseOr n) k l s = Some z" and "n \<le> m" "length s \<le> m" "length s < j"
  shows "andLoop (parseOr m) j l s = Some z"
proof -
  have 1: "andLoop (parseOr m) (max k j) l s = Some z"
    using rec_mono(2) [OF assms(2,1)] by (rule andLoop_mono_fuel [rotated]) simp
  obtain z' where z': "andLoop (parseOr m) j l s = Some z'"
    using filter_rec.andLoop_total [OF assms(3,4)] by auto
  then show ?thesis using 1 andLoop_mono_fuel [OF _ z', of "max k j"] by simp
qed

lemma orLoop_any_fuel:
  assumes "orLoop (parseOr n) k l s = Some z" and "n \<le> m" "length s \<le> m" "length s < j"
  shows "orLoop (parseOr m) j l s = Some z"
proof -
  have 1: "orLoop (parseOr m) (max k j) l s = Some z"
    using rec_mono(4) [OF assms(2,1)] by (rule orLoop_mono_fuel [rotated]) simp
  obtain z' where z': "orLoop (parseOr m) j l s = Some z'"
    using filter_rec.orLoop_total [OF assms(3,4)] by auto
  then show ?thesis using 1 orLoop_mono_fuel [OF _ z', of "max k j"] by simp
qed

lemma yields_or_I:
  assumes "yields_and s (Inr (l, t))" and "yields_orLoop l t z"
  shows "yields_or s z"
proof -
  obtain n where n: "parseAnd (parseOr n) s = Some (Inr (l, t))"
    using assms(1) by (auto simp: yields_and_def)
  obtain n' k where n': "orLoop (parseOr n') k l t = Some z"
    using assms(2) by (auto simp: yields_orLoop_def)
  let ?m = "max (max n n') (length s)"
  have len: "length t < length s" using filter_rec.and_ok [OF n] by simp
  have "parseAnd (parseOr ?m) s = Some (Inr (l, t))" using rec_mono(3) [OF _ n] by simp
  moreover have "orLoop (parseOr ?m) (length s) l t = Some z"
    using orLoop_any_fuel [OF n', of ?m "length s"] len by simp
  ultimately have "parseOr (Suc ?m) s = Some z" by simp
  then show ?thesis unfolding yields_or_def by blast
qed

lemma yields_and_I:
  assumes "yields_not s (Inr (l, t))" and "yields_andLoop l t z"
  shows "yields_and s z"
proof -
  obtain n where n: "parseNot (parseOr n) s = Some (Inr (l, t))"
    using assms(1) by (auto simp: yields_not_def)
  obtain n' k where n': "andLoop (parseOr n') k l t = Some z"
    using assms(2) by (auto simp: yields_andLoop_def)
  let ?m = "max (max n n') (length s)"
  have len: "length t < length s" using filter_rec.not_ok [OF n] by simp
  have "parseNot (parseOr ?m) s = Some (Inr (l, t))" using rec_mono(1) [OF _ n] by simp
  moreover have "andLoop (parseOr ?m) (length s) l t = Some z"
    using andLoop_any_fuel [OF n', of ?m "length s"] len by simp
  ultimately have "parseAnd (parseOr ?m) s = Some z" by (simp add: parseAnd_def)
  then show ?thesis unfolding yields_and_def by blast
qed

lemma yields_orLoop_stop:
  "matchKeyword ''or'' (skipWS s) = None \<Longrightarrow> yields_orLoop l s (Inr (l, skipWS s))"
  unfolding yields_orLoop_def by (rule exI [of _ 0], rule exI [of _ "Suc 0"]) simp

lemma yields_andLoop_stop:
  "matchKeyword ''and'' (skipWS s) = None \<Longrightarrow> yields_andLoop l s (Inr (l, skipWS s))"
  unfolding yields_andLoop_def by (rule exI [of _ 0], rule exI [of _ "Suc 0"]) simp

lemma yields_orLoop_step:
  assumes "matchKeyword ''or'' (skipWS s) = Some t" and "yields_and t (Inr (r, u))"
    and "yields_orLoop (LogicalExpression l LogicalOr r) u z"
  shows "yields_orLoop l s z"
proof -
  obtain n where n: "parseAnd (parseOr n) t = Some (Inr (r, u))"
    using assms(2) by (auto simp: yields_and_def)
  obtain n' k where n': "orLoop (parseOr n') k (LogicalExpression l LogicalOr r) u = Some z"
    using assms(3) by (auto simp: yields_orLoop_def)
  have "parseAnd (parseOr (max n n')) t = Some (Inr (r, u))"
    "orLoop (parseOr (max n n')) k (LogicalExpression l LogicalOr r) u = Some z"
    using rec_mono(3) [OF _ n] rec_mono(4) [OF _ n'] by simp_all
  then have "orLoop (parseOr (max n n')) (Suc k) l s = Some z" using assms(1) by simp
  then show ?thesis unfolding yields_orLoop_def by blast
qed

lemma yields_andLoop_step:
  assumes "matchKeyword ''and'' (skipWS s) = Some t" and "yields_not t (Inr (r, u))"
    and "yields_andLoop (LogicalExpression l LogicalAnd r) u z"
  shows "yields_andLoop l s z"
proof -
  obtain n where n: "parseNot (parseOr n) t = Some (Inr (r, u))"
    using assms(2) by (auto simp: yields_not_def)
  obtain n' k where n': "andLoop (parseOr n') k (LogicalExpression l LogicalAnd r) u = Some z"
    using assms(3) by (auto simp: yields_andLoop_def)
  have "parseNot (parseOr (max n n')) t = Some (Inr (r, u))"
    "andLoop (parseOr (max n n')) k (LogicalExpression l LogicalAnd r) u = Some z"
    using rec_mono(1) [OF _ n] rec_mono(2) [OF _ n'] by simp_all
  then have "andLoop (parseOr (max n n')) (Suc k) l s = Some z" using assms(1) by simp
  then show ?thesis unfolding yields_andLoop_def by blast
qed

lemma skipWS_Cons [simp]: "\<not> is_ws c \<Longrightarrow> skipWS (c # s) = c # s"
  by (simp add: skipWS_def)

lemma skipWS_space [simp]: "skipWS (CHR '' '' # s) = skipWS s"
  by (simp add: skipWS_def is_ws_def)

lemma skipWS_Nil [simp]: "skipWS [] = []"
  by (simp add: skipWS_def)

lemma not_ws_lits [simp]: "\<not> is_ws (CHR ''('')" "\<not> is_ws (CHR '')'')" "\<not> is_ws (CHR '']'')"
  "\<not> is_ws (CHR ''['')" "\<not> is_ws (CHR ''n'')" "\<not> is_ws (CHR ''a'')" "\<not> is_ws (CHR ''o'')"
  by (simp_all add: is_ws_def)

lemma matchKeyword_first:
  assumes "\<not> is_ws c" and "lower_char c \<noteq> lower_char k"
  shows "matchKeyword (k # ks) (c # s) = None"
  using assms by (simp add: matchKeyword_def EqualFold_def Let_def)

lemma matchKeyword_Nil [simp]: "matchKeyword (k # ks) [] = None"
  by (simp add: matchKeyword_def Let_def)

lemma matchKeyword_exact:
  assumes "k \<noteq> []" "\<not> is_ws (hd k)"
  shows "matchKeyword k (k @ CHR '' '' # s) = Some (skipWS s)"
proof -
  obtain c cs where "k = c # cs" using assms by (cases k) auto
  then show ?thesis using assms
    by (simp add: matchKeyword_def Let_def isWordBoundary_def is_ws_def [of "CHR '' ''"])
qed

lemma lower_char_open [simp]: "lower_char (CHR ''('') = CHR ''(''" "lower_char (CHR '')'') = CHR '')''"
  "lower_char (CHR '']'') = CHR '']''"
  by (simp_all add: lower_char_def char_code_def)

lemma yields_not_nested:
  assumes "yields_or s (Inr (e, CHR '')'' # t))"
  shows "yields_not (CHR ''('' # s) (Inr (e, t))"
    and "yields_not (''not ('' @ s) (Inr (NotExpression e, t))"
proof -
  obtain n where n: "parseOr n s = Some (Inr (e, CHR '')'' # t))"
    using assms by (auto simp: yields_or_def)
  have "parseNot (parseOr n) (CHR ''('' # s) = Some (Inr (e, t))"
    using n by (simp add: parseNot_def parsePrimary_def matchKeyword_first
        peek_def close_def)
  then show "yields_not (CHR ''('' # s) (Inr (e, t))" unfolding yields_not_def by blast
  have "matchKeyword ''not'' (''not ('' @ s) = Some (CHR ''('' # s)"
    using matchKeyword_exact [of "''not''" "CHR ''('' # s"] by simp
  then have "parseNot (parseOr n) (''not ('' @ s) = Some (Inr (NotExpression e, t))"
    using n by (simp add: parseNot_def peek_def close_def)
  then show "yields_not (''not ('' @ s) (Inr (NotExpression e, t))" unfolding yields_not_def by blast
qed


subsection \<open>Printing\<close>

fun show_value :: "gval \<Rightarrow> string" where
  "show_value (GBool b) = (if b then ''true'' else ''false'')"
| "show_value (GFloat64 f) = exact_decimal f"
| "show_value (GStr s) = dquote # quote_body s @ [dquote]"
| "show_value _ = ''null''"

definition paren :: "bool \<Rightarrow> string \<Rightarrow> string" where
  "paren b s = (if b then ''('' @ s @ '')'' else s)"

text \<open>The level is what the position admits: 0 any expression, 1 an operand of \<open>and\<close>, 2 one
  without a logical operator.\<close>

fun show_expr :: "nat \<Rightarrow> FilterExpression \<Rightarrow> string" where
  "show_expr k (AttrExpression p op v) =
     path_String p @ '' '' @ CompareOp_String op @ (if op = OpPr then [] else '' '' @ show_value v)"
| "show_expr k (LogicalExpression l LogicalOr r) =
     paren (0 < k) (show_expr 0 l @ '' or '' @ show_expr 1 r)"
| "show_expr k (LogicalExpression l LogicalAnd r) =
     paren (1 < k) (show_expr 1 l @ '' and '' @ show_expr 2 r)"
| "show_expr k (NotExpression e) = ''not ('' @ show_expr 0 e @ '')''"
| "show_expr k (ValuePathExpression p e) = path_String p @ ''['' @ show_expr 0 e @ '']''"

definition show_filter :: "FilterExpression \<Rightarrow> string" where
  "show_filter e = show_expr 0 e"

definition at_boundary :: "string \<Rightarrow> bool" where
  "at_boundary s = (s = [] \<or> hd s = CHR '' '' \<or> hd s = CHR '')'' \<or> hd s = CHR '']'')"

lemma at_boundary_simps [simp]:
  "at_boundary []" "at_boundary (CHR '' '' # s)" "at_boundary (CHR '')'' # s)"
  "at_boundary (CHR '']'' # s)"
  by (simp_all add: at_boundary_def)

lemma at_boundary_word: "at_boundary s \<Longrightarrow> isWordBoundary s"
  by (cases s) (auto simp: at_boundary_def isWordBoundary_def is_ws_def)

subsubsection \<open>Paths, operators and values\<close>

lemma token_append:
  assumes "list_all (\<lambda>c. \<not> is_delim c) a" and "t = [] \<or> is_delim (hd t)"
  shows "token (a @ t) = (a, t)"
  using assms by (cases t) (auto simp: token_def list_all_iff takeWhile_append dropWhile_append)

lemma filter_path_nonempty: "filter_path p \<Longrightarrow> path_String p \<noteq> []"
  by (auto simp: filter_path_def wf_path_def path_String_def)

lemma skipWS_path [simp]: "filter_path p \<Longrightarrow> skipWS (path_String p @ t) = path_String p @ t"
  using filter_path_nonempty [of p]
  by (cases "path_String p") (auto simp: filter_path_def is_delim_def)

lemma skipWS_path' [simp]: "filter_path p \<Longrightarrow> skipWS (path_String p) = path_String p"
  using skipWS_path [of p "[]"] by simp

lemma parseAttrPath_show:
  assumes "filter_path p" and "t = [] \<or> is_delim (hd t)"
  shows "parseAttrPath (path_String p @ t) = Inr (p, t)"
proof -
  have "token (path_String p @ t) = (path_String p, t)"
    using assms by (intro token_append) (simp_all add: filter_path_def)
  moreover have "ParsePath (path_String p) = Inr p"
    using assms by (simp add: ParsePath_iff filter_path_def)
  ultimately show ?thesis using assms filter_path_nonempty by (simp add: parseAttrPath_def)
qed

lemma isAlpha_lower: "isAlpha (lower_char c) = isAlpha c"
  by (auto simp: isAlpha_def lower_char_def Let_def)

lemma isAlpha_not_delim: "isAlpha c \<Longrightarrow> \<not> is_delim c"
  using isNameChar_not [of c] isAlpha_NameChar [of c] by (auto simp: is_delim_def is_ws_def)

lemma EqualFold_alpha:
  assumes "EqualFold s k" "list_all isAlpha k"
  shows "list_all isAlpha s"
proof -
  have "list_all isAlpha (ToLower s)"
    using assms unfolding EqualFold_def
    by (metis (no_types, lifting) ToLower_def isAlpha_lower length_map list_all_length nth_map)
  then show ?thesis by (simp add: ToLower_def list_all_iff isAlpha_lower)
qed

lemma matchKeyword_not_path:
  assumes "filter_path p" and "t = [] \<or> is_delim (hd t)"
  shows "matchKeyword ''not'' (path_String p @ t) = None"
proof (cases "EqualFold (take 3 (path_String p)) ''not''")
  case True
  let ?s = "path_String p"
  have len: "length ''not'' = 3" by simp
  have "3 < length ?s" "isNameChar (?s ! 3)"
    using assms True by (auto simp: filter_path_def Let_def)
  moreover from this have "drop 3 (?s @ t) \<noteq> []" "hd (drop 3 (?s @ t)) = ?s ! 3"
    by (simp_all add: hd_append hd_drop_conv_nth)
  moreover from this have "\<not> isWordBoundary (drop 3 (?s @ t))"
    using \<open>isNameChar (?s ! 3)\<close> isNameChar_not
    by (cases "drop 3 (?s @ t)") (auto simp: isWordBoundary_def is_ws_def)
  ultimately show ?thesis using assms
    unfolding matchKeyword_def Let_def len isNameChar_def
    by (auto simp del: take_append drop_append)
next
  case False
  let ?s = "path_String p"
  have len: "length ''not'' = 3" by simp
  show ?thesis
  proof (cases "3 \<le> length ?s")
    case True
    then have "\<not> EqualFold (take 3 (?s @ t)) ''not''" using False by simp
    then show ?thesis using assms unfolding matchKeyword_def Let_def len
      by (simp del: take_append drop_append)
  next
    case shorter: False
    have "\<not> EqualFold (take 3 (?s @ t)) ''not''" if "t \<noteq> []"
    proof
      assume "EqualFold (take 3 (?s @ t)) ''not''"
      then have "list_all isAlpha (take 3 (?s @ t))"
        by (rule EqualFold_alpha) (simp add: isAlpha_def char_code_def)
      moreover have "hd t \<in> set (take 3 (?s @ t))"
        using shorter that by (cases t) (auto simp: take_Cons' not_le)
      ultimately show False using assms(2) that isAlpha_not_delim by (auto simp: list_all_iff)
    qed
    then show ?thesis using assms shorter unfolding matchKeyword_def Let_def len
      by (cases "t = []") (simp_all del: take_append drop_append)
  qed
qed

lemma op_of_token_String [simp]: "op_of_token (ToLower (CompareOp_String op)) = Some op"
  by (cases op) (simp_all add: op_of_token_def)

lemma skipWS_op [simp]: "skipWS (CompareOp_String op @ t) = CompareOp_String op @ t"
  by (cases op) (simp_all add: skipWS_def is_ws_def)

lemma parseCompareOp_show:
  assumes "t = [] \<or> is_delim (hd t)"
  shows "parseCompareOp (CompareOp_String op @ t) = Inr (op, t)"
proof -
  have nd: "list_all (\<lambda>c. \<not> is_delim c) (CompareOp_String op)"
    by (cases op) (simp_all add: is_delim_def is_ws_def)
  have ws: "skipWS (CompareOp_String op @ t) = CompareOp_String op @ t"
    by (cases op) (simp_all add: skipWS_def is_ws_def)
  show ?thesis by (simp add: parseCompareOp_def ws token_append [OF nd assms])
qed

lemma quote_body_Cons: "quote_body (c # s) = quote_char c @ quote_body s"
  by (simp add: quote_body_def)

lemma scan_string_quoted: "scan_string (quote_body s @ dquote # t) = Some (quote_body s, t)"
proof (induction s)
  case Nil
  show ?case by (cases t) (simp_all add: quote_body_def)
next
  case (Cons c s)
  obtain x y where xy: "quote_body s @ dquote # t = x # y" by (cases "quote_body s") auto
  from Cons show ?case by (auto simp: quote_body_Cons xy)
qed

lemma parseString_show: "parseString (dquote # quote_body s @ dquote # t) = Inr (s, t)"
  by (simp add: parseString_def peek_def scan_string_quoted)

lemma at_boundary_hd:
  "at_boundary (c # t) \<Longrightarrow> \<not> is_digit_char c \<and> c \<noteq> CHR ''.'' \<and> c \<noteq> CHR ''e'' \<and> c \<noteq> CHR ''E''"
  by (auto simp: at_boundary_def is_digit_char_def char_code_def)

lemma scan_digits_nat: "t = [] \<or> \<not> is_digit_char (hd t) \<Longrightarrow> scan_digits (nat_str n @ t) = (nat_str n, t)"
  by (cases t) (auto simp: scan_digits_def)

lemma peek_nat_str [simp]: "peek (nat_str n @ t) \<noteq> CHR ''-''" "peek (nat_str n) \<noteq> CHR ''-''"
  using nat_str_hd [of n] digit_char_not_sign by (auto simp: peek_def)

text \<open>The four parts of a number, one equation for each.\<close>

lemma scan_number_parts:
  assumes "(if peek s = CHR ''-'' then (''-'', tl s) else ([], s)) = (sg, s1)"
    and "scan_digits s1 = (ip, s2)"
    and "(if s2 \<noteq> [] \<and> hd s2 = CHR ''.''
          then (let (d, r) = scan_digits (tl s2) in (CHR ''.'' # d, r)) else ([], s2)) = (fp, s3)"
    and "(if s3 \<noteq> [] \<and> (hd s3 = CHR ''e'' \<or> hd s3 = CHR ''E'')
          then (let r = tl s3;
                    (es, r) = (if r \<noteq> [] \<and> (hd r = CHR ''+'' \<or> hd r = CHR ''-'')
                               then ([hd r], tl r) else ([], r));
                    (d, r) = scan_digits r
                in (hd s3 # es @ d, r))
          else ([], s3)) = (ex, s4)"
  shows "scan_number s = (sg @ ip @ fp @ ex, s4)"
proof -
  have l: "Let (x, y) (\<lambda>(a, b). g a b) = g x y" for x y and g :: "string \<Rightarrow> string \<Rightarrow> string \<times> string"
    by (simp add: Let_def)
  show ?thesis unfolding scan_number_def assms(1) l assms(2) assms(3) assms(4) ..
qed

lemma scan_number_signed:
  fixes sg :: string
  assumes sg: "sg = [] \<or> sg = ''-''" and b: "at_boundary t"
  shows "scan_number (sg @ nat_str a @ t) = (sg @ nat_str a, t)"
    and "scan_number (sg @ nat_str a @ CHR ''e'' # CHR ''-'' # nat_str k @ t) =
      (sg @ nat_str a @ CHR ''e'' # CHR ''-'' # nat_str k, t)"
proof -
  have t: "t = [] \<or> \<not> is_digit_char (hd t)"
    "\<not> (t \<noteq> [] \<and> hd t = CHR ''.'')" "\<not> (t \<noteq> [] \<and> (hd t = CHR ''e'' \<or> hd t = CHR ''E''))"
    using b at_boundary_hd by (cases t; force)+
  have d: "scan_digits (nat_str k @ t) = (nat_str k, t)" for k by (rule scan_digits_nat [OF t(1)])
  have e: "scan_digits (nat_str a @ CHR ''e'' # u) = (nat_str a, CHR ''e'' # u)" for u
    by (rule scan_digits_nat) simp
  have p: "(if peek (sg @ nat_str a @ u) = CHR ''-'' then (''-'', tl (sg @ nat_str a @ u))
      else ([], sg @ nat_str a @ u)) = (sg, nat_str a @ u)" for u
    using sg by (auto simp: peek_def [of "CHR ''-'' # x" for x])
  show "scan_number (sg @ nat_str a @ t) = (sg @ nat_str a, t)"
    using scan_number_parts [OF p d, of "[]" t "[]" t] t(2,3) by simp
  show "scan_number (sg @ nat_str a @ CHR ''e'' # CHR ''-'' # nat_str k @ t) =
      (sg @ nat_str a @ CHR ''e'' # CHR ''-'' # nat_str k, t)"
    using scan_number_parts [OF p e, of "CHR ''-'' # nat_str k @ t" "[]"
        "CHR ''e'' # CHR ''-'' # nat_str k @ t" "CHR ''e'' # CHR ''-'' # nat_str k" t] d
    by simp
qed

lemma scan_number_exact:
  assumes "at_boundary t"
  shows "scan_number (exact_decimal f @ t) = (exact_decimal f, t)"
proof -
  define sg :: string where "sg = (if f_neg f then ''-'' else [])"
  have sg: "sg = [] \<or> sg = ''-''" by (simp add: sg_def)
  show ?thesis
    unfolding exact_decimal_def sg_def [symmetric]
    using scan_number_signed [OF sg assms] by simp
qed

lemma exact_decimal_hd:
  "\<exists>c r. exact_decimal f = c # r \<and> (c = CHR ''-'' \<or> is_digit_char c)"
proof -
  have "\<exists>n u. exact_decimal f = (if f_neg f then ''-'' else []) @ nat_str n @ u"
  proof (cases "0 \<le> f_exp f")
    case True
    then show ?thesis unfolding exact_decimal_def by (intro exI [of _ "[]"] exI) simp
  next
    case False
    then show ?thesis unfolding exact_decimal_def
      by (intro exI [of _ "f_man f * 5 ^ nat (- f_exp f)"] exI [of _ "''e-'' @ nat_str (nat (- f_exp f))"]) simp
  qed
  then obtain n u where "exact_decimal f = (if f_neg f then ''-'' else []) @ nat_str n @ u" by blast
  then show ?thesis using nat_str_hd [of n] by auto
qed

lemma parseCompValue_show:
  assumes "comp_value v" and "at_boundary t"
  shows "parseCompValue (show_value v @ t) = Inr (v, t)"
proof (cases v)
  case (GFloat64 f)
  obtain c r where c: "exact_decimal f = c # r" "c = CHR ''-'' \<or> is_digit_char c"
    using exact_decimal_hd by blast
  then have c': "\<not> is_ws c" "c \<noteq> dquote" "c \<noteq> CHR ''n''" "c \<noteq> CHR ''t''" "c \<noteq> CHR ''f''"
    by (auto simp: is_ws_def dquote_def is_digit_char_def char_code_def)
  have "parseNumber (exact_decimal f @ t) = Inr (f, t)"
    using assms GFloat64 by (simp add: parseNumber_def scan_number_exact ParseFloat_exact_decimal)
  then show ?thesis using GFloat64 c c'
    by (auto simp add: parseCompValue_def HasPrefix_def)
next
  case (GStr s)
  have "\<not> is_ws dquote" by (simp add: is_ws_def dquote_def)
  then show ?thesis using GStr by (simp add: parseCompValue_def parseString_show)
next
  case GNil
  then show ?thesis using at_boundary_word [OF assms(2)]
    by (simp add: parseCompValue_def is_ws_def HasPrefix_def dquote_def)
next
  case (GBool b)
  then show ?thesis using at_boundary_word [OF assms(2)]
    by (simp add: parseCompValue_def is_ws_def HasPrefix_def dquote_def)
qed (use assms in simp_all)

subsubsection \<open>The round trip\<close>

lemma yields_not_comparison:
  assumes p: "filter_path p" and "at_boundary t" and v: "op \<noteq> OpPr \<Longrightarrow> parseCompValue (w @ t) = Inr (v, t)"
    and pr: "op = OpPr \<Longrightarrow> v = GNil"
  shows "yields_not (path_String p @ '' '' @ CompareOp_String op @ (if op = OpPr then [] else '' '' @ w) @ t)
    (Inr (AttrExpression p op v, t))"
proof -
  let ?r = "CHR '' '' # CompareOp_String op @ (if op = OpPr then [] else '' '' @ w) @ t"
  have t: "t = [] \<or> is_delim (hd t)" using assms(2) by (auto simp: at_boundary_def is_delim_def is_ws_def)
  have ws: "skipWS ?r = tl ?r" by (cases op) (simp_all add: is_ws_def)
  have "peek (tl ?r) \<noteq> CHR ''[''" by (cases op) (simp_all add: peek_def)
  moreover have "parseCompareOp (tl ?r) = Inr (op, (if op = OpPr then [] else '' '' @ w) @ t)"
    by (simp only: list.sel, rule parseCompareOp_show) (use t in \<open>auto simp: is_delim_def is_ws_def\<close>)
  moreover have "parseCompValue (skipWS (CHR '' '' # w @ t)) = parseCompValue (w @ t)"
    by (simp add: parseCompValue_def)
  moreover have "parseAttrPath (path_String p @ ?r) = Inr (p, ?r)"
    using p by (intro parseAttrPath_show) (auto simp: is_delim_def is_ws_def)
  ultimately have "parseAttrOrValuePath rec (path_String p @ ?r) = Some (Inr (AttrExpression p op v, t))" for rec
    using v pr by (auto simp add: parseAttrOrValuePath_def Let_def ws)
  moreover have "peek (path_String p @ ?r) \<noteq> CHR ''(''"
    using p filter_path_nonempty [OF p]
    by (cases "path_String p") (auto simp: peek_def filter_path_def is_delim_def)
  moreover have "matchKeyword ''not'' (path_String p @ ?r) = None"
    using p by (rule matchKeyword_not_path) (simp add: is_delim_def is_ws_def)
  ultimately have "parseNot (parseOr 0) (path_String p @ ?r) = Some (Inr (AttrExpression p op v, t))"
    using p by (simp add: parseNot_def parsePrimary_def)
  then show ?thesis unfolding yields_not_def by (intro exI [of _ 0]) simp
qed

lemma yields_not_attr:
  assumes "wf_expr (AttrExpression p op v)" and "at_boundary t"
  shows "yields_not (show_expr k (AttrExpression p op v) @ t) (Inr (AttrExpression p op v, t))"
  using yields_not_comparison [of p t op "show_value v" v] parseCompValue_show [of v t] assms by auto

lemma yields_not_valuePath:
  assumes p: "filter_path p" and "yields_or s (Inr (e, CHR '']'' # t))"
  shows "yields_not (path_String p @ ''['' @ s) (Inr (ValuePathExpression p e, t))"
proof -
  let ?r = "CHR ''['' # s"
  obtain n where n: "parseOr n s = Some (Inr (e, CHR '']'' # t))"
    using assms(2) by (auto simp: yields_or_def)
  have "parseAttrPath (path_String p @ ?r) = Inr (p, ?r)"
    using p by (intro parseAttrPath_show) (auto simp: is_delim_def)
  then have "parseAttrOrValuePath (parseOr n) (path_String p @ ?r)
      = Some (Inr (ValuePathExpression p e, t))"
    using n by (simp add: parseAttrOrValuePath_def peek_def close_def)
  moreover have "peek (path_String p @ ?r) \<noteq> CHR ''(''"
    using p filter_path_nonempty [OF p]
    by (cases "path_String p") (auto simp: peek_def filter_path_def is_delim_def)
  moreover have "matchKeyword ''not'' (path_String p @ ?r) = None"
    using p by (rule matchKeyword_not_path) (simp add: is_delim_def)
  ultimately have "parseNot (parseOr n) (path_String p @ ?r) = Some (Inr (ValuePathExpression p e, t))"
    using p by (simp add: parseNot_def parsePrimary_def)
  then show ?thesis unfolding yields_not_def by auto
qed

text \<open>The three levels together.  An \<open>or\<close> chain is parsed by the loop with the tree so far on the
  left, so the statement for a level hands the printed expression over to the loop.\<close>

definition no_and :: "string \<Rightarrow> bool" where
  "no_and t = (matchKeyword ''and'' t = None)"

definition level_or :: "FilterExpression \<Rightarrow> bool" where
  "level_or e = (\<forall>t z. at_boundary t \<longrightarrow> no_and t \<longrightarrow> yields_orLoop e (skipWS t) z \<longrightarrow>
     yields_or (show_expr 0 e @ t) z)"
definition level_and :: "FilterExpression \<Rightarrow> bool" where
  "level_and e = (\<forall>t z. at_boundary t \<longrightarrow> yields_andLoop e t z \<longrightarrow>
     yields_and (show_expr 1 e @ t) z)"
definition level_not :: "FilterExpression \<Rightarrow> bool" where
  "level_not e = (\<forall>t. at_boundary t \<longrightarrow> yields_not (show_expr 2 e @ t) (Inr (e, t)))"

lemma level_not_and:
  assumes "level_not e" "show_expr 1 e = show_expr 2 e"
  shows "level_and e"
  using assms yields_and_I unfolding level_and_def level_not_def by metis

lemma level_and_or:
  assumes "level_and e" "show_expr 0 e = show_expr 1 e"
  shows "level_or e"
proof (unfold level_or_def, intro allI impI)
  fix t z assume t: "at_boundary t" "no_and t" "yields_orLoop e (skipWS t) z"
  have "yields_andLoop e t (Inr (e, skipWS t))"
    using t(2) by (intro yields_andLoop_stop) (simp add: no_and_def)
  then have "yields_and (show_expr 1 e @ t) (Inr (e, skipWS t))"
    using assms(1) t(1) unfolding level_and_def by blast
  then show "yields_or (show_expr 0 e @ t) z" using t(3) assms(2) yields_or_I by simp
qed

lemma matchKeyword_closed:
  "matchKeyword (k # ks) (CHR '')'' # t) = None" "matchKeyword (k # ks) (CHR '']'' # t) = None"
  if "k \<noteq> CHR '')''" "k \<noteq> CHR '']''" "lower_char k = k"
  using that by (auto intro!: matchKeyword_first)

lemma level_or_closed:
  assumes "level_or e" "t = [] \<or> hd t = CHR '')'' \<or> hd t = CHR '']''"
  shows "yields_or (show_expr 0 e @ t) (Inr (e, t))"
proof -
  have ws: "skipWS t = t" using assms(2) by (cases t) auto
  have "matchKeyword ''or'' t = None" "matchKeyword ''and'' t = None"
    using assms(2) by (cases t; auto simp: matchKeyword_closed)+
  moreover from this have "yields_orLoop e (skipWS t) (Inr (e, t))"
    using yields_orLoop_stop [of t e] ws by simp
  moreover have "at_boundary t" using assms(2) by (auto simp: at_boundary_def)
  ultimately show ?thesis using assms(1) unfolding level_or_def no_and_def by blast
qed

lemma level_or_paren:
  assumes "level_or e" "show_expr 2 e = paren True (show_expr 0 e)"
  shows "level_not e"
  using yields_not_nested(1) [OF level_or_closed [OF assms(1)]] assms(2)
  by (auto simp: level_not_def paren_def)

lemma show_expr_nows:
  assumes "wf_expr e"
  shows "skipWS (show_expr k e @ t) = show_expr k e @ t"
  using assms
  by (induction k e arbitrary: t rule: show_expr.induct)
    (auto simp: paren_def simp del: comp_value.simps)

lemma matchKeyword_or: "matchKeyword ''or'' ('' or '' @ s) = Some (skipWS s)"
  using matchKeyword_exact [of "''or''" s] matchKeyword_skipWS [of "''or''" "'' or '' @ s"]
  by (simp del: matchKeyword_skipWS)

lemma matchKeyword_and: "matchKeyword ''and'' ('' and '' @ s) = Some (skipWS s)"
  using matchKeyword_exact [of "''and''" s] matchKeyword_skipWS [of "''and''" "'' and '' @ s"]
  by (simp del: matchKeyword_skipWS)

lemma no_and_or: "no_and ('' or '' @ s)"
  using matchKeyword_skipWS [of "''and''" "'' or '' @ s"]
  by (simp add: no_and_def matchKeyword_first del: matchKeyword_skipWS)

lemma level_or_Or:
  assumes "level_or l" "level_and r" "wf_expr r"
  shows "level_or (LogicalExpression l LogicalOr r)"
proof (unfold level_or_def, intro allI impI)
  fix t z
  assume t: "at_boundary t" "no_and t" "yields_orLoop (LogicalExpression l LogicalOr r) (skipWS t) z"
  let ?s = "'' or '' @ show_expr 1 r @ t"
  have "yields_andLoop r t (Inr (r, skipWS t))"
    using t(2) by (intro yields_andLoop_stop) (simp add: no_and_def)
  then have "yields_and (show_expr 1 r @ t) (Inr (r, skipWS t))"
    using assms(2) t(1) unfolding level_and_def by blast
  moreover have "matchKeyword ''or'' (skipWS (skipWS ?s)) = Some (show_expr 1 r @ t)"
    by (simp only: matchKeyword_skipWS matchKeyword_or show_expr_nows [OF assms(3)])
  ultimately have "yields_orLoop l (skipWS ?s) z" using t(3) yields_orLoop_step by blast
  then have "yields_or (show_expr 0 l @ ?s) z"
    using assms(1) no_and_or unfolding level_or_def by simp
  then show "yields_or (show_expr 0 (LogicalExpression l LogicalOr r) @ t) z"
    by (simp add: paren_def)
qed

lemma level_and_And:
  assumes "level_and l" "level_not r" "wf_expr r"
  shows "level_and (LogicalExpression l LogicalAnd r)"
proof (unfold level_and_def, intro allI impI)
  fix t z
  assume t: "at_boundary t" "yields_andLoop (LogicalExpression l LogicalAnd r) t z"
  let ?s = "'' and '' @ show_expr 2 r @ t"
  have "yields_not (show_expr 2 r @ t) (Inr (r, t))"
    using assms(2) t(1) unfolding level_not_def by blast
  moreover have "matchKeyword ''and'' (skipWS ?s) = Some (show_expr 2 r @ t)"
    by (simp only: matchKeyword_skipWS matchKeyword_and show_expr_nows [OF assms(3)])
  ultimately have "yields_andLoop l ?s z" using t(2) yields_andLoop_step by blast
  then have "yields_and (show_expr 1 l @ ?s) z"
    using assms(1) unfolding level_and_def by simp
  then show "yields_and (show_expr 1 (LogicalExpression l LogicalAnd r) @ t) z"
    by (simp add: paren_def)
qed

lemma levels: "wf_expr e \<Longrightarrow> level_or e \<and> level_and e \<and> level_not e"
proof (induction e)
  case (AttrExpression p op v)
  have "level_not (AttrExpression p op v)"
    using yields_not_attr [OF AttrExpression] by (simp add: level_not_def del: show_expr.simps)
  then show ?case using level_not_and level_and_or by simp
next
  case (LogicalExpression l op r)
  show ?case
  proof (cases op)
    case LogicalAnd
    then have "level_and (LogicalExpression l LogicalAnd r)"
      using LogicalExpression level_and_And by simp
    moreover from this have "level_or (LogicalExpression l LogicalAnd r)"
      by (rule level_and_or) (simp add: paren_def)
    moreover from this have "level_not (LogicalExpression l LogicalAnd r)"
      by (rule level_or_paren) (simp add: paren_def)
    ultimately show ?thesis using LogicalAnd by simp
  next
    case LogicalOr
    then have "level_or (LogicalExpression l LogicalOr r)"
      using LogicalExpression level_or_Or by simp
    moreover from this have "level_not (LogicalExpression l LogicalOr r)"
      by (rule level_or_paren) (simp add: paren_def)
    moreover from this have "level_and (LogicalExpression l LogicalOr r)"
      by (rule level_not_and) (simp add: paren_def)
    ultimately show ?thesis using LogicalOr by simp
  qed
next
  case (NotExpression e)
  have "level_not (NotExpression e)"
    using yields_not_nested(2) [OF level_or_closed] NotExpression by (simp add: level_not_def)
  then show ?case using level_not_and level_and_or by simp
next
  case (ValuePathExpression p e)
  have "level_not (ValuePathExpression p e)"
    using yields_not_valuePath [OF _ level_or_closed] ValuePathExpression by (simp add: level_not_def)
  then show ?case using level_not_and level_and_or by simp
qed

lemma parse_show: "wf_expr e \<Longrightarrow> ParseFilter (show_filter e) = Inr e"
  using level_or_closed [of e "[]"] levels [of e] unfolding ParseFilter_iff show_filter_def yields_or_def
  by (metis append_Nil2 skipWS_Nil)

lemma parse_show_parse: "ParseFilter s = Inr e \<Longrightarrow> ParseFilter (show_filter e) = Inr e"
  by (rule parse_show) (rule ParseFilter_wf)

text \<open>C1: The filter parser is the exact inverse of the printer.  A filter expression is read back
  from its printed form if and only if it is one the grammar can express, so the parser groups
  \<open>not\<close>, \<open>and\<close>, \<open>or\<close> and parentheses by precedence and left associativity, and every string, number
  and keyword literal survives.\<close>

theorem filter_round_trip: "ParseFilter (show_filter e) = Inr e \<longleftrightarrow> wf_expr e"
  using parse_show ParseFilter_wf by blast

text \<open>C21: The recursive descent terminates: one unit of fuel more than the length of the input, or any
  larger amount, is enough, and the result no longer depends on the fuel.\<close>

theorem filter_parser_terminates: "ParseFilter_fuel (Suc (length s) + k) s = Some (ParseFilter s)"
proof -
  obtain z where "parseOr (Suc (length s) + k) s = Some z"
    using filter_rec.rec_total [of s "Suc (length s) + k"] by auto
  then have "\<exists>z. ParseFilter_fuel (Suc (length s) + k) s = Some z"
    by (auto simp: ParseFilter_fuel_def simp del: parseOr.simps split: sum.splits prod.splits)
  then show ?thesis using ParseFilter_fuel_mono by auto
qed

end
