(* ===== verification/Patch_Path.thy ===== *)
theory Patch_Path
  imports Filter_Print
begin

text \<open>
  The target of a PATCH operation (\<open>resource/path.go\<close>: \<open>PatchPath\<close>, \<open>ParsePatchPath\<close>):
  an attribute path, or \<open>attr[filter]\<close> with an optional \<open>.sub\<close> behind the bracket.  The filter
  runs from the first opening to the last closing bracket.
\<close>

record PatchPath =
  Attribute :: attr_path
  ValueFilter :: "FilterExpression option"
  PSubAttribute :: string

definition ParsePatchPath :: "string \<Rightarrow> res_error + PatchPath" where
  "ParsePatchPath s =
     (if s = [] then Inl ErrBadPath
      else (case cut_first (CHR ''['') s of
          None \<Rightarrow>
            (case ParsePath s of Inl e \<Rightarrow> Inl e
             | Inr p \<Rightarrow> Inr \<lparr>Attribute = p, ValueFilter = None, PSubAttribute = []\<rparr>)
        | Some (attrStr, behind) \<Rightarrow>
            (case ParsePath attrStr of Inl e \<Rightarrow> Inl e
             | Inr attr \<Rightarrow>
               (case cut_last (CHR '']'') behind of
                  None \<Rightarrow> Inl ErrBadPath
                | Some (filterStr, rest) \<Rightarrow>
                  (case ParseFilter filterStr of Inl e \<Rightarrow> Inl e
                   | Inr flt \<Rightarrow>
                     if rest = [] then
                       Inr \<lparr>Attribute = attr, ValueFilter = Some flt, PSubAttribute = []\<rparr>
                     else if \<not> HasPrefix rest ''.'' then Inl ErrBadPath
                     else if \<not> isValidAttrName (tl rest) then Inl ErrBadPath
                     else Inr \<lparr>Attribute = attr, ValueFilter = Some flt, PSubAttribute = tl rest\<rparr>)))))"

definition show_patch_path :: "PatchPath \<Rightarrow> string" where
  "show_patch_path p =
     path_String (Attribute p) @
     (case ValueFilter p of None \<Rightarrow> []
      | Some f \<Rightarrow> ''['' @ show_filter f @ '']'' @
                 (if PSubAttribute p = [] then [] else CHR ''.'' # PSubAttribute p))"

definition wf_patch_path :: "PatchPath \<Rightarrow> bool" where
  "wf_patch_path p =
     (wf_path (Attribute p) \<and> CHR ''['' \<notin> set (path_String (Attribute p)) \<and>
      (case ValueFilter p of None \<Rightarrow> PSubAttribute p = []
       | Some f \<Rightarrow> wf_expr f \<and> (PSubAttribute p = [] \<or> isValidAttrName (PSubAttribute p))))"

lemma valid_name_no_bracket: "isValidAttrName s \<Longrightarrow> CHR '']'' \<notin> set s"
  using valid_name_chars isNameChar_not by blast

lemma path_String_nonempty: "wf_path p \<Longrightarrow> path_String p \<noteq> []"
  by (auto simp: wf_path_def path_String_def)

lemma ParsePatchPath_show:
  assumes "wf_patch_path p"
  shows "ParsePatchPath (show_patch_path p) = Inr p"
proof (cases "ValueFilter p")
  case None
  have "ParsePath (path_String (Attribute p)) = Inr (Attribute p)"
    using assms by (simp add: ParsePath_iff wf_patch_path_def)
  then show ?thesis
    using assms None path_String_nonempty [of "Attribute p"]
    by (simp add: ParsePatchPath_def show_patch_path_def wf_patch_path_def)
next
  case (Some f)
  let ?tail = "if PSubAttribute p = [] then [] else CHR ''.'' # PSubAttribute p"
  have wf: "wf_path (Attribute p)" "CHR ''['' \<notin> set (path_String (Attribute p))" "wf_expr f"
    "PSubAttribute p = [] \<or> isValidAttrName (PSubAttribute p)"
    using assms Some by (auto simp: wf_patch_path_def)
  have nb: "CHR '']'' \<notin> set ?tail" using wf(4) valid_name_no_bracket by auto
  have s: "show_patch_path p =
      path_String (Attribute p) @ CHR ''['' # (show_filter f @ CHR '']'' # ?tail)"
    using Some by (simp add: show_patch_path_def)
  have "ParsePath (path_String (Attribute p)) = Inr (Attribute p)"
    using wf(1) by (simp add: ParsePath_iff)
  then show ?thesis
    unfolding ParsePatchPath_def s cut_first_append [OF wf(2)]
    using nb wf(3,4) Some parse_show [of f]
    by (auto simp: HasPrefix_def cut_last_append simp del: not_None_eq split: if_splits)
qed

text \<open>Conversely every path the parser returns is well formed.\<close>

lemma ParsePatchPath_wf:
  assumes "ParsePatchPath s = Inr p"
  shows "wf_patch_path p"
proof (cases "cut_first (CHR ''['') s")
  case None
  then have "CHR ''['' \<notin> set s" by (simp add: cut_first_None_iff)
  then show ?thesis using assms None
    by (auto simp: ParsePatchPath_def wf_patch_path_def ParsePath_iff split: if_splits sum.splits)
next
  case (Some ab)
  obtain a b where ab: "ab = (a, b)" by (cases ab)
  have "CHR ''['' \<notin> set a" using cut_first_SomeD Some ab by blast
  then show ?thesis using assms Some ab
    by (auto simp: ParsePatchPath_def wf_patch_path_def ParsePath_iff dest!: ParseFilter_wf
        split: if_splits sum.splits option.splits)
qed

lemma ParsePatchPath_error: "ParsePatchPath s = Inl e \<Longrightarrow> e = ErrBadPath \<or> e = ErrBadFilter"
  by (auto simp: ParsePatchPath_def dest!: ParseFilter_error ParsePath_error
      split: if_splits sum.splits option.splits)

text \<open>A PATCH target, with or without a value filter and a sub-attribute, is read back from its
  printed form exactly when it is well formed.\<close>

theorem patch_path_round_trip: "ParsePatchPath (show_patch_path p) = Inr p \<longleftrightarrow> wf_patch_path p"
  using ParsePatchPath_show ParsePatchPath_wf by blast

end
