(* ===== verification/Patch.thy ===== *)
theory Patch
  imports Accessor Filter_Eval Patch_Path
begin

text \<open>
  PATCH requests (\<open>resource/patch.go\<close>): decoding of the request body, and the three operations
  applied in order to a clone of the resource.  The code updates maps and slices in place inside
  the clone; the updated values are written back at the paths they were read from, and no
  update reaches a value through a second path, so values suffice.
\<close>

datatype PatchOpType = PatchOpAdd | PatchOpRemove | PatchOpReplace

record PatchOp =
  Op :: PatchOpType
  Path :: "PatchPath option"
  Value :: gval

record PatchRequest =
  RSchemas :: "string list"
  Operations :: "PatchOp list"

subsection \<open>Decoding\<close>

text \<open>The first key of the range that matches decides, also when its value is no string.\<close>

definition lookupMapString :: "attrs \<Rightarrow> string \<Rightarrow> string option" where
  "lookupMapString m key =
     (case find (\<lambda>(k, v). ToLower k = ToLower key) m of
        Some (_, GStr str) \<Rightarrow> Some str | _ \<Rightarrow> None)"

definition op_of_string :: "string \<Rightarrow> PatchOpType option" where
  "op_of_string s =
     (if s = ''add'' then Some PatchOpAdd else if s = ''remove'' then Some PatchOpRemove
      else if s = ''replace'' then Some PatchOpReplace else None)"

definition field_fold :: "attrs \<Rightarrow> string \<Rightarrow> gval option" where
  "field_fold m key =
     (case map_of m key of Some v \<Rightarrow> Some v
      | None \<Rightarrow> map_option snd (find (\<lambda>(k, v). EqualFold k key) m))"

text \<open>The errors of \<open>parsePatchOp\<close> are used for their text alone.\<close>

definition patch_op_path :: "attrs \<Rightarrow> string + PatchPath option" where
  "patch_op_path m =
     (case lookupMapString m ''path'' of
        None \<Rightarrow> Inr None
      | Some pathStr \<Rightarrow>
          if pathStr = [] then Inr None
          else (case ParsePatchPath pathStr of
                  Inl e \<Rightarrow> Inl (''invalid path '' @ Quote pathStr @ '': '' @ res_error_text e)
                | Inr pp \<Rightarrow> Inr (Some pp)))"

definition parsePatchOp :: "attrs \<Rightarrow> string + PatchOp" where
  "parsePatchOp m =
     (case lookupMapString m ''op'' of
        None \<Rightarrow> Inl ''missing 'op' field''
      | Some opStr \<Rightarrow>
        (case op_of_string (ToLower opStr) of
           None \<Rightarrow> Inl (''unknown op: '' @ Quote opStr)
         | Some opt \<Rightarrow>
           (case patch_op_path m of
              Inl e \<Rightarrow> Inl e
            | Inr path \<Rightarrow>
                Inr \<lparr>Op = opt, Path = path,
                     Value = (case field_fold m ''value'' of Some v \<Rightarrow> v | None \<Rightarrow> GNil)\<rparr>)))"

definition schema_strings :: "gval option \<Rightarrow> string list" where
  "schema_strings v = (case v of Some (GArr sv) \<Rightarrow> str_items sv | Some (GStrs sv) \<Rightarrow> sv | _ \<Rightarrow> [])"

definition parse_operation :: "nat \<times> gval \<Rightarrow> res_error + PatchOp" where
  "parse_operation iop =
     (case iop of (i, opRaw) \<Rightarrow>
       (case opRaw of
          GMap opMap \<Rightarrow>
            (case parsePatchOp opMap of
               Inl e \<Rightarrow> Inl (ErrBadPatch ('': operation '' @ nat_str i @ '': '' @ e))
             | Inr op \<Rightarrow> Inr op)
        | _ \<Rightarrow> Inl (ErrBadPatch ('': operation '' @ nat_str i @ '' is not an object''))))"

definition ParsePatchRequest :: "attrs \<Rightarrow> res_error + PatchRequest" where
  "ParsePatchRequest body =
     (case field_fold body ''Operations'' of
        None \<Rightarrow> Inl (ErrBadPatch [])
      | Some (GArr ops) \<Rightarrow>
        (case map_sum_list parse_operation (enumerate 0 ops) of
           Inl e \<Rightarrow> Inl e
         | Inr os \<Rightarrow> Inr \<lparr>RSchemas = schema_strings (map_of body ''schemas''), Operations = os\<rparr>)
      | Some _ \<Rightarrow> Inl (ErrBadPatch []))"

subsection \<open>Applying an operation\<close>

text \<open>\<open>for k, v := range vm { setAttr(m, k, v) }\<close>.\<close>

definition merge_attrs :: "attrs \<Rightarrow> attrs \<Rightarrow> attrs" where
  "merge_attrs m vm = foldl (\<lambda>m (k, v). setAttr m k v) m vm"

text \<open>The value an attribute path holds, nil when absent.\<close>

definition existing :: "resource \<Rightarrow> attr_path \<Rightarrow> gval" where
  "existing r path = (case Get r path of Some v \<Rightarrow> v | None \<Rightarrow> GNil)"

definition getMultiValued :: "resource \<Rightarrow> attr_path \<Rightarrow> gval list option" where
  "getMultiValued r path =
     (case Get r path of None \<Rightarrow> None
      | Some val \<Rightarrow> (case toSlice val of None \<Rightarrow> Some [val] | Some arr \<Rightarrow> Some arr))"

text \<open>The bodies of the loops over the elements of an array.\<close>

definition set_matching :: "FilterExpression \<Rightarrow> string \<Rightarrow> gval \<Rightarrow> gval \<Rightarrow> gval" where
  "set_matching flt sub value elem =
     (case elem of
        GMap m \<Rightarrow>
          (if evalExpr flt m then
             (if sub \<noteq> [] then GMap (setAttr m sub value)
              else (case value of GMap vm \<Rightarrow> GMap (merge_attrs m vm) | _ \<Rightarrow> value))
           else elem)
      | _ \<Rightarrow> elem)"

definition set_sub :: "string \<Rightarrow> gval \<Rightarrow> gval \<Rightarrow> gval" where
  "set_sub sub value elem = (case elem of GMap m \<Rightarrow> GMap (setAttr m sub value) | _ \<Rightarrow> elem)"

definition delete_sub :: "string \<Rightarrow> gval \<Rightarrow> gval" where
  "delete_sub sub elem = (case elem of GMap m \<Rightarrow> GMap (deleteAttr m sub) | _ \<Rightarrow> elem)"

definition delete_matching :: "FilterExpression \<Rightarrow> string \<Rightarrow> gval \<Rightarrow> gval" where
  "delete_matching flt sub elem =
     (case elem of GMap m \<Rightarrow> if evalExpr flt m then GMap (deleteAttr m sub) else elem | _ \<Rightarrow> elem)"

definition elem_matches :: "FilterExpression \<Rightarrow> gval \<Rightarrow> bool" where
  "elem_matches flt elem = (case elem of GMap m \<Rightarrow> evalExpr flt m | _ \<Rightarrow> False)"

text \<open>The branch for a sub-attribute without a filter that \<open>applyAdd\<close> and \<open>applyReplace\<close> share.\<close>

definition set_sub_attribute :: "resource \<Rightarrow> attr_path \<Rightarrow> string \<Rightarrow> gval \<Rightarrow> resource" where
  "set_sub_attribute r path sub value =
     (case toSlice (existing r path) of
        Some arr \<Rightarrow> Set r path (GArr (map (set_sub sub value) arr))
      | None \<Rightarrow>
        (case existing r path of
           GMap m \<Rightarrow> Set r path (GMap (setAttr m sub value))
         | _ \<Rightarrow> Set r path (GMap [(sub, value)])))"

definition applyAdd :: "resource \<Rightarrow> PatchOp \<Rightarrow> res_error + resource" where
  "applyAdd r op =
     (case Path op of
        None \<Rightarrow>
          (case Value op of
             GMap m \<Rightarrow> Inr (r\<lparr>Attributes := merge_attrs (Attributes r) m\<rparr>)
           | _ \<Rightarrow> Inl (ErrBadPatch '': add without path requires object value''))
      | Some pp \<Rightarrow>
          (case ValueFilter pp of
             None \<Rightarrow>
               if PSubAttribute pp = [] then
                 (case toSlice (existing r (Attribute pp)) of
                    Some arr \<Rightarrow>
                      Inr (Set r (Attribute pp)
                        (GArr (case toSlice (Value op) of
                                 Some newArr \<Rightarrow> arr @ newArr | None \<Rightarrow> arr @ [Value op])))
                  | None \<Rightarrow> Inr (Set r (Attribute pp) (Value op)))
               else Inr (set_sub_attribute r (Attribute pp) (PSubAttribute pp) (Value op))
           | Some flt \<Rightarrow>
               (case getMultiValued r (Attribute pp) of
                  None \<Rightarrow> Inl ErrNoTarget
                | Some arr \<Rightarrow>
                    Inr (Set r (Attribute pp)
                      (GArr (map (set_matching flt (PSubAttribute pp) (Value op)) arr))))))"

definition applyRemove :: "resource \<Rightarrow> PatchOp \<Rightarrow> res_error + resource" where
  "applyRemove r op =
     (case Path op of
        None \<Rightarrow> Inl ErrNoTarget
      | Some pp \<Rightarrow>
          (case ValueFilter pp of
             None \<Rightarrow>
               if PSubAttribute pp = [] then Inr (Delete r (Attribute pp))
               else (case toSlice (existing r (Attribute pp)) of
                       Some arr \<Rightarrow>
                         Inr (Set r (Attribute pp) (GArr (map (delete_sub (PSubAttribute pp)) arr)))
                     | None \<Rightarrow>
                       (case existing r (Attribute pp) of
                          GMap m \<Rightarrow> Inr (Set r (Attribute pp) (GMap (deleteAttr m (PSubAttribute pp))))
                        | _ \<Rightarrow> Inr r))
           | Some flt \<Rightarrow>
               (case getMultiValued r (Attribute pp) of
                  None \<Rightarrow> Inr r
                | Some arr \<Rightarrow>
                    if PSubAttribute pp = [] then
                      Inr (Set r (Attribute pp) (GArr (filter (\<lambda>e. \<not> elem_matches flt e) arr)))
                    else
                      Inr (Set r (Attribute pp)
                        (GArr (map (delete_matching flt (PSubAttribute pp)) arr))))))"

definition applyReplace :: "resource \<Rightarrow> PatchOp \<Rightarrow> res_error + resource" where
  "applyReplace r op =
     (case Path op of
        None \<Rightarrow>
          (case Value op of
             GMap m \<Rightarrow> Inr (r\<lparr>Attributes := merge_attrs (Attributes r) m\<rparr>)
           | _ \<Rightarrow> Inl (ErrBadPatch '': replace without path requires object value''))
      | Some pp \<Rightarrow>
          (case ValueFilter pp of
             None \<Rightarrow>
               if PSubAttribute pp = [] then Inr (Set r (Attribute pp) (Value op))
               else Inr (set_sub_attribute r (Attribute pp) (PSubAttribute pp) (Value op))
           | Some flt \<Rightarrow>
               (case getMultiValued r (Attribute pp) of
                  None \<Rightarrow> Inr (Set r (Attribute pp) (Value op))
                | Some arr \<Rightarrow>
                    Inr (Set r (Attribute pp)
                      (GArr (map (set_matching flt (PSubAttribute pp) (Value op)) arr))))))"

definition applyOp :: "resource \<Rightarrow> PatchOp \<Rightarrow> res_error + resource" where
  "applyOp r op =
     (case Op op of
        PatchOpAdd \<Rightarrow> applyAdd r op
      | PatchOpRemove \<Rightarrow> applyRemove r op
      | PatchOpReplace \<Rightarrow> applyReplace r op)"

definition ApplyPatch :: "resource \<Rightarrow> PatchOp list \<Rightarrow> res_error + resource" where
  "ApplyPatch r ops = fold_sum applyOp (Clone r) ops"

subsection \<open>Decoded requests\<close>

definition wf_patch_op :: "PatchOp \<Rightarrow> bool" where
  "wf_patch_op op = (case Path op of None \<Rightarrow> True | Some pp \<Rightarrow> wf_patch_path pp)"

lemma parsePatchOp_wf: "parsePatchOp m = Inr op \<Longrightarrow> wf_patch_op op"
  by (auto simp: parsePatchOp_def wf_patch_op_def patch_op_path_def dest: ParsePatchPath_wf
      split: option.splits sum.splits if_splits)

lemma parse_operation_Inr: "parse_operation (i, v) = Inr op \<Longrightarrow> wf_patch_op op"
  by (cases v) (auto simp: parse_operation_def dest: parsePatchOp_wf split: sum.splits)

lemma parse_operation_Inl: "parse_operation (i, v) = Inl e \<Longrightarrow> \<exists>s. e = ErrBadPatch s"
  by (cases v) (auto simp: parse_operation_def split: sum.splits)

lemma ParsePatchRequest_ok:
  assumes "ParsePatchRequest body = Inr req"
  shows "\<exists>ops. field_fold body ''Operations'' = Some (GArr ops) \<and>
    length (Operations req) = length ops \<and> list_all wf_patch_op (Operations req)"
proof (cases "field_fold body ''Operations''")
  case None
  then show ?thesis using assms by (simp add: ParsePatchRequest_def)
next
  case (Some v)
  then obtain ops where ops: "v = GArr ops"
    using assms by (cases v) (simp_all add: ParsePatchRequest_def)
  then have m: "map_sum_list parse_operation (enumerate 0 ops) = Inr (Operations req)"
    using assms Some by (auto simp: ParsePatchRequest_def split: sum.splits)
  have "wf_patch_op op" if mem: "op \<in> set (Operations req)" for op
  proof -
    obtain i where "i < length (Operations req)" "op = Operations req ! i"
      using mem by (metis in_set_conv_nth)
    then have "parse_operation (enumerate 0 ops ! i) = Inr op"
      using m by (auto simp: map_sum_list_Inr_iff list_all2_conv_all_nth)
    then show ?thesis using parse_operation_Inr by (cases "enumerate 0 ops ! i") simp
  qed
  then show ?thesis using Some ops map_sum_list_length [OF m] by (simp add: list_all_iff)
qed

text \<open>Every error is \<open>ErrBadPatch\<close> of the package \<open>resource\<close>.\<close>

lemma ParsePatchRequest_error:
  assumes "ParsePatchRequest body = Inl e"
  shows "\<exists>s. e = ErrBadPatch s"
proof (cases "field_fold body ''Operations''")
  case None
  then show ?thesis using assms by (auto simp: ParsePatchRequest_def)
next
  case (Some v)
  show ?thesis
  proof (cases v)
    case (GArr ops)
    then have "map_sum_list parse_operation (enumerate 0 ops) = Inl e"
      using assms Some by (auto simp: ParsePatchRequest_def split: sum.splits)
    then obtain x where "parse_operation x = Inl e" by (auto simp: map_sum_list_Inl)
    then show ?thesis using parse_operation_Inl by (cases x) blast
  qed (use assms Some in \<open>auto simp: ParsePatchRequest_def\<close>)
qed

subsection \<open>What a patch keeps\<close>

lemma lookup_merge:
  "ci_distinct m \<Longrightarrow> lookupAttr (merge_attrs m vm) x =
     (case find (\<lambda>(n, v). EqualFold n x) (rev vm) of Some (n, v) \<Rightarrow> v | None \<Rightarrow> lookupAttr m x)"
  unfolding merge_attrs_def by (rule ci.lookup_puts)

lemma getMultiValued_existing:
  "getMultiValued r p =
     (if existing r p = GNil then None
      else case toSlice (existing r p) of None \<Rightarrow> Some [existing r p] | Some arr \<Rightarrow> Some arr)"
  by (auto simp: getMultiValued_def existing_def Get_def Let_def split: option.splits gval.splits if_splits)

context value_pred
begin

lemma existing_ok:
  assumes "Pm (Attributes r)"
  shows "P (existing r p)"
proof -
  let ?v = "lookupAttr (Attributes r) (AttributeName p)"
  have d: "P ?v" using assms by (rule P_lookup)
  moreover have "P (lookupAttr m (SubAttribute p))" if "?v = GMap m" for m
    using d that P_lookup by (simp add: P_map)
  ultimately show ?thesis using P_nil
    by (cases ?v) (simp_all add: existing_def Get_def Let_def split: option.splits)
qed

lemma multi_ok: "Pm (Attributes r) \<Longrightarrow> getMultiValued r p = Some vs \<Longrightarrow> list_all P vs"
  using existing_ok [of r p] P_slice
  by (auto simp: getMultiValued_existing split: if_splits option.splits)

lemma merge_ok: "Pm m \<Longrightarrow> Pm vm \<Longrightarrow> Pm (merge_attrs m vm)"
proof -
  have "Pm m \<Longrightarrow> \<forall>(k, v) \<in> set vm. P v \<Longrightarrow> Pm (foldl (\<lambda>m (k, v). setAttr m k v) m vm)"
    by (induction vm arbitrary: m) (auto intro: Pm_put)
  then show "Pm m \<Longrightarrow> Pm vm \<Longrightarrow> Pm (merge_attrs m vm)"
    using Pm_in by (auto simp: merge_attrs_def)
qed

lemma map_ok: "list_all P vs \<Longrightarrow> (\<And>v. P v \<Longrightarrow> P (f v)) \<Longrightarrow> P (GArr (map f vs))"
  by (auto simp: P_arr list_all_iff)

lemma elem_ok:
  "P v \<Longrightarrow> P e \<Longrightarrow> P (set_matching flt sub v e)"
  "P v \<Longrightarrow> P e \<Longrightarrow> P (set_sub sub v e)"
  "P e \<Longrightarrow> P (delete_sub sub e)"
  "P e \<Longrightarrow> P (delete_matching flt sub e)"
  by (auto simp: set_matching_def set_sub_def delete_sub_def delete_matching_def P_map
      intro!: Pm_put Pm_del merge_ok split: gval.splits)

lemma set_sub_attribute_ok:
  assumes "Pm (Attributes r)" "P v"
  shows "Pm (Attributes (set_sub_attribute r p s v))"
proof (cases "toSlice (existing r p)")
  case None
  have "Pm (Attributes (Set r p (GMap (setAttr m s v))))" if "existing r p = GMap m" for m
    using existing_ok [OF assms(1), of p] that assms by (simp add: P_map Set_keeps Pm_put)
  moreover have "Pm (Attributes (Set r p (GMap [(s, v)])))"
    using assms(1) Pm_single [OF assms(2)] by (rule Set_keeps)
  ultimately show ?thesis using None by (simp add: set_sub_attribute_def split: gval.splits)
next
  case (Some arr)
  then show ?thesis using P_slice [OF existing_ok [OF assms(1)] Some] assms
    by (simp add: set_sub_attribute_def Set_keeps map_ok elem_ok)
qed

lemma applyAdd_ok:
  assumes "Pm (Attributes r)" "P (Value op)" "applyAdd r op = Inr r'"
  shows "Pm (Attributes r')"
proof (cases "Path op")
  case None
  then show ?thesis using assms by (auto simp: applyAdd_def P_map merge_ok split: gval.splits)
next
  case (Some pp)
  show ?thesis
  proof (cases "ValueFilter pp")
    case None
    have "Pm (Attributes (Set r (Attribute pp) (GArr (case toSlice (Value op) of
        Some newArr \<Rightarrow> arr @ newArr | None \<Rightarrow> arr @ [Value op]))))"
      if "toSlice (existing r (Attribute pp)) = Some arr" for arr
      using P_slice [OF existing_ok [OF assms(1)] that] P_slice [OF assms(2)] assms(1,2)
      by (cases "toSlice (Value op)") (simp_all add: Set_keeps P_arr)
    then show ?thesis using assms Some None set_sub_attribute_ok Set_keeps
      by (cases "toSlice (existing r (Attribute pp))") (auto simp: applyAdd_def split: if_splits)
  next
    case (Some flt)
    then show ?thesis using assms \<open>Path op = Some pp\<close> multi_ok [OF assms(1), of "Attribute pp"]
      by (auto simp: applyAdd_def Set_keeps map_ok elem_ok split: option.splits)
  qed
qed

lemma applyRemove_ok:
  assumes "Pm (Attributes r)" "applyRemove r op = Inr r'"
  shows "Pm (Attributes r')"
proof (cases "Path op")
  case None
  then show ?thesis using assms by (simp add: applyRemove_def)
next
  case (Some pp)
  show ?thesis
  proof (cases "ValueFilter pp")
    case None
    have "Pm (Attributes (Set r (Attribute pp) (GArr (map (delete_sub (PSubAttribute pp)) arr))))"
      if "toSlice (existing r (Attribute pp)) = Some arr" for arr
      using P_slice [OF existing_ok [OF assms(1)] that] assms(1) by (simp add: Set_keeps map_ok elem_ok)
    moreover have "Pm (Attributes (Set r (Attribute pp) (GMap (deleteAttr m (PSubAttribute pp)))))"
      if "existing r (Attribute pp) = GMap m" for m
      using existing_ok [OF assms(1), of "Attribute pp"] that assms(1) by (simp add: P_map Set_keeps Pm_del)
    ultimately show ?thesis using assms Some None Delete_keeps
      by (auto simp: applyRemove_def split: if_splits option.splits gval.splits)
  next
    case (Some flt)
    have "P (GArr (filter Q arr))" if "getMultiValued r (Attribute pp) = Some arr" for Q arr
      using multi_ok [OF assms(1) that] by (simp add: P_arr list_all_iff)
    then show ?thesis using Some assms \<open>Path op = Some pp\<close> multi_ok [OF assms(1), of "Attribute pp"]
      by (auto simp: applyRemove_def Set_keeps map_ok elem_ok split: option.splits if_splits)
  qed
qed

lemma applyReplace_ok:
  assumes "Pm (Attributes r)" "P (Value op)" "applyReplace r op = Inr r'"
  shows "Pm (Attributes r')"
proof (cases "Path op")
  case None
  then show ?thesis using assms by (auto simp: applyReplace_def P_map merge_ok split: gval.splits)
next
  case (Some pp)
  show ?thesis
  proof (cases "ValueFilter pp")
    case None
    then show ?thesis using assms Some set_sub_attribute_ok Set_keeps
      by (auto simp: applyReplace_def split: if_splits)
  next
    case (Some flt)
    then show ?thesis using assms \<open>Path op = Some pp\<close> multi_ok [OF assms(1), of "Attribute pp"]
      by (auto simp: applyReplace_def Set_keeps map_ok elem_ok split: option.splits)
  qed
qed

lemma applyOp_ok:
  "Pm (Attributes r) \<Longrightarrow> P (Value op) \<Longrightarrow> applyOp r op = Inr r' \<Longrightarrow> Pm (Attributes r')"
  using applyAdd_ok [of r op r'] applyRemove_ok [of r op r'] applyReplace_ok [of r op r']
  by (cases "Op op") (simp_all add: applyOp_def)

lemma ApplyPatch_ok:
  assumes "Pm (Attributes (Clone r))" "\<forall>op \<in> set ops. P (Value op)" "ApplyPatch r ops = Inr r'"
  shows "Pm (Attributes r')"
  using assms(3) unfolding ApplyPatch_def
proof (rule fold_sum_invariant [where P = "\<lambda>s. Pm (Attributes s)"])
  show "Pm (Attributes (Clone r))" by (rule assms(1))
  show "Pm (Attributes s')" if "op \<in> set ops" "Pm (Attributes s)" "applyOp s op = Inr s'" for s op s'
    using applyOp_ok [OF that(2) _ that(3)] assms(2) that(1) by blast
qed

end

lemmas ApplyPatch_deep_ci = ci_values.ApplyPatch_ok
lemmas ApplyPatch_is_json = json_values.ApplyPatch_ok

text \<open>The fields of a resource are out of reach of a patch.\<close>

lemmas patch_defs = applyOp_def applyAdd_def applyRemove_def applyReplace_def set_sub_attribute_def

lemma Set_fields [simp]:
  "ID (Set r p v) = ID r" "ExternalID (Set r p v) = ExternalID r" "Meta (Set r p v) = Meta r"
  "Schemas (Set r p v) = Schemas r"
  by (auto simp: Set_def Let_def split: gval.splits)

lemma Delete_fields [simp]:
  "ID (Delete r p) = ID r" "ExternalID (Delete r p) = ExternalID r" "Meta (Delete r p) = Meta r"
  "Schemas (Delete r p) = Schemas r"
  by (auto simp: Delete_def Let_def split: gval.splits)

lemma set_sub_attribute_fields [simp]:
  "ID (set_sub_attribute r p s v) = ID r" "ExternalID (set_sub_attribute r p s v) = ExternalID r"
  "Meta (set_sub_attribute r p s v) = Meta r" "Schemas (set_sub_attribute r p s v) = Schemas r"
  by (simp_all add: set_sub_attribute_def split: option.splits gval.splits)

definition same_fields :: "resource \<Rightarrow> resource \<Rightarrow> bool" where
  "same_fields r s = (ID s = ID r \<and> ExternalID s = ExternalID r \<and> Meta s = Meta r \<and> Schemas s = Schemas r)"

lemma apply_fields:
  "applyAdd r op = Inr r' \<Longrightarrow> same_fields r r'"
  "applyRemove r op = Inr r' \<Longrightarrow> same_fields r r'"
  "applyReplace r op = Inr r' \<Longrightarrow> same_fields r r'"
  by (auto simp: same_fields_def applyAdd_def applyRemove_def applyReplace_def
      split: option.splits gval.splits if_splits)

lemma applyOp_fields: "applyOp r op = Inr r' \<Longrightarrow> same_fields r r'"
  using apply_fields by (auto simp: applyOp_def split: PatchOpType.splits)

lemma ApplyPatch_fields: "ApplyPatch r ops = Inr r' \<Longrightarrow> same_fields (Clone r) r'"
  unfolding ApplyPatch_def
  by (erule fold_sum_invariant [where P = "same_fields (Clone r)"])
    (auto dest: applyOp_fields simp: same_fields_def)

text \<open>The attribute names an operation can introduce.\<close>

definition op_names :: "PatchOp \<Rightarrow> string set" where
  "op_names op = (case Path op of
     Some pp \<Rightarrow> {AttributeName (Attribute pp)}
   | None \<Rightarrow> (case Value op of GMap m \<Rightarrow> fst ` set m | _ \<Rightarrow> {}))"

lemma setAttr_keys: "fst ` set (setAttr m n v) \<subseteq> insert n (fst ` set m)"
  using fold_key_Some [of m n] by (auto simp: setAttr_def split: option.splits)

lemma write_back_keys: "fst ` set (write_back m n v) \<subseteq> insert n (fst ` set m)"
  using fold_key_Some [of m n]
  by (auto simp: write_back_def lookup_key_def split: option.splits)

lemma Set_keys: "fst ` set (Attributes (Set r p v)) \<subseteq> insert (AttributeName p) (fst ` set (Attributes r))"
proof (cases "SubAttribute p = []")
  case True
  then show ?thesis using setAttr_keys by (simp add: Set_def Let_def)
next
  case False
  have "fst ` set (setAttr (write_back m n v) n v) \<subseteq> insert n (fst ` set m)" for m n v
    using setAttr_keys [of "write_back m n v" n v] write_back_keys [of m n v] by blast
  then show ?thesis using False setAttr_keys
    by (cases "lookupAttr (Attributes r) (AttributeName p)") (simp_all add: Set_def Let_def)
qed

lemma Delete_keys: "fst ` set (Attributes (Delete r p)) \<subseteq> insert (AttributeName p) (fst ` set (Attributes r))"
proof -
  have "fst ` set (deleteAttr m n) \<subseteq> fst ` set m" for m :: attrs and n
    by (simp add: deleteAttr_def split: option.splits)
  then show ?thesis using write_back_keys
    by (cases "lookupAttr (Attributes r) (AttributeName p)")
      (simp_all add: Delete_def Let_def subset_insertI2)
qed

lemma merge_keys: "fst ` set (merge_attrs m vm) \<subseteq> fst ` set m \<union> fst ` set vm"
  unfolding merge_attrs_def
proof (induction vm arbitrary: m)
  case (Cons kv vm)
  show ?case using Cons.IH [of "setAttr m (fst kv) (snd kv)"] setAttr_keys [of m "fst kv" "snd kv"]
    by (auto simp: case_prod_beta)
qed simp

lemma setAttr_distinct: "distinct (keys m) \<Longrightarrow> distinct (keys (setAttr m n v))"
  by (auto simp: setAttr_def split: option.splits)

lemma write_back_distinct: "distinct (keys m) \<Longrightarrow> distinct (keys (write_back m n v))"
  by (auto simp: write_back_def split: option.splits)

lemma Set_distinct: "distinct (keys (Attributes r)) \<Longrightarrow> distinct (keys (Attributes (Set r p v)))"
  by (cases "lookupAttr (Attributes r) (AttributeName p)")
    (simp_all add: Set_def Let_def setAttr_distinct write_back_distinct)

lemma Delete_distinct: "distinct (keys (Attributes r)) \<Longrightarrow> distinct (keys (Attributes (Delete r p)))"
  by (cases "lookupAttr (Attributes r) (AttributeName p)"; cases "fold_key (Attributes r) (AttributeName p)")
    (simp_all add: Delete_def Let_def deleteAttr_def write_back_distinct distinct_map_del)

lemma merge_distinct: "distinct (keys m) \<Longrightarrow> distinct (keys (merge_attrs m vm))"
  unfolding merge_attrs_def by (induction vm arbitrary: m) (auto intro: setAttr_distinct)

text \<open>An operation writes at one path, deletes at one path, or merges.\<close>

lemma applyOp_cases:
  assumes "applyOp r op = Inr r'"
  obtains (merge) m where "Path op = None" "Value op = GMap m"
      "r' = r\<lparr>Attributes := merge_attrs (Attributes r) m\<rparr>"
  | (path) pp v where "Path op = Some pp" "r' = Set r (Attribute pp) v \<or> r' = Delete r (Attribute pp) \<or> r' = r"
proof (cases "Path op")
  case None
  then obtain m where "Value op = GMap m" "r' = r\<lparr>Attributes := merge_attrs (Attributes r) m\<rparr>"
    using assms by (cases "Op op"; cases "Value op") (simp_all add: patch_defs)
  then show thesis using None merge by blast
next
  case (Some pp)
  then have "(\<exists>v. r' = Set r (Attribute pp) v) \<or> r' = Delete r (Attribute pp) \<or> r' = r"
    using assms by (auto simp: patch_defs split: PatchOpType.splits option.splits gval.splits if_splits)
  then show thesis using Some path by blast
qed

lemma applyOp_distinct:
  assumes "applyOp r op = Inr r'" "distinct (keys (Attributes r))"
  shows "distinct (keys (Attributes r'))"
  using assms(1)
proof (cases rule: applyOp_cases)
  case (merge m)
  then show ?thesis using assms(2) by (simp add: merge_distinct)
next
  case (path pp v)
  then show ?thesis using assms(2) by (auto simp: Set_distinct Delete_distinct)
qed

lemma applyOp_keys:
  assumes "applyOp r op = Inr r'"
  shows "fst ` set (Attributes r') \<subseteq> op_names op \<union> fst ` set (Attributes r)"
  using assms
proof (cases rule: applyOp_cases)
  case (merge m)
  then show ?thesis using merge_keys [of "Attributes r" m] by (auto simp: op_names_def)
next
  case (path pp v)
  then show ?thesis using Set_keys [of r "Attribute pp" v] Delete_keys [of r "Attribute pp"]
    by (auto simp: op_names_def)
qed

lemma ApplyPatch_keys:
  assumes "ApplyPatch r ops = Inr r'"
  shows "fst ` set (Attributes r') \<subseteq> (\<Union>op \<in> set ops. op_names op) \<union> fst ` set (Attributes (Clone r))"
  using assms unfolding ApplyPatch_def
proof (rule fold_sum_invariant [where P = "\<lambda>s. fst ` set (Attributes s) \<subseteq>
    (\<Union>op \<in> set ops. op_names op) \<union> fst ` set (Attributes (Clone r))"])
  show "fst ` set (Attributes s') \<subseteq> (\<Union>op \<in> set ops. op_names op) \<union> fst ` set (Attributes (Clone r))"
    if "op \<in> set ops" "fst ` set (Attributes s) \<subseteq> (\<Union>op \<in> set ops. op_names op) \<union> fst ` set (Attributes (Clone r))"
      "applyOp s op = Inr s'" for s op s'
    using applyOp_keys [OF that(3)] that(1,2) by blast
qed simp

subsection \<open>What the operations do\<close>

lemma lookupAttr_GNil_Get: "Get r p = None \<longleftrightarrow> existing r p = GNil"
  by (auto simp: existing_def Get_def Let_def split: gval.splits)

lemma existing_Set: "deep_ci_resource r \<Longrightarrow> v \<noteq> GNil \<Longrightarrow> existing (Set r p v) p = v"
  by (simp add: existing_def Get_Set)

lemma existing_Delete: "deep_ci_resource r \<Longrightarrow> existing (Delete r p) p = GNil"
  by (simp add: existing_def Get_Delete)

text \<open>The path of an operation without brackets, and with a filter.\<close>

definition plain_path :: "attr_path \<Rightarrow> PatchPath" where
  "plain_path a = \<lparr>Attribute = a, ValueFilter = None, PSubAttribute = []\<rparr>"

definition value_path :: "attr_path \<Rightarrow> FilterExpression \<Rightarrow> string \<Rightarrow> PatchPath" where
  "value_path a flt sub = \<lparr>Attribute = a, ValueFilter = Some flt, PSubAttribute = sub\<rparr>"

lemma apply_plain:
  "applyOp r \<lparr>Op = PatchOpReplace, Path = Some (plain_path a), Value = v\<rparr> = Inr (Set r a v)"
  "applyOp r \<lparr>Op = PatchOpRemove, Path = Some (plain_path a), Value = v\<rparr> = Inr (Delete r a)"
  "applyOp r \<lparr>Op = PatchOpAdd, Path = Some (plain_path a), Value = v\<rparr> =
     Inr (Set r a (case toSlice (existing r a) of
       Some arr \<Rightarrow> GArr (arr @ (case toSlice v of Some vs \<Rightarrow> vs | None \<Rightarrow> [v]))
     | None \<Rightarrow> v))"
  by (auto simp: patch_defs plain_path_def split: option.splits)

lemma apply_valued:
  assumes "getMultiValued r a = Some arr"
  shows "applyOp r \<lparr>Op = PatchOpReplace, Path = Some (value_path a flt sub), Value = v\<rparr> =
      Inr (Set r a (GArr (map (set_matching flt sub v) arr)))"
    and "applyOp r \<lparr>Op = PatchOpAdd, Path = Some (value_path a flt sub), Value = v\<rparr> =
      Inr (Set r a (GArr (map (set_matching flt sub v) arr)))"
    and "applyOp r \<lparr>Op = PatchOpRemove, Path = Some (value_path a flt sub), Value = v\<rparr> =
      Inr (Set r a (GArr (if sub = [] then filter (\<lambda>e. \<not> elem_matches flt e) arr
                          else map (delete_matching flt sub) arr)))"
  using assms by (simp_all add: patch_defs value_path_def)

lemma apply_valued_absent:
  assumes "getMultiValued r a = None"
  shows "applyOp r \<lparr>Op = PatchOpReplace, Path = Some (value_path a flt sub), Value = v\<rparr> = Inr (Set r a v)"
    and "applyOp r \<lparr>Op = PatchOpAdd, Path = Some (value_path a flt sub), Value = v\<rparr> = Inl ErrNoTarget"
    and "applyOp r \<lparr>Op = PatchOpRemove, Path = Some (value_path a flt sub), Value = v\<rparr> = Inr r"
  using assms by (simp_all add: patch_defs value_path_def)

lemma set_matching_props:
  assumes "deep_ci e" "sub \<noteq> []"
  shows "elem_matches flt e \<Longrightarrow> \<exists>m. set_matching flt sub v e = GMap m \<and> lookupAttr m sub = v"
    and "\<not> elem_matches flt e \<Longrightarrow> set_matching flt sub v e = e"
  using assms
  by (auto simp: set_matching_def elem_matches_def ci.lookup_put deep_ci_map_ci split: gval.splits)

lemma ApplyPatch_append:
  "ApplyPatch r (ops @ ops') =
     (case ApplyPatch r ops of Inl e \<Rightarrow> Inl e | Inr s \<Rightarrow> fold_sum applyOp s ops')"
  by (simp add: ApplyPatch_def fold_sum_append)

lemma fold_sum_single [simp]: "fold_sum f s [x] = f s x"
  by (simp split: sum.splits)

subsection \<open>Properties\<close>


definition sample_user :: resource where
  "sample_user = empty_resource\<lparr>ID := ''7'', ExternalID := ''old'',
     Attributes := [(''emails'', GArr [GMap [(''type'', GStr ''work'')], GMap [(''type'', GStr ''home'')]])]\<rparr>"

definition attr_named :: "string \<Rightarrow> attr_path" where
  "attr_named n = \<lparr>Schema = [], AttributeName = n, SubAttribute = []\<rparr>"

definition type_eq :: "string \<Rightarrow> FilterExpression" where
  "type_eq s = AttrExpression (attr_named ''type'') OpEq (GStr s)"

lemma sample_user_wf: "wf_resource sample_user"
  by (simp add: sample_user_def wf_resource_def wf_attrs_def reserved_def ToLower_def empty_resource_def)

lemma sample_user_ci: "deep_ci_resource sample_user"
  by (simp add: sample_user_def deep_ci_resource_def deep_ci_map_def ci_distinct_def)

lemma sample_user_emails:
  "getMultiValued sample_user (attr_named ''emails'') =
     Some [GMap [(''type'', GStr ''work'')], GMap [(''type'', GStr ''home'')]]"
  by code_simp


text \<open>C27: Removing \<open>attr[filter]\<close> leaves exactly the elements that do not match the filter, in their
  order.\<close>

theorem patch_remove_matching:
  assumes "deep_ci_resource r" "getMultiValued r a = Some arr"
  shows "\<exists>r'. applyOp r \<lparr>Op = PatchOpRemove, Path = Some (value_path a flt []), Value = v\<rparr> = Inr r' \<and>
    existing r' a = GArr (filter (\<lambda>e. \<not> elem_matches flt e) arr)"
  using apply_valued(3) [OF assms(2)] existing_Set [OF assms(1)] by simp

theorem patch_remove_matching_witness:
  "\<exists>r'. applyOp sample_user \<lparr>Op = PatchOpRemove,
       Path = Some (value_path (attr_named ''emails'') (type_eq ''work'') []), Value = GNil\<rparr> = Inr r' \<and>
     existing r' (attr_named ''emails'') = GArr [GMap [(''type'', GStr ''home'')]]"
proof -
  have "filter (\<lambda>e. \<not> elem_matches (type_eq ''work'') e) [GMap [(''type'', GStr ''work'')], GMap [(''type'', GStr ''home'')]]
      = [GMap [(''type'', GStr ''home'')]]"
    by code_simp
  with patch_remove_matching [OF sample_user_ci sample_user_emails, of "type_eq ''work''" GNil]
  show ?thesis by simp
qed

text \<open>C28: Replacing \<open>attr[filter].sub\<close> sets the sub-attribute in every matching element and changes no other
  element; length and order of the array stay.\<close>

theorem patch_replace_matching:
  assumes "deep_ci_resource r" "getMultiValued r a = Some arr" "sub \<noteq> []"
  shows "\<exists>r' arr'. applyOp r \<lparr>Op = PatchOpReplace, Path = Some (value_path a flt sub), Value = v\<rparr> = Inr r' \<and>
    existing r' a = GArr arr' \<and>
    list_all2 (\<lambda>e e'. if elem_matches flt e then (\<exists>m. e' = GMap m \<and> lookupAttr m sub = v) else e' = e) arr arr'"
proof -
  have "deep_ci e" if "e \<in> set arr" for e
    using ci_values.multi_ok [of r a arr] assms(1,2) that by (auto simp: deep_ci_resource_def list_all_iff)
  then have "list_all2 (\<lambda>e e'. if elem_matches flt e then (\<exists>m. e' = GMap m \<and> lookupAttr m sub = v) else e' = e)
      arr (map (set_matching flt sub v) arr)"
    using set_matching_props [OF _ assms(3)] by (auto simp: list_all2_map2 intro!: list.rel_refl_strong)
  then show ?thesis
    using apply_valued(1) [OF assms(2)] existing_Set [OF assms(1)] by simp
qed

theorem patch_replace_matching_witness:
  "\<exists>r' arr'. applyOp sample_user \<lparr>Op = PatchOpReplace,
       Path = Some (value_path (attr_named ''emails'') (type_eq ''work'') ''value''), Value = GStr ''w@x''\<rparr> = Inr r' \<and>
     existing r' (attr_named ''emails'') = GArr arr' \<and> length arr' = 2"
  using patch_replace_matching [OF sample_user_ci sample_user_emails, of "''value''" "type_eq ''work''" "GStr ''w@x''"]
  by (auto dest: list_all2_lengthD)

text \<open>A PATCH that replaces \<open>externalId\<close> of a resource that has one is accepted and has no effect on the
  representation: the value goes among the other attributes and \<open>ToMap\<close> writes the old field over
  it.\<close>

theorem external_id_patch_lost:
  assumes "wf_resource r" "ExternalID r \<noteq> []"
  shows "\<exists>r'. ApplyPatch r [\<lparr>Op = PatchOpReplace, Path = Some (plain_path (attr_named ''externalId'')), Value = v\<rparr>] = Inr r' \<and>
    map_of (ToMap r') ''externalId'' = Some (GStr (ExternalID r))"
proof -
  let ?r' = "Set (Clone r) (attr_named ''externalId'') v"
  have "ApplyPatch r [\<lparr>Op = PatchOpReplace, Path = Some (plain_path (attr_named ''externalId'')), Value = v\<rparr>] = Inr ?r'"
    by (simp add: ApplyPatch_def apply_plain)
  moreover have "map_of (ToMap ?r') ''externalId'' = Some (GStr (ExternalID r))"
    using assms by (simp add: ToMap_def Let_def put_str_def)
  ultimately show ?thesis by blast
qed

theorem external_id_patch_lost_witness:
  "\<exists>r'. ApplyPatch sample_user [\<lparr>Op = PatchOpReplace, Path = Some (plain_path (attr_named ''externalId'')), Value = GStr ''new''\<rparr>] = Inr r' \<and>
     map_of (ToMap r') ''externalId'' = Some (GStr ''old'')"
  using external_id_patch_lost [OF sample_user_wf, of "GStr ''new''"] by (simp add: sample_user_def)

end
