(* ===== verification/Sort.thy ===== *)
theory Sort
  imports Filter_Eval
begin

text \<open>
  Sorting a page of resources (\<open>resource/sort.go\<close>).  \<open>sort.SliceStable\<close> is insertion from the
  back, which is what Go runs on up to 20 elements; on more it computes the same list
  whenever the comparison is a weak order, which \<open>compareForSort\<close> is on keys of one kind
  (\<open>stable_sort_unique\<close> says there is only one such list).  On mixed keys Go leaves the result of
  a longer slice open.
\<close>

datatype SortOrder = SortAscending | SortDescending

definition isPrimary :: "attrs \<Rightarrow> bool" where
  "isPrimary m = (case lookupKey m ''primary'' of GBool b \<Rightarrow> b | _ \<Rightarrow> False)"

definition extractSortableValue :: "attrs \<Rightarrow> gval" where
  "extractSortableValue m =
     (let v = lookupKey m ''value'' in if v \<noteq> GNil then v else GStr (fmt_v (GMap m)))"

definition element_key :: "attr_path \<Rightarrow> attrs \<Rightarrow> gval" where
  "element_key path m =
     (if SubAttribute path \<noteq> [] then lookupKey m (SubAttribute path) else extractSortableValue m)"

definition sortValue :: "resource \<Rightarrow> attr_path \<Rightarrow> gval" where
  "sortValue r path =
     (case Get r path of
        None \<Rightarrow> GNil
      | Some val \<Rightarrow>
        (case toSlice val of
           None \<Rightarrow> val
         | Some arr \<Rightarrow>
           (case find (\<lambda>elem. case elem of GMap m \<Rightarrow> isPrimary m | _ \<Rightarrow> False) arr of
              Some (GMap m) \<Rightarrow> element_key path m
            | _ \<Rightarrow>
              (case arr of
                 [] \<Rightarrow> GNil
               | e # _ \<Rightarrow> (case e of GMap m \<Rightarrow> element_key path m | _ \<Rightarrow> e)))))"

definition compareForSort :: "gval \<Rightarrow> gval \<Rightarrow> int" where
  "compareForSort a b =
     (if a = GNil \<and> b = GNil then 0
      else if a = GNil then - 1
      else if b = GNil then 1
      else (case (toFloat a, toFloat b) of
              (Some af, Some bf) \<Rightarrow> if f_lt af bf then - 1 else if f_lt bf af then 1 else 0
            | _ \<Rightarrow> Compare (ToLower (fmt_v a)) (ToLower (fmt_v b))))"

text \<open>\<open>insert_back lt x ys\<close>: the sorted prefix \<open>ys\<close> is kept last element first.\<close>

fun insert_back :: "('a \<Rightarrow> 'a \<Rightarrow> bool) \<Rightarrow> 'a \<Rightarrow> 'a list \<Rightarrow> 'a list" where
  "insert_back lt x [] = [x]"
| "insert_back lt x (y # ys) = (if lt x y then y # insert_back lt x ys else x # y # ys)"

definition SliceStable :: "('a \<Rightarrow> 'a \<Rightarrow> bool) \<Rightarrow> 'a list \<Rightarrow> 'a list" where
  "SliceStable lt xs = rev (foldl (\<lambda>acc x. insert_back lt x acc) [] xs)"

definition SortResources :: "resource list \<Rightarrow> string \<Rightarrow> SortOrder \<Rightarrow> resource list" where
  "SortResources rs sortBy order =
     (if rs = [] \<or> sortBy = [] then rs
      else (case ParsePath sortBy of
              Inl _ \<Rightarrow> rs
            | Inr path \<Rightarrow>
                SliceStable (\<lambda>x y. let cmp = compareForSort (sortValue x path) (sortValue y path)
                                   in if order = SortDescending then 0 < cmp else cmp < 0) rs))"

subsection \<open>The comparison\<close>

lemma compareForSort_swap: "compareForSort b a = - compareForSort a b"
  by (auto simp: compareForSort_def f_lt_val Compare_swap [of "ToLower (fmt_v a)"] split: option.splits)

lemma compareForSort_refl [simp]: "compareForSort a a = 0"
  using compareForSort_swap [of a a] by simp

definition one_kind :: "gval set \<Rightarrow> bool" where
  "one_kind A = ((\<forall>a \<in> A. a = GNil \<or> toFloat a \<noteq> None) \<or> (\<forall>a \<in> A. a = GNil \<or> toFloat a = None))"

lemma compareForSort_trans:
  assumes "one_kind {a, b, c}" "compareForSort a b \<le> 0" "compareForSort b c \<le> 0"
  shows "compareForSort a c \<le> 0"
  using assms Compare_trans
  by (auto simp: compareForSort_def one_kind_def f_lt_val split: option.splits if_splits)

subsection \<open>Stable sorting\<close>

lemma mset_insert_back [simp]: "mset (insert_back lt x ys) = add_mset x (mset ys)"
  by (induction ys) auto

lemma mset_SliceStable [simp]: "mset (SliceStable lt xs) = mset xs"
proof -
  have "mset (foldl (\<lambda>acc x. insert_back lt x acc) acc xs) = mset acc + mset xs" for acc
    by (induction xs arbitrary: acc) simp_all
  then show ?thesis by (simp add: SliceStable_def)
qed

lemma set_SliceStable [simp]: "set (SliceStable lt xs) = set xs"
  by (metis mset_SliceStable set_mset_mset)

text \<open>A strict weak order on the elements at hand: \<open>lt\<close> is the strict part of a total preorder.\<close>

locale weak_order_on =
  fixes lt :: "'a \<Rightarrow> 'a \<Rightarrow> bool" and A :: "'a set"
  assumes asym: "x \<in> A \<Longrightarrow> y \<in> A \<Longrightarrow> lt x y \<Longrightarrow> \<not> lt y x"
    and neg_trans: "x \<in> A \<Longrightarrow> y \<in> A \<Longrightarrow> z \<in> A \<Longrightarrow> \<not> lt y x \<Longrightarrow> \<not> lt z y \<Longrightarrow> \<not> lt z x"
begin

abbreviation equiv :: "'a \<Rightarrow> 'a \<Rightarrow> bool" where
  "equiv x y \<equiv> \<not> lt x y \<and> \<not> lt y x"

definition sorted_by :: "'a list \<Rightarrow> bool" where
  "sorted_by xs = sorted_wrt (\<lambda>x y. \<not> lt y x) xs"

lemma irrefl: "x \<in> A \<Longrightarrow> \<not> lt x x"
  using asym by blast

lemma sorted_insert_back:
  "set (x # ys) \<subseteq> A \<Longrightarrow> sorted_wrt (\<lambda>x y. \<not> lt x y) ys \<Longrightarrow>
   sorted_wrt (\<lambda>x y. \<not> lt x y) (insert_back lt x ys)"
proof (induction ys)
  case (Cons y ys)
  have set: "set (insert_back lt x ys) = insert x (set ys)"
    by (metis mset_insert_back set_mset_add_mset_insert set_mset_mset)
  have in_A: "x \<in> A" "y \<in> A" "set ys \<subseteq> A" and srt: "\<forall>z \<in> set ys. \<not> lt y z"
    "sorted_wrt (\<lambda>x y. \<not> lt x y) ys"
    using Cons.prems by simp_all
  show ?case
  proof (cases "lt x y")
    case True
    then have "\<not> lt y x" using asym in_A by blast
    then show ?thesis using True Cons.IH in_A srt by (simp add: set)
  next
    case False
    have "\<not> lt x z" if "z \<in> set ys" for z
      using that False srt(1) in_A neg_trans [of z y x] by blast
    then show ?thesis using False srt by simp
  qed
qed simp

lemma filter_insert_back:
  assumes "set (x # ys) \<subseteq> A" "sorted_wrt (\<lambda>x y. \<not> lt x y) ys" "k \<in> A"
  shows "filter (equiv k) (insert_back lt x ys) = (if equiv k x then x # filter (equiv k) ys else filter (equiv k) ys)"
  using assms
proof (induction ys)
  case (Cons y ys)
  have "\<not> equiv k y" if "lt x y" "equiv k x"
    using that neg_trans [of y k x] Cons.prems by auto
  then show ?case using Cons by auto
qed simp

lemma fold_insert_back:
  assumes "set xs \<subseteq> A" "set acc \<subseteq> A" "sorted_wrt (\<lambda>x y. \<not> lt x y) acc"
  defines "res \<equiv> foldl (\<lambda>acc x. insert_back lt x acc) acc xs"
  shows "sorted_wrt (\<lambda>x y. \<not> lt x y) res"
    and "k \<in> A \<Longrightarrow> filter (equiv k) res = rev (filter (equiv k) xs) @ filter (equiv k) acc"
proof -
  have "sorted_wrt (\<lambda>x y. \<not> lt x y) (foldl (\<lambda>acc x. insert_back lt x acc) acc xs) \<and>
    (k \<in> A \<longrightarrow> filter (equiv k) (foldl (\<lambda>acc x. insert_back lt x acc) acc xs) =
       rev (filter (equiv k) xs) @ filter (equiv k) acc)"
    using assms(1-3)
  proof (induction xs arbitrary: acc)
    case (Cons x xs)
    have set: "set (insert_back lt x acc) = insert x (set acc)"
      by (metis mset_insert_back set_mset_add_mset_insert set_mset_mset)
    have "sorted_wrt (\<lambda>x y. \<not> lt x y) (insert_back lt x acc)"
      using Cons.prems by (intro sorted_insert_back) auto
    then show ?case using Cons filter_insert_back [of x acc k] by (auto simp: set)
  qed simp
  then show "sorted_wrt (\<lambda>x y. \<not> lt x y) res"
    "k \<in> A \<Longrightarrow> filter (equiv k) res = rev (filter (equiv k) xs) @ filter (equiv k) acc"
    by (auto simp: res_def)
qed

lemma SliceStable_sorted: "set xs \<subseteq> A \<Longrightarrow> sorted_by (SliceStable lt xs)"
  using fold_insert_back(1) [of xs "[]"]
  by (simp add: SliceStable_def sorted_by_def sorted_wrt_rev)

lemma SliceStable_stable:
  "set xs \<subseteq> A \<Longrightarrow> k \<in> A \<Longrightarrow> filter (equiv k) (SliceStable lt xs) = filter (equiv k) xs"
  using fold_insert_back(2) [of xs "[]" k]
  by (simp add: SliceStable_def flip: rev_filter)

lemma equiv_head:
  assumes "sorted_by (x # xs)" "sorted_by (y # ys)" "mset (x # xs) = mset (y # ys)"
    "set (x # xs) \<subseteq> A" "set (y # ys) \<subseteq> A"
  shows "equiv x y"
proof -
  have "x \<in> set (y # ys)" "y \<in> set (x # xs)"
    using mset_eq_setD [OF assms(3)] by auto
  then show ?thesis using assms(1,2,4) irrefl by (auto simp: sorted_by_def)
qed

text \<open>The sorted list with the order of equivalent elements preserved is unique.\<close>

lemma stable_unique:
  assumes "sorted_by xs" "sorted_by ys" "mset xs = mset ys" "set xs \<subseteq> A"
    and "\<And>k. k \<in> A \<Longrightarrow> filter (equiv k) xs = filter (equiv k) ys"
  shows "xs = ys"
  using assms
proof (induction xs arbitrary: ys)
  case (Cons x xs)
  then obtain y ys' where ys: "ys = y # ys'" by (cases ys) auto
  have sub: "set (y # ys') \<subseteq> A" using Cons.prems(3,4) ys by (metis mset_eq_setD)
  have xA: "x \<in> A" using Cons.prems(4) by simp
  have "equiv x y" using equiv_head Cons.prems ys sub by blast
  moreover have "filter (equiv x) (x # xs) = filter (equiv x) (y # ys')"
    using Cons.prems(5) [OF xA] unfolding ys .
  moreover have "equiv x x" using irrefl [OF xA] by blast
  ultimately have eq: "x = y" by (simp only: filter.simps simp_thms if_True list.inject)
  have "xs = ys'"
  proof (rule Cons.IH)
    show "filter (equiv k) xs = filter (equiv k) ys'" if "k \<in> A" for k
      using Cons.prems(5) [OF that] eq ys by (auto split: if_splits)
  qed (use Cons.prems eq ys in \<open>auto simp: sorted_by_def\<close>)
  then show ?case using eq ys by simp
qed simp

end

text \<open>Resources whose sort keys are all numbers, or all other values, or absent.\<close>

definition sort_keys :: "attr_path \<Rightarrow> resource list \<Rightarrow> gval set" where
  "sort_keys path rs = (\<lambda>r. sortValue r path) ` set rs"

definition sort_less :: "attr_path \<Rightarrow> SortOrder \<Rightarrow> resource \<Rightarrow> resource \<Rightarrow> bool" where
  "sort_less path order x y =
     (let cmp = compareForSort (sortValue x path) (sortValue y path)
      in if order = SortDescending then 0 < cmp else cmp < 0)"

lemma one_kind_subset: "one_kind A \<Longrightarrow> B \<subseteq> A \<Longrightarrow> one_kind B"
  unfolding one_kind_def by (elim disjE) (simp_all add: subset_iff)

lemma sort_less_weak_order:
  assumes "one_kind ((\<lambda>r. sortValue r path) ` A)"
  shows "weak_order_on (sort_less path order) A"
proof
  let ?c = "\<lambda>x y. compareForSort (sortValue x path) (sortValue y path)"
  show "\<not> sort_less path order y x" if "sort_less path order x y" for x y
    using that compareForSort_swap [of "sortValue x path" "sortValue y path"]
    unfolding sort_less_def Let_def by (cases order) simp_all
  show "\<not> sort_less path order z x"
    if "x \<in> A" "y \<in> A" "z \<in> A" "\<not> sort_less path order y x" "\<not> sort_less path order z y" for x y z
  proof -
    have k: "one_kind {sortValue x path, sortValue y path, sortValue z path}"
      "one_kind {sortValue z path, sortValue y path, sortValue x path}"
      using assms that(1-3) by (auto elim!: one_kind_subset)
    show ?thesis
    proof (cases order)
      case SortAscending
      then have "?c x y \<le> 0" "?c y z \<le> 0"
        using that(4,5) compareForSort_swap [of "sortValue x path" "sortValue y path"]
          compareForSort_swap [of "sortValue y path" "sortValue z path"]
        by (simp_all add: sort_less_def Let_def)
      then show ?thesis using compareForSort_trans [OF k(1)] SortAscending
          compareForSort_swap [of "sortValue x path" "sortValue z path"]
        by (simp add: sort_less_def Let_def)
    next
      case SortDescending
      then have "?c y x \<le> 0" "?c z y \<le> 0" using that(4,5) by (simp_all add: sort_less_def Let_def)
      then show ?thesis using compareForSort_trans [OF k(2)] SortDescending
        by (simp add: sort_less_def Let_def)
    qed
  qed
qed

text \<open>The two kinds of key.\<close>

definition numeric_keyed :: "attr_path \<Rightarrow> resource set" where
  "numeric_keyed path = {r. sortValue r path = GNil \<or> toFloat (sortValue r path) \<noteq> None}"
definition text_keyed :: "attr_path \<Rightarrow> resource set" where
  "text_keyed path = {r. sortValue r path = GNil \<or> toFloat (sortValue r path) = None}"

interpretation numeric_order: weak_order_on "sort_less path order" "numeric_keyed path" for path order
  by (rule sort_less_weak_order) (auto simp: one_kind_def numeric_keyed_def)

interpretation text_order: weak_order_on "sort_less path order" "text_keyed path" for path order
  by (rule sort_less_weak_order) (auto simp: one_kind_def text_keyed_def)

lemma SortResources_path:
  "ParsePath sortBy = Inr path \<Longrightarrow> SortResources rs sortBy order = SliceStable (sort_less path order) rs"
  by (auto simp: SortResources_def sort_less_def [abs_def] SliceStable_def ParsePath_def)

lemma SortResources_perm: "mset (SortResources rs sortBy order) = mset rs"
  by (auto simp: SortResources_def split: sum.splits)

lemma sort_by_kind:
  assumes "weak_order_on (sort_less path order) A" "ParsePath sortBy = Inr path" "set rs \<subseteq> A"
  shows "sorted_wrt (\<lambda>x y. \<not> sort_less path order y x) (SortResources rs sortBy order)"
    and "k \<in> A \<Longrightarrow> filter (\<lambda>y. \<not> sort_less path order k y \<and> \<not> sort_less path order y k) (SortResources rs sortBy order) =
      filter (\<lambda>y. \<not> sort_less path order k y \<and> \<not> sort_less path order y k) rs"
proof -
  show "sorted_wrt (\<lambda>x y. \<not> sort_less path order y x) (SortResources rs sortBy order)" 
    using weak_order_on.SliceStable_sorted [OF assms(1,3)]
    by (simp add: SortResources_path [OF assms(2)] weak_order_on.sorted_by_def [OF assms(1)])
  show "k \<in> A \<Longrightarrow> filter (\<lambda>y. \<not> sort_less path order k y \<and> \<not> sort_less path order y k) (SortResources rs sortBy order) =
      filter (\<lambda>y. \<not> sort_less path order k y \<and> \<not> sort_less path order y k) rs"
    using weak_order_on.SliceStable_stable [OF assms(1,3)] by (simp add: SortResources_path [OF assms(2)])
qed


definition aged :: "string \<Rightarrow> int \<Rightarrow> resource" where
  "aged i n = empty_resource\<lparr>ID := i, Attributes := [(''age'', GInt KInt n)]\<rparr>"


end
