(* ===== verification/Store_API.thy ===== *)
theory Store_API
  imports Patch Sort
begin

text \<open>
  The interface \<open>ResourceStore\<close> (\<open>store/store.go\<close>), the store errors (\<open>store/errors.go\<close>) and
  the hooks (\<open>store/hooks.go\<close>).  What an operation takes from its surroundings is in the record
  \<open>env\<close>: the error of a cancelled context, the bytes of \<open>crypto/rand\<close> and the clock.  The record
  \<open>store_ops\<close> stands for a value of the interface type over a state \<open>'s\<close>, and the locale
  \<open>store_contract\<close> for what its clients rely on.
\<close>

subsection \<open>Errors\<close>

text \<open>The sentinel an error wraps, as \<open>errors.Is\<close> finds it, and the text of \<open>Error()\<close>.  The sentinels of
  the package \<open>resource\<close> are different values: an error that wraps one of them is \<open>KOther\<close>.\<close>

datatype err_kind =
    KNotFound | KConflict | KMutability | KInvalidValue | KBadFilter | KBadPath | KBadPatch
  | KInternal | KTooMany | KNoTarget | KOther

datatype store_error = SErr (err_kind: err_kind) (err_text: string)

fun sentinel_text :: "err_kind \<Rightarrow> string" where
  "sentinel_text KNotFound = ''scimply: resource not found''"
| "sentinel_text KConflict = ''scimply: uniqueness constraint violation''"
| "sentinel_text KMutability = ''scimply: attribute is immutable or read-only''"
| "sentinel_text KInvalidValue = ''scimply: invalid attribute value''"
| "sentinel_text KBadFilter = ''scimply: invalid filter expression''"
| "sentinel_text KBadPath = ''scimply: invalid attribute path''"
| "sentinel_text KBadPatch = ''scimply: invalid patch operation''"
| "sentinel_text KInternal = ''scimply: internal error''"
| "sentinel_text KTooMany = ''scimply: too many results / bulk operations''"
| "sentinel_text KNoTarget = ''scimply: no target for patch operation''"
| "sentinel_text KOther = []"

definition wrap_err :: "err_kind \<Rightarrow> string \<Rightarrow> store_error" where
  "wrap_err k s = SErr k (sentinel_text k @ s)"

lemma err_kind_wrap [simp]: "err_kind (wrap_err k s) = k"
  by (simp add: wrap_err_def)

subsection \<open>Requests and results\<close>

record ListParams =
  Filter :: "FilterExpression option"
  SortBy :: string
  LSortOrder :: SortOrder
  StartIndex :: int
  Count :: int
  LAttributes :: "string list"
  LExcludedAttributes :: "string list"

record ListResult =
  Resources :: "resource list"
  TotalResults :: int
  LStartIndex :: int
  ItemsPerPage :: int
  NeedsClientFilter :: bool

record env =
  ctx_err :: "string option"
  rand_bytes :: "string + string"
  now :: time

record 's store_ops =
  st_Create :: "env \<Rightarrow> string \<Rightarrow> resource \<Rightarrow> 's \<Rightarrow> (store_error, resource) outcome \<times> 's"
  st_Get :: "env \<Rightarrow> string \<Rightarrow> string \<Rightarrow> 's \<Rightarrow> (store_error, resource) outcome \<times> 's"
  st_List :: "env \<Rightarrow> string \<Rightarrow> ListParams \<Rightarrow> 's \<Rightarrow> (store_error, ListResult) outcome \<times> 's"
  st_Replace :: "env \<Rightarrow> string \<Rightarrow> string \<Rightarrow> resource \<Rightarrow> 's \<Rightarrow> (store_error, resource) outcome \<times> 's"
  st_Patch :: "env \<Rightarrow> string \<Rightarrow> string \<Rightarrow> PatchOp list \<Rightarrow> 's \<Rightarrow> (store_error, resource) outcome \<times> 's"
  st_Delete :: "env \<Rightarrow> string \<Rightarrow> string \<Rightarrow> 's \<Rightarrow> (store_error, unit) outcome \<times> 's"

text \<open>Hooks get a pointer to the resource: a hook returns the resource as it leaves it.\<close>

record hooks =
  PreCreate :: "(string \<Rightarrow> resource \<Rightarrow> store_error + resource) list"
  PostCreate :: "(string \<Rightarrow> resource \<Rightarrow> resource) list"
  PreUpdate :: "(string \<Rightarrow> string \<Rightarrow> resource \<Rightarrow> store_error + resource) list"
  PostUpdate :: "(string \<Rightarrow> resource \<Rightarrow> resource) list"
  PreDelete :: "(string \<Rightarrow> string \<Rightarrow> store_error option) list"

definition no_hooks :: hooks where
  "no_hooks = \<lparr>PreCreate = [], PostCreate = [], PreUpdate = [], PostUpdate = [], PreDelete = []\<rparr>"

subsection \<open>The contract of a store\<close>

text \<open>\<open>abs s\<close> is the abstract content of a store, a table of entries under a key and an id: a backend may map
  several spellings of a resource type to one \<open>key\<close>.  \<open>view\<close> is the resource that an entry is read as, \<open>inv\<close> the
  representation invariant, \<open>fresh e rt s\<close> says that the environment of a call supplies a fresh id, and \<open>avail e s\<close>
  that the backend answers.  The instants of a resource may lose precision on their way through a backend, the rest
  (\<open>same_body\<close>) does not.\<close>

definition same_body :: "resource \<Rightarrow> resource \<Rightarrow> bool" where
  "same_body r q = (ID r = ID q \<and> ExternalID r = ExternalID q \<and> Schemas r = Schemas q \<and> Attributes r = Attributes q)"

lemma same_body_refl [simp]: "same_body r r"
  by (simp add: same_body_def)

locale store_contract =
  fixes ops :: "'s store_ops" and abs :: "'s \<Rightarrow> 'k \<times> string \<Rightarrow> 'v option" and inv :: "'s \<Rightarrow> bool"
    and fresh :: "env \<Rightarrow> string \<Rightarrow> 's \<Rightarrow> bool" and key :: "string \<Rightarrow> 'k" and view :: "string \<Rightarrow> 'v \<Rightarrow> resource"
    and avail :: "env \<Rightarrow> 's \<Rightarrow> bool"
  assumes create_ok: "inv s \<Longrightarrow> fresh e rt s \<Longrightarrow> st_Create ops e rt x s = (Ok r, s') \<Longrightarrow>
      inv s' \<and> abs s (key rt, ID r) = None \<and> (\<exists>y. abs s' = (abs s)((key rt, ID r) \<mapsto> y) \<and> same_body (view rt y) r)"
    and replace_ok: "inv s \<Longrightarrow> st_Replace ops e rt rid x s = (Ok r, s') \<Longrightarrow>
      inv s' \<and> abs s (key rt, rid) \<noteq> None \<and> ID r = rid \<and>
      (\<exists>y. abs s' = (abs s)((key rt, rid) \<mapsto> y) \<and> same_body (view rt y) r)"
    and patch_ok: "inv s \<Longrightarrow> st_Patch ops e rt rid pops s = (Ok r, s') \<Longrightarrow>
      inv s' \<and> abs s (key rt, rid) \<noteq> None \<and> (\<exists>y. abs s' = (abs s)((key rt, rid) \<mapsto> y) \<and> same_body (view rt y) r)"
    and delete_ok: "inv s \<Longrightarrow> st_Delete ops e rt rid s = (Ok u, s') \<Longrightarrow>
      inv s' \<and> abs s (key rt, rid) \<noteq> None \<and> abs s' = (abs s)((key rt, rid) := None)"
    and get_ok: "inv s \<Longrightarrow> st_Get ops e rt rid s = (Ok r, s') \<Longrightarrow>
      inv s' \<and> abs s' = abs s \<and> (\<exists>y. abs s (key rt, rid) = Some y \<and> r = view rt y)"
    and get_err: "inv s \<Longrightarrow> st_Get ops e rt rid s = (Err k, s') \<Longrightarrow>
      inv s' \<and> abs s' = abs s \<and> (abs s (key rt, rid) \<noteq> None \<longrightarrow> \<not> avail e s)"
    and no_write: "inv s \<Longrightarrow> st_Create ops e rt x s = (Err k, s') \<Longrightarrow> inv s' \<and> abs s' = abs s"
      "inv s \<Longrightarrow> st_Replace ops e rt rid x s = (Err k, s') \<Longrightarrow> inv s' \<and> abs s' = abs s"
      "inv s \<Longrightarrow> st_Patch ops e rt rid pops s = (Err k, s') \<Longrightarrow> inv s' \<and> abs s' = abs s"
      "inv s \<Longrightarrow> st_Delete ops e rt rid s = (Err k, s') \<Longrightarrow> inv s' \<and> abs s' = abs s"
    and get_returns: "inv s \<Longrightarrow> fst (st_Get ops e rt rid s) \<noteq> Panic m"
begin

text \<open>After a deletion there is nothing to get, under any environment.\<close>

lemma get_after_delete:
  assumes "inv s" "st_Delete ops e rt rid s = (Ok u, s')"
  shows "\<nexists>r s''. st_Get ops e' rt rid s' = (Ok r, s'')"
  using delete_ok [OF assms] get_ok by fastforce

text \<open>What was created is read back.\<close>

lemma get_entry:
  assumes "inv s" "abs s (key rt, rid) = Some y" "avail e s"
  shows "\<exists>s'. st_Get ops e rt rid s = (Ok (view rt y), s') \<and> inv s' \<and> abs s' = abs s"
proof -
  obtain res s' where g: "st_Get ops e rt rid s = (res, s')" by fastforce
  show ?thesis
  proof (cases res)
    case (Ok z)
    then show ?thesis using get_ok [OF assms(1)] g assms(2) by fastforce
  next
    case (Err k)
    then show ?thesis using get_err [OF assms(1)] g assms(2,3) by fastforce
  next
    case (Panic m)
    then show ?thesis using get_returns [OF assms(1), of e rt rid m] g by simp
  qed
qed

lemma get_after_create:
  assumes "inv s" "fresh e rt s" "st_Create ops e rt x s = (Ok r, s')" "avail e' s'"
  shows "\<exists>q s''. st_Get ops e' rt (ID r) s' = (Ok q, s'') \<and> same_body q r"
proof -
  obtain y where "abs s' (key rt, ID r) = Some y" "inv s'" "same_body (view rt y) r"
    using create_ok [OF assms(1-3)] by auto
  then show ?thesis using get_entry [of s' rt "ID r" y e'] assms(4) by auto
qed

lemma get_after_replace:
  assumes "inv s" "st_Replace ops e rt rid x s = (Ok r, s')" "avail e' s'"
  shows "\<exists>q s''. st_Get ops e' rt rid s' = (Ok q, s'') \<and> same_body q r"
proof -
  obtain y where "abs s' (key rt, rid) = Some y" "inv s'" "same_body (view rt y) r"
    using replace_ok [OF assms(1,2)] by auto
  then show ?thesis using get_entry [of s' rt rid y e'] assms(3) by auto
qed

text \<open>Two deletions of one resource do not both succeed.\<close>

lemma delete_once:
  assumes "inv s" "st_Delete ops e rt rid s = (Ok u, s')"
  shows "\<nexists>u' s''. st_Delete ops e' rt rid s' = (Ok u', s'')"
  using delete_ok [OF assms] delete_ok by fastforce

text \<open>An operation on one resource leaves the others.\<close>

lemma frame:
  assumes "inv s" "(k', id') \<noteq> (key rt, rid)"
  shows "st_Replace ops e rt rid x s = (Ok r, s') \<Longrightarrow> abs s' (k', id') = abs s (k', id')"
    and "st_Patch ops e rt rid pops s = (Ok r, s') \<Longrightarrow> abs s' (k', id') = abs s (k', id')"
    and "st_Delete ops e rt rid s = (Ok u, s') \<Longrightarrow> abs s' (k', id') = abs s (k', id')"
  using assms(2)
  by (auto dest!: replace_ok [OF assms(1)] patch_ok [OF assms(1)] delete_ok [OF assms(1)])

end

end
