(* ===== verification/Http.thy ===== *)
theory Http
  imports Store_API
begin

text \<open>
  What the server takes from \<open>net/http\<close>, \<open>net/url\<close> and \<open>encoding/json\<close>: requests, responses, query
  values and the decoding of a JSON body.  A request carries its URL path and decoded query; its body is
  nil, or a text that \<open>json.Decoder\<close> rejects with an error or decodes to a value.  A response is what a
  handler has written: the status of the first \<open>WriteHeader\<close>, the headers set before it, and the value
  whose JSON text is the body.
\<close>

subsection \<open>Query values and headers\<close>

text \<open>\<open>url.Values\<close> and \<open>http.Header\<close> map a key to a list of values; \<open>Get\<close> reads the first one.  Header keys
  are in canonical form.\<close>

type_synonym vals = "string list gmap"

definition values_Get :: "vals \<Rightarrow> string \<Rightarrow> string" where
  "values_Get v k = (case map_of v k of Some (x # xs) \<Rightarrow> x | _ \<Rightarrow> [])"

definition values_Set :: "vals \<Rightarrow> string \<Rightarrow> string \<Rightarrow> vals" where
  "values_Set v k x = map_put k [x] v"

lemma values_Get_Set [simp]: "values_Get (values_Set v k x) k' = (if k' = k then x else values_Get v k')"
  by (simp add: values_Get_def values_Set_def)

lemma values_Get_Nil [simp]: "values_Get [] k = []"
  by (simp add: values_Get_def)

subsection \<open>Requests\<close>

datatype body = NilBody | TextBody "string + gval"

record request =
  Method :: string
  URL_Path :: string
  Query :: vals
  Header :: vals
  Host :: string
  TLS :: bool
  Body :: body

text \<open>\<open>json.NewDecoder(r.Body).Decode(&body)\<close> with a map as the target: reading from a nil body panics, a JSON
  null leaves the map nil, and any other value that is not an object is a type error.\<close>

definition nil_deref :: string where
  "nil_deref = ''runtime error: invalid memory address or nil pointer dereference''"

fun json_kind :: "gval \<Rightarrow> string" where
  "json_kind (GBool b) = ''bool''"
| "json_kind (GStr s) = ''string''"
| "json_kind (GArr vs) = ''array''"
| "json_kind (GStrs vs) = ''array''"
| "json_kind (GMaps vs) = ''array''"
| "json_kind _ = ''number''"

fun decode_object :: "body \<Rightarrow> (string, attrs) outcome" where
  "decode_object NilBody = Panic nil_deref"
| "decode_object (TextBody (Inl e)) = Err e"
| "decode_object (TextBody (Inr (GMap m))) = Ok m"
| "decode_object (TextBody (Inr GNil)) = Ok []"
| "decode_object (TextBody (Inr v)) =
     Err (''json: cannot unmarshal '' @ json_kind v @ '' into Go value of type map[string]interface {}'')"

text \<open>A body that came over the wire.\<close>

fun body_ok :: "body \<Rightarrow> bool" where
  "body_ok (TextBody (Inr v)) = is_json v"
| "body_ok _ = True"

lemma decode_object_Ok:
  assumes "decode_object b = Ok m"
  shows "b = TextBody (Inr (GMap m)) \<or> b = TextBody (Inr GNil) \<and> m = []"
proof (cases b)
  case NilBody
  then show ?thesis using assms by simp
next
  case (TextBody t)
  then show ?thesis using assms
    by (cases t; cases "projr t") (auto simp: sum.case_eq_if)
qed

lemma decode_object_json: "body_ok b \<Longrightarrow> decode_object b = Ok m \<Longrightarrow> is_json_map m"
  by (drule decode_object_Ok) auto

lemma decode_object_Panic: "decode_object b = Panic p \<longleftrightarrow> b = NilBody \<and> p = nil_deref"
proof (cases b)
  case NilBody
  then show ?thesis by auto
next
  case (TextBody t)
  then show ?thesis
  proof (cases t)
    case (Inr v)
    then show ?thesis using TextBody by (cases v) simp_all
  qed simp
qed

subsection \<open>Responses\<close>

type_synonym headers = "string gmap"

record response =
  resp_Status :: int
  resp_Header :: headers
  resp_Body :: "gval option"

text \<open>A handler that sets headers, then the status, then encodes a value.\<close>

definition respond :: "int \<Rightarrow> headers \<Rightarrow> gval option \<Rightarrow> response" where
  "respond status hdr b = \<lparr>resp_Status = status, resp_Header = hdr, resp_Body = b\<rparr>"

definition header_Get :: "headers \<Rightarrow> string \<Rightarrow> string" where
  "header_Get h k = (case map_of h k of Some v \<Rightarrow> v | None \<Rightarrow> [])"

lemma respond_simps [simp]:
  "resp_Status (respond s h b) = s" "resp_Header (respond s h b) = h" "resp_Body (respond s h b) = b"
  by (simp_all add: respond_def)

subsection \<open>fmt.Sscanf with the verb d\<close>

definition scan_int :: "string \<Rightarrow> int \<Rightarrow> int" where
  "scan_int s dflt =
     (let s = dropWhile is_space_char s;
          (neg, r) = (case s of c # t \<Rightarrow>
              if c = CHR ''-'' then (True, t) else if c = CHR ''+'' then (False, t) else (False, s)
            | [] \<Rightarrow> (False, []));
          ds = takeWhile is_digit_char r
      in if ds = [] then dflt
         else if neg then - int (digits_val ds) else int (digits_val ds))"

lemma digit_not_space: "is_digit_char c \<Longrightarrow> \<not> is_space_char c"
  by (auto simp: is_digit_char_def is_space_char_def Let_def)

lemma scan_int_int_str [simp]: "0 \<le> n \<Longrightarrow> scan_int (int_str n) d = n"
proof -
  assume "0 \<le> n"
  obtain c r where cr: "nat_str (nat n) = c # r" by (cases "nat_str (nat n)") auto
  have all: "list_all is_digit_char (c # r)" using nat_str_digits [of "nat n"] cr by simp
  then have "\<not> is_space_char c" "c \<noteq> CHR ''-''" "c \<noteq> CHR ''+''"
    using digit_char_not_sign digit_not_space by auto
  moreover have "takeWhile is_digit_char (c # r) = c # r" using all by (simp add: takeWhile_eq_all_conv list_all_iff)
  moreover have "digits_val (c # r) = nat n" using digits_val_nat_str [of "nat n"] cr by simp
  ultimately show ?thesis using \<open>0 \<le> n\<close> by (simp add: scan_int_def int_str_def cr Let_def)
qed

end
