(* ===== verification/Protocol.thy ===== *)
theory Protocol
  imports Http
begin

text \<open>
  Package \<open>protocol\<close>: content negotiation (\<open>content_type.go\<close>), SCIM errors and their origin in store errors
  (\<open>error.go\<close>), list parameters (\<open>pagination.go\<close>), the writers of responses (\<open>response.go\<close>), version detection
  (\<open>version.go\<close>) and the request classifier (\<open>request.go\<close>).
\<close>

subsection \<open>Content types\<close>

abbreviation ContentTypeSCIM :: string where "ContentTypeSCIM \<equiv> ''application/scim+json''"
abbreviation ContentTypeJSON :: string where "ContentTypeJSON \<equiv> ''application/json''"
abbreviation anyType :: string where "anyType \<equiv> ''*/*''"
abbreviation anyAppType :: string where "anyAppType \<equiv> ''application/*''"

definition media_type :: "string \<Rightarrow> string" where
  "media_type part =
     (let mt = TrimSpace part
      in case cut_first (CHR '';'') mt of Some (a, _) \<Rightarrow> TrimSpace a | None \<Rightarrow> mt)"

fun negotiate :: "string list \<Rightarrow> string" where
  "negotiate [] = ContentTypeSCIM"
| "negotiate (part # parts) =
     (let mt = media_type part
      in if mt = ContentTypeSCIM then ContentTypeSCIM
         else if mt = ContentTypeJSON then ContentTypeJSON
         else if mt = anyType \<or> mt = anyAppType then ContentTypeSCIM
         else negotiate parts)"

definition NegotiateContentType :: "request \<Rightarrow> string" where
  "NegotiateContentType r =
     (let accept = values_Get (Header r) ''Accept''
      in if accept = [] then ContentTypeSCIM else negotiate (Split (CHR '','') accept))"

definition IsAcceptable :: "request \<Rightarrow> bool" where
  "IsAcceptable r =
     (let accept = values_Get (Header r) ''Accept''
      in accept = [] \<or>
         list_ex (\<lambda>part. media_type part \<in> {ContentTypeSCIM, ContentTypeJSON, anyType, anyAppType})
           (Split (CHR '','') accept))"

lemma negotiate_range: "negotiate parts \<in> {ContentTypeSCIM, ContentTypeJSON}"
  by (induction parts) (auto simp: Let_def)

subsection \<open>Errors\<close>

abbreviation ErrTypeInvalidFilter :: string where "ErrTypeInvalidFilter \<equiv> ''invalidFilter''"
abbreviation ErrTypeTooMany :: string where "ErrTypeTooMany \<equiv> ''tooMany''"
abbreviation ErrTypeUniqueness :: string where "ErrTypeUniqueness \<equiv> ''uniqueness''"
abbreviation ErrTypeMutability :: string where "ErrTypeMutability \<equiv> ''mutability''"
abbreviation ErrTypeInvalidSyntax :: string where "ErrTypeInvalidSyntax \<equiv> ''invalidSyntax''"
abbreviation ErrTypeInvalidPath :: string where "ErrTypeInvalidPath \<equiv> ''invalidPath''"
abbreviation ErrTypeNoTarget :: string where "ErrTypeNoTarget \<equiv> ''noTarget''"
abbreviation ErrTypeInvalidValue :: string where "ErrTypeInvalidValue \<equiv> ''invalidValue''"

abbreviation scimErrorSchema :: string where
  "scimErrorSchema \<equiv> ''urn:ietf:params:scim:api:messages:2.0:Error''"

record SCIMError =
  se_Schemas :: "string list"
  se_Status :: string
  se_SCIMType :: string
  se_Detail :: string

definition NewSCIMError :: "int \<Rightarrow> string \<Rightarrow> string \<Rightarrow> SCIMError" where
  "NewSCIMError status scimType detail =
     \<lparr>se_Schemas = [scimErrorSchema], se_Status = int_str status, se_SCIMType = scimType, se_Detail = detail\<rparr>"

definition SCIMError_Error :: "SCIMError \<Rightarrow> string" where
  "SCIMError_Error e =
     (if se_Detail e \<noteq> [] then ''SCIM '' @ se_Status e @ '': '' @ se_Detail e else ''SCIM '' @ se_Status e)"

text \<open>The JSON object of an error: the type and the detail are left out when empty.\<close>

definition error_json :: "SCIMError \<Rightarrow> gval" where
  "error_json e = GMap ([(''schemas'', GStrs (se_Schemas e)), (''status'', GStr (se_Status e))] @
     (if se_SCIMType e \<noteq> [] then [(''scimType'', GStr (se_SCIMType e))] else []) @
     (if se_Detail e \<noteq> [] then [(''detail'', GStr (se_Detail e))] else []))"

definition SCIMError_Write :: "SCIMError \<Rightarrow> headers \<Rightarrow> response" where
  "SCIMError_Write e w =
     respond (scan_int (se_Status e) 500) (map_put ''Content-Type'' ContentTypeSCIM w) (Some (error_json e))"

definition ErrorFromStoreError :: "store_error \<Rightarrow> SCIMError" where
  "ErrorFromStoreError err =
     (let text = err_text err
      in case err_kind err of
           KNotFound \<Rightarrow> NewSCIMError 404 [] text
         | KConflict \<Rightarrow> NewSCIMError 409 ErrTypeUniqueness text
         | KMutability \<Rightarrow> NewSCIMError 400 ErrTypeMutability text
         | KBadFilter \<Rightarrow> NewSCIMError 400 ErrTypeInvalidFilter text
         | KBadPath \<Rightarrow> NewSCIMError 400 ErrTypeInvalidPath text
         | KBadPatch \<Rightarrow> NewSCIMError 400 ErrTypeInvalidSyntax text
         | KNoTarget \<Rightarrow> NewSCIMError 400 ErrTypeNoTarget text
         | KTooMany \<Rightarrow> NewSCIMError 413 ErrTypeTooMany text
         | KInvalidValue \<Rightarrow> NewSCIMError 400 ErrTypeInvalidValue text
         | KInternal \<Rightarrow> NewSCIMError 500 [] text
         | KOther \<Rightarrow> NewSCIMError 500 [] text)"

text \<open>An error of the package \<open>resource\<close> wraps none of the sentinels of the package \<open>store\<close>.\<close>

definition as_store_error :: "res_error \<Rightarrow> store_error" where
  "as_store_error e = SErr KOther (res_error_text e)"

subsection \<open>List parameters\<close>

record QueryParams =
  qp_Filter :: string
  qp_SortBy :: string
  qp_SortOrder :: string
  qp_StartIndex :: int
  qp_Count :: int
  qp_Attributes :: "string list"
  qp_ExcludedAttributes :: "string list"

definition split_names :: "string \<Rightarrow> string list" where
  "split_names s = (if s \<noteq> [] then filter (\<lambda>a. a \<noteq> []) (map TrimSpace (Split (CHR '','') s)) else [])"

definition ParseListParamsFromValues :: "vals \<Rightarrow> QueryParams" where
  "ParseListParamsFromValues v =
     \<lparr>qp_Filter = values_Get v ''filter'',
      qp_SortBy = values_Get v ''sortBy'',
      qp_SortOrder = (let so = ToLower (values_Get v ''sortOrder'')
                      in if so = ''descending'' then ''descending''
                         else if so = ''ascending'' then ''ascending'' else []),
      qp_StartIndex = (case Atoi (values_Get v ''startIndex'') of
                         Some n \<Rightarrow> if n < 1 then 1 else n | None \<Rightarrow> 1),
      qp_Count = (case Atoi (values_Get v ''count'') of
                    Some n \<Rightarrow> if n \<ge> 0 then n else 0 | None \<Rightarrow> 0),
      qp_Attributes = split_names (values_Get v ''attributes''),
      qp_ExcludedAttributes = split_names (values_Get v ''excludedAttributes'')\<rparr>"

definition ParseListParams :: "request \<Rightarrow> QueryParams" where
  "ParseListParams r = ParseListParamsFromValues (Query r)"

lemma Atoi_range: "Atoi s = Some n \<Longrightarrow> - (2 ^ 63) \<le> n \<and> n < 2 ^ 63"
  by (auto simp: Atoi_def Let_def split: list.splits if_splits)

lemma list_params_bounds:
  "1 \<le> qp_StartIndex (ParseListParamsFromValues v) \<and> qp_StartIndex (ParseListParamsFromValues v) < 2 ^ 63 \<and>
   0 \<le> qp_Count (ParseListParamsFromValues v) \<and> qp_Count (ParseListParamsFromValues v) < 2 ^ 63"
  using Atoi_range by (auto simp: ParseListParamsFromValues_def split: option.split)

definition NewListResponse :: "int \<Rightarrow> int \<Rightarrow> int \<Rightarrow> gval list \<Rightarrow> gval" where
  "NewListResponse totalResults startIndex itemsPerPage res =
     GMap [(''schemas'', GStrs [''urn:ietf:params:scim:api:messages:2.0:ListResponse'']),
           (''totalResults'', GInt KInt totalResults), (''startIndex'', GInt KInt startIndex),
           (''itemsPerPage'', GInt KInt itemsPerPage), (''Resources'', GArr res)]"

subsection \<open>Writing responses\<close>

definition WriteJSON :: "headers \<Rightarrow> int \<Rightarrow> gval \<Rightarrow> response" where
  "WriteJSON w status b = respond status (map_put ''Content-Type'' ContentTypeSCIM w) (Some b)"

definition resource_headers :: "headers \<Rightarrow> request \<Rightarrow> string \<Rightarrow> string \<Rightarrow> headers" where
  "resource_headers w r location etag =
     (let w = (if location \<noteq> [] then map_put ''Location'' location w else w);
          w = (if etag \<noteq> [] then map_put ''ETag'' etag w else w)
      in map_put ''Content-Type'' (NegotiateContentType r) w)"

definition WriteResource :: "headers \<Rightarrow> request \<Rightarrow> gval \<Rightarrow> string \<Rightarrow> string \<Rightarrow> response" where
  "WriteResource w r b location etag = respond 200 (resource_headers w r location etag) (Some b)"

definition WriteCreated :: "headers \<Rightarrow> request \<Rightarrow> gval \<Rightarrow> string \<Rightarrow> string \<Rightarrow> response" where
  "WriteCreated w r b location etag = respond 201 (resource_headers w r location etag) (Some b)"

definition WriteNoContent :: "headers \<Rightarrow> response" where
  "WriteNoContent w = respond 204 w None"

subsection \<open>Versions\<close>

datatype Version = V2_0 | V1_1

fun Version_String :: "Version \<Rightarrow> string" where
  "Version_String V2_0 = ''2.0''"
| "Version_String V1_1 = ''1.1''"

definition DetectVersion :: "string \<Rightarrow> string \<Rightarrow> Version" where
  "DetectVersion urlPath contentType =
     (let lower = ToLower urlPath
      in if HasPrefix lower ''/v2/'' \<or> lower = ''/v2'' then V2_0
         else if HasPrefix lower ''/v1/'' \<or> lower = ''/v1'' then V1_1
         else if Contains (ToLower contentType) ContentTypeSCIM then V2_0
         else V2_0)"

subsection \<open>Classifying requests\<close>

datatype RequestType =
    RequestCreate | RequestRead | RequestReplace | RequestPatch | RequestDelete
  | RequestList | RequestSearch | RequestBulk | RequestDiscovery

record SCIMRequest =
  sr_Type :: RequestType
  sr_Version :: Version
  sr_ResourceType :: string
  sr_ResourceID :: string
  sr_Params :: "QueryParams option"
  sr_Body :: attrs

definition splitPath :: "string \<Rightarrow> string list" where
  "splitPath p = (let p = TrimPrefix p ''/'' in if p = [] then [] else SplitN2 (CHR ''/'') p)"

definition resourceTypeName :: "string \<Rightarrow> string" where
  "resourceTypeName segment =
     (if ToLower segment = ''users'' then ''User''
      else if ToLower segment = ''groups'' then ''Group''
      else if HasSuffix segment ''s'' then take (length segment - 1) segment
      else segment)"

text \<open>\<open>decodeBody\<close> leaves the body nil when there is none, which here is the empty map; \<open>n\<close> is the content
  length of the request.\<close>

definition decodeBody :: "request \<Rightarrow> int \<Rightarrow> string + attrs" where
  "decodeBody r n =
     (if Body r = NilBody \<or> n = 0 then Inr []
      else case decode_object (Body r) of
             Ok m \<Rightarrow> Inr m
           | Err e \<Rightarrow> Inl (''invalid JSON body: '' @ e)
           | Panic p \<Rightarrow> Inl p)"

definition with_body :: "request \<Rightarrow> int \<Rightarrow> SCIMRequest \<Rightarrow> string + SCIMRequest" where
  "with_body r n req = (case decodeBody r n of Inl e \<Rightarrow> Inl e | Inr m \<Rightarrow> Inr (req\<lparr>sr_Body := m\<rparr>))"

text \<open>The path below the base path, with a leading slash.\<close>

definition slash_path :: "string \<Rightarrow> string" where
  "slash_path path =
     (let path = (if path = [] then ''/'' else path)
      in if HasPrefix path ''/'' then path else ''/'' @ path)"

definition ParseRequest :: "request \<Rightarrow> int \<Rightarrow> string \<Rightarrow> string + SCIMRequest" where
  "ParseRequest r n basePath =
     (let req = \<lparr>sr_Type = RequestCreate, sr_Version = DetectVersion (URL_Path r) (values_Get (Header r) ''Content-Type''),
                 sr_ResourceType = [], sr_ResourceID = [], sr_Params = None, sr_Body = []\<rparr>;
          path = slash_path (if basePath \<noteq> [] then TrimPrefix (URL_Path r) basePath else URL_Path r);
          params = Some (ParseListParams r)
      in case splitPath path of
           [] \<Rightarrow> Inr (req\<lparr>sr_Type := RequestDiscovery\<rparr>)
         | first # segs \<Rightarrow>
             if first = [] \<and> segs = [] then Inr (req\<lparr>sr_Type := RequestDiscovery\<rparr>)
             else if ToLower first \<in> {''serviceproviderconfig'', ''serviceproviderconfigs'', ''resourcetypes'', ''schemas''}
             then Inr (req\<lparr>sr_Type := RequestDiscovery\<rparr>)
             else if ToLower first = ''bulk'' then with_body r n (req\<lparr>sr_Type := RequestBulk\<rparr>)
             else if first = ''.search'' then with_body r n (req\<lparr>sr_Type := RequestSearch, sr_Params := params\<rparr>)
             else (let req = req\<lparr>sr_ResourceType := resourceTypeName first\<rparr>
                   in case segs of
                        [] \<Rightarrow>
                          if Method r = ''GET'' then Inr (req\<lparr>sr_Type := RequestList, sr_Params := params\<rparr>)
                          else if Method r = ''POST'' then with_body r n (req\<lparr>sr_Type := RequestCreate\<rparr>)
                          else Inl (''method '' @ Method r @ '' not allowed on collection'')
                      | second # _ \<Rightarrow>
                          if second = ''.search'' then
                            with_body r n (req\<lparr>sr_Type := RequestSearch, sr_Params := params\<rparr>)
                          else (let req = req\<lparr>sr_ResourceID := second\<rparr>
                                in if Method r = ''GET'' then Inr (req\<lparr>sr_Type := RequestRead, sr_Params := params\<rparr>)
                                   else if Method r = ''PUT'' then with_body r n (req\<lparr>sr_Type := RequestReplace\<rparr>)
                                   else if Method r = ''PATCH'' then with_body r n (req\<lparr>sr_Type := RequestPatch\<rparr>)
                                   else if Method r = ''DELETE'' then Inr (req\<lparr>sr_Type := RequestDelete\<rparr>)
                                   else Inl (''method '' @ Method r @ '' not allowed on resource''))))"

end
