(* ===== verification/Schema.thy ===== *)
theory Schema
  imports Go_Value
begin

text \<open>
  Package \<open>schema\<close>: attribute definitions (\<open>attribute.go\<close>), schemas (\<open>schema.go\<close>), resource types
  (\<open>resource_type.go\<close>), the registry (\<open>registry.go\<close>), the service provider configuration
  (\<open>service_provider_config.go\<close>) and the validation of attributes against a schema
  (\<open>validation.go\<close>), which is compared with a declarative predicate.  The registry is guarded by a
  mutex in the code; an operation here is one critical section.
\<close>

subsection \<open>Attribute definitions\<close>

type_synonym Type = string
type_synonym Mutability = string
type_synonym Returned = string
type_synonym Uniqueness = string

abbreviation TypeString :: Type where "TypeString \<equiv> ''string''"
abbreviation TypeBoolean :: Type where "TypeBoolean \<equiv> ''boolean''"
abbreviation TypeDecimal :: Type where "TypeDecimal \<equiv> ''decimal''"
abbreviation TypeInteger :: Type where "TypeInteger \<equiv> ''integer''"
abbreviation TypeDateTime :: Type where "TypeDateTime \<equiv> ''dateTime''"
abbreviation TypeBinary :: Type where "TypeBinary \<equiv> ''binary''"
abbreviation TypeReference :: Type where "TypeReference \<equiv> ''reference''"
abbreviation TypeComplex :: Type where "TypeComplex \<equiv> ''complex''"

abbreviation MutabilityReadOnly :: Mutability where "MutabilityReadOnly \<equiv> ''readOnly''"
abbreviation MutabilityReadWrite :: Mutability where "MutabilityReadWrite \<equiv> ''readWrite''"
abbreviation MutabilityImmutable :: Mutability where "MutabilityImmutable \<equiv> ''immutable''"
abbreviation MutabilityWriteOnly :: Mutability where "MutabilityWriteOnly \<equiv> ''writeOnly''"

abbreviation ReturnedAlways :: Returned where "ReturnedAlways \<equiv> ''always''"
abbreviation ReturnedNever :: Returned where "ReturnedNever \<equiv> ''never''"
abbreviation ReturnedDefault :: Returned where "ReturnedDefault \<equiv> ''default''"
abbreviation ReturnedRequest :: Returned where "ReturnedRequest \<equiv> ''request''"

abbreviation UniquenessNone :: Uniqueness where "UniquenessNone \<equiv> ''none''"
abbreviation UniquenessServer :: Uniqueness where "UniquenessServer \<equiv> ''server''"
abbreviation UniquenessGlobal :: Uniqueness where "UniquenessGlobal \<equiv> ''global''"

text \<open>The struct \<open>Attribute\<close> contains a slice of itself, so it is a datatype with named fields.\<close>

datatype Attribute = Attribute
  (attr_Name: string) (attr_Type: Type) (attr_SubAttributes: "Attribute list") (attr_MultiValued: bool)
  (attr_Description: string) (attr_Required: bool) (attr_CanonicalValues: "string list")
  (attr_CaseExact: bool) (attr_Mutability: Mutability) (attr_Returned: Returned)
  (attr_Uniqueness: Uniqueness) (attr_ReferenceTypes: "string list")

record Schema =
  sch_ID :: string
  sch_Name :: string
  sch_Description :: string
  sch_Attributes :: "Attribute list"

definition AttributeByName :: "Schema \<Rightarrow> string \<Rightarrow> Attribute option" where
  "AttributeByName s name = find (\<lambda>a. EqualFold (attr_Name a) name) (sch_Attributes s)"

subsection \<open>Resource types and the registry\<close>

record SchemaExtension =
  ext_Schema :: string
  ext_Required :: bool

record ResourceType =
  rt_ID :: string
  rt_Name :: string
  rt_Description :: string
  rt_Endpoint :: string
  rt_Schema :: string
  rt_SchemaExtensions :: "SchemaExtension list"

record Registry =
  reg_schemas :: "Schema gmap"
  reg_resourceTypes :: "ResourceType gmap"

definition NewRegistry :: Registry where
  "NewRegistry = \<lparr>reg_schemas = [], reg_resourceTypes = []\<rparr>"

definition RegisterSchema :: "Schema \<Rightarrow> Registry \<Rightarrow> Registry" where
  "RegisterSchema s r = r\<lparr>reg_schemas := map_put (ToLower (sch_ID s)) s (reg_schemas r)\<rparr>"

definition RegisterResourceType :: "ResourceType \<Rightarrow> Registry \<Rightarrow> Registry" where
  "RegisterResourceType rt r = r\<lparr>reg_resourceTypes := map_put (ToLower (rt_Name rt)) rt (reg_resourceTypes r)\<rparr>"

definition SchemaByID :: "Registry \<Rightarrow> string \<Rightarrow> Schema option" where
  "SchemaByID r x = map_of (reg_schemas r) (ToLower x)"

definition ResourceTypeByName :: "Registry \<Rightarrow> string \<Rightarrow> ResourceType option" where
  "ResourceTypeByName r name = map_of (reg_resourceTypes r) (ToLower name)"

definition ResourceTypeByEndpoint :: "Registry \<Rightarrow> string \<Rightarrow> ResourceType option" where
  "ResourceTypeByEndpoint r ep = find (\<lambda>rt. EqualFold (rt_Endpoint rt) ep) (map snd (reg_resourceTypes r))"

definition Registry_Schemas :: "Registry \<Rightarrow> Schema list" where
  "Registry_Schemas r = map snd (reg_schemas r)"

definition Registry_ResourceTypes :: "Registry \<Rightarrow> ResourceType list" where
  "Registry_ResourceTypes r = map snd (reg_resourceTypes r)"

text \<open>What a server relies on: the map keys are the lower-case ids and names, each once, and the endpoints
  of the resource types differ, so that the lookup by endpoint does not depend on the iteration order.\<close>

definition registry_inv :: "Registry \<Rightarrow> bool" where
  "registry_inv r = (distinct (keys (reg_schemas r)) \<and> distinct (keys (reg_resourceTypes r)) \<and>
     list_all (\<lambda>(k, s). k = ToLower (sch_ID s)) (reg_schemas r) \<and>
     list_all (\<lambda>(k, rt). k = ToLower (rt_Name rt)) (reg_resourceTypes r))"

definition endpoints_distinct :: "Registry \<Rightarrow> bool" where
  "endpoints_distinct r = distinct (map (ToLower \<circ> rt_Endpoint) (Registry_ResourceTypes r))"

lemma list_all_map_put:
  "list_all P m \<Longrightarrow> P (k, v) \<Longrightarrow> list_all P (map_put k v m)"
  by (induction k v m rule: map_put.induct) auto

lemma registry_inv_New [simp]: "registry_inv NewRegistry"
  by (simp add: registry_inv_def NewRegistry_def)

lemma registry_inv_RegisterSchema [inv_intros]: "registry_inv r \<Longrightarrow> registry_inv (RegisterSchema s r)"
  by (simp add: registry_inv_def RegisterSchema_def list_all_map_put)

lemma registry_inv_RegisterResourceType [inv_intros]:
  "registry_inv r \<Longrightarrow> registry_inv (RegisterResourceType rt r)"
  by (simp add: registry_inv_def RegisterResourceType_def list_all_map_put)

lemma SchemaByID_Register:
  "SchemaByID (RegisterSchema s r) x = (if EqualFold x (sch_ID s) then Some s else SchemaByID r x)"
  by (simp add: SchemaByID_def RegisterSchema_def EqualFold_def)

lemma ResourceTypeByName_Register:
  "ResourceTypeByName (RegisterResourceType rt r) x =
     (if EqualFold x (rt_Name rt) then Some rt else ResourceTypeByName r x)"
  by (simp add: ResourceTypeByName_def RegisterResourceType_def EqualFold_def)

lemma ResourceTypeByName_name:
  assumes "registry_inv r" "ResourceTypeByName r x = Some rt"
  shows "EqualFold (rt_Name rt) x"
  using assms by (auto simp: registry_inv_def ResourceTypeByName_def EqualFold_def list_all_iff dest!: map_of_SomeD)

lemma ResourceTypeByEndpoint_Some:
  assumes "ResourceTypeByEndpoint r ep = Some rt"
  shows "EqualFold (rt_Endpoint rt) ep" "rt \<in> set (Registry_ResourceTypes r)"
proof -
  obtain i where "i < length (Registry_ResourceTypes r)" "EqualFold (rt_Endpoint (Registry_ResourceTypes r ! i)) ep"
    "rt = Registry_ResourceTypes r ! i"
    using assms unfolding ResourceTypeByEndpoint_def Registry_ResourceTypes_def [symmetric] find_Some_iff by blast
  then show "EqualFold (rt_Endpoint rt) ep" "rt \<in> set (Registry_ResourceTypes r)" by simp_all
qed

lemma ResourceTypeByName_of_member:
  assumes "registry_inv r" "rt \<in> set (Registry_ResourceTypes r)"
  shows "ResourceTypeByName r (rt_Name rt) = Some rt"
  using assms by (auto simp: registry_inv_def Registry_ResourceTypes_def ResourceTypeByName_def list_all_iff)

subsection \<open>Service provider configuration\<close>

record BulkConfig =
  bulk_Supported :: bool
  bulk_MaxOperations :: int
  bulk_MaxPayloadSize :: int

record FilterConfig =
  filter_Supported :: bool
  filter_MaxResults :: int

record AuthenticationScheme =
  auth_Type :: string
  auth_Name :: string
  auth_Description :: string
  auth_SpecURI :: string
  auth_DocumentationURI :: string
  auth_Primary :: bool

record ServiceProviderConfig =
  spc_DocumentationURI :: string
  spc_Patch :: bool
  spc_Bulk :: BulkConfig
  spc_Filter :: FilterConfig
  spc_ChangePassword :: bool
  spc_Sort :: bool
  spc_ETag :: bool
  spc_AuthenticationSchemes :: "AuthenticationScheme list option"

end
