(* ===== verification/Validation.thy ===== *)
theory Validation
  imports Schema Go_Quote
begin

text \<open>
  Validation of attributes against a schema (\<open>schema/validation.go\<close>) with its error messages, and
  \<open>conforms\<close>, the declarative reading of "these attributes fit these definitions" that the validator is
  proved to decide.
\<close>

subsection \<open>The validator\<close>

record ValidationError =
  ve_Field :: string
  ve_Message :: string

definition ValidationError_Error :: "ValidationError \<Rightarrow> string" where
  "ValidationError_Error e = ''validation error: field '' @ Quote (ve_Field e) @ '': '' @ ve_Message e"

fun lookupAttr_ci :: "attrs \<Rightarrow> string \<Rightarrow> gval option" where
  "lookupAttr_ci [] name = None"
| "lookupAttr_ci ((k, v) # m) name = (if EqualFold k name then Some v else lookupAttr_ci m name)"

fun is_integer_kind :: "gval \<Rightarrow> bool" where
  "is_integer_kind (GInt k i) = True"
| "is_integer_kind (GFloat64 f) = True"
| "is_integer_kind _ = False"

fun is_decimal_kind :: "gval \<Rightarrow> bool" where
  "is_decimal_kind (GInt k i) = True"
| "is_decimal_kind (GFloat64 f) = True"
| "is_decimal_kind (GFloat32 f) = True"
| "is_decimal_kind _ = False"

definition checkType :: "Attribute \<Rightarrow> gval \<Rightarrow> ValidationError option" where
  "checkType def val =
     (let err = (\<lambda>s. Some \<lparr>ve_Field = attr_Name def, ve_Message = s @ type_name val\<rparr>)
      in if attr_MultiValued def then
           (case val of GArr _ \<Rightarrow> None | _ \<Rightarrow> err ''expected a JSON array for multi-valued attribute, got '')
         else if attr_Type def \<in> {TypeString, TypeDateTime, TypeBinary, TypeReference} then
           (case val of GStr _ \<Rightarrow> None | _ \<Rightarrow> err ''expected string, got '')
         else if attr_Type def = TypeBoolean then
           (case val of GBool _ \<Rightarrow> None | _ \<Rightarrow> err ''expected boolean, got '')
         else if attr_Type def = TypeInteger then
           (if is_integer_kind val then None else err ''expected integer, got '')
         else if attr_Type def = TypeDecimal then
           (if is_decimal_kind val then None else err ''expected decimal, got '')
         else if attr_Type def = TypeComplex then
           (case val of GMap _ \<Rightarrow> None | _ \<Rightarrow> err ''expected object for complex attribute, got '')
         else None)"

definition item_error :: "string \<Rightarrow> nat \<Rightarrow> ValidationError \<Rightarrow> ValidationError" where
  "item_error name idx se =
     \<lparr>ve_Field = name @ ''['' @ nat_str idx @ ''].'' @ ve_Field se, ve_Message = ve_Message se\<rparr>"

definition sub_error :: "string \<Rightarrow> ValidationError \<Rightarrow> ValidationError" where
  "sub_error name se = \<lparr>ve_Field = name @ ''.'' @ ve_Field se, ve_Message = ve_Message se\<rparr>"

text \<open>The recursion descends into the sub-attribute definitions of an attribute.\<close>

fun validateAttributes :: "Attribute list \<Rightarrow> attrs \<Rightarrow> ValidationError list" where
  "validateAttributes [] m = []"
| "validateAttributes (Attribute n t subs mv desc req canon ce mut ret uniq refs # defs) m =
     (let def = Attribute n t subs mv desc req canon ce mut ret uniq refs
      in case lookupAttr_ci m n of
           None \<Rightarrow> if req then [\<lparr>ve_Field = n, ve_Message = ''required attribute is missing''\<rparr>] else []
         | Some val \<Rightarrow>
             if val = GNil then []
             else (case checkType def val of
                     Some e \<Rightarrow> [e]
                   | None \<Rightarrow>
                       if t = TypeComplex \<and> subs \<noteq> [] then
                         (if mv then
                            (case val of
                               GArr items \<Rightarrow> concat (map (\<lambda>(idx, item). case item of
                                   GMap im \<Rightarrow> map (item_error n idx) (validateAttributes subs im)
                                 | _ \<Rightarrow> []) (enumerate 0 items))
                             | _ \<Rightarrow> [])
                          else
                            (case val of
                               GMap im \<Rightarrow> map (sub_error n) (validateAttributes subs im)
                             | _ \<Rightarrow> []))
                       else []))
     @ validateAttributes defs m"

definition Validate :: "Schema \<Rightarrow> attrs \<Rightarrow> ValidationError list" where
  "Validate s m = validateAttributes (sch_Attributes s) m"

definition ValidateExtension :: "Schema \<Rightarrow> attrs \<Rightarrow> ValidationError list" where
  "ValidateExtension ext m = validateAttributes (sch_Attributes ext) m"

subsection \<open>What it decides\<close>

definition fits_type :: "Attribute \<Rightarrow> gval \<Rightarrow> bool" where
  "fits_type def v =
     (if attr_MultiValued def then \<exists>vs. v = GArr vs
      else (attr_Type def \<in> {TypeString, TypeDateTime, TypeBinary, TypeReference} \<longrightarrow> (\<exists>s. v = GStr s)) \<and>
           (attr_Type def = TypeBoolean \<longrightarrow> (\<exists>b. v = GBool b)) \<and>
           (attr_Type def = TypeInteger \<longrightarrow> is_integer_kind v) \<and>
           (attr_Type def = TypeDecimal \<longrightarrow> is_decimal_kind v) \<and>
           (attr_Type def = TypeComplex \<longrightarrow> (\<exists>m. v = GMap m)))"

text \<open>The objects inside a value that its sub-attribute definitions speak about.\<close>

definition objects_in :: "bool \<Rightarrow> gval \<Rightarrow> attrs set" where
  "objects_in mv v = (if mv then {m. \<exists>vs. v = GArr vs \<and> GMap m \<in> set vs} else {m. v = GMap m})"

inductive conforms :: "Attribute list \<Rightarrow> attrs \<Rightarrow> bool" where
  conforms: "(\<And>d. d \<in> set defs \<Longrightarrow> attr_Required d \<Longrightarrow> lookupAttr_ci m (attr_Name d) \<noteq> None) \<Longrightarrow>
     (\<And>d v. d \<in> set defs \<Longrightarrow> lookupAttr_ci m (attr_Name d) = Some v \<Longrightarrow> v \<noteq> GNil \<Longrightarrow> fits_type d v) \<Longrightarrow>
     (\<And>d v im. d \<in> set defs \<Longrightarrow> lookupAttr_ci m (attr_Name d) = Some v \<Longrightarrow> attr_Type d = TypeComplex \<Longrightarrow>
        im \<in> objects_in (attr_MultiValued d) v \<Longrightarrow> conforms (attr_SubAttributes d) im) \<Longrightarrow>
     conforms defs m"

lemma conforms_Nil [simp]: "conforms [] m"
  by (rule conforms.intros) simp_all

definition conforms_one :: "Attribute \<Rightarrow> attrs \<Rightarrow> bool" where
  "conforms_one d m = (case lookupAttr_ci m (attr_Name d) of
       None \<Rightarrow> \<not> attr_Required d
     | Some v \<Rightarrow> v = GNil \<or> fits_type d v \<and>
         (attr_Type d = TypeComplex \<longrightarrow> (\<forall>im \<in> objects_in (attr_MultiValued d) v. conforms (attr_SubAttributes d) im)))"

lemma conforms_iff: "conforms defs m \<longleftrightarrow> (\<forall>d \<in> set defs. conforms_one d m)"
proof
  assume "conforms defs m"
  then show "\<forall>d \<in> set defs. conforms_one d m"
    by cases (auto simp: conforms_one_def simp del: not_None_eq split: option.split)
next
  assume one: "\<forall>d \<in> set defs. conforms_one d m"
  show "conforms defs m"
  proof (rule conforms.intros)
    show "lookupAttr_ci m (attr_Name d) \<noteq> None" if "d \<in> set defs" "attr_Required d" for d
      using bspec [OF one that(1)] that(2) by (auto simp: conforms_one_def simp del: not_None_eq split: option.splits)
    show "fits_type d v" if "d \<in> set defs" "lookupAttr_ci m (attr_Name d) = Some v" "v \<noteq> GNil" for d v
      using bspec [OF one that(1)] that by (simp add: conforms_one_def)
    show "conforms (attr_SubAttributes d) im"
      if "d \<in> set defs" "lookupAttr_ci m (attr_Name d) = Some v" "attr_Type d = TypeComplex"
        "im \<in> objects_in (attr_MultiValued d) v" for d v im
    proof -
      have "v \<noteq> GNil" using that(4) by (auto simp: objects_in_def split: if_splits)
      then show ?thesis using bspec [OF one that(1)] that by (simp add: conforms_one_def)
    qed
  qed
qed

lemma conforms_Cons: "conforms (d # defs) m \<longleftrightarrow> conforms_one d m \<and> conforms defs m"
  by (simp add: conforms_iff)

lemma checkType_None: "checkType d v = None \<longleftrightarrow> fits_type d v"
  by (cases v) (simp_all add: checkType_def fits_type_def Let_def)

lemma no_item_errors:
  "(\<forall>x \<in> set (enumerate k items). (case x of (idx, item) \<Rightarrow> (case item of GMap im \<Rightarrow> map (f idx) (g im) | _ \<Rightarrow> [])) = [])
    \<longleftrightarrow> (\<forall>im. GMap im \<in> set items \<longrightarrow> g im = [])"
  by (induction items arbitrary: k) (auto split: gval.split)

text \<open>One attribute definition, given that the validator decides its sub-attributes.\<close>

definition one_errors :: "Attribute \<Rightarrow> attrs \<Rightarrow> ValidationError list" where
  "one_errors d m = validateAttributes [d] m"

lemma validateAttributes_Cons:
  "validateAttributes (d # defs) m = one_errors d m @ validateAttributes defs m"
  by (cases d) (simp add: one_errors_def)

lemma one_errors_iff:
  assumes sub: "\<And>im. validateAttributes (attr_SubAttributes d) im = [] \<longleftrightarrow> conforms (attr_SubAttributes d) im"
  shows "one_errors d m = [] \<longleftrightarrow> conforms_one d m"
proof (cases "lookupAttr_ci m (attr_Name d)")
  case None
  then show ?thesis by (cases d) (simp add: one_errors_def conforms_one_def)
next
  case (Some v)
  show ?thesis
  proof (cases "v = GNil \<or> checkType d v \<noteq> None")
    case True
    then show ?thesis using Some
      by (cases d) (auto simp: one_errors_def conforms_one_def checkType_None [symmetric] Let_def)
  next
    case False
    then have fits: "fits_type d v" "v \<noteq> GNil" "checkType d v = None" by (simp_all add: checkType_None [symmetric])
    obtain n t subs mv desc req canon ce mut ret uniq refs where
      d: "d = Attribute n t subs mv desc req canon ce mut ret uniq refs" by (cases d)
    show ?thesis
    proof (cases "t = TypeComplex")
      case False
      then show ?thesis using Some fits by (simp add: one_errors_def conforms_one_def d Let_def)
    next
      case True
      show ?thesis
      proof (cases mv)
        case True
        then obtain vs where "v = GArr vs" using fits(1) by (auto simp: fits_type_def d)
        then show ?thesis using Some fits sub True \<open>t = TypeComplex\<close>
          by (simp add: one_errors_def conforms_one_def d Let_def objects_in_def no_item_errors)
      next
        case False
        then obtain im where "v = GMap im" using fits(1) True by (auto simp: fits_type_def d)
        then show ?thesis using Some fits sub False True
          by (simp add: one_errors_def conforms_one_def d Let_def objects_in_def)
      qed
    qed
  qed
qed

lemma validateAttributes_conforms: "validateAttributes defs m = [] \<longleftrightarrow> conforms defs m"
proof (induction "size_list size defs" arbitrary: defs m rule: less_induct)
  case less
  show ?case
  proof (cases defs)
    case Nil
    then show ?thesis by simp
  next
    case (Cons d ds)
    have "size_list size (attr_SubAttributes d) < size_list size defs" using Cons by (cases d) simp
    then have "one_errors d m = [] \<longleftrightarrow> conforms_one d m" using less by (intro one_errors_iff) blast
    moreover have "validateAttributes ds m = [] \<longleftrightarrow> conforms ds m" using less Cons by (simp add: less_le)
    ultimately show ?thesis by (simp add: Cons validateAttributes_Cons conforms_Cons)
  qed
qed

text \<open>C14: Validation reports no error exactly when the attributes conform to the schema: every required attribute
  is present and every value that is not null has the type of its definition, in the objects inside it
  too.\<close>

theorem validate_decides_conforms: "Validate s m = [] \<longleftrightarrow> conforms (sch_Attributes s) m"
  by (simp add: Validate_def validateAttributes_conforms)

end
