(* ===== verification/Core_Schema.thy ===== *)
theory Core_Schema
  imports Validation
begin

text \<open>
  The built-in schemas and resource types (\<open>schema/core.go\<close>) and the registry that holds them
  (\<open>RegisterDefaults\<close> in \<open>schema/registry.go\<close>).  A composite literal of the source sets some fields of
  the struct and leaves the others at their zero value; \<open>attr_def\<close> sets the fields every literal has, and
  the builders below set one more field each.
\<close>

subsection \<open>Struct literals\<close>

definition attr_def :: "string \<Rightarrow> Type \<Rightarrow> string \<Rightarrow> Mutability \<Rightarrow> Returned \<Rightarrow> Uniqueness \<Rightarrow> Attribute" where
  "attr_def n t desc mut ret uniq = Attribute n t [] False desc False [] False mut ret uniq []"

fun with_subs :: "Attribute list \<Rightarrow> Attribute \<Rightarrow> Attribute" where
  "with_subs subs (Attribute n t _ mv desc req canon ce mut ret uniq refs) =
     Attribute n t subs mv desc req canon ce mut ret uniq refs"

fun multi_valued :: "Attribute \<Rightarrow> Attribute" where
  "multi_valued (Attribute n t subs _ desc req canon ce mut ret uniq refs) =
     Attribute n t subs True desc req canon ce mut ret uniq refs"

fun required :: "Attribute \<Rightarrow> Attribute" where
  "required (Attribute n t subs mv desc _ canon ce mut ret uniq refs) =
     Attribute n t subs mv desc True canon ce mut ret uniq refs"

fun canonical :: "string list \<Rightarrow> Attribute \<Rightarrow> Attribute" where
  "canonical vs (Attribute n t subs mv desc req _ ce mut ret uniq refs) =
     Attribute n t subs mv desc req vs ce mut ret uniq refs"

fun case_exact :: "Attribute \<Rightarrow> Attribute" where
  "case_exact (Attribute n t subs mv desc req canon _ mut ret uniq refs) =
     Attribute n t subs mv desc req canon True mut ret uniq refs"

fun references :: "string list \<Rightarrow> Attribute \<Rightarrow> Attribute" where
  "references vs (Attribute n t subs mv desc req canon ce mut ret uniq _) =
     Attribute n t subs mv desc req canon ce mut ret uniq vs"

subsection \<open>The schemas\<close>

abbreviation UserSchemaURI :: string where
  "UserSchemaURI \<equiv> ''urn:ietf:params:scim:schemas:core:2.0:User''"

abbreviation GroupSchemaURI :: string where
  "GroupSchemaURI \<equiv> ''urn:ietf:params:scim:schemas:core:2.0:Group''"

abbreviation EnterpriseUserSchemaURI :: string where
  "EnterpriseUserSchemaURI \<equiv> ''urn:ietf:params:scim:schemas:extension:enterprise:2.0:User''"

definition commonSubAttrs :: "string list \<Rightarrow> Attribute list" where
  \<open>commonSubAttrs typeCanonicalValues =
    [attr_def ''value'' TypeString ''The attribute's significant value.''
       MutabilityReadWrite ReturnedDefault UniquenessNone,
     attr_def ''display'' TypeString ''A human-readable name, primarily used for display purposes.''
       MutabilityReadWrite ReturnedDefault UniquenessNone,
     canonical typeCanonicalValues (attr_def ''type'' TypeString ''A label indicating the attribute's function.''
       MutabilityReadWrite ReturnedDefault UniquenessNone),
     attr_def ''primary'' TypeBoolean ''A Boolean value indicating the 'primary' or preferred attribute value.''
       MutabilityReadWrite ReturnedDefault UniquenessNone]\<close>

definition user_identity_attrs :: "Attribute list" where
  \<open>user_identity_attrs =
    [case_exact (attr_def ''id'' TypeString ''A unique identifier for a SCIM resource as defined by the service provider.''
       MutabilityReadOnly ReturnedAlways UniquenessServer),
     attr_def ''externalId'' TypeString ''A String that is an identifier for the resource as defined by the provisioning client.''
       MutabilityReadWrite ReturnedDefault UniquenessNone,
     required (attr_def ''userName'' TypeString ''Unique identifier for the User, typically used by the user to directly authenticate to the service provider.''
       MutabilityReadWrite ReturnedDefault UniquenessServer)]\<close>

definition user_name_attrs :: "Attribute list" where
  \<open>user_name_attrs =
    [with_subs
       [attr_def ''formatted'' TypeString ''The full name, including all middle names, titles, and suffixes as appropriate, formatted for display.''
          MutabilityReadWrite ReturnedDefault UniquenessNone,
        attr_def ''familyName'' TypeString ''The family name of the User, or last name in most Western languages.''
          MutabilityReadWrite ReturnedDefault UniquenessNone,
        attr_def ''givenName'' TypeString ''The given name of the User, or first name in most Western languages.''
          MutabilityReadWrite ReturnedDefault UniquenessNone,
        attr_def ''middleName'' TypeString ''The middle name(s) of the User.''
          MutabilityReadWrite ReturnedDefault UniquenessNone,
        attr_def ''honorificPrefix'' TypeString ''The honorific prefix(es) of the User, or title in most Western languages.''
          MutabilityReadWrite ReturnedDefault UniquenessNone,
        attr_def ''honorificSuffix'' TypeString ''The honorific suffix(es) of the User, or suffix in most Western languages.''
          MutabilityReadWrite ReturnedDefault UniquenessNone]
       (attr_def ''name'' TypeComplex ''The components of the user's real name.''
       MutabilityReadWrite ReturnedDefault UniquenessNone)]\<close>

definition user_profile_attrs :: "Attribute list" where
  \<open>user_profile_attrs =
    [attr_def ''displayName'' TypeString ''The name of the User, suitable for display to end-users.''
       MutabilityReadWrite ReturnedDefault UniquenessNone,
     attr_def ''nickName'' TypeString ''The casual way to address the user in real life.''
       MutabilityReadWrite ReturnedDefault UniquenessNone,
     references [''external''] (attr_def ''profileUrl'' TypeReference ''A fully qualified URL pointing to a page representing the User's online profile.''
       MutabilityReadWrite ReturnedDefault UniquenessNone),
     attr_def ''title'' TypeString ''The user's title, such as "Vice President".''
       MutabilityReadWrite ReturnedDefault UniquenessNone,
     attr_def ''userType'' TypeString ''Used to identify the relationship between the organization and the user.''
       MutabilityReadWrite ReturnedDefault UniquenessNone,
     attr_def ''preferredLanguage'' TypeString ''Indicates the User's preferred written or spoken language.''
       MutabilityReadWrite ReturnedDefault UniquenessNone,
     attr_def ''locale'' TypeString ''Used to indicate the User's default location for purposes of localizing items such as currency, date time format, or numerical representations.''
       MutabilityReadWrite ReturnedDefault UniquenessNone,
     attr_def ''timezone'' TypeString ''The User's time zone in the 'Olson' time zone database format.''
       MutabilityReadWrite ReturnedDefault UniquenessNone,
     attr_def ''active'' TypeBoolean ''A Boolean value indicating the User's administrative status.''
       MutabilityReadWrite ReturnedDefault UniquenessNone,
     case_exact (attr_def ''password'' TypeString ''The User's cleartext password. This attribute is intended to be used as a means to specify an initial password when creating a new User or to reset an existing User's password.''
       MutabilityWriteOnly ReturnedNever UniquenessNone)]\<close>

definition user_contact_attrs :: "Attribute list" where
  \<open>user_contact_attrs =
    [with_subs (commonSubAttrs [''work'', ''home'', ''other'']) (multi_valued (attr_def ''emails'' TypeComplex ''Email addresses for the user.''
       MutabilityReadWrite ReturnedDefault UniquenessNone)),
     with_subs (commonSubAttrs [''work'', ''home'', ''mobile'', ''fax'', ''pager'', ''other'']) (multi_valued (attr_def ''phoneNumbers'' TypeComplex ''Phone numbers for the User.''
       MutabilityReadWrite ReturnedDefault UniquenessNone)),
     with_subs (commonSubAttrs [''aim'', ''gtalk'', ''icq'', ''xmpp'', ''msn'', ''skype'', ''qq'', ''yahoo'']) (multi_valued (attr_def ''ims'' TypeComplex ''Instant messaging addresses for the User.''
       MutabilityReadWrite ReturnedDefault UniquenessNone))]\<close>

definition user_photo_attrs :: "Attribute list" where
  \<open>user_photo_attrs =
    [with_subs
       [references [''external''] (attr_def ''value'' TypeReference ''URL of a photo of the User.''
          MutabilityReadWrite ReturnedDefault UniquenessNone),
        attr_def ''display'' TypeString ''A human-readable name, primarily used for display purposes.''
          MutabilityReadWrite ReturnedDefault UniquenessNone,
        canonical [''photo'', ''thumbnail''] (attr_def ''type'' TypeString ''A label indicating the attribute's function.''
          MutabilityReadWrite ReturnedDefault UniquenessNone),
        attr_def ''primary'' TypeBoolean ''A Boolean value indicating the 'primary' or preferred attribute value.''
          MutabilityReadWrite ReturnedDefault UniquenessNone]
       (multi_valued (attr_def ''photos'' TypeComplex ''URLs of photos of the User.''
       MutabilityReadWrite ReturnedDefault UniquenessNone))]\<close>

definition user_address_attrs :: "Attribute list" where
  \<open>user_address_attrs =
    [with_subs
       [attr_def ''formatted'' TypeString ''The full mailing address, formatted for display or use with a mailing label.''
          MutabilityReadWrite ReturnedDefault UniquenessNone,
        attr_def ''streetAddress'' TypeString ''The full street address component, which may include house number, street name, P.O. box, and multi-line extended street address information.''
          MutabilityReadWrite ReturnedDefault UniquenessNone,
        attr_def ''locality'' TypeString ''The city or locality component.''
          MutabilityReadWrite ReturnedDefault UniquenessNone,
        attr_def ''region'' TypeString ''The state or region component.''
          MutabilityReadWrite ReturnedDefault UniquenessNone,
        attr_def ''postalCode'' TypeString ''The zip code or postal code component.''
          MutabilityReadWrite ReturnedDefault UniquenessNone,
        attr_def ''country'' TypeString ''The country name component.''
          MutabilityReadWrite ReturnedDefault UniquenessNone,
        canonical [''work'', ''home'', ''other''] (attr_def ''type'' TypeString ''A label indicating the attribute's function.''
          MutabilityReadWrite ReturnedDefault UniquenessNone),
        attr_def ''primary'' TypeBoolean ''A Boolean value indicating the 'primary' or preferred attribute value.''
          MutabilityReadWrite ReturnedDefault UniquenessNone]
       (multi_valued (attr_def ''addresses'' TypeComplex ''A physical mailing address for this User.''
       MutabilityReadWrite ReturnedDefault UniquenessNone))]\<close>

definition user_group_attrs :: "Attribute list" where
  \<open>user_group_attrs =
    [with_subs
       [references [''Group''] (attr_def ''value'' TypeReference ''The identifier of the User's group.''
          MutabilityReadOnly ReturnedDefault UniquenessNone),
        references [''Group''] (attr_def ''$ref'' TypeReference ''The URI of the corresponding Group resource to which the user belongs.''
          MutabilityReadOnly ReturnedDefault UniquenessNone),
        attr_def ''display'' TypeString ''A human-readable name, primarily used for display purposes.''
          MutabilityReadOnly ReturnedDefault UniquenessNone,
        canonical [''direct'', ''indirect''] (attr_def ''type'' TypeString ''A label indicating the attribute's function, e.g., 'direct' or 'indirect'.''
          MutabilityReadOnly ReturnedDefault UniquenessNone)]
       (multi_valued (attr_def ''groups'' TypeComplex ''A list of groups to which the user belongs.''
       MutabilityReadOnly ReturnedDefault UniquenessNone))]\<close>

definition user_role_attrs :: "Attribute list" where
  \<open>user_role_attrs =
    [with_subs (commonSubAttrs []) (multi_valued (attr_def ''entitlements'' TypeComplex ''A list of entitlements for the User that represent a thing the User has.''
       MutabilityReadWrite ReturnedDefault UniquenessNone)),
     with_subs (commonSubAttrs []) (multi_valued (attr_def ''roles'' TypeComplex ''A list of roles for the User that collectively represent who the User is.''
       MutabilityReadWrite ReturnedDefault UniquenessNone)),
     with_subs
       [attr_def ''value'' TypeBinary ''The value of an X.509 certificate.''
          MutabilityReadWrite ReturnedDefault UniquenessNone,
        attr_def ''display'' TypeString ''A human-readable name, primarily used for display purposes.''
          MutabilityReadWrite ReturnedDefault UniquenessNone,
        attr_def ''type'' TypeString ''A label indicating the attribute's function.''
          MutabilityReadWrite ReturnedDefault UniquenessNone,
        attr_def ''primary'' TypeBoolean ''A Boolean value indicating the 'primary' or preferred attribute value.''
          MutabilityReadWrite ReturnedDefault UniquenessNone]
       (multi_valued (attr_def ''x509Certificates'' TypeComplex ''A list of certificates issued to the User.''
       MutabilityReadWrite ReturnedDefault UniquenessNone))]\<close>

definition CoreUserSchema :: Schema where
  "CoreUserSchema = \<lparr>sch_ID = UserSchemaURI, sch_Name = ''User'', sch_Description = ''User Account'',
     sch_Attributes = user_identity_attrs @
       user_name_attrs @
       user_profile_attrs @
       user_contact_attrs @
       user_photo_attrs @
       user_address_attrs @
       user_group_attrs @
       user_role_attrs\<rparr>"

definition group_attrs :: "Attribute list" where
  \<open>group_attrs =
    [case_exact (attr_def ''id'' TypeString ''A unique identifier for a SCIM resource as defined by the service provider.''
       MutabilityReadOnly ReturnedAlways UniquenessServer),
     attr_def ''externalId'' TypeString ''A String that is an identifier for the resource as defined by the provisioning client.''
       MutabilityReadWrite ReturnedDefault UniquenessNone,
     required (attr_def ''displayName'' TypeString ''A human-readable name for the Group.''
       MutabilityReadWrite ReturnedDefault UniquenessNone),
     with_subs
       [attr_def ''value'' TypeString ''Identifier of the member of this Group.''
          MutabilityImmutable ReturnedDefault UniquenessNone,
        references [''User'', ''Group''] (attr_def ''$ref'' TypeReference ''The URI corresponding to a SCIM resource that is a member of this Group.''
          MutabilityImmutable ReturnedDefault UniquenessNone),
        attr_def ''display'' TypeString ''A human-readable name for the member.''
          MutabilityReadOnly ReturnedDefault UniquenessNone,
        canonical [''User'', ''Group''] (attr_def ''type'' TypeString ''A label indicating the type of resource, e.g., 'User' or 'Group'.''
          MutabilityImmutable ReturnedDefault UniquenessNone)]
       (multi_valued (attr_def ''members'' TypeComplex ''A list of members of the Group.''
       MutabilityReadWrite ReturnedDefault UniquenessNone))]\<close>

definition CoreGroupSchema :: Schema where
  "CoreGroupSchema = \<lparr>sch_ID = GroupSchemaURI, sch_Name = ''Group'', sch_Description = ''Group'',
     sch_Attributes = group_attrs\<rparr>"

definition enterprise_attrs :: "Attribute list" where
  \<open>enterprise_attrs =
    [attr_def ''employeeNumber'' TypeString ''Numeric or alphanumeric identifier assigned to a person, typically based on order of hire or association with an organization.''
       MutabilityReadWrite ReturnedDefault UniquenessNone,
     attr_def ''costCenter'' TypeString ''Identifies the name of a cost center.''
       MutabilityReadWrite ReturnedDefault UniquenessNone,
     attr_def ''organization'' TypeString ''Identifies the name of an organization.''
       MutabilityReadWrite ReturnedDefault UniquenessNone,
     attr_def ''division'' TypeString ''Identifies the name of a division.''
       MutabilityReadWrite ReturnedDefault UniquenessNone,
     attr_def ''department'' TypeString ''Identifies the name of a department.''
       MutabilityReadWrite ReturnedDefault UniquenessNone,
     with_subs
       [attr_def ''value'' TypeString ''The id of the SCIM resource representing the User's manager.''
          MutabilityReadWrite ReturnedDefault UniquenessNone,
        references [''User''] (attr_def ''$ref'' TypeReference ''The URI of the SCIM resource representing the User's manager.''
          MutabilityReadWrite ReturnedDefault UniquenessNone),
        attr_def ''displayName'' TypeString ''The displayName of the User's manager.''
          MutabilityReadOnly ReturnedDefault UniquenessNone]
       (attr_def ''manager'' TypeComplex ''The User's manager.''
       MutabilityReadWrite ReturnedDefault UniquenessNone)]\<close>

definition EnterpriseUserSchema :: Schema where
  "EnterpriseUserSchema = \<lparr>sch_ID = EnterpriseUserSchemaURI, sch_Name = ''EnterpriseUser'', sch_Description = ''Enterprise User'',
     sch_Attributes = enterprise_attrs\<rparr>"

subsection \<open>Resource types and the default registry\<close>

definition UserResourceType :: ResourceType where
  "UserResourceType = \<lparr>rt_ID = ''User'', rt_Name = ''User'', rt_Description = ''User Account'',
     rt_Endpoint = ''/Users'', rt_Schema = UserSchemaURI,
     rt_SchemaExtensions = [\<lparr>ext_Schema = EnterpriseUserSchemaURI, ext_Required = False\<rparr>]\<rparr>"

definition GroupResourceType :: ResourceType where
  "GroupResourceType = \<lparr>rt_ID = ''Group'', rt_Name = ''Group'', rt_Description = ''Group'',
     rt_Endpoint = ''/Groups'', rt_Schema = GroupSchemaURI, rt_SchemaExtensions = []\<rparr>"

definition RegisterDefaults :: "Registry \<Rightarrow> Registry" where
  "RegisterDefaults r = RegisterResourceType GroupResourceType (RegisterResourceType UserResourceType
     (RegisterSchema EnterpriseUserSchema (RegisterSchema CoreGroupSchema (RegisterSchema CoreUserSchema r))))"

definition default_registry :: Registry where
  "default_registry = RegisterDefaults NewRegistry"

subsection \<open>The built-in data is well formed\<close>

text \<open>Names are distinct up to case at every level, only complex attributes have sub-attributes, these are not
  complex themselves, and the types and modes are among the constants of \<open>attribute.go\<close>.\<close>

definition simple_attr_wf :: "Attribute \<Rightarrow> bool" where
  "simple_attr_wf a =
     (attr_Type a \<in> {TypeString, TypeBoolean, TypeDecimal, TypeInteger, TypeDateTime, TypeBinary,
        TypeReference, TypeComplex} \<and>
      attr_Mutability a \<in> {MutabilityReadOnly, MutabilityReadWrite, MutabilityImmutable, MutabilityWriteOnly} \<and>
      attr_Returned a \<in> {ReturnedAlways, ReturnedNever, ReturnedDefault, ReturnedRequest} \<and>
      attr_Uniqueness a \<in> {UniquenessNone, UniquenessServer, UniquenessGlobal} \<and>
      (attr_Type a = TypeReference) = (attr_ReferenceTypes a \<noteq> []) \<and>
      (attr_Mutability a = MutabilityWriteOnly) = (attr_Returned a = ReturnedNever))"

definition attr_wf :: "Attribute \<Rightarrow> bool" where
  "attr_wf a = (simple_attr_wf a \<and> (attr_Type a = TypeComplex) = (attr_SubAttributes a \<noteq> []) \<and>
     distinct (map (ToLower \<circ> attr_Name) (attr_SubAttributes a)) \<and>
     list_all (\<lambda>s. simple_attr_wf s \<and> attr_Type s \<noteq> TypeComplex \<and> \<not> attr_MultiValued s) (attr_SubAttributes a))"

definition schema_wf :: "Schema \<Rightarrow> bool" where
  "schema_wf s = (distinct (map (ToLower \<circ> attr_Name) (sch_Attributes s)) \<and> list_all attr_wf (sch_Attributes s))"

definition resource_type_wf :: "Registry \<Rightarrow> ResourceType \<Rightarrow> bool" where
  "resource_type_wf r rt = (HasPrefix (rt_Endpoint rt) ''/'' \<and> SchemaByID r (rt_Schema rt) \<noteq> None \<and>
     list_all (\<lambda>e. SchemaByID r (ext_Schema e) \<noteq> None) (rt_SchemaExtensions rt))"

lemma schema_wf_user: "schema_wf CoreUserSchema"
  by code_simp

lemma schema_wf_group: "schema_wf CoreGroupSchema"
  by code_simp

lemma schema_wf_enterprise: "schema_wf EnterpriseUserSchema"
  by code_simp

lemma registry_inv_defaults [inv_intros]: "registry_inv r \<Longrightarrow> registry_inv (RegisterDefaults r)"
  by (simp add: RegisterDefaults_def inv_intros)

lemma registry_inv_default [simp]: "registry_inv default_registry"
  by (simp add: default_registry_def inv_intros)

lemma sch_IDs [simp]:
  "sch_ID CoreUserSchema = UserSchemaURI" "sch_ID CoreGroupSchema = GroupSchemaURI"
  "sch_ID EnterpriseUserSchema = EnterpriseUserSchemaURI"
  by (simp_all add: CoreUserSchema_def CoreGroupSchema_def EnterpriseUserSchema_def)

lemma default_schemas: "Registry_Schemas default_registry = [CoreUserSchema, CoreGroupSchema, EnterpriseUserSchema]"
  by (simp add: Registry_Schemas_def default_registry_def RegisterDefaults_def RegisterSchema_def RegisterResourceType_def
      NewRegistry_def ToLower_def lower_char_def)

lemma default_resource_types: "Registry_ResourceTypes default_registry = [UserResourceType, GroupResourceType]"
  by (simp add: Registry_ResourceTypes_def default_registry_def RegisterDefaults_def RegisterSchema_def
      RegisterResourceType_def NewRegistry_def UserResourceType_def GroupResourceType_def ToLower_def lower_char_def)

text \<open>The built-in registry is consistent: it satisfies the registry invariant, its schemas are well formed,
  no two of its resource types have the same endpoint, and the schema and the extensions of every resource
  type are registered.\<close>

theorem default_registry_consistent:
  "registry_inv default_registry \<and> endpoints_distinct default_registry \<and>
   list_all schema_wf (Registry_Schemas default_registry) \<and>
   list_all (resource_type_wf default_registry) (Registry_ResourceTypes default_registry)"
proof (intro conjI)
  show "endpoints_distinct default_registry"
    unfolding endpoints_distinct_def default_resource_types by code_simp
  show "list_all schema_wf (Registry_Schemas default_registry)"
    by (simp add: default_schemas schema_wf_user schema_wf_group schema_wf_enterprise)
  have "resource_type_wf default_registry UserResourceType" "resource_type_wf default_registry GroupResourceType"
    by (simp_all add: resource_type_wf_def UserResourceType_def GroupResourceType_def HasPrefix_def SchemaByID_def
        default_registry_def RegisterDefaults_def RegisterSchema_def RegisterResourceType_def NewRegistry_def
        ToLower_def lower_char_def)
  then show "list_all (resource_type_wf default_registry) (Registry_ResourceTypes default_registry)"
    by (simp add: default_resource_types)
qed simp

end
