(* ===== verification/Memory_Store.thy ===== *)
theory Memory_Store
  imports Store_API
begin

text \<open>
  The in-memory store (\<open>store/memory.go\<close>): resource type to id to resource.  Every operation
  holds the lock over what it reads and writes, so an execution is a sequence of the operations
  below; the order of the lists stands for the iteration order of the maps.
\<close>

type_synonym mem = "(string \<times> (string \<times> resource) list) list"

definition typeMap :: "mem \<Rightarrow> string \<Rightarrow> (string \<times> resource) list \<times> mem" where
  "typeMap s rt = (case map_of s rt of Some m \<Rightarrow> (m, s) | None \<Rightarrow> ([], map_put rt [] s))"

definition hex_encode :: "string \<Rightarrow> string" where
  "hex_encode bs = concat (map (\<lambda>b. [hex_digit (char_code b div 16), hex_digit (char_code b mod 16)]) bs)"

definition generateID :: "env \<Rightarrow> store_error + string" where
  "generateID e =
     (case rand_bytes e of
        Inl t \<Rightarrow> Inl (wrap_err KInternal ('': failed to generate id: '' @ t))
      | Inr bs \<Rightarrow> Inr (hex_encode bs))"

definition checkContext :: "env \<Rightarrow> store_error option" where
  "checkContext e = map_option (\<lambda>t. wrap_err KInternal ('': '' @ t)) (ctx_err e)"

definition not_found :: "string \<Rightarrow> string \<Rightarrow> store_error" where
  "not_found rt rid = wrap_err KNotFound ('': '' @ rt @ ''/'' @ rid)"

definition getUserName :: "resource \<Rightarrow> string" where
  "getUserName r =
     (case find (\<lambda>(k, v). EqualFold k ''userName'' \<and> (case v of GStr _ \<Rightarrow> True | _ \<Rightarrow> False)) (Attributes r) of
        Some (_, GStr s) \<Rightarrow> s | _ \<Rightarrow> [])"

definition run_pre :: "('h \<Rightarrow> resource \<Rightarrow> store_error + resource) \<Rightarrow> 'h list \<Rightarrow> resource \<Rightarrow> store_error + resource" where
  "run_pre call hs r = fold_sum (\<lambda>r h. call h r) r hs"

definition stamp_new :: "string \<Rightarrow> string \<Rightarrow> time \<Rightarrow> resource \<Rightarrow> resource" where
  "stamp_new rid rt t r =
     r\<lparr>ID := rid, Meta := (Meta r)\<lparr>ResourceType := rt, Created := t, LastModified := t\<rparr>\<rparr>"

definition Create_mem :: "hooks \<Rightarrow> env \<Rightarrow> string \<Rightarrow> resource \<Rightarrow> mem \<Rightarrow> (store_error, resource) outcome \<times> mem" where
  "Create_mem h e rt res s =
     (case checkContext e of Some err \<Rightarrow> (Err err, s) | None \<Rightarrow>
      (case run_pre (\<lambda>f. f rt) (PreCreate h) res of Inl err \<Rightarrow> (Err err, s) | Inr res \<Rightarrow>
       (case generateID e of Inl err \<Rightarrow> (Err err, s) | Inr rid \<Rightarrow>
        (let clone = stamp_new rid rt (now e) (Clone res);
             (m, s) = typeMap s rt;
             newUserName = getUserName clone
         in if EqualFold rt ''User'' \<and> newUserName \<noteq> [] \<and>
               list_ex (\<lambda>(_, x). EqualFold (getUserName x) newUserName) m
            then (Err (wrap_err KConflict ('': userName '' @ Quote newUserName @ '' already exists'')), s)
            else (Ok (foldl (\<lambda>r f. f rt r) (Clone clone) (PostCreate h)),
                  map_put rt (map_put rid clone m) s)))))"

definition lookup_mem :: "mem \<Rightarrow> string \<Rightarrow> string \<Rightarrow> resource option" where
  "lookup_mem s rt rid = (case map_of s rt of None \<Rightarrow> None | Some m \<Rightarrow> map_of m rid)"

definition store_mem :: "mem \<Rightarrow> string \<Rightarrow> string \<Rightarrow> resource \<Rightarrow> mem" where
  "store_mem s rt rid r =
     (case map_of s rt of None \<Rightarrow> s | Some m \<Rightarrow> map_put rt (map_put rid r m) s)"

definition Get_mem :: "env \<Rightarrow> string \<Rightarrow> string \<Rightarrow> mem \<Rightarrow> (store_error, resource) outcome \<times> mem" where
  "Get_mem e rt rid s =
     (case checkContext e of Some err \<Rightarrow> (Err err, s) | None \<Rightarrow>
      (case lookup_mem s rt rid of
         None \<Rightarrow> (Err (not_found rt rid), s)
       | Some r \<Rightarrow> (Ok (Clone r), s)))"

text \<open>\<open>start + pageSize\<close> is 64-bit arithmetic, and a slice expression with bad bounds panics.\<close>

definition wrap64 :: "int \<Rightarrow> int" where
  "wrap64 i = (i + 2 ^ 63) mod 2 ^ 64 - 2 ^ 63"

definition page_of :: "resource list \<Rightarrow> int \<Rightarrow> int \<Rightarrow> ((int \<times> resource list) option)" where
  "page_of filtered startIndex0 cnt =
     (let totalResults = int (length filtered);
          startIndex = (if startIndex0 < 1 then 1 else startIndex0);
          start = (if startIndex - 1 > totalResults then totalResults else startIndex - 1);
          pageSize = (if cnt < 0 then totalResults else cnt);
          end0 = wrap64 (start + pageSize);
          end = (if end0 > totalResults then totalResults else end0)
      in if end < start then None
         else Some (startIndex, take (nat (end - start)) (drop (nat start) filtered)))"

definition matching :: "ListParams \<Rightarrow> (string \<times> resource) list \<Rightarrow> resource list" where
  "matching params m =
     map Clone (filter (\<lambda>r. case Filter params of None \<Rightarrow> True | Some f \<Rightarrow> EvalFilter f r) (map snd m))"

definition List_mem :: "env \<Rightarrow> string \<Rightarrow> ListParams \<Rightarrow> mem \<Rightarrow> (store_error, ListResult) outcome \<times> mem" where
  "List_mem e rt params s =
     (case checkContext e of Some err \<Rightarrow> (Err err, s) | None \<Rightarrow>
      (let m = (case map_of s rt of None \<Rightarrow> [] | Some m \<Rightarrow> m);
           filtered = matching params m;
           filtered = (if SortBy params \<noteq> [] then SortResources filtered (SortBy params) (LSortOrder params)
                       else filtered)
       in case page_of filtered (StartIndex params) (Count params) of
            None \<Rightarrow> (Panic ''runtime error: slice bounds out of range'', s)
          | Some (startIndex, page) \<Rightarrow>
              (Ok \<lparr>Resources = page, TotalResults = int (length filtered), LStartIndex = startIndex,
                   ItemsPerPage = int (length page), NeedsClientFilter = False\<rparr>, s)))"

definition stamp_replaced :: "string \<Rightarrow> string \<Rightarrow> time \<Rightarrow> resource \<Rightarrow> resource \<Rightarrow> resource" where
  "stamp_replaced rid rt t old r =
     r\<lparr>ID := rid,
       Meta := (Meta r)\<lparr>Created := Created (Meta old), ResourceType := rt, LastModified := t\<rparr>\<rparr>"

definition Replace_mem :: "hooks \<Rightarrow> env \<Rightarrow> string \<Rightarrow> string \<Rightarrow> resource \<Rightarrow> mem \<Rightarrow> (store_error, resource) outcome \<times> mem" where
  "Replace_mem h e rt rid res s =
     (case checkContext e of Some err \<Rightarrow> (Err err, s) | None \<Rightarrow>
      (case run_pre (\<lambda>f. f rt rid) (PreUpdate h) res of Inl err \<Rightarrow> (Err err, s) | Inr res \<Rightarrow>
       (case lookup_mem s rt rid of
          None \<Rightarrow> (Err (not_found rt rid), s)
        | Some old \<Rightarrow>
            (let clone = stamp_replaced rid rt (now e) old (Clone res)
             in (Ok (foldl (\<lambda>r f. f rt r) (Clone clone) (PostUpdate h)), store_mem s rt rid clone)))))"

definition patch_error :: "res_error \<Rightarrow> store_error" where
  "patch_error err =
     (if err = ErrNoTarget then wrap_err KNoTarget ('': '' @ res_error_text err)
      else wrap_err KBadPatch ('': '' @ res_error_text err))"

definition stamp_patched :: "string \<Rightarrow> time \<Rightarrow> resource \<Rightarrow> resource" where
  "stamp_patched rt t r = r\<lparr>Meta := (Meta r)\<lparr>LastModified := t, ResourceType := rt\<rparr>\<rparr>"

definition Patch_mem :: "hooks \<Rightarrow> env \<Rightarrow> string \<Rightarrow> string \<Rightarrow> PatchOp list \<Rightarrow> mem \<Rightarrow> (store_error, resource) outcome \<times> mem" where
  "Patch_mem h e rt rid pops s =
     (case checkContext e of Some err \<Rightarrow> (Err err, s) | None \<Rightarrow>
      (case lookup_mem s rt rid of
         None \<Rightarrow> (Err (not_found rt rid), s)
       | Some old \<Rightarrow>
         (case run_pre (\<lambda>f. f rt rid) (PreUpdate h) (Clone old) of Inl err \<Rightarrow> (Err err, s) | Inr _ \<Rightarrow>
          (case ApplyPatch old pops of
             Inl err \<Rightarrow> (Err (patch_error err), s)
           | Inr patched \<Rightarrow>
               (let patched = stamp_patched rt (now e) patched
                in (Ok (foldl (\<lambda>r f. f rt r) (Clone patched) (PostUpdate h)),
                    store_mem s rt rid patched))))))"

definition run_pre_delete :: "(string \<Rightarrow> string \<Rightarrow> store_error option) list \<Rightarrow> string \<Rightarrow> string \<Rightarrow> store_error option" where
  "run_pre_delete hs rt rid =
     (case find (\<lambda>f. f rt rid \<noteq> None) hs of Some f \<Rightarrow> f rt rid | None \<Rightarrow> None)"

definition Delete_mem :: "hooks \<Rightarrow> env \<Rightarrow> string \<Rightarrow> string \<Rightarrow> mem \<Rightarrow> (store_error, unit) outcome \<times> mem" where
  "Delete_mem h e rt rid s =
     (case checkContext e of Some err \<Rightarrow> (Err err, s) | None \<Rightarrow>
      (case run_pre_delete (PreDelete h) rt rid of Some err \<Rightarrow> (Err err, s) | None \<Rightarrow>
       (case map_of s rt of
          None \<Rightarrow> (Err (not_found rt rid), s)
        | Some m \<Rightarrow>
          (case map_of m rid of
             None \<Rightarrow> (Err (not_found rt rid), s)
           | Some _ \<Rightarrow> (Ok (), map_put rt (map_del rid m) s)))))"

definition memory_ops :: "hooks \<Rightarrow> mem store_ops" where
  "memory_ops h =
     \<lparr>st_Create = Create_mem h, st_Get = Get_mem, st_List = List_mem, st_Replace = Replace_mem h,
      st_Patch = Patch_mem h, st_Delete = Delete_mem h\<rparr>"

subsection \<open>Content and invariant\<close>

definition content :: "mem \<Rightarrow> string \<times> string \<Rightarrow> resource option" where
  "content s = (\<lambda>(rt, rid). lookup_mem s rt rid)"

text \<open>Keys are distinct, and a resource lies under its own id.\<close>

definition mem_inv :: "mem \<Rightarrow> bool" where
  "mem_inv s =
     (distinct (keys s) \<and> list_all (\<lambda>(rt, m). distinct (keys m)) s)"

lemma content_map_put_same:
  "map_of s rt = Some m \<Longrightarrow> content (map_put rt (map_put rid r m) s) = (content s)((rt, rid) \<mapsto> r)"
  by (auto simp: content_def lookup_mem_def fun_eq_iff)

lemma content_store: "content s (rt, rid) \<noteq> None \<Longrightarrow> content (store_mem s rt rid r) = (content s)((rt, rid) \<mapsto> r)"
  by (auto simp: store_mem_def content_map_put_same content_def lookup_mem_def split: option.splits)

lemma content_del:
  "map_of s rt = Some m \<Longrightarrow> content (map_put rt (map_del rid m) s) = (content s)((rt, rid) := None)"
  by (auto simp: content_def lookup_mem_def fun_eq_iff)

lemma typeMap_props:
  assumes "typeMap s rt = (m, s1)"
  shows "content s1 = content s" "map_of s1 rt = Some m" "\<And>rid. map_of m rid = content s (rt, rid)"
    "mem_inv s \<Longrightarrow> mem_inv s1"
proof -
  show "content s1 = content s"
    using assms by (auto simp: typeMap_def content_def lookup_mem_def fun_eq_iff split: option.splits if_splits)
  show "map_of s1 rt = Some m" using assms by (auto simp: typeMap_def split: option.splits)
  show "map_of m rid = content s (rt, rid)" for rid
    using assms by (auto simp: typeMap_def content_def lookup_mem_def split: option.splits)
  show "mem_inv s \<Longrightarrow> mem_inv s1"
    using assms set_map_put_subset [of rt "[]" s]
    by (auto simp: typeMap_def mem_inv_def list_all_pair split: option.splits)
qed

lemma mem_inv_put: "mem_inv s \<Longrightarrow> distinct (keys m) \<Longrightarrow> mem_inv (map_put rt m s)"
  using set_map_put_subset [of rt m s] by (auto simp: mem_inv_def list_all_pair)

lemma mem_inv_type: "mem_inv s \<Longrightarrow> map_of s rt = Some m \<Longrightarrow> distinct (keys m)"
  by (auto simp: mem_inv_def list_all_pair dest: map_of_SomeD)

lemma mem_inv_store: "mem_inv s \<Longrightarrow> mem_inv (store_mem s rt rid r)"
  by (auto simp: store_mem_def intro!: mem_inv_put dest: mem_inv_type split: option.splits)

text \<open>The abstract operations.\<close>

definition fresh_id :: "env \<Rightarrow> string \<Rightarrow> mem \<Rightarrow> bool" where
  "fresh_id e rt s = (case generateID e of Inl _ \<Rightarrow> True | Inr rid \<Rightarrow> content s (rt, rid) = None)"

lemma Create_mem_Ok:
  assumes "Create_mem h e rt res s = (Ok r, s')"
  shows "\<exists>res' rid y. run_pre (\<lambda>f. f rt) (PreCreate h) res = Inr res' \<and> generateID e = Inr rid \<and>
    y = stamp_new rid rt (now e) (Clone res') \<and>
    r = foldl (\<lambda>r f. f rt r) (Clone y) (PostCreate h) \<and>
    content s' = (content s)((rt, rid) \<mapsto> y) \<and> (mem_inv s \<longrightarrow> mem_inv s')"
proof -
  obtain res' rid where ok: "checkContext e = None"
      "run_pre (\<lambda>f. f rt) (PreCreate h) res = Inr res'" "generateID e = Inr rid"
    using assms by (auto simp: Create_mem_def split: option.splits sum.splits)
  obtain m s1 where t: "typeMap s rt = (m, s1)" by fastforce
  let ?y = "stamp_new rid rt (now e) (Clone res')"
  have r: "r = foldl (\<lambda>r f. f rt r) (Clone ?y) (PostCreate h)" "s' = map_put rt (map_put rid ?y m) s1"
    using assms ok t by (auto simp: Create_mem_def Let_def split: if_splits)
  have "content s' = (content s)((rt, rid) \<mapsto> ?y)"
    using r(2) content_map_put_same [OF typeMap_props(2) [OF t]] typeMap_props(1) [OF t] by simp
  moreover have "mem_inv s \<longrightarrow> mem_inv s'"
    using r(2) mem_inv_put mem_inv_type [OF typeMap_props(4) [OF t] typeMap_props(2) [OF t]]
      typeMap_props(4) [OF t] by blast
  ultimately show ?thesis using ok r(1) by blast
qed

lemma Create_mem_Err: "Create_mem h e rt res s = (Err k, s') \<Longrightarrow> content s' = content s \<and> (mem_inv s \<longrightarrow> mem_inv s')"
  using typeMap_props [of s rt]
  by (auto simp: Create_mem_def Let_def split: option.splits sum.splits if_splits prod.splits)

lemma Create_mem_no_panic: "Create_mem h e rt res s \<noteq> (Panic p, s')"
  by (auto simp: Create_mem_def Let_def split: option.splits sum.splits if_splits prod.splits)

lemma Replace_mem_Ok:
  assumes "Replace_mem h e rt rid res s = (Ok r, s')"
  shows "\<exists>res' old. run_pre (\<lambda>f. f rt rid) (PreUpdate h) res = Inr res' \<and>
    content s (rt, rid) = Some old \<and>
    content s' = (content s)((rt, rid) \<mapsto> stamp_replaced rid rt (now e) old (Clone res')) \<and>
    r = foldl (\<lambda>r f. f rt r) (Clone (stamp_replaced rid rt (now e) old (Clone res'))) (PostUpdate h) \<and>
    (mem_inv s \<longrightarrow> mem_inv s')"
proof -
  obtain res' old where ok: "run_pre (\<lambda>f. f rt rid) (PreUpdate h) res = Inr res'"
      "lookup_mem s rt rid = Some old"
      "s' = store_mem s rt rid (stamp_replaced rid rt (now e) old (Clone res'))"
      "r = foldl (\<lambda>r f. f rt r) (Clone (stamp_replaced rid rt (now e) old (Clone res'))) (PostUpdate h)"
    using assms by (auto simp: Replace_mem_def Let_def split: option.splits sum.splits)
  then show ?thesis using content_store [of s rt rid] mem_inv_store by (auto simp: content_def)
qed

lemma Replace_mem_Err: "Replace_mem h e rt rid res s = (Err k, s') \<Longrightarrow> s' = s"
  by (auto simp: Replace_mem_def Let_def split: option.splits sum.splits)

lemma Patch_mem_Ok:
  assumes "Patch_mem h e rt rid pops s = (Ok r, s')"
  shows "\<exists>old new. content s (rt, rid) = Some old \<and> ApplyPatch old pops = Inr new \<and>
    content s' = (content s)((rt, rid) \<mapsto> stamp_patched rt (now e) new) \<and>
    r = foldl (\<lambda>r f. f rt r) (Clone (stamp_patched rt (now e) new)) (PostUpdate h) \<and>
    (mem_inv s \<longrightarrow> mem_inv s')"
proof -
  obtain old new where ok: "lookup_mem s rt rid = Some old" "ApplyPatch old pops = Inr new"
      "s' = store_mem s rt rid (stamp_patched rt (now e) new)"
      "r = foldl (\<lambda>r f. f rt r) (Clone (stamp_patched rt (now e) new)) (PostUpdate h)"
    using assms by (auto simp: Patch_mem_def Let_def split: option.splits sum.splits)
  then show ?thesis using content_store [of s rt rid] mem_inv_store by (auto simp: content_def)
qed

lemma Patch_mem_Err: "Patch_mem h e rt rid pops s = (Err k, s') \<Longrightarrow> s' = s"
  by (auto simp: Patch_mem_def Let_def split: option.splits sum.splits)

lemma Delete_mem_Ok:
  assumes "Delete_mem h e rt rid s = (Ok u, s')"
  shows "content s (rt, rid) \<noteq> None \<and> content s' = (content s)((rt, rid) := None) \<and> (mem_inv s \<longrightarrow> mem_inv s')"
proof -
  obtain m where m: "map_of s rt = Some m" "map_of m rid \<noteq> None" "s' = map_put rt (map_del rid m) s"
    using assms by (auto simp: Delete_mem_def split: option.splits)
  then show ?thesis
    using content_del [OF m(1)] mem_inv_put mem_inv_type [OF _ m(1)]
    by (auto simp: content_def lookup_mem_def)
qed

lemma Delete_mem_Err: "Delete_mem h e rt rid s = (Err k, s') \<Longrightarrow> s' = s"
  by (auto simp: Delete_mem_def split: option.splits)

lemma stamp_simps [simp]: "ID (stamp_new rid rt t r) = rid" "ID (stamp_replaced rid rt t old r) = rid"
  "ID (stamp_patched rt t r) = ID r"
  "ResourceType (Meta (stamp_new rid rt t r)) = rt" "ResourceType (Meta (stamp_replaced rid rt t old r)) = rt"
  "ResourceType (Meta (stamp_patched rt t r)) = rt"
  "Attributes (stamp_new rid rt t r) = Attributes r" "Attributes (stamp_replaced rid rt t old r) = Attributes r"
  "Attributes (stamp_patched rt t r) = Attributes r"
  by (simp_all add: stamp_new_def stamp_replaced_def stamp_patched_def)

lemma stamp_wf [simp]: "wf_resource (stamp_new rid rt t r) = wf_resource r"
  "wf_resource (stamp_replaced rid rt t old r) = wf_resource r"
  "wf_resource (stamp_patched rt t r) = wf_resource r"
  by (simp_all add: wf_resource_def)

text \<open>The contract, for hooks that leave the returned resource alone (a post hook may change it, and
  the stored one stays).\<close>

definition no_post :: "hooks \<Rightarrow> hooks" where
  "no_post h = h\<lparr>PostCreate := [], PostUpdate := []\<rparr>"

interpretation memory: store_contract "memory_ops (no_post h)" content mem_inv fresh_id "\<lambda>rt. rt" "\<lambda>rt. Clone"
    "\<lambda>e s. ctx_err e = None" for h
proof
  fix e rt rid x and r :: resource and s s' :: mem and u :: unit and k p pops
  let ?ops = "memory_ops (no_post h)"
  show "mem_inv s' \<and> content s (rt, ID r) = None \<and>
      (\<exists>y. content s' = (content s)((rt, ID r) \<mapsto> y) \<and> same_body (Clone y) r)"
    if "mem_inv s" "fresh_id e rt s" "st_Create ?ops e rt x s = (Ok r, s')"
    using that Create_mem_Ok [of "no_post h" e rt x s r s']
    by (auto simp: memory_ops_def no_post_def fresh_id_def)
  show "mem_inv s' \<and> content s (rt, rid) \<noteq> None \<and> ID r = rid \<and>
      (\<exists>y. content s' = (content s)((rt, rid) \<mapsto> y) \<and> same_body (Clone y) r)"
    if "mem_inv s" "st_Replace ?ops e rt rid x s = (Ok r, s')"
    using that Replace_mem_Ok [of "no_post h" e rt rid x s r s']
    by (auto simp: memory_ops_def no_post_def)
  show "mem_inv s' \<and> content s (rt, rid) \<noteq> None \<and>
      (\<exists>y. content s' = (content s)((rt, rid) \<mapsto> y) \<and> same_body (Clone y) r)"
    if "mem_inv s" "st_Patch ?ops e rt rid pops s = (Ok r, s')"
    using that Patch_mem_Ok [of "no_post h" e rt rid pops s r s']
    by (auto simp: memory_ops_def no_post_def)
  show "mem_inv s' \<and> content s (rt, rid) \<noteq> None \<and> content s' = (content s)((rt, rid) := None)"
    if "mem_inv s" "st_Delete ?ops e rt rid s = (Ok u, s')"
    using that Delete_mem_Ok [of "no_post h" e rt rid s u s'] by (auto simp: memory_ops_def)
  show "mem_inv s' \<and> content s' = content s \<and> (\<exists>y. content s (rt, rid) = Some y \<and> r = Clone y)"
    if "mem_inv s" "st_Get ?ops e rt rid s = (Ok r, s')"
    using that by (auto simp: memory_ops_def Get_mem_def content_def split: option.splits)
  show "mem_inv s' \<and> content s' = content s \<and> (content s (rt, rid) \<noteq> None \<longrightarrow> \<not> ctx_err e = None)"
    if "mem_inv s" "st_Get ?ops e rt rid s = (Err k, s')"
    using that by (auto simp: memory_ops_def Get_mem_def content_def checkContext_def split: option.splits)
  show "mem_inv s' \<and> content s' = content s" if "mem_inv s" "st_Create ?ops e rt x s = (Err k, s')"
    using that Create_mem_Err by (auto simp: memory_ops_def)
  show "mem_inv s' \<and> content s' = content s" if "mem_inv s" "st_Replace ?ops e rt rid x s = (Err k, s')"
    using that Replace_mem_Err by (fastforce simp: memory_ops_def)
  show "mem_inv s' \<and> content s' = content s" if "mem_inv s" "st_Patch ?ops e rt rid pops s = (Err k, s')"
    using that Patch_mem_Err by (fastforce simp: memory_ops_def)
  show "mem_inv s' \<and> content s' = content s" if "mem_inv s" "st_Delete ?ops e rt rid s = (Err k, s')"
    using that Delete_mem_Err by (fastforce simp: memory_ops_def)
  show "fst (st_Get ?ops e rt rid s) \<noteq> Panic p" if "mem_inv s"
    by (auto simp: memory_ops_def Get_mem_def split: option.splits)
qed

subsection \<open>Executions\<close>

text \<open>One operation on the store.  A PATCH must not name a common attribute: the code writes it among the
  others, and the next clone of the resource depends on the iteration order.\<close>

definition safe_ops :: "PatchOp list \<Rightarrow> bool" where
  "safe_ops pops = (\<forall>op \<in> set pops. \<forall>n \<in> op_names op. \<not> reserved n)"

inductive mem_step :: "hooks \<Rightarrow> mem \<Rightarrow> mem \<Rightarrow> bool" for h where
  create: "Create_mem h e rt x s = (res, s') \<Longrightarrow> mem_step h s s'"
| replace: "Replace_mem h e rt rid x s = (res, s') \<Longrightarrow> mem_step h s s'"
| patch: "Patch_mem h e rt rid pops s = (res, s') \<Longrightarrow> safe_ops pops \<Longrightarrow> mem_step h s s'"
| delete: "Delete_mem h e rt rid s = (res', s') \<Longrightarrow> mem_step h s s'"
| get: "Get_mem e rt rid s = (res, s') \<Longrightarrow> mem_step h s s'"
| list: "List_mem e rt params s = (lres, s') \<Longrightarrow> mem_step h s s'"

inductive mem_reachable :: "hooks \<Rightarrow> mem \<Rightarrow> bool" for h where
  init: "mem_reachable h []"
| step: "mem_reachable h s \<Longrightarrow> mem_step h s s' \<Longrightarrow> mem_reachable h s'"

definition stored_ok :: "string \<Rightarrow> string \<Rightarrow> resource \<Rightarrow> bool" where
  "stored_ok rt rid r = (ID r = rid \<and> ResourceType (Meta r) = rt \<and> wf_resource r)"

definition mem_ok :: "mem \<Rightarrow> bool" where
  "mem_ok s = (mem_inv s \<and> (\<forall>rt rid r. content s (rt, rid) = Some r \<longrightarrow> stored_ok rt rid r))"

lemma mem_ok_update:
  "mem_ok s \<Longrightarrow> stored_ok rt rid y \<Longrightarrow> content s' = (content s)((rt, rid) \<mapsto> y) \<Longrightarrow> mem_inv s' \<Longrightarrow> mem_ok s'"
  by (auto simp: mem_ok_def)

lemma applyOp_wf:
  assumes "wf_resource r" "\<forall>n \<in> op_names op. \<not> reserved n" "applyOp r op = Inr r'"
  shows "wf_resource r'"
proof -
  have "distinct (keys (Attributes r'))"
    using applyOp_distinct [OF assms(3)] assms(1) by (simp add: wf_resource_def wf_attrs_def)
  moreover have "\<not> reserved k" if "(k, v) \<in> set (Attributes r')" for k v
  proof -
    have "k \<in> op_names op \<union> fst ` set (Attributes r)"
      using applyOp_keys [OF assms(3)] that by force
    then show ?thesis using assms(1,2) by (auto simp: wf_resource_def wf_attrs_def list_all_pair)
  qed
  ultimately show ?thesis by (simp add: wf_resource_def wf_attrs_def list_all_pair)
qed

lemma ApplyPatch_wf:
  assumes "safe_ops pops" "ApplyPatch r pops = Inr r'"
  shows "wf_resource r'"
  using assms(2) unfolding ApplyPatch_def
proof (rule fold_sum_invariant [where P = wf_resource])
  show "wf_resource s'" if "op \<in> set pops" "wf_resource s" "applyOp s op = Inr s'" for s op s'
    using applyOp_wf [OF that(2) _ that(3)] assms(1) that(1) by (simp add: safe_ops_def)
qed simp

lemma mem_step_ok:
  assumes "mem_step h s s'" "mem_ok s"
  shows "mem_ok s'"
  using assms
proof (induction rule: mem_step.induct)
  case (create e rt x s res s')
  show ?case
  proof (cases res)
    case (Ok r)
    then have "Create_mem h e rt x s = (Ok r, s')" using create.hyps by simp
    from Create_mem_Ok [OF this] obtain y rid where
      y: "content s' = (content s)((rt, rid) \<mapsto> stamp_new rid rt (now e) (Clone y))"
        "mem_inv s \<longrightarrow> mem_inv s'" by blast
    have "stored_ok rt rid (stamp_new rid rt (now e) (Clone y))" by (simp add: stored_ok_def)
    moreover have "mem_inv s'" using y(2) create.prems by (simp add: mem_ok_def)
    ultimately show ?thesis using mem_ok_update [OF create.prems _ y(1)] by blast
  next
    case (Err k)
    then show ?thesis using create Create_mem_Err [of h e rt x s k s'] by (auto simp: mem_ok_def)
  next
    case (Panic p)
    then show ?thesis using create Create_mem_no_panic by blast
  qed
next
  case (replace e rt rid x s res s')
  show ?case
  proof (cases res)
    case (Ok r)
    then have "Replace_mem h e rt rid x s = (Ok r, s')" using replace.hyps by simp
    from Replace_mem_Ok [OF this] obtain y old where
      y: "content s' = (content s)((rt, rid) \<mapsto> stamp_replaced rid rt (now e) old (Clone y))"
        "mem_inv s \<longrightarrow> mem_inv s'" by blast
    have "stored_ok rt rid (stamp_replaced rid rt (now e) old (Clone y))" by (simp add: stored_ok_def)
    moreover have "mem_inv s'" using y(2) replace.prems by (simp add: mem_ok_def)
    ultimately show ?thesis using mem_ok_update [OF replace.prems _ y(1)] by blast
  next
    case (Err k)
    then show ?thesis using replace Replace_mem_Err by blast
  next
    case (Panic p)
    then show ?thesis using replace
      by (auto simp: Replace_mem_def Let_def split: option.splits sum.splits)
  qed
next
  case (patch e rt rid pops s res s')
  show ?case
  proof (cases res)
    case (Ok r)
    then obtain old new where p: "content s (rt, rid) = Some old" "ApplyPatch old pops = Inr new"
      "content s' = (content s)((rt, rid) \<mapsto> stamp_patched rt (now e) new)" "mem_inv s'"
      using patch Patch_mem_Ok [of h e rt rid pops s r s'] by (auto simp: mem_ok_def)
    have "ID new = rid"
      using ApplyPatch_fields [OF p(2)] p(1) patch.prems
      by (auto simp: same_fields_def mem_ok_def stored_ok_def)
    moreover have "wf_resource new" using ApplyPatch_wf [OF patch.hyps(2) p(2)] .
    ultimately show ?thesis using p patch.prems
      by (intro mem_ok_update [of s rt rid "stamp_patched rt (now e) new" s']) (simp_all add: stored_ok_def)
  next
    case (Err k)
    then show ?thesis using patch Patch_mem_Err by blast
  next
    case (Panic p)
    then show ?thesis using patch
      by (auto simp: Patch_mem_def Let_def split: option.splits sum.splits)
  qed
next
  case (delete e rt rid s res' s')
  show ?case
  proof (cases res')
    case (Ok u)
    then show ?thesis using delete Delete_mem_Ok [of h e rt rid s u s'] by (auto simp: mem_ok_def)
  next
    case (Err k)
    then show ?thesis using delete Delete_mem_Err by blast
  next
    case (Panic p)
    then show ?thesis using delete by (auto simp: Delete_mem_def split: option.splits)
  qed
next
  case (get e rt rid s res s')
  then show ?case by (auto simp: Get_mem_def split: option.splits)
next
  case (list e rt params s lres s')
  then show ?case by (auto simp: List_mem_def Let_def split: option.splits prod.splits)
qed

lemma mem_ok_init: "mem_ok []"
  by (simp add: mem_ok_def mem_inv_def content_def lookup_mem_def)

lemma mem_reachable_ok: "mem_reachable h s \<Longrightarrow> mem_ok s"
  by (induction rule: mem_reachable.induct) (auto simp: mem_ok_init mem_step_ok)

subsection \<open>Pages\<close>

lemma wrap64_id: "- (2 ^ 63) \<le> i \<Longrightarrow> i < 2 ^ 63 \<Longrightarrow> wrap64 i = i"
  by (simp add: wrap64_def)

lemma page_of_eq:
  assumes "int (length fs) + max c (int (length fs)) < 2 ^ 63"
  shows "page_of fs i c =
    Some (max i 1, (if c < 0 then id else take (nat c)) (drop (nat (max i 1 - 1)) fs))"
proof -
  let ?n = "int (length fs)" and ?i = "max i 1"
  let ?start = "if ?i - 1 > ?n then ?n else ?i - 1" and ?size = "if c < 0 then ?n else c"
  have i: "(if i < 1 then 1 else i) = ?i" by simp
  have "1 \<le> ?i" by simp
  then have b: "0 \<le> ?start" "?start \<le> ?n" "0 \<le> ?size" by (auto simp del: max.bounded_iff split: if_splits)
  have w: "wrap64 (?start + ?size) = ?start + ?size"
    using assms b by (intro wrap64_id) (auto simp: max_def split: if_splits)
  have d: "drop (nat ?start) fs = drop (nat (?i - 1)) fs"
  proof (cases "?i - 1 > ?n")
    case True
    then have "length fs \<le> nat (?i - 1)" by linarith
    then show ?thesis unfolding if_P [OF True] by simp
  qed simp
  have t: "take (nat ((if ?start + ?size > ?n then ?n else ?start + ?size) - ?start)) (drop (nat ?start) fs)
      = (if c < 0 then id else take (nat c)) (drop (nat ?start) fs)"
    using b by (cases "?start + ?size > ?n"; cases "c < 0") (auto simp: nat_diff_distrib)
  have "\<not> (if ?start + ?size > ?n then ?n else ?start + ?size) < ?start" using b by auto
  then show ?thesis unfolding page_of_def Let_def i w using t d by simp
qed

text \<open>The users of one name.\<close>

definition named :: "mem \<Rightarrow> string \<Rightarrow> string \<Rightarrow> string set" where
  "named s rt name = {rid. \<exists>r. content s (rt, rid) = Some r \<and> EqualFold (getUserName r) name}"

lemma Create_mem_unique:
  assumes "Create_mem h e rt res s = (Ok r, s')" "EqualFold rt ''User''" "mem_inv s"
    and "\<And>n. n \<noteq> [] \<Longrightarrow> card (named s rt n) \<le> 1 \<and> finite (named s rt n)" and "name \<noteq> []"
  shows "card (named s' rt name) \<le> 1"
proof -
  obtain res' rid where ok: "checkContext e = None"
      "run_pre (\<lambda>f. f rt) (PreCreate h) res = Inr res'" "generateID e = Inr rid"
    using assms(1) by (auto simp: Create_mem_def split: option.splits sum.splits)
  obtain m s1 where t: "typeMap s rt = (m, s1)" by fastforce
  let ?y = "stamp_new rid rt (now e) (Clone res')"
  have c: "content s' = (content s)((rt, rid) \<mapsto> ?y)"
    using Create_mem_Ok [OF assms(1)] ok by auto
  have free: "\<not> (getUserName ?y \<noteq> [] \<and> list_ex (\<lambda>(_, x). EqualFold (getUserName x) (getUserName ?y)) m)"
    using assms(1,2) ok t by (auto simp: Create_mem_def Let_def split: if_splits)
  show ?thesis
  proof (cases "EqualFold (getUserName ?y) name")
    case True
    then have ne: "getUserName ?y \<noteq> []" using assms(5) EqualFold_Nil by blast
    have "named s rt name = {}"
    proof (rule ccontr)
      assume "named s rt name \<noteq> {}"
      then obtain k x where x: "map_of m k = Some x" "EqualFold (getUserName x) name"
        using typeMap_props(3) [OF t] by (auto simp: named_def)
      have "EqualFold (getUserName x) (getUserName ?y)"
        using EqualFold_trans [OF x(2)] True EqualFold_sym by blast
      then have "list_ex (\<lambda>(_, x). EqualFold (getUserName x) (getUserName ?y)) m"
        using map_of_SomeD [OF x(1)] unfolding list_ex_iff by (intro bexI [of _ "(k, x)"]) simp_all
      then show False using free ne by blast
    qed
    then have "named s' rt name \<subseteq> {rid}" by (auto simp: named_def c split: if_splits)
    then show ?thesis using card_mono [of "{rid}" "named s' rt name"] by simp
  next
    case False
    then have "named s' rt name \<subseteq> named s rt name" by (auto simp: named_def c split: if_splits)
    then show ?thesis using assms(4) [OF assms(5)] card_mono order_trans by blast
  qed
qed

subsection \<open>Properties\<close>


definition env0 :: env where
  "env0 = \<lparr>ctx_err = None, rand_bytes = Inr ''k'', now = 0\<rparr>"

definition bob :: resource where
  "bob = empty_resource\<lparr>Attributes := [(''userName'', GStr ''bob'')]\<rparr>"

lemma create_bob:
  "\<exists>r s. Create_mem no_hooks env0 ''User'' bob [] = (Ok r, s) \<and>
     content s (''User'', ''6b'') = Some (stamp_new ''6b'' ''User'' 0 (Clone bob)) \<and> ID r = ''6b''"
  by (rule exI [of _ "fst (case Create_mem no_hooks env0 ''User'' bob [] of (Ok r, s) \<Rightarrow> (r, s) | (_, s) \<Rightarrow> (bob, s))"],
      rule exI [of _ "snd (Create_mem no_hooks env0 ''User'' bob [])"]) code_simp


lemma Get_mem_effect: "snd (Get_mem e rt rid s) = s"
  by (simp add: Get_mem_def split: option.split)

text \<open>C5: A resource that \<open>Create\<close> returned is read back by \<open>Get\<close> under the returned id, and deleting it
  makes it unreadable, when the generated id is fresh and the context is live.\<close>

theorem create_get_delete:
  assumes "mem_inv s" "fresh_id e rt s" "Create_mem (no_post h) e rt x s = (Ok r, s')" "ctx_err e' = None"
  shows "(\<exists>q. Get_mem e' rt (ID r) s' = (Ok q, s') \<and> same_body q r) \<and>
    (\<forall>u s'' r' s3. Delete_mem (no_post h) e' rt (ID r) s' = (Ok u, s'') \<longrightarrow> Get_mem e' rt (ID r) s'' \<noteq> (Ok r', s3))"
proof -
  have c: "st_Create (memory_ops (no_post h)) e rt x s = (Ok r, s')" using assms(3) by (simp add: memory_ops_def)
  have "mem_inv s'" using memory.create_ok [OF assms(1,2) c] by simp
  then show ?thesis
    using memory.get_after_create [OF assms(1,2) c assms(4)] Get_mem_effect [of e' rt "ID r" s']
      memory.get_after_delete [of s' h e' rt "ID r"]
    by (fastforce simp: memory_ops_def)
qed

theorem create_get_delete_witness:
  "\<exists>r s. Create_mem (no_post no_hooks) env0 ''User'' bob [] = (Ok r, s) \<and>
     (\<exists>q. Get_mem env0 ''User'' (ID r) s = (Ok q, s) \<and> same_body q r)"
proof -
  have np: "no_post no_hooks = no_hooks" by (simp add: no_post_def no_hooks_def)
  obtain r s where c: "Create_mem (no_post no_hooks) env0 ''User'' bob [] = (Ok r, s)"
    using create_bob np by auto
  have "mem_inv []" "fresh_id env0 ''User'' []" "ctx_err env0 = None"
    by (simp_all add: mem_inv_def fresh_id_def content_def lookup_mem_def env0_def split: sum.split)
  from create_get_delete [OF this(1,2) c this(3)] show ?thesis using c by blast
qed



text \<open>With a start index behind the first resource and the largest count, the addition in \<open>List\<close> wraps
  around and the slice expression panics.\<close>

theorem list_overflow_panics:
  assumes "checkContext e = None" "map_of s rt = Some m" "m \<noteq> []"
  shows "\<exists>p. List_mem e rt \<lparr>Filter = None, SortBy = [], LSortOrder = SortAscending, StartIndex = 2,
      Count = 2 ^ 63 - 1, LAttributes = [], LExcludedAttributes = []\<rparr> s = (Panic p, s)"
proof -
  let ?fs = "map Clone (map snd m)"
  have len: "1 \<le> int (length ?fs)" using assms(3) by (cases m) simp_all
  have "page_of ?fs 2 (2 ^ 63 - 1) = None"
    using len assms(3) by (simp add: page_of_def wrap64_def Let_def)
  then show ?thesis using assms(1,2) by (simp add: List_mem_def matching_def Let_def)
qed

theorem list_overflow_panics_witness:
  "\<exists>p. List_mem env0 ''User'' \<lparr>Filter = None, SortBy = [], LSortOrder = SortAscending, StartIndex = 2,
      Count = 2 ^ 63 - 1, LAttributes = [], LExcludedAttributes = []\<rparr> [(''User'', [(''1'', bob)])]
    = (Panic p, [(''User'', [(''1'', bob)])])"
  by (rule list_overflow_panics [where m = "[(''1'', bob)]"]) (simp_all add: checkContext_def env0_def)

text \<open>\<open>Create\<close> keeps user names unique: if at most one user has a name before, at most one has it
  after.\<close>

theorem create_unique_name:
  assumes "Create_mem h e rt res s = (Ok r, s')" "EqualFold rt ''User''" "mem_inv s" "name \<noteq> []"
    and "\<And>n. n \<noteq> [] \<Longrightarrow> card (named s rt n) \<le> 1 \<and> finite (named s rt n)"
  shows "card (named s' rt name) \<le> 1"
  by (rule Create_mem_unique [OF assms(1-3,5,4)])

theorem create_unique_name_witness:
  "\<exists>r s. Create_mem no_hooks env0 ''User'' bob [] = (Ok r, s) \<and> card (named s ''User'' ''bob'') \<le> 1"
proof -
  obtain r s where c: "Create_mem no_hooks env0 ''User'' bob [] = (Ok r, s)" using create_bob by blast
  have "mem_inv []" "named [] ''User'' n = {}" for n
    by (simp_all add: mem_inv_def named_def content_def lookup_mem_def)
  with create_unique_name [OF c, of "''bob''"] show ?thesis using c by simp
qed

definition carol_and_bob :: mem where
  "carol_and_bob =
     [(''User'', [(''1'', bob\<lparr>ID := ''1''\<rparr>),
                  (''2'', (empty_resource\<lparr>ID := ''2'', Attributes := [(''userName'', GStr ''carol'')]\<rparr>))])]"

text \<open>\<open>Replace\<close> does not look at the other users: there is a store with two users of different names
  in which replacing one gives both the same name.\<close>

theorem replace_duplicates_name:
  "\<exists>r s. Replace_mem no_hooks env0 ''User'' ''2'' bob carol_and_bob = (Ok r, s) \<and>
     {''1'', ''2''} \<subseteq> named s ''User'' ''bob''"
proof -
  let ?y = "stamp_replaced ''2'' ''User'' 0 (empty_resource\<lparr>ID := ''2'', Attributes := [(''userName'', GStr ''carol'')]\<rparr>) (Clone bob)"
  let ?s = "[(''User'', [(''1'', bob\<lparr>ID := ''1''\<rparr>), (''2'', ?y)])]"
  have "Replace_mem no_hooks env0 ''User'' ''2'' bob carol_and_bob = (Ok (Clone ?y), ?s)"
    by (simp add: Replace_mem_def checkContext_def env0_def run_pre_def no_hooks_def lookup_mem_def
        carol_and_bob_def store_mem_def Let_def)
  moreover have "getUserName ?y = ''bob''" "getUserName (bob\<lparr>ID := ''1''\<rparr>) = ''bob''" by code_simp+
  ultimately show ?thesis by (auto simp: named_def content_def lookup_mem_def)
qed

end
