(* ===== verification/Bulk_Request.thy ===== *)
theory Bulk_Request
  imports Patch
begin

text \<open>
  Decoding of bulk requests (\<open>resource/bulk.go\<close>).
\<close>

datatype BulkMethod = BulkMethodPost | BulkMethodPut | BulkMethodPatch | BulkMethodDelete

fun BulkMethod_String :: "BulkMethod \<Rightarrow> string" where
  "BulkMethod_String BulkMethodPost = ''POST''"
| "BulkMethod_String BulkMethodPut = ''PUT''"
| "BulkMethod_String BulkMethodPatch = ''PATCH''"
| "BulkMethod_String BulkMethodDelete = ''DELETE''"

record BulkOperation =
  BMethod :: BulkMethod
  BulkID :: string
  BPath :: string
  BData :: gval
  BVersion :: string

record BulkRequest =
  BSchemas :: "string list"
  FailOnErrors :: int
  BOperations :: "BulkOperation list"

record BulkResponseOperation =
  RMethod :: BulkMethod
  RBulkID :: string
  RLocation :: string
  RVersion :: string
  RStatus :: int
  RResponse :: gval

definition lookupBulkField :: "attrs \<Rightarrow> string \<Rightarrow> gval" where
  "lookupBulkField m key =
     (case map_of m key of
        Some v \<Rightarrow> v
      | None \<Rightarrow> (case find (\<lambda>(k, v). ToLower k = ToLower key) m of Some (_, v) \<Rightarrow> v | None \<Rightarrow> GNil))"

definition method_of_string :: "string \<Rightarrow> BulkMethod option" where
  "method_of_string s =
     (if s = ''POST'' then Some BulkMethodPost else if s = ''PUT'' then Some BulkMethodPut
      else if s = ''PATCH'' then Some BulkMethodPatch
      else if s = ''DELETE'' then Some BulkMethodDelete else None)"

definition string_field :: "attrs \<Rightarrow> string \<Rightarrow> string" where
  "string_field m key = (case lookupMapString m key of Some s \<Rightarrow> s | None \<Rightarrow> [])"

definition parseBulkOp :: "attrs \<Rightarrow> string + BulkOperation" where
  "parseBulkOp m =
     (case lookupMapString m ''method'' of
        None \<Rightarrow> Inl ''missing 'method' field''
      | Some methodStr \<Rightarrow>
        (case method_of_string (ToUpper methodStr) of
           None \<Rightarrow> Inl (''unsupported method: '' @ Quote methodStr)
         | Some mth \<Rightarrow>
             Inr \<lparr>BMethod = mth, BulkID = string_field m ''bulkId'', BPath = string_field m ''path'',
                  BData = (case map_of m ''data'' of Some d \<Rightarrow> d | None \<Rightarrow> GNil),
                  BVersion = string_field m ''version''\<rparr>))"

definition parse_bulk_operation :: "nat \<times> gval \<Rightarrow> res_error + BulkOperation" where
  "parse_bulk_operation iop =
     (case iop of (i, opRaw) \<Rightarrow>
       (case opRaw of
          GMap opMap \<Rightarrow>
            (case parseBulkOp opMap of
               Inl e \<Rightarrow> Inl (ErrBadPatch ('': bulk operation '' @ nat_str i @ '': '' @ e))
             | Inr op \<Rightarrow> Inr op)
        | _ \<Rightarrow> Inl (ErrBadPatch ('': bulk operation '' @ nat_str i @ '' is not an object''))))"

text \<open>\<open>int(n)\<close> of a \<open>float64\<close> truncates.\<close>

definition failOnErrors_of :: "gval \<Rightarrow> int" where
  "failOnErrors_of v =
     (case v of GFloat64 f \<Rightarrow> f_trunc f
      | GInt k n \<Rightarrow> if k = KInt \<or> k = KInt64 then n else 0
      | _ \<Rightarrow> 0)"

definition ParseBulkRequest :: "attrs \<Rightarrow> res_error + BulkRequest" where
  "ParseBulkRequest body =
     (case lookupBulkField body ''Operations'' of
        GNil \<Rightarrow> Inl (ErrBadPatch '': missing Operations field'')
      | GArr ops \<Rightarrow>
        (case map_sum_list parse_bulk_operation (enumerate 0 ops) of
           Inl e \<Rightarrow> Inl e
         | Inr os \<Rightarrow>
             Inr \<lparr>BSchemas = schema_strings (Some (lookupBulkField body ''schemas'')),
                  FailOnErrors = failOnErrors_of (lookupBulkField body ''failOnErrors''),
                  BOperations = os\<rparr>)
      | _ \<Rightarrow> Inl (ErrBadPatch '': Operations must be an array''))"

lemma method_of_string_String [simp]: "method_of_string (BulkMethod_String m) = Some m"
  by (cases m) (simp_all add: method_of_string_def)

lemma ParseBulkRequest_ok:
  assumes "ParseBulkRequest body = Inr req"
  shows "\<exists>ops. lookupBulkField body ''Operations'' = GArr ops \<and> length (BOperations req) = length ops"
proof -
  obtain ops where ops: "lookupBulkField body ''Operations'' = GArr ops"
    using assms by (cases "lookupBulkField body ''Operations''") (simp_all add: ParseBulkRequest_def)
  then have "map_sum_list parse_bulk_operation (enumerate 0 ops) = Inr (BOperations req)"
    using assms by (auto simp: ParseBulkRequest_def split: sum.splits)
  then show ?thesis using ops map_sum_list_length by fastforce
qed

end
