(* ===== verification/Server.thy ===== *)
theory Server
  imports Protocol Core_Schema Memory_Store Bulk_Request
begin

text \<open>
  The resource handlers of package \<open>server\<close>: configuration and options (\<open>options.go\<close>, \<open>New\<close> in
  \<open>server.go\<close>), the handlers of \<open>handler.go\<close> and the audit events they emit (\<open>audit/audit.go\<close>).

  A handler is a function of the request and the state of the server.  The state holds the store, the
  audit events given to the logger and the lines of the request log, and counts the calls made to the
  surroundings: the world \<open>W\<close> supplies for the n-th call its context, random bytes and clock.  A handler
  returns the panic that ended it or the response it wrote.
\<close>

subsection \<open>Configuration\<close>

record 's options =
  opt_store :: "'s store_ops option"
  opt_registry :: "Registry option"
  opt_basePath :: string
  opt_authFunc :: "(request \<Rightarrow> string + bool) option"
  opt_spConfig :: "ServiceProviderConfig option"
  opt_maxBulkOps :: int
  opt_defaultPageSize :: int
  opt_maxPageSize :: int

definition WithStore :: "'s store_ops \<Rightarrow> 's options \<Rightarrow> 's options" where
  "WithStore s c = c\<lparr>opt_store := Some s\<rparr>"

definition WithSchemaRegistry :: "Registry \<Rightarrow> 's options \<Rightarrow> 's options" where
  "WithSchemaRegistry reg c = c\<lparr>opt_registry := Some reg\<rparr>"

definition WithBasePath :: "string \<Rightarrow> 's options \<Rightarrow> 's options" where
  "WithBasePath path c = c\<lparr>opt_basePath := TrimRightChar (CHR ''/'') path\<rparr>"

definition WithAuthFunc :: "(request \<Rightarrow> string + bool) \<Rightarrow> 's options \<Rightarrow> 's options" where
  "WithAuthFunc fn c = c\<lparr>opt_authFunc := Some fn\<rparr>"

definition WithServiceProviderConfig :: "ServiceProviderConfig \<Rightarrow> 's options \<Rightarrow> 's options" where
  "WithServiceProviderConfig spc c = c\<lparr>opt_spConfig := Some spc\<rparr>"

definition WithMaxBulkOps :: "int \<Rightarrow> 's options \<Rightarrow> 's options" where
  "WithMaxBulkOps n c = c\<lparr>opt_maxBulkOps := n\<rparr>"

definition WithDefaultPageSize :: "int \<Rightarrow> 's options \<Rightarrow> 's options" where
  "WithDefaultPageSize n c = c\<lparr>opt_defaultPageSize := n\<rparr>"

definition WithMaxPageSize :: "int \<Rightarrow> 's options \<Rightarrow> 's options" where
  "WithMaxPageSize n c = c\<lparr>opt_maxPageSize := n\<rparr>"

definition bearer_auth :: "(string \<Rightarrow> string + bool) \<Rightarrow> request \<Rightarrow> string + bool" where
  "bearer_auth fn r =
     (let authHeader = values_Get (Header r) ''Authorization''
      in if authHeader = [] then Inr False
         else if \<not> HasPrefix authHeader ''Bearer '' then Inr False
         else fn (TrimPrefix authHeader ''Bearer ''))"

definition WithBearerTokenAuth :: "(string \<Rightarrow> string + bool) \<Rightarrow> 's options \<Rightarrow> 's options" where
  "WithBearerTokenAuth fn = WithAuthFunc (bearer_auth fn)"

text \<open>A server that \<open>New\<close> accepted has a store, a registry and a service provider configuration.\<close>

record 's config =
  cfg_store :: "'s store_ops"
  cfg_registry :: Registry
  cfg_basePath :: string
  cfg_authFunc :: "(request \<Rightarrow> string + bool) option"
  cfg_spConfig :: ServiceProviderConfig
  cfg_maxBulkOps :: int
  cfg_defaultPageSize :: int
  cfg_maxPageSize :: int

definition defaultServiceProviderConfig :: "'s options \<Rightarrow> ServiceProviderConfig" where
  "defaultServiceProviderConfig c =
     \<lparr>spc_DocumentationURI = [], spc_Patch = True,
      spc_Bulk = \<lparr>bulk_Supported = True, bulk_MaxOperations = opt_maxBulkOps c, bulk_MaxPayloadSize = 1048576\<rparr>,
      spc_Filter = \<lparr>filter_Supported = True, filter_MaxResults = opt_maxPageSize c\<rparr>,
      spc_ChangePassword = False, spc_Sort = True, spc_ETag = True, spc_AuthenticationSchemes = None\<rparr>"

definition New :: "('s options \<Rightarrow> 's options) list \<Rightarrow> string + 's config" where
  "New opts =
     (let c0 = \<lparr>opt_store = None, opt_registry = None, opt_basePath = [], opt_authFunc = None,
                opt_spConfig = None, opt_maxBulkOps = 1000, opt_defaultPageSize = 100, opt_maxPageSize = 1000\<rparr>;
          c = fold (\<lambda>opt. opt) opts c0
      in case opt_store c of
           None \<Rightarrow> Inl ''scimply/server: store is required; use WithStore()''
         | Some s \<Rightarrow> (case opt_registry c of
             None \<Rightarrow> Inl ''scimply/server: schema registry is required; use WithSchemaRegistry()''
           | Some reg \<Rightarrow> Inr
               \<lparr>cfg_store = s, cfg_registry = reg, cfg_basePath = opt_basePath c, cfg_authFunc = opt_authFunc c,
                cfg_spConfig = (case opt_spConfig c of Some spc \<Rightarrow> spc | None \<Rightarrow> defaultServiceProviderConfig c),
                cfg_maxBulkOps = opt_maxBulkOps c, cfg_defaultPageSize = opt_defaultPageSize c,
                cfg_maxPageSize = opt_maxPageSize c\<rparr>))"

subsection \<open>Audit events and the state of the server\<close>

datatype Operation =
    OperationCreate | OperationRead | OperationReplace | OperationPatch | OperationDelete
  | OperationList | OperationBulk

record Event =
  ev_Timestamp :: time
  ev_Operation :: Operation
  ev_ResourceType :: string
  ev_ResourceID :: string
  ev_ActorID :: string
  ev_RequestID :: string
  ev_StatusCode :: int
  ev_Error :: string
  ev_Attributes :: "string list"

record 's sstate =
  ss_store :: 's
  ss_audit :: "Event list"
  ss_log :: "(string \<times> string \<times> int) list"
  ss_tick :: nat

type_synonym world = "nat \<Rightarrow> env"
type_synonym 's handler = "request \<Rightarrow> 's sstate \<Rightarrow> (string + response) \<times> 's sstate"

definition call_store ::
    "world \<Rightarrow> (env \<Rightarrow> 's \<Rightarrow> (store_error, 'a) outcome \<times> 's) \<Rightarrow> 's sstate \<Rightarrow> (store_error, 'a) outcome \<times> 's sstate" where
  "call_store W f st =
     (let (x, s') = f (W (ss_tick st)) (ss_store st)
      in (x, st\<lparr>ss_store := s', ss_tick := Suc (ss_tick st)\<rparr>))"

definition logAudit :: "world \<Rightarrow> request \<Rightarrow> Operation \<Rightarrow> string \<Rightarrow> string \<Rightarrow> int \<Rightarrow> 's sstate \<Rightarrow> 's sstate" where
  "logAudit W r op rt rid status st =
     st\<lparr>ss_audit := ss_audit st @
          [\<lparr>ev_Timestamp = now (W (ss_tick st)), ev_Operation = op, ev_ResourceType = rt, ev_ResourceID = rid,
            ev_ActorID = [], ev_RequestID = values_Get (Header r) ''X-Request-Id'', ev_StatusCode = status,
            ev_Error = [], ev_Attributes = []\<rparr>],
        ss_tick := Suc (ss_tick st)\<rparr>"

definition httpStatus :: "SCIMError \<Rightarrow> int" where
  "httpStatus e = scan_int (se_Status e) 500"

definition scheme :: "request \<Rightarrow> string" where
  "scheme r = (if TLS r then ''https'' else ''http'')"

definition resourceLocation :: "'s config \<Rightarrow> request \<Rightarrow> string \<Rightarrow> string \<Rightarrow> string" where
  "resourceLocation cfg r rt rid =
     (case ResourceTypeByName (cfg_registry cfg) rt of
        None \<Rightarrow> []
      | Some t \<Rightarrow> scheme r @ ''://'' @ Host r @ cfg_basePath cfg @ rt_Endpoint t @ ''/'' @ rid)"

definition etagFromVersion :: "string \<Rightarrow> string" where
  "etagFromVersion v = (if v = [] then [] else ''W/'' @ [dquote] @ v @ [dquote])"

subsection \<open>Handlers\<close>

definition located :: "string \<Rightarrow> resource \<Rightarrow> resource" where
  "located location res =
     (if location \<noteq> [] then res\<lparr>Meta := (Meta res)\<lparr>Location := location\<rparr>\<rparr> else res)"

text \<open>The common end of a handler: a store error is audited and written, a resource gets its location and is
  written by \<open>WriteResource\<close> or \<open>WriteCreated\<close>.\<close>

definition write_store_error ::
    "world \<Rightarrow> request \<Rightarrow> Operation \<Rightarrow> string \<Rightarrow> string \<Rightarrow> store_error \<Rightarrow> 's sstate \<Rightarrow> (string + response) \<times> 's sstate" where
  "write_store_error W r op rt rid err st =
     (let e = ErrorFromStoreError err
      in (Inr (SCIMError_Write e []), logAudit W r op rt rid (httpStatus e) st))"

definition write_resource ::
    "'s config \<Rightarrow> world \<Rightarrow> request \<Rightarrow> Operation \<Rightarrow> string \<Rightarrow> string \<Rightarrow> int \<Rightarrow>
     (headers \<Rightarrow> request \<Rightarrow> gval \<Rightarrow> string \<Rightarrow> string \<Rightarrow> response) \<Rightarrow> resource \<Rightarrow> 's sstate \<Rightarrow> (string + response) \<times> 's sstate" where
  "write_resource cfg W r op rt rid status wr res st =
     (let location = resourceLocation cfg r rt (ID res);
          res = located location res;
          etag = etagFromVersion (Version (Meta res))
      in (Inr (wr [] r (GMap (ToMap res)) location etag), logAudit W r op rt rid status st))"

definition bad_body :: "string \<Rightarrow> response" where
  "bad_body e = SCIMError_Write (NewSCIMError 400 ErrTypeInvalidSyntax (''invalid JSON body: '' @ e)) []"

definition handleCreate :: "'s config \<Rightarrow> world \<Rightarrow> string \<Rightarrow> 's handler" where
  "handleCreate cfg W rt r st =
     (case decode_object (Body r) of
        Panic p \<Rightarrow> (Inl p, st)
      | Err e \<Rightarrow> (Inr (bad_body e), st)
      | Ok m \<Rightarrow>
          (case call_store W (\<lambda>e. st_Create (cfg_store cfg) e rt (FromMap m)) st of
             (Panic p, st) \<Rightarrow> (Inl p, st)
           | (Err err, st) \<Rightarrow> write_store_error W r OperationCreate rt [] err st
           | (Ok created, st) \<Rightarrow>
               write_resource cfg W r OperationCreate rt (ID created) 201 WriteCreated created st))"

definition handleGet :: "'s config \<Rightarrow> world \<Rightarrow> string \<Rightarrow> string \<Rightarrow> 's handler" where
  "handleGet cfg W rt rid r st =
     (case call_store W (\<lambda>e. st_Get (cfg_store cfg) e rt rid) st of
        (Panic p, st) \<Rightarrow> (Inl p, st)
      | (Err err, st) \<Rightarrow> write_store_error W r OperationRead rt rid err st
      | (Ok res, st) \<Rightarrow> write_resource cfg W r OperationRead rt rid 200 WriteResource res st)"

text \<open>The values of a search body: strings, and numbers printed with the verb g.\<close>

definition bodyToURLValues :: "attrs \<Rightarrow> vals" where
  "bodyToURLValues m = fold (\<lambda>(k, v) vs. case v of
       GStr s \<Rightarrow> values_Set vs k s
     | GFloat64 f \<Rightarrow> values_Set vs k (fmt_v (GFloat64 f))
     | _ \<Rightarrow> vs) m []"

definition merge_search :: "QueryParams \<Rightarrow> QueryParams \<Rightarrow> QueryParams" where
  "merge_search params b =
     (let params = (if qp_Filter b \<noteq> [] then params\<lparr>qp_Filter := qp_Filter b\<rparr> else params);
          params = (if qp_SortBy b \<noteq> [] then params\<lparr>qp_SortBy := qp_SortBy b\<rparr> else params);
          params = (if qp_SortOrder b \<noteq> [] then params\<lparr>qp_SortOrder := qp_SortOrder b\<rparr> else params);
          params = (if qp_StartIndex b > 1 then params\<lparr>qp_StartIndex := qp_StartIndex b\<rparr> else params)
      in if qp_Count b > 0 then params\<lparr>qp_Count := qp_Count b\<rparr> else params)"

definition search_params :: "request \<Rightarrow> QueryParams" where
  "search_params r =
     (let params = ParseListParams r
      in if Method r = ''POST'' \<and> Body r \<noteq> NilBody then
           (case decode_object (Body r) of
              Ok m \<Rightarrow> merge_search params (ParseListParamsFromValues (bodyToURLValues m))
            | _ \<Rightarrow> params)
         else params)"

definition clamp_count :: "'s config \<Rightarrow> request \<Rightarrow> int \<Rightarrow> int" where
  "clamp_count cfg r n =
     (let n = (if n \<le> 0 \<and> values_Get (Query r) ''count'' \<noteq> ''0'' then cfg_defaultPageSize cfg else n)
      in if cfg_maxPageSize cfg > 0 \<and> n > cfg_maxPageSize cfg then cfg_maxPageSize cfg else n)"

definition store_params :: "'s config \<Rightarrow> request \<Rightarrow> QueryParams \<Rightarrow> FilterExpression option \<Rightarrow> ListParams" where
  "store_params cfg r params flt =
     \<lparr>Filter = flt, SortBy = qp_SortBy params,
      LSortOrder = (if qp_SortOrder params = ''descending'' then SortDescending else SortAscending),
      StartIndex = qp_StartIndex params, Count = clamp_count cfg r (qp_Count params),
      LAttributes = qp_Attributes params, LExcludedAttributes = qp_ExcludedAttributes params\<rparr>"

definition listed :: "'s config \<Rightarrow> request \<Rightarrow> string \<Rightarrow> resource \<Rightarrow> gval" where
  "listed cfg r rt res = GMap (ToMap (located (resourceLocation cfg r rt (ID res)) res))"

definition run_list :: "'s config \<Rightarrow> world \<Rightarrow> string \<Rightarrow> request \<Rightarrow> ListParams \<Rightarrow> 's sstate \<Rightarrow> (string + response) \<times> 's sstate" where
  "run_list cfg W rt r p st =
     (case call_store W (\<lambda>e. st_List (cfg_store cfg) e rt p) st of
        (Panic p, st) \<Rightarrow> (Inl p, st)
      | (Err err, st) \<Rightarrow> write_store_error W r OperationList rt [] err st
      | (Ok result, st) \<Rightarrow>
          (Inr (WriteJSON [] 200 (NewListResponse (TotalResults result) (LStartIndex result) (ItemsPerPage result)
             (map (listed cfg r rt) (Resources result)))),
           logAudit W r OperationList rt [] 200 st))"

definition handleList :: "'s config \<Rightarrow> world \<Rightarrow> string \<Rightarrow> 's handler" where
  "handleList cfg W rt r st =
     (let params = search_params r
      in if qp_Filter params = [] then run_list cfg W rt r (store_params cfg r params None) st
         else (case ParseFilter (qp_Filter params) of
                 Inl e \<Rightarrow>
                   (Inr (SCIMError_Write (NewSCIMError 400 ErrTypeInvalidFilter
                      (''invalid filter: '' @ res_error_text e)) []),
                    logAudit W r OperationList rt [] 400 st)
               | Inr flt \<Rightarrow> run_list cfg W rt r (store_params cfg r params (Some flt)) st))"

definition handleReplace :: "'s config \<Rightarrow> world \<Rightarrow> string \<Rightarrow> string \<Rightarrow> 's handler" where
  "handleReplace cfg W rt rid r st =
     (case decode_object (Body r) of
        Panic p \<Rightarrow> (Inl p, st)
      | Err e \<Rightarrow> (Inr (bad_body e), st)
      | Ok m \<Rightarrow>
          (case call_store W (\<lambda>e. st_Replace (cfg_store cfg) e rt rid (FromMap m)) st of
             (Panic p, st) \<Rightarrow> (Inl p, st)
           | (Err err, st) \<Rightarrow> write_store_error W r OperationReplace rt rid err st
           | (Ok replaced, st) \<Rightarrow>
               write_resource cfg W r OperationReplace rt rid 200 WriteResource replaced st))"

definition handlePatch :: "'s config \<Rightarrow> world \<Rightarrow> string \<Rightarrow> string \<Rightarrow> 's handler" where
  "handlePatch cfg W rt rid r st =
     (case decode_object (Body r) of
        Panic p \<Rightarrow> (Inl p, st)
      | Err e \<Rightarrow> (Inr (bad_body e), st)
      | Ok m \<Rightarrow>
          (case ParsePatchRequest m of
             Inl e \<Rightarrow> write_store_error W r OperationPatch rt rid (as_store_error e) st
           | Inr req \<Rightarrow>
               (case call_store W (\<lambda>e. st_Patch (cfg_store cfg) e rt rid (Operations req)) st of
                  (Panic p, st) \<Rightarrow> (Inl p, st)
                | (Err err, st) \<Rightarrow> write_store_error W r OperationPatch rt rid err st
                | (Ok patched, st) \<Rightarrow>
                    write_resource cfg W r OperationPatch rt rid 200 WriteResource patched st)))"

definition handleDelete :: "'s config \<Rightarrow> world \<Rightarrow> string \<Rightarrow> string \<Rightarrow> 's handler" where
  "handleDelete cfg W rt rid r st =
     (case call_store W (\<lambda>e. st_Delete (cfg_store cfg) e rt rid) st of
        (Panic p, st) \<Rightarrow> (Inl p, st)
      | (Err err, st) \<Rightarrow> write_store_error W r OperationDelete rt rid err st
      | (Ok _, st) \<Rightarrow> (Inr (WriteNoContent []), logAudit W r OperationDelete rt rid 204 st))"

end
