(* ===== verification/Discovery.thy ===== *)
theory Discovery
  imports Server
begin

text \<open>
  The discovery endpoints of package \<open>server\<close> (\<open>discovery.go\<close>): the service provider configuration, the
  resource types and the schemas, each with the JSON object it is written as.  An object that the code
  builds by marshalling a struct and unmarshalling it into a map is the \<open>json_norm\<close> of the struct's object.
\<close>

subsection \<open>JSON objects\<close>

definition opt_str :: "string \<Rightarrow> string \<Rightarrow> attrs" where
  "opt_str k s = (if s \<noteq> [] then [(k, GStr s)] else [])"

definition supported_json :: "bool \<Rightarrow> gval" where
  "supported_json b = GMap [(''supported'', GBool b)]"

definition auth_scheme_json :: "AuthenticationScheme \<Rightarrow> gval" where
  "auth_scheme_json a = GMap ([(''type'', GStr (auth_Type a)), (''name'', GStr (auth_Name a)),
      (''description'', GStr (auth_Description a))] @ opt_str ''specUri'' (auth_SpecURI a) @
      opt_str ''documentationUri'' (auth_DocumentationURI a) @
      (if auth_Primary a then [(''primary'', GBool True)] else []))"

text \<open>A nil slice of authentication schemes is written as null.\<close>

definition spc_json :: "ServiceProviderConfig \<Rightarrow> attrs" where
  "spc_json c = opt_str ''documentationUri'' (spc_DocumentationURI c) @
     [(''patch'', supported_json (spc_Patch c)),
      (''bulk'', GMap [(''supported'', GBool (bulk_Supported (spc_Bulk c))),
         (''maxOperations'', GInt KInt (bulk_MaxOperations (spc_Bulk c))),
         (''maxPayloadSize'', GInt KInt (bulk_MaxPayloadSize (spc_Bulk c)))]),
      (''filter'', GMap [(''supported'', GBool (filter_Supported (spc_Filter c))),
         (''maxResults'', GInt KInt (filter_MaxResults (spc_Filter c)))]),
      (''changePassword'', supported_json (spc_ChangePassword c)),
      (''sort'', supported_json (spc_Sort c)),
      (''etag'', supported_json (spc_ETag c)),
      (''authenticationSchemes'', (case spc_AuthenticationSchemes c of
          None \<Rightarrow> GNil | Some as \<Rightarrow> GArr (map auth_scheme_json as)))]"

definition extension_json :: "SchemaExtension \<Rightarrow> gval" where
  "extension_json e = GMap [(''schema'', GStr (ext_Schema e)), (''required'', GBool (ext_Required e))]"

definition resourceTypeToMap :: "ResourceType \<Rightarrow> attrs" where
  "resourceTypeToMap rt =
     map_put ''schemas'' (GStrs [''urn:ietf:params:scim:schemas:core:2.0:ResourceType''])
       (json_norm_map (opt_str ''id'' (rt_ID rt) @ [(''name'', GStr (rt_Name rt))] @
          opt_str ''description'' (rt_Description rt) @
          [(''endpoint'', GStr (rt_Endpoint rt)), (''schema'', GStr (rt_Schema rt))] @
          (if rt_SchemaExtensions rt \<noteq> [] then
             [(''schemaExtensions'', GArr (map extension_json (rt_SchemaExtensions rt)))] else [])))"

fun attributesToSlice :: "Attribute list \<Rightarrow> gval list" where
  "attributesToSlice [] = []"
| "attributesToSlice (Attribute n t subs mv desc req canon ce mut ret uniq refs # defs) =
     GMap ([(''name'', GStr n), (''type'', GStr t), (''multiValued'', GBool mv), (''description'', GStr desc),
        (''required'', GBool req), (''caseExact'', GBool ce), (''mutability'', GStr mut),
        (''returned'', GStr ret), (''uniqueness'', GStr uniq)] @
        (if canon \<noteq> [] then [(''canonicalValues'', GStrs canon)] else []) @
        (if refs \<noteq> [] then [(''referenceTypes'', GStrs refs)] else []) @
        (if subs \<noteq> [] then [(''subAttributes'', GArr (attributesToSlice subs))] else []))
     # attributesToSlice defs"

definition schemaToMap :: "Schema \<Rightarrow> attrs" where
  "schemaToMap s =
     [(''schemas'', GStrs [''urn:ietf:params:scim:schemas:core:2.0:Schema'']), (''id'', GStr (sch_ID s)),
      (''name'', GStr (sch_Name s)), (''description'', GStr (sch_Description s)),
      (''attributes'', GArr (attributesToSlice (sch_Attributes s)))]"

subsection \<open>Handlers\<close>

definition not_found_error :: "string \<Rightarrow> response" where
  "not_found_error detail = SCIMError_Write (NewSCIMError 404 [] detail) []"

definition handleServiceProviderConfig :: "'s config \<Rightarrow> 's handler" where
  "handleServiceProviderConfig cfg r st =
     (Inr (WriteResource [] r (GMap (map_put ''schemas''
         (GStrs [''urn:ietf:params:scim:schemas:core:2.0:ServiceProviderConfig''])
         (json_norm_map (spc_json (cfg_spConfig cfg))))) [] []), st)"

definition url_suffix :: "'s config \<Rightarrow> request \<Rightarrow> string \<Rightarrow> string" where
  "url_suffix cfg r endpoint = TrimPrefix (TrimPrefix (URL_Path r) (cfg_basePath cfg @ endpoint)) ''/''"

definition handleResourceTypes :: "'s config \<Rightarrow> 's handler" where
  "handleResourceTypes cfg r st =
     (let suffix = url_suffix cfg r ''/ResourceTypes''
      in if suffix \<noteq> [] then
           (case ResourceTypeByName (cfg_registry cfg) suffix of
              None \<Rightarrow> (Inr (not_found_error (''resource type not found: '' @ suffix)), st)
            | Some rt \<Rightarrow>
                (Inr (WriteResource [] r (GMap (resourceTypeToMap rt))
                   (scheme r @ ''://'' @ Host r @ cfg_basePath cfg @ ''/ResourceTypes/'' @ rt_Name rt) []), st))
         else (let rts = Registry_ResourceTypes (cfg_registry cfg); n = int (length rts)
               in (Inr (WriteJSON [] 200 (NewListResponse n 1 n (map (\<lambda>rt. GMap (resourceTypeToMap rt)) rts))), st)))"

definition handleSchemas :: "'s config \<Rightarrow> 's handler" where
  "handleSchemas cfg r st =
     (let suffix = url_suffix cfg r ''/Schemas''
      in if suffix \<noteq> [] then
           (case SchemaByID (cfg_registry cfg) suffix of
              None \<Rightarrow> (Inr (not_found_error (''schema not found: '' @ suffix)), st)
            | Some s \<Rightarrow> (Inr (WriteResource [] r (GMap (schemaToMap s)) [] []), st))
         else (let ss = Registry_Schemas (cfg_registry cfg); n = int (length ss)
               in (Inr (WriteJSON [] 200 (NewListResponse n 1 n (map (\<lambda>s. GMap (schemaToMap s)) ss))), st)))"

end
