(* ===== verification/Routing.thy ===== *)
theory Routing
  imports Discovery
begin

text \<open>
  Routing (\<open>server.go\<close>), bulk requests (\<open>bulk.go\<close>) and the middleware chain (\<open>middleware.go\<close>).

  A bulk operation is dispatched through the router, and its path may name the bulk endpoint again.  The
  router therefore takes fuel; the nesting depth of the request body bounds the recursion, and \<open>route\<close> uses
  that bound.  \<open>purl\<close> stands for what \<open>net/url\<close> makes of the text of a request target: an error, or its query.
\<close>

subsection \<open>The router\<close>

definition error_response :: "int \<Rightarrow> string \<Rightarrow> string \<Rightarrow> response" where
  "error_response status scimType detail = SCIMError_Write (NewSCIMError status scimType detail) []"

definition method_not_allowed :: response where
  "method_not_allowed = error_response 405 [] ''method not allowed''"

definition routeResource :: "'s config \<Rightarrow> world \<Rightarrow> string \<Rightarrow> string \<Rightarrow> 's handler" where
  "routeResource cfg W endpoint rest r st =
     (case ResourceTypeByEndpoint (cfg_registry cfg) (''/'' @ endpoint) of
        None \<Rightarrow> (Inr (error_response 404 [] (''unknown resource type endpoint: /'' @ endpoint)), st)
      | Some t \<Rightarrow>
          (let rt = rt_Name t
           in if rest = [] then
                (if Method r = ''GET'' then handleList cfg W rt r st
                 else if Method r = ''POST'' then handleCreate cfg W rt r st
                 else (Inr method_not_allowed, st))
              else (let second = hd (SplitN2 (CHR ''/'') rest)
                    in if second = ''.search'' then
                         (if Method r = ''POST'' then handleList cfg W rt r st
                          else (Inr method_not_allowed, st))
                       else if Method r = ''GET'' then handleGet cfg W rt second r st
                       else if Method r = ''PUT'' then handleReplace cfg W rt second r st
                       else if Method r = ''PATCH'' then handlePatch cfg W rt second r st
                       else if Method r = ''DELETE'' then handleDelete cfg W rt second r st
                       else (Inr method_not_allowed, st))))"

definition strip_base :: "string \<Rightarrow> string \<Rightarrow> string option" where
  "strip_base basePath path =
     (if basePath \<noteq> [] then
        (let stripped = TrimPrefix path basePath in if stripped = path then None else Some stripped)
      else Some path)"

definition path_parts :: "string \<Rightarrow> string \<times> string" where
  "path_parts path =
     (let parts = SplitN2 (CHR ''/'') (TrimPrefix (slash_path path) ''/'')
      in (hd parts, case tl parts of [] \<Rightarrow> [] | x # _ \<Rightarrow> x))"

definition if_method :: "string \<Rightarrow> 's handler \<Rightarrow> 's handler" where
  "if_method m h r st = (if Method r \<noteq> m then (Inr method_not_allowed, st) else h r st)"

type_synonym 's bulk_handler = "request \<Rightarrow> 's sstate \<Rightarrow> ((string + response) \<times> 's sstate) option"

definition route_with :: "'s config \<Rightarrow> world \<Rightarrow> 's bulk_handler \<Rightarrow> 's bulk_handler" where
  "route_with cfg W bulk r st =
     (case strip_base (cfg_basePath cfg) (URL_Path r) of
        None \<Rightarrow> Some (Inr (error_response 404 [] ''not found''), st)
      | Some path \<Rightarrow>
          (case path_parts path of (first, rest) \<Rightarrow>
             if ToLower first = [] then Some (Inr (error_response 404 [] ''not found''), st)
             else if ToLower first = ''serviceproviderconfig'' then
               Some (if_method ''GET'' (handleServiceProviderConfig cfg) r st)
             else if ToLower first = ''resourcetypes'' then Some (if_method ''GET'' (handleResourceTypes cfg) r st)
             else if ToLower first = ''schemas'' then Some (if_method ''GET'' (handleSchemas cfg) r st)
             else if ToLower first = ''bulk'' then
               (if Method r \<noteq> ''POST'' then Some (Inr method_not_allowed, st) else bulk r st)
             else Some (routeResource cfg W first rest r st)))"

subsection \<open>Bulk operations\<close>

record bulk_result =
  br_Method :: string
  br_BulkID :: string
  br_Location :: string
  br_Version :: string
  br_Status :: string
  br_Response :: gval

definition bulk_result_json :: "bulk_result \<Rightarrow> gval" where
  "bulk_result_json b = GMap ([(''method'', GStr (br_Method b))] @ opt_str ''bulkId'' (br_BulkID b) @
     opt_str ''location'' (br_Location b) @ opt_str ''version'' (br_Version b) @
     [(''status'', GStr (br_Status b))] @
     (if br_Response b \<noteq> GNil then [(''response'', br_Response b)] else []))"

definition errorMap :: "int \<Rightarrow> string \<Rightarrow> string \<Rightarrow> gval" where
  "errorMap status scimType detail =
     GMap ([(''schemas'', GStrs [scimErrorSchema]), (''status'', GStr (int_str status)), (''detail'', GStr detail)] @
       (if scimType \<noteq> [] then [(''scimType'', GStr scimType)] else []))"

definition bulk_sub_request :: "'s config \<Rightarrow> request \<Rightarrow> BulkOperation \<Rightarrow> vals \<Rightarrow> request" where
  "bulk_sub_request cfg r op query =
     r\<lparr>Method := BulkMethod_String (BMethod op), URL_Path := cfg_basePath cfg @ BPath op, Query := query,
       Header := (if BData op \<noteq> GNil then values_Set (Header r) ''Content-Type'' ContentTypeSCIM else Header r),
       Body := (if BData op \<noteq> GNil then TextBody (Inr (json_norm (BData op))) else NilBody)\<rparr>"

definition recorded :: "bulk_result \<Rightarrow> response \<Rightarrow> bulk_result" where
  "recorded b rr = b\<lparr>br_Status := int_str (resp_Status rr), br_Location := header_Get (resp_Header rr) ''Location'',
     br_Version := header_Get (resp_Header rr) ''ETag'',
     br_Response := (case resp_Body rr of Some v \<Rightarrow> json_norm v | None \<Rightarrow> GNil)\<rparr>"

definition executeBulkOp ::
    "'s config \<Rightarrow> (string \<Rightarrow> string + vals) \<Rightarrow> 's bulk_handler \<Rightarrow> request \<Rightarrow> BulkOperation \<Rightarrow> 's sstate \<Rightarrow>
     ((string + bulk_result) \<times> 's sstate) option" where
  "executeBulkOp cfg purl rt r op st =
     (let result = \<lparr>br_Method = BulkMethod_String (BMethod op), br_BulkID = BulkID op, br_Location = [],
                    br_Version = [], br_Status = [], br_Response = GNil\<rparr>
      in if BPath op = [] then
           Some (Inr (result\<lparr>br_Status := ''400'',
             br_Response := errorMap 400 ErrTypeInvalidSyntax ''missing path in bulk operation''\<rparr>), st)
         else (case purl (cfg_basePath cfg @ BPath op) of
             Inl e \<Rightarrow> Some (Inr (result\<lparr>br_Status := ''400'',
               br_Response := errorMap 400 [] (''cannot build bulk op request: '' @ e)\<rparr>), st)
           | Inr query \<Rightarrow>
               (case rt (bulk_sub_request cfg r op query) st of
                  None \<Rightarrow> None
                | Some (Inl p, st) \<Rightarrow> Some (Inl p, st)
                | Some (Inr rr, st) \<Rightarrow> Some (Inr (recorded result rr), st))))"

text \<open>The loop over the operations, with the number of failures so far.\<close>

fun bulk_loop ::
    "(BulkOperation \<Rightarrow> 's sstate \<Rightarrow> ((string + bulk_result) \<times> 's sstate) option) \<Rightarrow> int \<Rightarrow> int \<Rightarrow>
     BulkOperation list \<Rightarrow> bulk_result list \<Rightarrow> 's sstate \<Rightarrow> ((string + bulk_result list) \<times> 's sstate) option" where
  "bulk_loop exec foe errorCount [] ops st = Some (Inr ops, st)"
| "bulk_loop exec foe errorCount (op # rest) ops st =
     (case exec op st of
        None \<Rightarrow> None
      | Some (Inl p, st) \<Rightarrow> Some (Inl p, st)
      | Some (Inr result, st) \<Rightarrow>
          (let errorCount = (if scan_int (br_Status result) 0 \<ge> 300 then errorCount + 1 else errorCount)
           in if foe > 0 \<and> errorCount \<ge> foe then Some (Inr (ops @ [result]), st)
              else bulk_loop exec foe errorCount rest (ops @ [result]) st))"

definition bulk_response :: "bulk_result list \<Rightarrow> response" where
  "bulk_response ops = WriteJSON [] 200 (GMap
     [(''schemas'', GStrs [''urn:ietf:params:scim:api:messages:2.0:BulkResponse'']),
      (''Operations'', GArr (map bulk_result_json ops))])"

definition handleBulk ::
    "'s config \<Rightarrow> (string \<Rightarrow> string + vals) \<Rightarrow> 's bulk_handler \<Rightarrow> 's bulk_handler" where
  "handleBulk cfg purl rt r st =
     (case decode_object (Body r) of
        Panic p \<Rightarrow> Some (Inl p, st)
      | Err e \<Rightarrow> Some (Inr (bad_body e), st)
      | Ok m \<Rightarrow>
          (case ParseBulkRequest m of
             Inl e \<Rightarrow> Some (Inr (error_response 400 ErrTypeInvalidSyntax
                        (''invalid bulk request: '' @ res_error_text e)), st)
           | Inr req \<Rightarrow>
               if cfg_maxBulkOps cfg > 0 \<and> int (length (BOperations req)) > cfg_maxBulkOps cfg then
                 Some (Inr (error_response 413 ErrTypeTooMany
                   (''bulk request exceeds maxOperations limit of '' @ int_str (cfg_maxBulkOps cfg))), st)
               else (case bulk_loop (executeBulkOp cfg purl rt r) (FailOnErrors req) 0 (BOperations req) [] st of
                       None \<Rightarrow> None
                     | Some (Inl p, st) \<Rightarrow> Some (Inl p, st)
                     | Some (Inr ops, st) \<Rightarrow> Some (Inr (bulk_response ops), st))))"

primrec route_fuel :: "nat \<Rightarrow> 's config \<Rightarrow> world \<Rightarrow> (string \<Rightarrow> string + vals) \<Rightarrow> 's bulk_handler" where
  "route_fuel 0 cfg W purl r st = None"
| "route_fuel (Suc n) cfg W purl r st =
     route_with cfg W (handleBulk cfg purl (\<lambda>r st. route_fuel n cfg W purl r st)) r st"

lemma route_fuel_code [code]:
  "route_fuel n cfg W purl r st =
     (if n = 0 then None
      else route_with cfg W (handleBulk cfg purl (\<lambda>r st. route_fuel (n - 1) cfg W purl r st)) r st)"
  by (cases n) simp_all

text \<open>The nesting depth of a body.\<close>

fun gdepth :: "gval \<Rightarrow> nat" where
  "gdepth (GArr vs) = Suc (foldr (\<lambda>v. max (gdepth v)) vs 0)"
| "gdepth (GStrs ss) = Suc 0"
| "gdepth (GMaps ms) = Suc (foldr (\<lambda>m. max (Suc (foldr (\<lambda>(k, v). max (gdepth v)) m 0))) ms 0)"
| "gdepth (GMap m) = Suc (foldr (\<lambda>(k, v). max (gdepth v)) m 0)"
| "gdepth (GNamed n v) = gdepth v"
| "gdepth _ = 0"

fun body_depth :: "body \<Rightarrow> nat" where
  "body_depth (TextBody (Inr v)) = gdepth v"
| "body_depth _ = 0"

definition route :: "'s config \<Rightarrow> world \<Rightarrow> (string \<Rightarrow> string + vals) \<Rightarrow> 's handler" where
  "route cfg W purl r st =
     (case route_fuel (Suc (body_depth (Body r))) cfg W purl r st of
        Some res \<Rightarrow> res | None \<Rightarrow> (Inl ''out of fuel'', st))"

subsection \<open>Middleware\<close>

definition chain :: "'s handler \<Rightarrow> ('s handler \<Rightarrow> 's handler) list \<Rightarrow> 's handler" where
  "chain h middlewares = foldr (\<lambda>m. m) middlewares h"

definition recoveryMiddleware :: "'s handler \<Rightarrow> 's handler" where
  "recoveryMiddleware nxt r st =
     (case nxt r st of
        (Inl rec, st) \<Rightarrow> (Inr (error_response 500 [] (''internal server error: '' @ rec)), st)
      | (Inr resp, st) \<Rightarrow> (Inr resp, st))"

definition authMiddleware :: "'s config \<Rightarrow> 's handler \<Rightarrow> 's handler" where
  "authMiddleware cfg nxt r st =
     (case cfg_authFunc cfg of
        None \<Rightarrow> nxt r st
      | Some fn \<Rightarrow>
          (case fn r of
             Inl e \<Rightarrow> (Inr (error_response 500 [] ''authentication error''), st)
           | Inr ok \<Rightarrow>
               if \<not> ok then
                 (Inr (SCIMError_Write (NewSCIMError 401 [] ''unauthorized'')
                    [(''WWW-Authenticate'', ''Bearer realm='' @ [dquote] @ ''SCIM'' @ [dquote])]), st)
               else nxt r st))"

definition loggingMiddleware :: "'s handler \<Rightarrow> 's handler" where
  "loggingMiddleware nxt r st =
     (case nxt r st of
        (Inl p, st) \<Rightarrow> (Inl p, st)
      | (Inr resp, st) \<Rightarrow>
          (Inr resp, st\<lparr>ss_log := ss_log st @ [(Method r, URL_Path r, resp_Status resp)]\<rparr>))"

definition content_type_of :: "string \<Rightarrow> string" where
  "content_type_of ct = (case cut_first (CHR '';'') ct of Some (a, _) \<Rightarrow> TrimSpace a | None \<Rightarrow> ct)"

definition contentTypeMiddleware :: "'s handler \<Rightarrow> 's handler" where
  "contentTypeMiddleware nxt r st =
     (if \<not> IsAcceptable r then
        (Inr (error_response 406 [] ''not acceptable: only application/scim+json and application/json are supported''), st)
      else (let ct = content_type_of (values_Get (Header r) ''Content-Type'')
            in if Method r \<in> {''POST'', ''PUT'', ''PATCH''} \<and> values_Get (Header r) ''Content-Type'' \<noteq> [] \<and>
                  ct \<notin> {ContentTypeSCIM, ContentTypeJSON} then
                 (Inr (error_response 415 [] (''unsupported Content-Type: '' @ ct)), st)
               else nxt r st))"

definition ServeHTTP :: "'s config \<Rightarrow> world \<Rightarrow> (string \<Rightarrow> string + vals) \<Rightarrow> 's handler" where
  "ServeHTTP cfg W purl =
     chain (route cfg W purl) [recoveryMiddleware, contentTypeMiddleware, authMiddleware cfg, loggingMiddleware]"

end
