(* ===== verification/Routing_Facts.thy ===== *)
theory Routing_Facts
  imports Routing
begin

text \<open>
  Facts about the server as a whole.  The recursion through bulk requests ends, because an operation's data
  lies deeper in the body than the bulk request does.  The locale \<open>server_relation\<close> lifts a reflexive and
  transitive relation between server states from the handlers to the whole server, for the requests that a
  predicate admits; the sections that follow interpret it.
\<close>

subsection \<open>The depth of a body\<close>

lemma gdepth_GArr: "v \<in> set vs \<Longrightarrow> gdepth v < gdepth (GArr vs)"
proof -
  have "v \<in> set vs \<Longrightarrow> gdepth v \<le> foldr (\<lambda>v. max (gdepth v)) vs 0"
    by (induction vs) auto
  then show "v \<in> set vs \<Longrightarrow> gdepth v < gdepth (GArr vs)" by simp
qed

lemma gdepth_GMap: "(k, v) \<in> set m \<Longrightarrow> gdepth v < gdepth (GMap m)"
proof -
  have "(k, v) \<in> set m \<Longrightarrow> gdepth v \<le> foldr (\<lambda>(k, v). max (gdepth v)) m 0"
    by (induction m) auto
  then show "(k, v) \<in> set m \<Longrightarrow> gdepth v < gdepth (GMap m)" by simp
qed

lemma foldr_max_map:
  "(\<And>x. x \<in> set xs \<Longrightarrow> f (g x) = f' x) \<Longrightarrow> foldr (\<lambda>x. max (f x :: nat)) (map g xs) z = foldr (\<lambda>x. max (f' x)) xs z"
  by (induction xs) auto

lemma foldr_max_pairs:
  "(\<And>k v. (k, v) \<in> set m \<Longrightarrow> gdepth (g v) = gdepth v) \<Longrightarrow>
   foldr (\<lambda>(k, v). max (gdepth v)) (map (\<lambda>(k, v). (k, g v)) m) z = foldr (\<lambda>(k, v). max (gdepth v)) m z"
proof (induction m)
  case (Cons kv m)
  obtain k v where kv: "kv = (k, v)" by fastforce
  have "gdepth (g v) = gdepth v" using Cons.prems [of k v] kv by simp
  moreover have "foldr (\<lambda>(k, v). max (gdepth v)) (map (\<lambda>(k, v). (k, g v)) m) z = foldr (\<lambda>(k, v). max (gdepth v)) m z"
  proof (rule Cons.IH)
    show "gdepth (g v) = gdepth v" if "(k, v) \<in> set m" for k v
      using Cons.prems [of k v] that by simp
  qed
  ultimately show ?case by (simp add: kv)
qed simp

lemma gdepth_json_norm [simp]: "gdepth (json_norm v) = gdepth v"
proof (induction v rule: json_norm.induct)
  case (9 vs)
  then show ?case by (simp add: foldr_max_map)
next
  case (10 ss)
  have "foldr (\<lambda>v. max (gdepth v)) (map GStr ss) 0 = 0" by (induction ss) auto
  then show ?case by simp
next
  case (11 ms)
  then have "foldr (\<lambda>v. max (gdepth v)) (map (\<lambda>m. GMap (map (\<lambda>(k, v). (k, json_norm v)) m)) ms) 0
      = foldr (\<lambda>m. max (Suc (foldr (\<lambda>(k, v). max (gdepth v)) m 0))) ms 0"
    by (intro foldr_max_map) (simp, blast intro: foldr_max_pairs)
  then show ?case by simp
next
  case (12 m)
  then show ?case by (simp add: foldr_max_pairs)
qed simp_all

lemma find_in: "find P xs = Some x \<Longrightarrow> x \<in> set xs \<and> P x"
  by (induction xs) (auto split: if_splits)

lemma lookupBulkField_in: "lookupBulkField m k \<noteq> GNil \<Longrightarrow> \<exists>k'. (k', lookupBulkField m k) \<in> set m"
  using find_in [of "\<lambda>(k', v). ToLower k' = ToLower k" m]
  by (auto simp: lookupBulkField_def dest: map_of_SomeD split: option.splits)

lemma parse_bulk_operation_Inr:
  assumes "parse_bulk_operation (i, v) = Inr op"
  shows "\<exists>m. v = GMap m \<and> (BData op = GNil \<or> (''data'', BData op) \<in> set m)"
proof (cases v)
  case (GMap m)
  then have "parseBulkOp m = Inr op" using assms by (auto simp: parse_bulk_operation_def split: sum.splits)
  then have "BData op = (case map_of m ''data'' of Some d \<Rightarrow> d | None \<Rightarrow> GNil)"
    by (auto simp: parseBulkOp_def split: option.splits)
  then show ?thesis using GMap by (auto dest: map_of_SomeD split: option.splits)
qed (use assms in \<open>simp_all add: parse_bulk_operation_def\<close>)

lemma bulk_operation_in_body:
  assumes "ParseBulkRequest m = Inr req" "op \<in> set (BOperations req)"
  obtains k ops om where "(k, GArr ops) \<in> set m" "GMap om \<in> set ops"
    "BData op = GNil \<or> (''data'', BData op) \<in> set om"
proof -
  obtain ops where ops: "lookupBulkField m ''Operations'' = GArr ops"
    "map_sum_list parse_bulk_operation (enumerate 0 ops) = Inr (BOperations req)"
    using assms(1)
    by (cases "lookupBulkField m ''Operations''") (auto simp: ParseBulkRequest_def split: sum.splits)
  obtain k where k: "(k, GArr ops) \<in> set m" using lookupBulkField_in [of m "''Operations''"] ops(1) by auto
  obtain i where i: "i < length (BOperations req)" "op = BOperations req ! i"
    using assms(2) by (auto simp: in_set_conv_nth)
  have l: "length ops = length (BOperations req)" using map_sum_list_length [OF ops(2)] by simp
  have "parse_bulk_operation (enumerate 0 ops ! i) = Inr op"
    using ops(2) i by (auto simp: map_sum_list_Inr_iff list_all2_conv_all_nth)
  then have "parse_bulk_operation (i, ops ! i) = Inr op" using i l by (simp add: nth_enumerate_eq)
  from parse_bulk_operation_Inr [OF this] show ?thesis using that k i l nth_mem by (metis (no_types))
qed

lemma bulk_sub_request_depth:
  assumes "decode_object (Body r) = Ok m" "ParseBulkRequest m = Inr req" "op \<in> set (BOperations req)"
  shows "body_depth (Body (bulk_sub_request cfg r op q)) < body_depth (Body r)"
proof -
  obtain k ops om where in_body: "(k, GArr ops) \<in> set m" "GMap om \<in> set ops"
    "BData op = GNil \<or> (''data'', BData op) \<in> set om"
    using bulk_operation_in_body [OF assms(2,3)] .
  then have "m \<noteq> []" by auto
  then have b: "Body r = TextBody (Inr (GMap m))" using decode_object_Ok [OF assms(1)] by auto
  have d: "gdepth (GMap om) < gdepth (GMap m)"
    using gdepth_GArr [OF in_body(2)] gdepth_GMap [OF in_body(1)] by (rule less_trans)
  show ?thesis
  proof (cases "BData op = GNil")
    case True
    then show ?thesis using b by (simp add: bulk_sub_request_def)
  next
    case False
    then have "gdepth (BData op) < gdepth (GMap om)" using in_body(3) gdepth_GMap by blast
    then show ?thesis using False b d by (simp add: bulk_sub_request_def)
  qed
qed

subsection \<open>Enough fuel\<close>

lemma bulk_loop_cong:
  assumes "\<And>op st. op \<in> set bops \<Longrightarrow> exec op st = exec' op st"
  shows "bulk_loop exec foe n bops acc st = bulk_loop exec' foe n bops acc st"
  using assms
  by (induction bops arbitrary: n acc st) (simp_all add: Let_def split: option.split sum.split prod.split)

lemma bulk_loop_some:
  assumes "\<And>op st. op \<in> set bops \<Longrightarrow> exec op st \<noteq> None"
  shows "bulk_loop exec foe n bops acc st \<noteq> None"
  using assms
proof (induction bops arbitrary: n acc st)
  case Nil
  then show ?case by simp
next
  case (Cons op bops)
  obtain x st' where x: "exec op st = Some (x, st')" using Cons.prems [of op st] by auto
  have "bulk_loop exec foe n' bops acc' st'' \<noteq> None" for n' acc' st''
    using Cons by simp
  then show ?case using x by (cases x) (simp_all add: Let_def)
qed

lemma route_fuel_agree:
  assumes "body_depth (Body r) < n" "body_depth (Body r) < n'"
  shows "route_fuel n cfg W purl r st = route_fuel n' cfg W purl r st \<and> route_fuel n cfg W purl r st \<noteq> None"
  using assms
proof (induction n arbitrary: n' r st)
  case 0
  then show ?case by simp
next
  case (Suc n)
  then obtain k where k: "n' = Suc k" by (cases n') simp_all
  let ?rt = "\<lambda>n r st. route_fuel n cfg W purl r st"
  have bulk: "handleBulk cfg purl (?rt n) r st = handleBulk cfg purl (?rt k) r st \<and>
      handleBulk cfg purl (?rt n) r st \<noteq> None"
  proof (cases "decode_object (Body r)")
    case (Ok m)
    show ?thesis
    proof (cases "ParseBulkRequest m")
      case (Inr req)
      have sub: "?rt n (bulk_sub_request cfg r op q) s = ?rt k (bulk_sub_request cfg r op q) s \<and>
          ?rt n (bulk_sub_request cfg r op q) s \<noteq> None" if "op \<in> set (BOperations req)" for op q s
        using bulk_sub_request_depth [OF Ok Inr that, of cfg q] Suc.prems k by (intro Suc.IH) auto
      have "executeBulkOp cfg purl (?rt n) r op s = executeBulkOp cfg purl (?rt k) r op s \<and>
          executeBulkOp cfg purl (?rt n) r op s \<noteq> None" if op: "op \<in> set (BOperations req)" for op s
      proof (cases "purl (cfg_basePath cfg @ BPath op)")
        case (Inr q)
        obtain x where "?rt n (bulk_sub_request cfg r op q) s = Some x" "?rt k (bulk_sub_request cfg r op q) s = Some x"
          using sub [OF op, of q s] by (metis option.exhaust)
        then show ?thesis using Inr by (cases x) (simp add: executeBulkOp_def Let_def split: sum.split)
      qed (simp add: executeBulkOp_def Let_def)
      then have "bulk_loop (executeBulkOp cfg purl (?rt n) r) foe 0 (BOperations req) [] st
           = bulk_loop (executeBulkOp cfg purl (?rt k) r) foe 0 (BOperations req) [] st"
        "bulk_loop (executeBulkOp cfg purl (?rt n) r) foe 0 (BOperations req) [] st \<noteq> None" for foe
        by (auto intro!: bulk_loop_cong bulk_loop_some simp del: not_None_eq)
      then obtain x where
        "bulk_loop (executeBulkOp cfg purl (?rt n) r) (FailOnErrors req) 0 (BOperations req) [] st = Some x"
        "bulk_loop (executeBulkOp cfg purl (?rt k) r) (FailOnErrors req) 0 (BOperations req) [] st = Some x"
        by (metis option.exhaust)
      then show ?thesis using Ok Inr by (cases x) (simp add: handleBulk_def split: sum.split)
    qed (use Ok in \<open>simp add: handleBulk_def\<close>)
  qed (simp_all add: handleBulk_def)
  then obtain x where "handleBulk cfg purl (?rt n) r st = Some x" "handleBulk cfg purl (?rt k) r st = Some x"
    by (metis option.exhaust)
  then show ?case by (simp add: k route_with_def split: option.split prod.split)
qed

lemma route_fuel_enough: "body_depth (Body r) < n \<Longrightarrow> route_fuel n cfg W purl r st = Some (route cfg W purl r st)"
proof -
  assume "body_depth (Body r) < n"
  then have a: "route_fuel n cfg W purl r st = route_fuel (Suc (body_depth (Body r))) cfg W purl r st"
    "route_fuel n cfg W purl r st \<noteq> None"
    using route_fuel_agree [of r n "Suc (body_depth (Body r))" cfg W purl st] by blast+
  then obtain x where "route_fuel n cfg W purl r st = Some x" by blast
  then show ?thesis using a(1) by (simp add: route_def del: route_fuel.simps)
qed

text \<open>The router as it would be without fuel.\<close>

lemma route_unfold:
  "route cfg W purl r st = the (route_with cfg W (handleBulk cfg purl (\<lambda>r st. Some (route cfg W purl r st))) r st)"
  (is "_ = the (route_with cfg W ?bulk r st)")
proof -
  let ?n = "body_depth (Body r)"
  have h: "handleBulk cfg purl (route_fuel ?n cfg W purl) r st = ?bulk r st"
  proof (cases "decode_object (Body r)")
    case (Ok m)
    show ?thesis
    proof (cases "ParseBulkRequest m")
      case (Inr req)
      have "executeBulkOp cfg purl (route_fuel ?n cfg W purl) r op s
          = executeBulkOp cfg purl (\<lambda>r st. Some (route cfg W purl r st)) r op s"
        if "op \<in> set (BOperations req)" for op s
        by (simp add: executeBulkOp_def Let_def route_fuel_enough [OF bulk_sub_request_depth [OF Ok Inr that]]
            split: sum.splits)
      then have "bulk_loop (executeBulkOp cfg purl (route_fuel ?n cfg W purl) r) foe 0 (BOperations req) [] st
        = bulk_loop (executeBulkOp cfg purl (\<lambda>r st. Some (route cfg W purl r st)) r) foe 0 (BOperations req) [] st" for foe
        by (intro bulk_loop_cong)
      then show ?thesis using Ok Inr by (simp add: handleBulk_def)
    qed (use Ok in \<open>simp add: handleBulk_def\<close>)
  qed (simp_all add: handleBulk_def)
  have "Some (route cfg W purl r st) = route_fuel (Suc ?n) cfg W purl r st"
    using route_fuel_enough [of r "Suc ?n" cfg W purl st] by simp
  also have "\<dots> = route_with cfg W ?bulk r st"
    using h by (simp add: route_with_def split: option.split prod.split)
  finally show ?thesis by (metis option.sel)
qed

text \<open>C20: The recursion of the router through nested bulk requests ends: fuel one more than the nesting depth of
  the request body is enough, and more fuel changes nothing.\<close>

theorem route_terminates:
  "route_fuel (Suc (body_depth (Body r)) + k) cfg W purl r st = Some (route cfg W purl r st)"
  by (rule route_fuel_enough) simp

end
