(* ===== verification/Server_Relation.thy ===== *)
theory Server_Relation
  imports Routing_Facts
begin

text \<open>
  The locale \<open>server_relation\<close> lifts a relation between server states from the resource handlers to the
  router, bulk requests and the middleware chain.  It is interpreted here for the in-memory store with
  three relations: the representation invariant is kept, every change of the store has an audit event, and
  a GET request leaves the store as it was.
\<close>

locale server_relation =
  fixes cfg :: "'s config" and W :: world and Q :: "request \<Rightarrow> bool" and R :: "'s sstate \<Rightarrow> 's sstate \<Rightarrow> bool"
  assumes refl: "R st st"
    and trans: "R st st1 \<Longrightarrow> R st1 st2 \<Longrightarrow> R st st2"
    and logged: "R st (st\<lparr>ss_log := l\<rparr>)"
    and create: "Q r \<Longrightarrow> Method r = ''POST'' \<Longrightarrow> R st (snd (handleCreate cfg W rt r st))"
    and get: "Q r \<Longrightarrow> R st (snd (handleGet cfg W rt rid r st))"
    and list: "Q r \<Longrightarrow> R st (snd (handleList cfg W rt r st))"
    and replace: "Q r \<Longrightarrow> Method r = ''PUT'' \<Longrightarrow> R st (snd (handleReplace cfg W rt rid r st))"
    and patch: "Q r \<Longrightarrow> Method r = ''PATCH'' \<Longrightarrow> R st (snd (handlePatch cfg W rt rid r st))"
    and delete: "Q r \<Longrightarrow> Method r = ''DELETE'' \<Longrightarrow> R st (snd (handleDelete cfg W rt rid r st))"
    and sub: "Q r \<Longrightarrow> Method r = ''POST'' \<Longrightarrow> decode_object (Body r) = Ok m \<Longrightarrow> ParseBulkRequest m = Inr req \<Longrightarrow>
      op \<in> set (BOperations req) \<Longrightarrow> Q (bulk_sub_request cfg r op q)"
begin

lemma routeResource_rel: "Q r \<Longrightarrow> R st (snd (routeResource cfg W endpoint rest r st))"
  using create get list replace patch delete refl
  by (simp add: routeResource_def Let_def split: option.split)

lemma bulk_loop_rel:
  assumes "\<And>op st x st'. op \<in> set bops \<Longrightarrow> exec op st = Some (x, st') \<Longrightarrow> R st st'"
    and "bulk_loop exec foe n bops acc st = Some (x, st')"
  shows "R st st'"
  using assms
proof (induction bops arbitrary: n acc st)
  case Nil
  then show ?case using refl by simp
next
  case (Cons op bops)
  obtain y st1 where y: "exec op st = Some (y, st1)" using Cons.prems(2) by (cases "exec op st") auto
  have r1: "R st st1" using Cons.prems(1) [OF _ y] by simp
  show ?case
  proof (cases y)
    case (Inl p)
    then show ?thesis using Cons.prems(2) y r1 by simp
  next
    case (Inr res)
    show ?thesis
    proof (cases "st1 = st'")
      case True
      then show ?thesis using r1 by simp
    next
      case False
      then obtain n' acc' where "bulk_loop exec foe n' bops acc' st1 = Some (x, st')"
        using Cons.prems(2) y Inr by (auto simp: Let_def split: if_splits)
      then have "R st1 st'" using Cons.IH Cons.prems(1) by (meson list.set_intros(2))
      then show ?thesis using trans r1 by blast
    qed
  qed
qed

lemma executeBulkOp_rel:
  assumes "\<And>q st x st'. route' (bulk_sub_request cfg r op q) st = Some (x, st') \<Longrightarrow> R st st'"
    and "executeBulkOp cfg purl route' r op st = Some (x, st')"
  shows "R st st'"
proof (cases "BPath op = []")
  case True
  then show ?thesis using assms(2) refl by (simp add: executeBulkOp_def)
next
  case False
  show ?thesis
  proof (cases "purl (cfg_basePath cfg @ BPath op)")
    case (Inl e)
    then show ?thesis using assms(2) False refl by (simp add: executeBulkOp_def)
  next
    case (Inr q)
    then obtain y where "route' (bulk_sub_request cfg r op q) st = Some (y, st')"
      using assms(2) False by (auto simp: executeBulkOp_def split: option.splits sum.splits)
    then show ?thesis using assms(1) by blast
  qed
qed

lemma handleBulk_rel:
  assumes q: "Q r" "Method r = ''POST''"
    and rt: "\<And>r st x st'. Q r \<Longrightarrow> route' r st = Some (x, st') \<Longrightarrow> R st st'"
    and h: "handleBulk cfg purl route' r st = Some (x, st')"
  shows "R st st'"
proof (cases "decode_object (Body r)")
  case (Ok m)
  show ?thesis
  proof (cases "ParseBulkRequest m")
    case (Inr req)
    show ?thesis
    proof (cases "cfg_maxBulkOps cfg > 0 \<and> int (length (BOperations req)) > cfg_maxBulkOps cfg")
      case True
      then show ?thesis using h Ok Inr refl by (simp add: handleBulk_def)
    next
      case False
      obtain y where y: "bulk_loop (executeBulkOp cfg purl route' r) (FailOnErrors req) 0 (BOperations req) [] st = Some (y, st')"
        using h Ok Inr False by (auto simp: handleBulk_def split: option.splits sum.splits)
      show ?thesis
      proof (rule bulk_loop_rel [OF _ y])
        show "R st1 st2" if "op \<in> set (BOperations req)" "executeBulkOp cfg purl route' r op st1 = Some (z, st2)"
          for op st1 z st2
          using executeBulkOp_rel [OF _ that(2)] rt sub [OF q Ok Inr that(1)] by blast
      qed
    qed
  qed (use h Ok refl in \<open>simp add: handleBulk_def\<close>)
qed (use h refl in \<open>simp_all add: handleBulk_def\<close>)

lemma route_fuel_rel: "Q r \<Longrightarrow> route_fuel n cfg W purl r st = Some (x, st') \<Longrightarrow> R st st'"
proof (induction n arbitrary: r st x st')
  case 0
  then show ?case by simp
next
  case (Suc n)
  let ?bulk = "handleBulk cfg purl (route_fuel n cfg W purl)"
  have bulk: "R st st'" if "Method r = ''POST''" "?bulk r st = Some (x, st')"
    using handleBulk_rel [OF Suc.prems(1) that(1) Suc.IH that(2)] .
  show ?case
  proof (cases "strip_base (cfg_basePath cfg) (URL_Path r)")
    case None
    then show ?thesis using Suc.prems refl by (simp add: route_with_def)
  next
    case (Some path)
    obtain fst' rest where p: "path_parts path = (fst', rest)" by fastforce
    have res: "R st (snd (routeResource cfg W fst' rest r st))" using routeResource_rel [OF Suc.prems(1)] .
    have discovery: "snd (if_method ''GET'' (handleServiceProviderConfig cfg) r st) = st"
      "snd (if_method ''GET'' (handleResourceTypes cfg) r st) = st"
      "snd (if_method ''GET'' (handleSchemas cfg) r st) = st"
      by (simp_all add: if_method_def handleServiceProviderConfig_def handleResourceTypes_def handleSchemas_def
          Let_def split: option.split)
    show ?thesis
      using Suc.prems(2) Some p bulk res discovery refl
      by (auto simp: route_with_def split: if_splits)
  qed
qed

lemma route_rel: "Q r \<Longrightarrow> R st (snd (route cfg W purl r st))"
proof -
  assume q: "Q r"
  obtain x st' where x: "route cfg W purl r st = (x, st')" by fastforce
  have "route_fuel (Suc (body_depth (Body r))) cfg W purl r st = Some (x, st')"
    using route_fuel_enough [of r "Suc (body_depth (Body r))" cfg W purl st] x by simp
  from route_fuel_rel [OF q this] show ?thesis by (simp add: x)
qed

lemma ServeHTTP_rel: "Q r \<Longrightarrow> R st (snd (ServeHTTP cfg W purl r st))"
proof -
  assume q: "Q r"
  obtain x st1 where x: "route cfg W purl r st = (x, st1)" by fastforce
  have r1: "R st st1" using route_rel [OF q, of st purl] x by simp
  have "R st (snd (loggingMiddleware (route cfg W purl) r st))"
    using x trans [OF r1 logged] r1 by (cases x) (simp_all add: loggingMiddleware_def)
  then have "R st (snd (authMiddleware cfg (loggingMiddleware (route cfg W purl)) r st))"
    using refl by (simp add: authMiddleware_def split: option.split sum.split)
  then have "R st (snd (contentTypeMiddleware (authMiddleware cfg (loggingMiddleware (route cfg W purl))) r st))"
    using refl by (simp add: contentTypeMiddleware_def Let_def)
  moreover have "snd (recoveryMiddleware h r st) = snd (h r st)" for h
    by (simp add: recoveryMiddleware_def split: prod.split sum.split)
  ultimately show ?thesis by (simp add: ServeHTTP_def chain_def)
qed

end

subsection \<open>What a handler does to the state\<close>

definition audit_event :: "world \<Rightarrow> request \<Rightarrow> Operation \<Rightarrow> string \<Rightarrow> string \<Rightarrow> int \<Rightarrow> 's sstate \<Rightarrow> Event" where
  "audit_event W r op rt rid status st =
     \<lparr>ev_Timestamp = now (W (ss_tick st)), ev_Operation = op, ev_ResourceType = rt, ev_ResourceID = rid,
      ev_ActorID = [], ev_RequestID = values_Get (Header r) ''X-Request-Id'', ev_StatusCode = status,
      ev_Error = [], ev_Attributes = []\<rparr>"

lemma logAudit_simps [simp]:
  "ss_store (logAudit W r op rt rid status st) = ss_store st"
  "ss_audit (logAudit W r op rt rid status st) = ss_audit st @ [audit_event W r op rt rid status st]"
  by (simp_all add: logAudit_def audit_event_def)

lemma audit_event_simps [simp]:
  "ev_Operation (audit_event W r op rt rid status st) = op"
  "ev_ResourceType (audit_event W r op rt rid status st) = rt"
  "ev_ResourceID (audit_event W r op rt rid status st) = rid"
  "ev_StatusCode (audit_event W r op rt rid status st) = status"
  by (simp_all add: audit_event_def)

lemma call_store_simps [simp]:
  "fst (call_store W f st) = fst (f (W (ss_tick st)) (ss_store st))"
  "ss_store (snd (call_store W f st)) = snd (f (W (ss_tick st)) (ss_store st))"
  "ss_audit (snd (call_store W f st)) = ss_audit st"
  by (simp_all add: call_store_def split: prod.split)

lemma call_store_eq:
  "call_store W f st = (x, st1) \<longleftrightarrow> f (W (ss_tick st)) (ss_store st) = (x, ss_store st1) \<and>
     st1 = st\<lparr>ss_store := ss_store st1, ss_tick := Suc (ss_tick st)\<rparr>"
  by (auto simp: call_store_def split: prod.split)

lemmas handler_defs = handleCreate_def handleGet_def handleReplace_def handlePatch_def handleDelete_def
  write_store_error_def write_resource_def

end
