(* ===== verification/Memory_Server.thy ===== *)
theory Memory_Server
  imports Server_Relation
begin

text \<open>
  The server over the in-memory store.  Its operations change a resource only when they succeed; the
  interpretations of \<open>server_relation\<close> turn that into properties of every request.
\<close>

definition mem_config :: "hooks \<Rightarrow> mem config \<Rightarrow> mem config" where
  "mem_config h cfg = cfg\<lparr>cfg_store := memory_ops (no_post h)\<rparr>"

lemma mem_config_store [simp]:
  "st_Create (cfg_store (mem_config h cfg)) = Create_mem (no_post h)"
  "st_Get (cfg_store (mem_config h cfg)) = Get_mem"
  "st_List (cfg_store (mem_config h cfg)) = List_mem"
  "st_Replace (cfg_store (mem_config h cfg)) = Replace_mem (no_post h)"
  "st_Patch (cfg_store (mem_config h cfg)) = Patch_mem (no_post h)"
  "st_Delete (cfg_store (mem_config h cfg)) = Delete_mem (no_post h)"
  by (simp_all add: mem_config_def memory_ops_def)

lemma mem_config_simps [simp]:
  "cfg_registry (mem_config h cfg) = cfg_registry cfg" "cfg_basePath (mem_config h cfg) = cfg_basePath cfg"
  "cfg_authFunc (mem_config h cfg) = cfg_authFunc cfg" "cfg_maxPageSize (mem_config h cfg) = cfg_maxPageSize cfg"
  "cfg_defaultPageSize (mem_config h cfg) = cfg_defaultPageSize cfg"
  "cfg_maxBulkOps (mem_config h cfg) = cfg_maxBulkOps cfg"
  "resourceLocation (mem_config h cfg) = resourceLocation cfg"
  by (simp_all add: mem_config_def resourceLocation_def fun_eq_iff split: option.split)

subsection \<open>What an operation changes\<close>

lemma Replace_mem_no_panic: "Replace_mem h e rt rid x s \<noteq> (Panic p, s')"
  by (auto simp: Replace_mem_def Let_def split: option.splits sum.splits)

lemma Patch_mem_no_panic: "Patch_mem h e rt rid pops s \<noteq> (Panic p, s')"
  by (auto simp: Patch_mem_def Let_def split: option.splits sum.splits)

lemma Delete_mem_no_panic: "Delete_mem h e rt rid s \<noteq> (Panic p, s')"
  by (auto simp: Delete_mem_def split: option.splits)

text \<open>An operation either leaves the content or succeeds, with a change at one key; the invariant stays.\<close>

definition writes :: "mem \<Rightarrow> mem \<Rightarrow> string \<times> string \<Rightarrow> bool" where
  "writes s s' k = ((\<forall>k'. k' \<noteq> k \<longrightarrow> content s' k' = content s k') \<and> (mem_inv s \<longrightarrow> mem_inv s'))"

definition idle :: "mem \<Rightarrow> mem \<Rightarrow> bool" where
  "idle s s' = (content s' = content s \<and> (mem_inv s \<longrightarrow> mem_inv s'))"

lemma Create_mem_effect:
  assumes "Create_mem (no_post h) e rt x s = (res, s')"
  shows "case res of Ok r \<Rightarrow> writes s s' (rt, ID r) | Err k \<Rightarrow> idle s s' | Panic p \<Rightarrow> False"
proof (cases res)
  case (Ok r)
  then show ?thesis using Create_mem_Ok [of "no_post h" e rt x s r s'] assms
    by (auto simp: writes_def no_post_def)
next
  case (Err k)
  then show ?thesis using Create_mem_Err assms by (auto simp: idle_def)
next
  case (Panic p)
  then show ?thesis using Create_mem_no_panic assms by auto
qed

lemma Replace_mem_effect:
  assumes "Replace_mem h e rt rid x s = (res, s')"
  shows "case res of Ok r \<Rightarrow> writes s s' (rt, rid) | Err k \<Rightarrow> s' = s | Panic p \<Rightarrow> False"
proof (cases res)
  case (Ok r)
  then show ?thesis using Replace_mem_Ok [of h e rt rid x s r s'] assms by (auto simp: writes_def)
qed (use assms Replace_mem_Err Replace_mem_no_panic in auto)

lemma Patch_mem_effect:
  assumes "Patch_mem h e rt rid pops s = (res, s')"
  shows "case res of Ok r \<Rightarrow> writes s s' (rt, rid) | Err k \<Rightarrow> s' = s | Panic p \<Rightarrow> False"
proof (cases res)
  case (Ok r)
  then show ?thesis using Patch_mem_Ok [of h e rt rid pops s r s'] assms by (auto simp: writes_def)
qed (use assms Patch_mem_Err Patch_mem_no_panic in auto)

lemma Delete_mem_effect:
  assumes "Delete_mem h e rt rid s = (res, s')"
  shows "case res of Ok r \<Rightarrow> writes s s' (rt, rid) | Err k \<Rightarrow> s' = s | Panic p \<Rightarrow> False"
proof (cases res)
  case (Ok r)
  then show ?thesis using Delete_mem_Ok [of h e rt rid s r s'] assms by (auto simp: writes_def)
qed (use assms Delete_mem_Err Delete_mem_no_panic in auto)

lemma List_mem_effect: "snd (List_mem e rt params s) = s"
  by (simp add: List_mem_def Let_def split: option.split prod.split)

subsection \<open>The audited change\<close>

text \<open>Every key whose content a request changed is named by an audit event with a success status.\<close>

definition success_event :: "string \<times> string \<Rightarrow> Event \<Rightarrow> bool" where
  "success_event k e = (ev_ResourceType e = fst k \<and> ev_ResourceID e = snd k \<and> ev_StatusCode e \<in> {200, 201, 204} \<and>
     ev_Operation e \<in> {OperationCreate, OperationReplace, OperationPatch, OperationDelete})"

definition audited :: "mem sstate \<Rightarrow> mem sstate \<Rightarrow> bool" where
  "audited st st' =
     (\<exists>es. ss_audit st' = ss_audit st @ es \<and>
        (\<forall>k. content (ss_store st') k \<noteq> content (ss_store st) k \<longrightarrow> (\<exists>e \<in> set es. success_event k e)) \<and>
        (mem_inv (ss_store st) \<longrightarrow> mem_inv (ss_store st')))"

lemma audited_refl: "audited st st"
  by (simp add: audited_def)

lemma audited_trans:
  assumes "audited st st1" "audited st1 st2"
  shows "audited st st2"
proof -
  obtain es1 es2 where es:
    "ss_audit st1 = ss_audit st @ es1" "ss_audit st2 = ss_audit st1 @ es2"
    "\<And>k. content (ss_store st1) k \<noteq> content (ss_store st) k \<Longrightarrow> \<exists>e \<in> set es1. success_event k e"
    "\<And>k. content (ss_store st2) k \<noteq> content (ss_store st1) k \<Longrightarrow> \<exists>e \<in> set es2. success_event k e"
    "mem_inv (ss_store st) \<longrightarrow> mem_inv (ss_store st2)"
    using assms unfolding audited_def by blast
  show ?thesis unfolding audited_def
  proof (intro exI [of _ "es1 @ es2"] conjI allI impI)
    fix k assume "content (ss_store st2) k \<noteq> content (ss_store st) k"
    then have "content (ss_store st1) k \<noteq> content (ss_store st) k \<or> content (ss_store st2) k \<noteq> content (ss_store st1) k"
      by metis
    then show "\<exists>e \<in> set (es1 @ es2). success_event k e"
      using es(3) [of k] es(4) [of k] unfolding set_append by blast
  qed (use es in auto)
qed

lemma audited_idle:
  "idle (ss_store st) (ss_store st') \<Longrightarrow> ss_audit st' = ss_audit st @ es \<Longrightarrow> audited st st'"
  unfolding audited_def idle_def by (intro exI [of _ es]) simp

lemma audited_writes:
  "writes (ss_store st) (ss_store st') k \<Longrightarrow> ss_audit st' = ss_audit st @ [e] \<Longrightarrow> success_event k e \<Longrightarrow> audited st st'"
  unfolding audited_def writes_def by (intro exI [of _ "[e]"]) auto

lemma idle_refl [simp]: "idle s s"
  by (simp add: idle_def)

lemma audited_same: "ss_store st' = ss_store st \<Longrightarrow> ss_audit st' = ss_audit st @ es \<Longrightarrow> audited st st'"
  by (rule audited_idle) simp_all

text \<open>The end of a handler, after the store has answered.\<close>

lemma audited_error:
  "idle (ss_store st) (ss_store st1) \<Longrightarrow> ss_audit st1 = ss_audit st \<Longrightarrow>
   audited st (snd (write_store_error W r op rt rid err st1))"
  by (rule audited_idle) (simp_all add: write_store_error_def Let_def)

lemma audited_resource:
  assumes "writes (ss_store st) (ss_store st1) (rt, rid)" "ss_audit st1 = ss_audit st" "status \<in> {200, 201}"
    and "op \<in> {OperationCreate, OperationReplace, OperationPatch}"
  shows "audited st (snd (write_resource cfg W r op rt rid status wr res st1))"
  using assms by (intro audited_writes [of st _ "(rt, rid)"]) (auto simp: write_resource_def Let_def success_event_def)

lemma audited_create: "audited st (snd (handleCreate (mem_config h cfg) W rt r st))"
proof (cases "decode_object (Body r)")
  case (Ok m)
  obtain res st1 where c: "call_store W (\<lambda>e. Create_mem (no_post h) e rt (FromMap m)) st = (res, st1)" by fastforce
  then have s: "Create_mem (no_post h) (W (ss_tick st)) rt (FromMap m) (ss_store st) = (res, ss_store st1)"
    "ss_audit st1 = ss_audit st" by (auto simp: call_store_def split: prod.splits)
  show ?thesis using Create_mem_effect [OF s(1)] Ok c s(2)
    by (cases res) (simp_all add: handleCreate_def audited_error audited_resource)
qed (simp_all add: handleCreate_def audited_refl)

lemma audited_replace: "audited st (snd (handleReplace (mem_config h cfg) W rt rid r st))"
proof (cases "decode_object (Body r)")
  case (Ok m)
  obtain res st1 where c: "call_store W (\<lambda>e. Replace_mem (no_post h) e rt rid (FromMap m)) st = (res, st1)" by fastforce
  then have s: "Replace_mem (no_post h) (W (ss_tick st)) rt rid (FromMap m) (ss_store st) = (res, ss_store st1)"
    "ss_audit st1 = ss_audit st" by (auto simp: call_store_def split: prod.splits)
  show ?thesis using Replace_mem_effect [OF s(1)] Ok c s(2)
    by (cases res) (simp_all add: handleReplace_def audited_error audited_resource)
qed (simp_all add: handleReplace_def audited_refl)

lemma audited_patch: "audited st (snd (handlePatch (mem_config h cfg) W rt rid r st))"
proof (cases "decode_object (Body r)")
  case (Ok m)
  show ?thesis
  proof (cases "ParsePatchRequest m")
    case (Inl e)
    then show ?thesis using Ok by (simp add: handlePatch_def audited_error)
  next
    case (Inr req)
    obtain res st1 where c: "call_store W (\<lambda>e. Patch_mem (no_post h) e rt rid (Operations req)) st = (res, st1)" by fastforce
    then have s: "Patch_mem (no_post h) (W (ss_tick st)) rt rid (Operations req) (ss_store st) = (res, ss_store st1)"
      "ss_audit st1 = ss_audit st" by (auto simp: call_store_def split: prod.splits)
    show ?thesis using Patch_mem_effect [OF s(1)] Ok Inr c s(2)
      by (cases res) (simp_all add: handlePatch_def audited_error audited_resource)
  qed
qed (simp_all add: handlePatch_def audited_refl)

lemma audited_delete: "audited st (snd (handleDelete (mem_config h cfg) W rt rid r st))"
proof -
  obtain res st1 where c: "call_store W (\<lambda>e. Delete_mem (no_post h) e rt rid) st = (res, st1)" by fastforce
  then have s: "Delete_mem (no_post h) (W (ss_tick st)) rt rid (ss_store st) = (res, ss_store st1)"
    "ss_audit st1 = ss_audit st" by (auto simp: call_store_def split: prod.splits)
  show ?thesis
  proof (cases res)
    case (Ok u)
    then have w: "writes (ss_store st) (ss_store st1) (rt, rid)" using Delete_mem_effect [OF s(1)] by simp
    show ?thesis using Ok c s(2) w
      by (intro audited_writes [of st _ "(rt, rid)"]) (auto simp: handleDelete_def success_event_def)
  qed (use Delete_mem_effect [OF s(1)] c s(2) in \<open>simp_all add: handleDelete_def audited_error\<close>)
qed

text \<open>Reading handlers leave the store alone.\<close>

lemma handleGet_cases:
  obtains res st1 where "call_store W (\<lambda>e. st_Get (cfg_store cfg) e rt rid) st = (res, st1)"
    "ss_store (snd (handleGet cfg W rt rid r st)) = ss_store st1"
    "\<exists>es. ss_audit (snd (handleGet cfg W rt rid r st)) = ss_audit st1 @ es"
proof -
  obtain res st1 where c: "call_store W (\<lambda>e. st_Get (cfg_store cfg) e rt rid) st = (res, st1)" by fastforce
  show ?thesis
    by (rule that [OF c]; cases res)
      (simp_all add: handleGet_def c write_store_error_def write_resource_def Let_def)
qed

lemma handleList_cases:
  obtains "ss_store (snd (handleList cfg W rt r st)) = ss_store st"
    "\<exists>es. ss_audit (snd (handleList cfg W rt r st)) = ss_audit st @ es"
  | res st1 p where "call_store W (\<lambda>e. st_List (cfg_store cfg) e rt p) st = (res, st1)"
    "ss_store (snd (handleList cfg W rt r st)) = ss_store st1"
    "\<exists>es. ss_audit (snd (handleList cfg W rt r st)) = ss_audit st1 @ es"
proof -
  note found = that
  have run: thesis if h: "handleList cfg W rt r st = run_list cfg W rt r p st" for p
  proof -
    obtain res st1 where c: "call_store W (\<lambda>e. st_List (cfg_store cfg) e rt p) st = (res, st1)" by fastforce
    show thesis
      by (rule found(2) [OF c]; cases res)
        (simp_all add: h run_list_def c write_store_error_def Let_def)
  qed
  show thesis
  proof (cases "qp_Filter (search_params r) = []")
    case True
    then show ?thesis by (intro run) (simp add: handleList_def Let_def)
  next
    case False
    show ?thesis
    proof (cases "ParseFilter (qp_Filter (search_params r))")
      case (Inl e)
      then show ?thesis using False by (intro found(1)) (simp_all add: handleList_def Let_def)
    next
      case (Inr flt)
      then show ?thesis using False by (intro run) (simp add: handleList_def Let_def)
    qed
  qed
qed

lemma call_store_audit: "call_store W f st = (res, st1) \<Longrightarrow> ss_audit st1 = ss_audit st"
  by (auto simp: call_store_def split: prod.splits)

lemma get_store: "ss_store (snd (handleGet (mem_config h cfg) W rt rid r st)) = ss_store st"
proof (rule handleGet_cases [of W "mem_config h cfg" rt rid st r])
  fix res st1 assume c: "call_store W (\<lambda>e. st_Get (cfg_store (mem_config h cfg)) e rt rid) st = (res, st1)"
    "ss_store (snd (handleGet (mem_config h cfg) W rt rid r st)) = ss_store st1"
  show ?thesis
    using c(2) arg_cong [OF c(1), of "\<lambda>x. ss_store (snd x)"] by (simp add: Get_mem_effect)
qed

lemma list_store: "ss_store (snd (handleList (mem_config h cfg) W rt r st)) = ss_store st"
proof (rule handleList_cases [of "mem_config h cfg" W rt r st])
  fix res st1 p assume c: "call_store W (\<lambda>e. st_List (cfg_store (mem_config h cfg)) e rt p) st = (res, st1)"
    "ss_store (snd (handleList (mem_config h cfg) W rt r st)) = ss_store st1"
  show ?thesis
    using c(2) arg_cong [OF c(1), of "\<lambda>x. ss_store (snd x)"] by (simp add: List_mem_effect)
qed simp

lemma get_audit: "\<exists>es. ss_audit (snd (handleGet cfg W rt rid r st)) = ss_audit st @ es"
  by (rule handleGet_cases [of W cfg rt rid st r]) (use call_store_audit in force)

lemma list_audit: "\<exists>es. ss_audit (snd (handleList cfg W rt r st)) = ss_audit st @ es"
  by (rule handleList_cases [of cfg W rt r st]) (use call_store_audit in force)+

interpretation mem_audit: server_relation "mem_config h cfg" W "\<lambda>r. True" audited for h cfg W
proof
  show "audited st (st\<lparr>ss_log := l\<rparr>)" for st :: "mem sstate" and l by (rule audited_same [where es = "[]"]) simp_all
  show "audited st (snd (handleGet (mem_config h cfg) W rt rid r st))" for st rt rid r
    using get_store get_audit by (metis audited_same)
  show "audited st (snd (handleList (mem_config h cfg) W rt r st))" for st rt r
    using list_store list_audit by (metis audited_same)
qed (auto intro: audited_refl audited_trans audited_create audited_replace audited_patch audited_delete)

interpretation mem_read: server_relation "mem_config h cfg" W "\<lambda>r. Method r = ''GET''"
    "\<lambda>st st'. ss_store st' = ss_store st" for h cfg W
  by standard (simp_all add: get_store list_store)

text \<open>C7: Every change that a request makes to the stored resources is in the audit trail: the trail only grows,
  and for every resource that is different after the request, alone, in a bulk request or before a panic,
  the request has added an event with its type, its id and a success status.  The representation invariant
  of the store is kept.\<close>

theorem every_write_audited:
  assumes "ServeHTTP (mem_config h cfg) W purl r st = (res, st')"
  shows "\<exists>es. ss_audit st' = ss_audit st @ es \<and>
     (\<forall>k. content (ss_store st') k \<noteq> content (ss_store st) k \<longrightarrow> (\<exists>e \<in> set es. success_event k e)) \<and>
     (mem_inv (ss_store st) \<longrightarrow> mem_inv (ss_store st'))"
proof -
  have "audited st (snd (ServeHTTP (mem_config h cfg) W purl r st))" by (rule mem_audit.ServeHTTP_rel) simp
  then show ?thesis by (simp add: assms audited_def)
qed

text \<open>A GET request, to whatever path, leaves every stored resource as it was.\<close>

theorem get_is_safe:
  assumes "Method r = ''GET''" "ServeHTTP (mem_config h cfg) W purl r st = (res, st')"
  shows "ss_store st' = ss_store st"
proof -
  have "ss_store (snd (ServeHTTP (mem_config h cfg) W purl r st)) = ss_store st"
    using assms(1) by (rule mem_read.ServeHTTP_rel)
  then show ?thesis by (simp add: assms(2))
qed

end
