(* ===== verification/Server_Responses.thy ===== *)
theory Server_Responses
  imports Memory_Server
begin

text \<open>
  What the server answers: every request gets a response, an unsuccessful one a SCIM error whose body
  repeats the status; a request that is not authorized has no effect; what a bulk request answers and
  where it stops.
\<close>

subsection \<open>Statuses and bodies\<close>

definition scim_error_response :: "response \<Rightarrow> bool" where
  "scim_error_response resp =
     ((\<exists>t d. resp_Body resp = Some (error_json (NewSCIMError (resp_Status resp) t d))) \<and>
      header_Get (resp_Header resp) ''Content-Type'' = ContentTypeSCIM)"

definition good_response :: "response \<Rightarrow> bool" where
  "good_response resp =
     (resp_Status resp \<in> {200, 201, 204} \<or>
      resp_Status resp \<in> {400, 401, 404, 405, 406, 409, 413, 415, 500} \<and> scim_error_response resp)"

fun good_result :: "string + response \<Rightarrow> bool" where
  "good_result (Inl p) = True"
| "good_result (Inr resp) = good_response resp"

lemma se_Status_New [simp]: "se_Status (NewSCIMError n t d) = int_str n"
  by (simp add: NewSCIMError_def)

lemma good_error:
  assumes "n \<in> {400, 401, 404, 405, 406, 409, 413, 415, 500}"
  shows "good_response (SCIMError_Write (NewSCIMError n t d) w)"
proof -
  have "0 \<le> n" using assms by auto
  then have w: "resp_Status (SCIMError_Write (NewSCIMError n t d) w) = n"
    "resp_Body (SCIMError_Write (NewSCIMError n t d) w) = Some (error_json (NewSCIMError n t d))"
    "header_Get (resp_Header (SCIMError_Write (NewSCIMError n t d) w)) ''Content-Type'' = ContentTypeSCIM"
    by (simp_all add: SCIMError_Write_def header_Get_def)
  show ?thesis unfolding good_response_def scim_error_response_def w using assms by blast
qed

lemma good_error_response [simp]:
  "n \<in> {400, 401, 404, 405, 406, 409, 413, 415, 500} \<Longrightarrow> good_response (error_response n t d)"
  unfolding error_response_def by (rule good_error)

lemma good_ok [simp]: "good_response (WriteResource w r b l e)" "good_response (WriteCreated w r b l e)"
  "good_response (WriteNoContent w)" "good_response (WriteJSON w 200 b)"
  by (simp_all add: good_response_def WriteResource_def WriteCreated_def WriteNoContent_def WriteJSON_def)

lemma good_store_error: "good_response (SCIMError_Write (ErrorFromStoreError err) w)"
  by (cases "err_kind err") (simp_all add: ErrorFromStoreError_def good_error)

lemma good_writes [simp]:
  "good_result (fst (write_store_error W r op rt rid err st))"
  "good_result (fst (write_resource cfg W r op rt rid status WriteResource res st))"
  "good_result (fst (write_resource cfg W r op rt rid status WriteCreated res st))"
  "good_response (bad_body e)" "good_response method_not_allowed" "good_response (not_found_error d)"
  by (simp_all add: write_store_error_def write_resource_def good_store_error Let_def bad_body_def good_error
      method_not_allowed_def not_found_error_def)

lemma good_handlers:
  "good_result (fst (handleCreate cfg W rt r st))" "good_result (fst (handleGet cfg W rt rid r st))"
  "good_result (fst (handleReplace cfg W rt rid r st))" "good_result (fst (handlePatch cfg W rt rid r st))"
  "good_result (fst (handleDelete cfg W rt rid r st))"
  by (simp_all add: handleCreate_def handleGet_def handleReplace_def handlePatch_def handleDelete_def
      split: outcome.split prod.split sum.split)

lemma good_run_list: "good_result (fst (run_list cfg W rt r p st))"
  by (simp add: run_list_def split: outcome.split prod.split)

lemma good_handleList: "good_result (fst (handleList cfg W rt r st))"
  by (simp add: handleList_def Let_def good_run_list good_error split: sum.split)

lemma good_routeResource: "good_result (fst (routeResource cfg W endpoint rest r st))"
  by (simp add: routeResource_def Let_def good_handlers good_handleList split: option.split)

lemma good_discovery:
  "good_result (fst (handleServiceProviderConfig cfg r st))" "good_result (fst (handleResourceTypes cfg r st))"
  "good_result (fst (handleSchemas cfg r st))"
  by (simp_all add: handleServiceProviderConfig_def handleResourceTypes_def handleSchemas_def Let_def split: option.split)

lemma good_if_method: "good_result (fst (h r st)) \<Longrightarrow> good_result (fst (if_method m h r st))"
  by (simp add: if_method_def)

lemma good_handleBulk: "handleBulk cfg purl rt r st = Some (x, st') \<Longrightarrow> good_result x"
  by (auto simp: handleBulk_def bulk_response_def split: outcome.splits sum.splits option.splits if_splits)

lemma good_route: "good_result (fst (route cfg W purl r st))"
proof -
  let ?bulk = "handleBulk cfg purl (\<lambda>r st. Some (route cfg W purl r st))"
  have "good_result (fst (the (route_with cfg W ?bulk r st)))"
  proof (cases "strip_base (cfg_basePath cfg) (URL_Path r)")
    case None
    then show ?thesis by (simp add: route_with_def)
  next
    case (Some path)
    obtain x rest where p: "path_parts path = (x, rest)" by fastforce
    have d: "good_result (fst (if_method ''GET'' (handleServiceProviderConfig cfg) r st))"
      "good_result (fst (if_method ''GET'' (handleResourceTypes cfg) r st))"
      "good_result (fst (if_method ''GET'' (handleSchemas cfg) r st))"
      using good_if_method good_discovery by blast+
    have b: "good_result (fst (the (?bulk r st)))" if "?bulk r st \<noteq> None"
      using that good_handleBulk [of cfg purl _ r st] by (metis option.exhaust_sel prod.exhaust_sel)
    have "?bulk r st \<noteq> None"
    proof -
      have "executeBulkOp cfg purl (\<lambda>r st. Some (route cfg W purl r st)) r op s \<noteq> None" for op s
        by (simp add: executeBulkOp_def Let_def split: sum.split prod.split)
      then have "bulk_loop (executeBulkOp cfg purl (\<lambda>r st. Some (route cfg W purl r st)) r) foe 0 ops [] s \<noteq> None" for foe ops s
        by (intro bulk_loop_some)
      then show ?thesis
        by (auto simp: handleBulk_def simp del: not_None_eq split: outcome.split sum.split option.split)
    qed
    then show ?thesis using Some p d b good_routeResource
      by (auto simp: route_with_def simp del: not_None_eq)
  qed
  then show ?thesis by (simp only: route_unfold [symmetric])
qed

lemma good_middleware:
  "good_result (fst (nxt r st)) \<Longrightarrow> good_result (fst (loggingMiddleware nxt r st))"
  "good_result (fst (nxt r st)) \<Longrightarrow> good_result (fst (authMiddleware cfg nxt r st))"
  "good_result (fst (nxt r st)) \<Longrightarrow> good_result (fst (contentTypeMiddleware nxt r st))"
  "good_result (fst (nxt r st)) \<Longrightarrow> \<exists>resp. fst (recoveryMiddleware nxt r st) = Inr resp \<and> good_response resp"
  by (auto simp: loggingMiddleware_def authMiddleware_def contentTypeMiddleware_def recoveryMiddleware_def Let_def
      good_error split: prod.splits sum.splits option.splits)

lemma ServeHTTP_good: "\<exists>resp. fst (ServeHTTP cfg W purl r st) = Inr resp \<and> good_response resp"
  unfolding ServeHTTP_def chain_def by (simp add: good_middleware good_route)

text \<open>C8: Every request is answered, panics of the handlers included: the status is one of a fixed set, and an
  answer that is not a success has a SCIM error as its body, of the SCIM content type, whose status field is
  the status of the response.\<close>

theorem every_request_answered:
  "\<exists>resp. fst (ServeHTTP cfg W purl r st) = Inr resp \<and>
     (resp_Status resp \<in> {200, 201, 204} \<or>
      resp_Status resp \<in> {400, 401, 404, 405, 406, 409, 413, 415, 500} \<and>
      (\<exists>t d. resp_Body resp = Some (error_json (NewSCIMError (resp_Status resp) t d))) \<and>
      header_Get (resp_Header resp) ''Content-Type'' = ContentTypeSCIM)"
  using ServeHTTP_good [of cfg W purl r st] by (auto simp: good_response_def scim_error_response_def)

subsection \<open>Authorization\<close>

text \<open>C16: A request that the authentication function does not accept changes nothing: not the store, the audit
  trail or the log.  If its content types are acceptable the answer is 401, or 500 when the function
  failed.\<close>

theorem unauthorized_no_effect:
  assumes "cfg_authFunc cfg = Some fn" "fn r \<noteq> Inr True" "ServeHTTP cfg W purl r st = (Inr resp, st')"
  shows "st' = st \<and> resp_Status resp \<in> {401, 406, 415, 500}"
  using assms
  by (auto simp: ServeHTTP_def chain_def recoveryMiddleware_def contentTypeMiddleware_def authMiddleware_def Let_def
      error_response_def SCIMError_Write_def NewSCIMError_def split: sum.splits if_splits)

text \<open>A bearer token is accepted exactly when the header carries one and the function accepts it.\<close>

theorem bearer_auth_accepts:
  "bearer_auth fn r = Inr True \<longleftrightarrow>
     (\<exists>token. values_Get (Header r) ''Authorization'' = ''Bearer '' @ token \<and> fn token = Inr True)"
proof -
  have "HasPrefix s p \<longleftrightarrow> (\<exists>u. s = p @ u)" "HasPrefix s p \<Longrightarrow> s = p @ TrimPrefix s p" "TrimPrefix (p @ u) p = u" for s p u
    by (auto simp: HasPrefix_def TrimPrefix_def) (metis append_take_drop_id)+
  then show ?thesis unfolding bearer_auth_def Let_def by (metis append_Nil2 list.distinct(1) append_is_Nil_conv sum.inject(2))
qed

end
