(* ===== verification/Server_Props.thy ===== *)
theory Server_Props
  imports Server_Responses
begin

text \<open>
  Properties of requests in sequence and of bulk requests, and the places where the server departs from what
  its documentation says.
\<close>

subsection \<open>Bulk requests\<close>

definition failures :: "bulk_result list \<Rightarrow> int" where
  "failures rs = int (length (filter (\<lambda>b. scan_int (br_Status b) 0 \<ge> 300) rs))"

lemma failures_simps [simp]:
  "failures [] = 0" "failures (b # rs) = (if scan_int (br_Status b) 0 \<ge> 300 then 1 else 0) + failures rs"
  by (simp_all add: failures_def)

lemma failures_nonneg: "0 \<le> failures rs"
  by (simp add: failures_def)

text \<open>A run of the loop: one result for every operation that was executed, in order, and a reason to stop.\<close>

definition bulk_run :: "(BulkOperation \<Rightarrow> bulk_result \<Rightarrow> bool) \<Rightarrow> int \<Rightarrow> int \<Rightarrow> BulkOperation list \<Rightarrow> bulk_result list \<Rightarrow> bool" where
  "bulk_run P foe n bops rs =
     (length rs \<le> length bops \<and> list_all2 P (take (length rs) bops) rs \<and>
      (0 < foe \<longrightarrow> rs \<noteq> [] \<longrightarrow> n + failures (butlast rs) < foe) \<and>
      (length rs < length bops \<longrightarrow> 0 < foe \<and> n + failures rs = foe))"

lemma bulk_loop_run:
  assumes "\<And>op st b st'. exec op st = Some (Inr b, st') \<Longrightarrow> P op b"
    and "bulk_loop exec foe n bops acc st = Some (Inr rs, st')" and "0 < foe \<longrightarrow> n < foe"
  shows "\<exists>new. rs = acc @ new \<and> bulk_run P foe n bops new"
  using assms(2,3)
proof (induction bops arbitrary: n acc st)
  case Nil
  then show ?case by (auto simp: bulk_run_def)
next
  case (Cons op bops)
  obtain b st1 where b: "exec op st = Some (Inr b, st1)"
    using Cons.prems(1) by (auto split: option.splits sum.splits)
  let ?n = "if scan_int (br_Status b) 0 \<ge> 300 then n + 1 else n"
  show ?case
  proof (cases "foe > 0 \<and> ?n \<ge> foe")
    case True
    then have "rs = acc @ [b]" using Cons.prems(1) b by (auto simp: Let_def split: if_splits)
    moreover have "bulk_run P foe n (op # bops) [b]"
      using True Cons.prems(2) assms(1) [OF b] by (auto simp: bulk_run_def split: if_splits)
    ultimately show ?thesis by blast
  next
    case False
    then have "bulk_loop exec foe ?n bops (acc @ [b]) st1 = Some (Inr rs, st')" "0 < foe \<longrightarrow> ?n < foe"
      using Cons.prems(1) b by (auto simp: Let_def split: if_splits)
    from Cons.IH [OF this] obtain new where new: "rs = (acc @ [b]) @ new" "bulk_run P foe ?n bops new" by blast
    have "bulk_run P foe n (op # bops) (b # new)"
      using new(2) False Cons.prems(2) assms(1) [OF b] by (auto simp: bulk_run_def split: if_splits)
    then show ?thesis using new(1) by (intro exI [of _ "b # new"]) simp
  qed
qed

definition answers :: "BulkOperation \<Rightarrow> bulk_result \<Rightarrow> bool" where
  "answers op b = (br_Method b = BulkMethod_String (BMethod op) \<and> br_BulkID b = BulkID op)"

lemma executeBulkOp_answers: "executeBulkOp cfg purl rt r op st = Some (Inr b, st') \<Longrightarrow> answers op b"
  by (auto simp: executeBulkOp_def answers_def recorded_def Let_def split: if_splits sum.splits option.splits)


subsection \<open>Errors of a PATCH request\<close>

text \<open>A PATCH whose body is a JSON object that does not decode into operations is answered with status 500:
  the error wraps the \<open>ErrBadPatch\<close> of the package \<open>resource\<close>, and the table of statuses knows the one of the
  package \<open>store\<close>, for which it has 400.\<close>

theorem patch_syntax_error_is_500:
  assumes "decode_object (Body r) = Ok m" "ParsePatchRequest m = Inl e"
  shows "(\<exists>resp. fst (handlePatch cfg W rt rid r st) = Inr resp \<and> resp_Status resp = 500) \<and>
     (\<exists>t. e = ErrBadPatch t) \<and> httpStatus (ErrorFromStoreError (wrap_err KBadPatch [])) = 400"
  using assms ParsePatchRequest_error [OF assms(2)]
  by (simp add: handlePatch_def write_store_error_def as_store_error_def ErrorFromStoreError_def
      SCIMError_Write_def httpStatus_def Let_def)

subsection \<open>The base path\<close>

text \<open>The base path is removed as a text prefix: a request for the base path followed by a name without a
  slash is routed like the one with the slash.\<close>

theorem base_path_no_boundary:
  assumes "b \<noteq> []" "e \<noteq> []" "hd e \<noteq> CHR ''/''"
  shows "map_option path_parts (strip_base b (b @ e)) = map_option path_parts (strip_base b (b @ ''/'' @ e))"
proof -
  obtain c e' where e: "e = c # e'" "c \<noteq> CHR ''/''" using assms(2,3) by (cases e) simp_all
  show ?thesis using assms(1) e
    by (simp add: strip_base_def path_parts_def slash_path_def TrimPrefix_def HasPrefix_def)
qed

end
