(* ===== verification/Server_Sessions.thy ===== *)
theory Server_Sessions
  imports Server_Props
begin

text \<open>
  Requests in sequence against the server with the built-in registry and the in-memory store, a sample
  server for the concrete instances, and the instances themselves.
\<close>

subsection \<open>Routing of resource paths\<close>

lemma users_endpoint: "ResourceTypeByEndpoint default_registry ''/Users'' = Some UserResourceType"
proof -
  have "ResourceTypeByEndpoint default_registry ''/Users'' =
      find (\<lambda>rt. EqualFold (rt_Endpoint rt) ''/Users'') [UserResourceType, GroupResourceType]"
    by (simp add: ResourceTypeByEndpoint_def Registry_ResourceTypes_def [symmetric] default_resource_types)
  then show ?thesis by (simp add: UserResourceType_def)
qed

lemma user_by_name: "ResourceTypeByName default_registry ''User'' = Some UserResourceType"
  using ResourceTypeByName_of_member [of default_registry UserResourceType]
  by (simp add: default_resource_types UserResourceType_def)

lemma route_users:
  assumes "cfg_registry cfg = default_registry" "cfg_basePath cfg = []" "URL_Path r = ''/Users'' @ p"
    and "p = [] \<and> rest = [] \<or> p = ''/'' @ rest"
  shows "route cfg W purl r st = routeResource cfg W ''Users'' rest r st"
proof -
  have "path_parts (URL_Path r) = (''Users'', rest)"
    using assms(3,4) by (auto simp: path_parts_def slash_path_def TrimPrefix_def HasPrefix_def SplitN2_def)
  then show ?thesis
    by (subst route_unfold) (simp add: route_with_def strip_base_def assms(2) ToLower_def lower_char_def)
qed

lemma ServeHTTP_open:
  assumes "cfg_authFunc cfg = None" "ServeHTTP cfg W purl r st = (Inr resp, st')" "resp_Status resp \<notin> {406, 415, 500}"
  shows "\<exists>st1. route cfg W purl r st = (Inr resp, st1) \<and> ss_store st' = ss_store st1 \<and> ss_tick st' = ss_tick st1"
proof -
  obtain x s1 where x: "route cfg W purl r st = (x, s1)" by fastforce
  have auth: "authMiddleware cfg (loggingMiddleware (route cfg W purl)) = loggingMiddleware (route cfg W purl)"
    using assms(1) by (simp add: authMiddleware_def fun_eq_iff)
  have status: "resp_Status (error_response n t d) = n" if "0 \<le> n" for n t d
    using that by (simp add: error_response_def SCIMError_Write_def)
  have "loggingMiddleware (route cfg W purl) r st = (Inr resp, st')"
  proof (cases "loggingMiddleware (route cfg W purl) r st")
    case (Pair y s2)
    then show ?thesis using assms(2,3)
      by (cases y) (auto simp: ServeHTTP_def chain_def auth recoveryMiddleware_def contentTypeMiddleware_def Let_def
          status split: if_splits)
  qed
  then show ?thesis using x by (cases x) (auto simp: loggingMiddleware_def)
qed

lemma ServeHTTP_get:
  assumes "cfg_authFunc cfg = None" "IsAcceptable r" "Method r = ''GET''" "route cfg W purl r st = (Inr resp, st')"
  shows "\<exists>st''. ServeHTTP cfg W purl r st = (Inr resp, st'')"
  using assms
  by (simp add: ServeHTTP_def chain_def recoveryMiddleware_def contentTypeMiddleware_def authMiddleware_def
      loggingMiddleware_def Let_def)

subsection \<open>Create, then read\<close>

lemma hex_digit_plain: "n < 16 \<Longrightarrow> hex_digit n \<noteq> CHR ''/'' \<and> hex_digit n \<noteq> CHR ''.''"
proof -
  assume "n < 16"
  then have "n \<in> set [0..<16]" by simp
  moreover have "list_all (\<lambda>n. hex_digit n \<noteq> CHR ''/'' \<and> hex_digit n \<noteq> CHR ''.'') [0..<16]" by code_simp
  ultimately show ?thesis unfolding list_all_iff by blast
qed

lemma hex_encode_plain: "CHR ''/'' \<notin> set (hex_encode bs) \<and> CHR ''.'' \<notin> set (hex_encode bs)"
proof -
  have lt: "char_code b div 16 < 16" for b
    using char_code_lt [of b] by (simp del: char_code_lt)
  have "c \<noteq> CHR ''/'' \<and> c \<noteq> CHR ''.''" if "c \<in> set (hex_encode bs)" for c
    using that hex_digit_plain [OF lt] hex_digit_plain [of "_ mod 16"] by (auto simp: hex_encode_def)
  then show ?thesis by blast
qed

lemma generateID_plain: "generateID e = Inr rid \<Longrightarrow> CHR ''/'' \<notin> set rid \<and> rid \<noteq> ''.search''"
proof -
  assume "generateID e = Inr rid"
  then obtain bs where "rid = hex_encode bs" by (auto simp: generateID_def split: sum.splits)
  moreover have "CHR ''.'' \<in> set ''.search''" by simp
  ultimately show ?thesis using hex_encode_plain [of bs] by metis
qed

text \<open>What a successful POST leaves behind.\<close>

lemma handleCreate_created:
  assumes "handleCreate (mem_config h cfg) W rt r st = (Inr resp, st')" "resp_Status resp = 201"
  shows "\<exists>rid y. content (ss_store st') (rt, rid) = Some y \<and> ID y = rid \<and> wf_resource y \<and>
     CHR ''/'' \<notin> set rid \<and> rid \<noteq> ''.search'' \<and>
     resp_Body resp = Some (GMap (ToMap (located (resourceLocation cfg r rt rid) (Clone y)))) \<and>
     header_Get (resp_Header resp) ''Location'' = resourceLocation cfg r rt rid"
proof (cases "decode_object (Body r)")
  case (Ok m)
  obtain res st1 where c: "call_store W (\<lambda>e. Create_mem (no_post h) e rt (FromMap m)) st = (res, st1)" by fastforce
  have err: "resp_Status (SCIMError_Write (ErrorFromStoreError k) w) \<noteq> 201" for k w
    by (cases "err_kind k") (simp_all add: SCIMError_Write_def ErrorFromStoreError_def)
  obtain created where res: "res = Ok created"
    using assms Ok c err by (cases res) (auto simp: handleCreate_def write_store_error_def Let_def)
  then have "Create_mem (no_post h) (W (ss_tick st)) rt (FromMap m) (ss_store st) = (Ok created, ss_store st1)"
    using c by (simp add: call_store_eq)
  from Create_mem_Ok [OF this] obtain rid x y where y: "generateID (W (ss_tick st)) = Inr rid"
    "y = stamp_new rid rt (now (W (ss_tick st))) (Clone x)" "created = Clone y"
    "content (ss_store st1) = (content (ss_store st))((rt, rid) \<mapsto> y)" by (auto simp: no_post_def)
  have w: "wf_resource y" "ID y = rid" using y(2) by simp_all
  have "ss_store st' = ss_store st1"
    "resp = WriteCreated [] r (GMap (ToMap (located (resourceLocation cfg r rt rid) created)))
       (resourceLocation cfg r rt rid)
       (etagFromVersion (Version (Meta (located (resourceLocation cfg r rt rid) created))))"
    using assms(1) Ok c res y(3) w by (auto simp: handleCreate_def write_resource_def Let_def)
  then show ?thesis
    using y generateID_plain [OF y(1)] w
    by (intro exI [of _ rid] exI [of _ y])
      (simp add: WriteCreated_def resource_headers_def header_Get_def Let_def)
qed (use assms in \<open>auto simp: handleCreate_def bad_body_def SCIMError_Write_def\<close>)

lemma handleGet_stored:
  assumes "content (ss_store st) (rt, rid) = Some y" "ID y = rid" "wf_resource y" "ctx_err (W (ss_tick st)) = None"
  shows "\<exists>resp st'. handleGet (mem_config h cfg) W rt rid r st = (Inr resp, st') \<and> resp_Status resp = 200 \<and>
     resp_Body resp = Some (GMap (ToMap (located (resourceLocation cfg r rt rid) (Clone y))))"
proof -
  have "Get_mem (W (ss_tick st)) rt rid (ss_store st) = (Ok (Clone y), ss_store st)"
    using assms(1,4) by (simp add: Get_mem_def checkContext_def content_def)
  then show ?thesis using assms(2,3)
    by (simp add: handleGet_def call_store_def write_resource_def WriteResource_def Let_def)
qed

text \<open>C6: What POST created, GET returns: after a POST to the users endpoint answered with 201, a GET for the path of
  its Location header, in a live context, is answered with 200 and the same body.\<close>

theorem post_then_get:
  assumes cfg: "cfg_registry cfg = default_registry" "cfg_basePath cfg = []" "cfg_authFunc cfg = None"
    and p: "Method p = ''POST''" "URL_Path p = ''/Users''"
    and posted: "ServeHTTP (mem_config h cfg) W purl p st = (Inr resp, st1)" "resp_Status resp = 201"
    and g: "Method g = ''GET''" "IsAcceptable g" "Host g = Host p" "TLS g = TLS p"
    and loc: "header_Get (resp_Header resp) ''Location'' = scheme p @ ''://'' @ Host p @ URL_Path g"
      "URL_Path g \<noteq> ''/Users/''" "ctx_err (W (ss_tick st1)) = None"
  shows "\<exists>resp2 st2. ServeHTTP (mem_config h cfg) W purl g st1 = (Inr resp2, st2) \<and>
     resp_Status resp2 = 200 \<and> resp_Body resp2 = resp_Body resp"
proof -
  let ?cfg = "mem_config h cfg"
  have c: "cfg_registry ?cfg = default_registry" "cfg_basePath ?cfg = []" "cfg_authFunc ?cfg = None"
    using cfg by simp_all
  have n: "rt_Name UserResourceType = ''User''" "rt_Endpoint UserResourceType = ''/Users''"
    by (simp_all add: UserResourceType_def)
  obtain s1 where r: "route ?cfg W purl p st = (Inr resp, s1)" "ss_store st1 = ss_store s1" "ss_tick st1 = ss_tick s1"
    using ServeHTTP_open [OF c(3) posted(1)] posted(2) by auto
  have "handleCreate ?cfg W ''User'' p st = (Inr resp, s1)"
    using r(1) route_users [OF c(1,2), of p "[]" "[]"] p
    by (simp add: routeResource_def cfg users_endpoint n)
  from handleCreate_created [OF this posted(2)] obtain rid y where y:
    "content (ss_store s1) (''User'', rid) = Some y" "ID y = rid" "wf_resource y" "CHR ''/'' \<notin> set rid"
    "rid \<noteq> ''.search''" "header_Get (resp_Header resp) ''Location'' = resourceLocation cfg p ''User'' rid"
    "resp_Body resp = Some (GMap (ToMap (located (resourceLocation cfg p ''User'' rid) (Clone y))))" by blast
  have l: "resourceLocation cfg q ''User'' rid = scheme q @ ''://'' @ Host q @ ''/Users/'' @ rid" for q
    by (simp add: resourceLocation_def cfg user_by_name n)
  have path: "URL_Path g = ''/Users'' @ ''/'' @ rid" using y(6) loc(1) l by simp
  have "rid \<noteq> []" using path loc(2) by auto
  then have "route ?cfg W purl g st1 = handleGet ?cfg W ''User'' rid g st1"
    using route_users [OF c(1,2) path, of rid] g(1) y(4,5)
    by (simp add: routeResource_def cfg users_endpoint n SplitN2_def)
  moreover obtain resp2 st2 where "handleGet ?cfg W ''User'' rid g st1 = (Inr resp2, st2)" "resp_Status resp2 = 200"
    "resp_Body resp2 = Some (GMap (ToMap (located (resourceLocation cfg g ''User'' rid) (Clone y))))"
    using handleGet_stored [of st1 "''User''" rid y W h cfg g] y(1-3) r(2) loc(3) by auto
  moreover have "resourceLocation cfg g ''User'' rid = resourceLocation cfg p ''User'' rid"
    using g(3,4) by (simp add: l scheme_def)
  ultimately show ?thesis using ServeHTTP_get [OF c(3) g(2,1), of W purl st1] y(7) by fastforce
qed

subsection \<open>The size of a page\<close>

lemma clamp_count_range:
  assumes "0 < cfg_maxPageSize cfg" "0 \<le> cfg_defaultPageSize cfg" "0 \<le> n"
  shows "0 \<le> clamp_count cfg r n \<and> clamp_count cfg r n \<le> cfg_maxPageSize cfg"
  using assms by (simp add: clamp_count_def Let_def)

lemma search_params_count: "0 \<le> qp_Count (search_params r)"
  using list_params_bounds
  by (auto simp: search_params_def ParseListParams_def merge_search_def Let_def split: outcome.split)

lemma length_SortResources [simp]: "length (SortResources rs sortBy order) = length rs"
  by (metis SortResources_perm size_mset)

lemma length_matching: "length (matching p m) \<le> length m"
  using length_filter_le [of _ "map snd m"] by (simp add: matching_def)

lemma List_mem_page:
  assumes "0 \<le> Count p" "Count p < 2 ^ 62" "\<And>m. map_of s rt = Some m \<Longrightarrow> int (length m) < 2 ^ 62"
    and "List_mem e rt p s = (x, s')"
  shows "case x of Ok result \<Rightarrow> int (length (Resources result)) \<le> Count p | Err k \<Rightarrow> True | Panic q \<Rightarrow> False"
proof (cases "checkContext e")
  case (Some err)
  then show ?thesis using assms(4) by (auto simp: List_mem_def)
next
  case None
  let ?m = "case map_of s rt of None \<Rightarrow> [] | Some m \<Rightarrow> m"
  let ?fs = "if SortBy p \<noteq> [] then SortResources (matching p ?m) (SortBy p) (LSortOrder p) else matching p ?m"
  have "int (length ?m) < 2 ^ 62" using assms(3) by (cases "map_of s rt") simp_all
  then have len: "int (length ?fs) < 2 ^ 62" using length_matching [of p ?m] by simp
  then have "int (length ?fs) + max (Count p) (int (length ?fs)) < 2 ^ 63" using assms(2) by simp
  from page_of_eq [OF this] have "page_of ?fs (StartIndex p) (Count p) =
      Some (max (StartIndex p) 1, take (nat (Count p)) (drop (nat (max (StartIndex p) 1 - 1)) ?fs))"
    using assms(1) by (simp add: not_less)
  moreover have "List_mem e rt p s = (case page_of ?fs (StartIndex p) (Count p) of
        None \<Rightarrow> (Panic ''runtime error: slice bounds out of range'', s)
      | Some (i, page) \<Rightarrow>
          (Ok \<lparr>Resources = page, TotalResults = int (length ?fs), LStartIndex = i,
               ItemsPerPage = int (length page), NeedsClientFilter = False\<rparr>, s))"
    unfolding List_mem_def Let_def None option.case ..
  ultimately have "x = Ok \<lparr>Resources = take (nat (Count p)) (drop (nat (max (StartIndex p) 1 - 1)) ?fs),
      TotalResults = int (length ?fs), LStartIndex = max (StartIndex p) 1,
      ItemsPerPage = int (length (take (nat (Count p)) (drop (nat (max (StartIndex p) 1 - 1)) ?fs))),
      NeedsClientFilter = False\<rparr>"
    using assms(4) by (simp only: option.case prod.case prod.inject)
  then show ?thesis using assms(1) by simp
qed

text \<open>C24: With a positive maximum page size the server never answers a listing with more resources than that,
  whatever count the client asks for, and the addition in the store's \<open>List\<close> does not overflow.\<close>

theorem list_page_bounded:
  assumes "0 < cfg_maxPageSize cfg" "cfg_maxPageSize cfg < 2 ^ 62" "0 \<le> cfg_defaultPageSize cfg"
    and "\<And>m. map_of (ss_store st) rt = Some m \<Longrightarrow> int (length m) < 2 ^ 62"
    and "handleList (mem_config h cfg) W rt r st = (x, st')"
  shows "\<exists>resp. x = Inr resp \<and> (resp_Status resp = 200 \<longrightarrow>
     (\<exists>total_results start page. resp_Body resp = Some (NewListResponse total_results start (int (length page)) page) \<and>
        int (length page) \<le> cfg_maxPageSize cfg))"
proof -
  let ?cfg = "mem_config h cfg"
  have run: ?thesis if p: "x = fst (run_list ?cfg W rt r p st)" "Count p = clamp_count cfg r (qp_Count (search_params r))" for p
  proof -
    have c: "0 \<le> Count p" "Count p \<le> cfg_maxPageSize cfg"
      using clamp_count_range [OF assms(1,3) search_params_count] p(2) by simp_all
    obtain y s' where y: "List_mem (W (ss_tick st)) rt p (ss_store st) = (y, s')" by fastforce
    have pg: "case y of Ok result \<Rightarrow> int (length (Resources result)) \<le> Count p | Err k \<Rightarrow> True | Panic q \<Rightarrow> False"
      by (rule List_mem_page [OF c(1) _ assms(4) y]) (use c assms(2) in auto)
    have items: "ItemsPerPage result = int (length (Resources result))" if "y = Ok result" for result
      using y that by (auto simp: List_mem_def Let_def split: option.splits)
    show ?thesis
    proof (cases y)
      case (Ok result)
      have "x = Inr (WriteJSON [] 200 (NewListResponse (TotalResults result) (LStartIndex result)
          (int (length (map (listed ?cfg r rt) (Resources result)))) (map (listed ?cfg r rt) (Resources result))))"
        using p(1) y Ok items [OF Ok] by (simp add: run_list_def call_store_def)
      moreover have "int (length (map (listed ?cfg r rt) (Resources result))) \<le> cfg_maxPageSize cfg"
        using pg Ok c(2) by simp
      ultimately show ?thesis unfolding WriteJSON_def by (metis respond_simps(3))
    next
      case (Err k)
      have "resp_Status (SCIMError_Write (ErrorFromStoreError k) []) \<noteq> 200"
        by (cases "err_kind k") (simp_all add: SCIMError_Write_def ErrorFromStoreError_def)
      then show ?thesis using p(1) y Err by (simp add: run_list_def call_store_def write_store_error_def Let_def)
    qed (use pg in simp)
  qed
  have cc: "clamp_count ?cfg = clamp_count cfg" unfolding clamp_count_def mem_config_simps ..
  show ?thesis
  proof (cases "qp_Filter (search_params r) = []")
    case True
    then show ?thesis using assms(5)
      by (intro run [of "store_params ?cfg r (search_params r) None"])
        (simp_all add: handleList_def Let_def store_params_def cc)
  next
    case False
    show ?thesis
    proof (cases "ParseFilter (qp_Filter (search_params r))")
      case (Inl e)
      then show ?thesis using False assms(5) by (auto simp: handleList_def Let_def SCIMError_Write_def)
    next
      case (Inr flt)
      then show ?thesis using False assms(5)
        by (intro run [of "store_params ?cfg r (search_params r) (Some flt)"])
          (simp_all add: handleList_def Let_def store_params_def cc)
    qed
  qed
qed

end
