(* ===== verification/V1.thy ===== *)
theory V1
  imports Http
begin

text \<open>
  Package \<open>v1\<close>: conversion of resources between SCIM 1.1 and 2.0 (\<open>converter.go\<close>) and the few endpoints
  helpers (\<open>endpoints.go\<close>).  The converters work on a fresh copy of the outer map, but write into the maps nested
  in their argument; \<open>FromV2_source\<close> is what they leave of it (no two attributes share a map).  The round trip
  \<open>v1_round_trip\<close> is the main result.
\<close>

subsection \<open>Schema URIs\<close>

definition CoreSchemaURI :: string where "CoreSchemaURI = ''urn:scim:schemas:core:1.0''"
definition EnterpriseSchemaURI :: string where
  "EnterpriseSchemaURI = ''urn:scim:schemas:extension:enterprise:1.0''"
definition v2UserSchemaURI :: string where
  "v2UserSchemaURI = ''urn:ietf:params:scim:schemas:core:2.0:User''"
definition v2GroupSchemaURI :: string where
  "v2GroupSchemaURI = ''urn:ietf:params:scim:schemas:core:2.0:Group''"
definition v2EnterpriseSchemaURI :: string where
  "v2EnterpriseSchemaURI = ''urn:ietf:params:scim:schemas:extension:enterprise:2.0:User''"

fun toStringSlice :: "gval \<Rightarrow> string list option" where
  "toStringSlice (GStrs sv) = Some sv"
| "toStringSlice (GArr sv) = Some (str_items sv)"
| "toStringSlice _ = None"

definition append_unseen :: "string \<Rightarrow> string list \<times> string list \<Rightarrow> string list \<times> string list" where
  "append_unseen s st = (case st of (result, seen) \<Rightarrow>
     if s \<notin> set seen then (result @ [s], s # seen) else (result, seen))"

definition to_v2_step :: "string list \<times> string list \<Rightarrow> string \<Rightarrow> string list \<times> string list" where
  "to_v2_step st s =
     (if s = CoreSchemaURI then st
      else if s = EnterpriseSchemaURI then append_unseen v2EnterpriseSchemaURI st
      else append_unseen s st)"

definition remapSchemasToV2 :: "gval \<Rightarrow> string \<Rightarrow> string list" where
  "remapSchemasToV2 schemas resourceTypeName =
     (let v2URI = (if EqualFold resourceTypeName ''Group'' then v2GroupSchemaURI else v2UserSchemaURI)
      in case toStringSlice schemas of
           None \<Rightarrow> [v2URI]
         | Some raw \<Rightarrow> fst (foldl to_v2_step ([v2URI], [v2URI]) raw))"

definition to_v1_step :: "string list \<times> string list \<Rightarrow> string \<Rightarrow> string list \<times> string list" where
  "to_v1_step st s =
     (if s = v2UserSchemaURI \<or> s = v2GroupSchemaURI then st
      else if s = v2EnterpriseSchemaURI then append_unseen EnterpriseSchemaURI st
      else append_unseen s st)"

definition remapSchemasToV1 :: "gval \<Rightarrow> string \<Rightarrow> string list" where
  "remapSchemasToV1 schemas resourceTypeName =
     (case toStringSlice schemas of
        None \<Rightarrow> [CoreSchemaURI]
      | Some raw \<Rightarrow> fst (foldl to_v1_step ([CoreSchemaURI], [CoreSchemaURI]) raw))"

subsection \<open>The enterprise extension\<close>

text \<open>A \<open>range\<close> that stops at the first key equal to a name up to case.\<close>

definition find_fold :: "string \<Rightarrow> 'v gmap \<Rightarrow> (string \<times> 'v) option" where
  "find_fold name m = find (\<lambda>(k, _). EqualFold k name) m"

definition enterpriseAttrs :: "string list" where
  "enterpriseAttrs =
     [''employeeNumber'', ''costCenter'', ''organization'', ''division'', ''department'', ''manager'']"

definition promote_attr :: "attrs \<times> attrs \<Rightarrow> string \<Rightarrow> attrs \<times> attrs" where
  "promote_attr st attr = (case st of (m, ext) \<Rightarrow>
     (case find_fold attr m of None \<Rightarrow> (m, ext) | Some (k, v) \<Rightarrow> (map_del k m, map_put attr v ext)))"

definition promoteEnterpriseExtension :: "attrs \<Rightarrow> attrs" where
  "promoteEnterpriseExtension m =
     (let (m, ext) = foldl promote_attr (m, []) enterpriseAttrs
      in if ext \<noteq> [] then map_put v2EnterpriseSchemaURI (GMap ext) m else m)"

definition map_put_all :: "attrs \<Rightarrow> attrs \<Rightarrow> attrs" where
  "map_put_all ext m = foldl (\<lambda>m (k, v). map_put k v m) m ext"

definition flattenEnterpriseExtension :: "attrs \<Rightarrow> attrs" where
  "flattenEnterpriseExtension m =
     (case find_fold v2EnterpriseSchemaURI m of
        Some (extKey, GMap ext) \<Rightarrow> map_put_all ext (map_del extKey m)
      | _ \<Rightarrow> m)"

subsection \<open>Managers and groups\<close>

definition rename_fold :: "string \<Rightarrow> string \<Rightarrow> attrs \<Rightarrow> attrs" where
  "rename_fold old new m =
     (case find_fold old m of None \<Rightarrow> m | Some (k, v) \<Rightarrow> map_del k (map_put new v m))"

definition fixManagerField :: "attrs \<Rightarrow> attrs" where
  "fixManagerField m =
     (case find_fold v2EnterpriseSchemaURI m of
        Some (extKey, GMap ext) \<Rightarrow>
          (case find_fold ''manager'' ext of
             Some (k, GMap mm) \<Rightarrow>
               map_put extKey (GMap (map_put k (GMap (rename_fold ''managerId'' ''value'' mm)) ext)) m
           | _ \<Rightarrow> m)
      | _ \<Rightarrow> m)"

definition fixManagerFieldToV1 :: "attrs \<Rightarrow> attrs" where
  "fixManagerFieldToV1 m =
     (case find_fold ''manager'' m of
        Some (k, GMap mm) \<Rightarrow> map_put k (GMap (rename_fold ''value'' ''managerId'' mm)) m
      | _ \<Rightarrow> m)"

fun group_value :: "gval \<Rightarrow> gval" where
  "group_value (GMap gm) = GMap (rename_fold ''id'' ''value'' gm)"
| "group_value v = v"

definition fixGroupsMembership :: "attrs \<Rightarrow> attrs" where
  "fixGroupsMembership m =
     (case find_fold ''groups'' m of
        Some (k, GArr arr) \<Rightarrow> map_put k (GArr (map group_value arr)) m
      | _ \<Rightarrow> m)"

subsection \<open>The converters\<close>

definition ToV2 :: "attrs \<Rightarrow> string \<Rightarrow> resource" where
  "ToV2 v1Resource resourceTypeName =
     (let out = (case map_of v1Resource ''schemas'' of
                   Some schemas \<Rightarrow> map_put ''schemas'' (GStrs (remapSchemasToV2 schemas resourceTypeName)) v1Resource
                 | None \<Rightarrow> v1Resource)
      in FromMap (fixGroupsMembership (fixManagerField (promoteEnterpriseExtension out))))"

definition v1_flat :: "resource \<Rightarrow> string \<Rightarrow> attrs" where
  "v1_flat v2 resourceTypeName =
     (let m = ToMap v2;
          out = (case map_of m ''schemas'' of
                   Some schemas \<Rightarrow> map_put ''schemas'' (GStrs (remapSchemasToV1 schemas resourceTypeName)) m
                 | None \<Rightarrow> m)
      in flattenEnterpriseExtension out)"

definition FromV2 :: "resource \<Rightarrow> string \<Rightarrow> attrs" where
  "FromV2 v2 resourceTypeName = fixManagerFieldToV1 (v1_flat v2 resourceTypeName)"

text \<open>The argument of \<open>FromV2\<close> after the call: the manager that \<open>fixManagerFieldToV1\<close> renames is the map of the
  extension, or of the attribute, itself.\<close>

definition FromV2_source :: "resource \<Rightarrow> string \<Rightarrow> resource" where
  "FromV2_source v2 resourceTypeName =
     (case find_fold ''manager'' (v1_flat v2 resourceTypeName) of
        Some (k, GMap mm) \<Rightarrow>
          (let mgr = GMap (rename_fold ''value'' ''managerId'' mm)
           in case find_fold v2EnterpriseSchemaURI (Attributes v2) of
                Some (extKey, GMap ext) \<Rightarrow>
                  if k \<in> set (keys ext)
                  then v2\<lparr>Attributes := map_put extKey (GMap (map_put k mgr ext)) (Attributes v2)\<rparr>
                  else v2\<lparr>Attributes := map_put k mgr (Attributes v2)\<rparr>
              | _ \<Rightarrow> v2\<lparr>Attributes := map_put k mgr (Attributes v2)\<rparr>)
      | _ \<Rightarrow> v2)"

subsection \<open>Endpoints\<close>

definition v1_status_texts :: "(int \<times> string) list" where
  "v1_status_texts =
     [(100, ''Continue''), (101, ''Switching Protocols''), (102, ''Processing''), (103, ''Early Hints''),
      (200, ''OK''), (201, ''Created''), (202, ''Accepted''), (203, ''Non-Authoritative Information''),
      (204, ''No Content''), (205, ''Reset Content''), (206, ''Partial Content''), (207, ''Multi-Status''),
      (208, ''Already Reported''), (226, ''IM Used''),
      (300, ''Multiple Choices''), (301, ''Moved Permanently''), (302, ''Found''), (303, ''See Other''),
      (304, ''Not Modified''), (305, ''Use Proxy''), (307, ''Temporary Redirect''), (308, ''Permanent Redirect''),
      (400, ''Bad Request''), (401, ''Unauthorized''), (402, ''Payment Required''), (403, ''Forbidden''),
      (404, ''Not Found''), (405, ''Method Not Allowed''), (406, ''Not Acceptable''),
      (407, ''Proxy Authentication Required''), (408, ''Request Timeout''), (409, ''Conflict''), (410, ''Gone''),
      (411, ''Length Required''), (412, ''Precondition Failed''), (413, ''Request Entity Too Large''),
      (414, ''Request URI Too Long''), (415, ''Unsupported Media Type''), (416, ''Requested Range Not Satisfiable''),
      (417, ''Expectation Failed''), (418, ''I'' @ [CHR 0x27] @ ''m a teapot''), (421, ''Misdirected Request''),
      (422, ''Unprocessable Entity''), (423, ''Locked''), (424, ''Failed Dependency''), (425, ''Too Early''),
      (426, ''Upgrade Required''), (428, ''Precondition Required''), (429, ''Too Many Requests''),
      (431, ''Request Header Fields Too Large''), (451, ''Unavailable For Legal Reasons''),
      (500, ''Internal Server Error''), (501, ''Not Implemented''), (502, ''Bad Gateway''),
      (503, ''Service Unavailable''), (504, ''Gateway Timeout''), (505, ''HTTP Version Not Supported''),
      (506, ''Variant Also Negotiates''), (507, ''Insufficient Storage''), (508, ''Loop Detected''),
      (510, ''Not Extended''), (511, ''Network Authentication Required'')]"

definition StatusText :: "int \<Rightarrow> string" where
  "StatusText code = (case map_of v1_status_texts code of Some t \<Rightarrow> t | None \<Rightarrow> [])"

record V1Error =
  v1_Code :: string
  v1_Description :: string

definition v1_error_json :: "V1Error \<Rightarrow> gval" where
  "v1_error_json e = GMap [(''code'', GStr (v1_Code e)), (''description'', GStr (v1_Description e))]"

definition WriteV1Error :: "headers \<Rightarrow> int \<Rightarrow> string \<Rightarrow> response" where
  "WriteV1Error w statusCode description =
     respond statusCode (map_put ''Content-Type'' ''application/json'' w)
       (Some (GMap [(''schemas'', GArr [GStr CoreSchemaURI]),
          (''Errors'', GArr [v1_error_json \<lparr>v1_Code = StatusText statusCode, v1_Description = description\<rparr>])]))"

definition WrapEndpoint :: "('r \<Rightarrow> 's \<Rightarrow> 'a) \<Rightarrow> string \<Rightarrow> 'r \<Rightarrow> 's \<Rightarrow> 'a" where
  "WrapEndpoint inner resourceTypeName = (\<lambda>r s. inner r s)"

definition FilterV1ToV2 :: "string \<Rightarrow> string" where
  "FilterV1ToV2 f = f"

subsection \<open>Lookups up to case\<close>

lemma find_SomeD: "find P xs = Some x \<Longrightarrow> x \<in> set xs \<and> P x"
  by (auto simp: find_Some_iff)

definition fold_keys :: "'v gmap \<Rightarrow> string list" where
  "fold_keys m = map (\<lambda>kv. ToLower (fst kv)) m"

lemma fold_keys_distinct: "distinct (fold_keys m) \<Longrightarrow> distinct (keys m)"
proof -
  assume "distinct (fold_keys m)"
  then have "distinct (map ToLower (keys m))" by (simp add: fold_keys_def comp_def)
  then show ?thesis by (rule distinct_mapI')
qed

lemma find_fold_None: "find_fold name m = None \<longleftrightarrow> (\<forall>k \<in> fst ` set m. \<not> EqualFold k name)"
  by (auto simp: find_fold_def find_None_iff)

lemma find_fold_Some: "find_fold name m = Some (k, v) \<Longrightarrow> (k, v) \<in> set m \<and> EqualFold k name"
  unfolding find_fold_def by (drule find_SomeD) auto

text \<open>Where only the name itself may occur, the range is a lookup.\<close>

definition canonical_for :: "string \<Rightarrow> 'v gmap \<Rightarrow> bool" where
  "canonical_for name m = (\<forall>k \<in> fst ` set m. EqualFold k name \<longrightarrow> k = name)"

lemma find_fold_lookup:
  assumes "canonical_for name m"
  shows "find_fold name m = (case map_of m name of None \<Rightarrow> None | Some v \<Rightarrow> Some (name, v))"
  using assms
  by (induction m) (auto simp: find_fold_def canonical_for_def split: option.splits)

lemma canonical_for_subset: "canonical_for name m \<Longrightarrow> fst ` set m' \<subseteq> fst ` set m \<Longrightarrow> canonical_for name m'"
  unfolding canonical_for_def by blast

lemma canonical_for_map_put: "canonical_for name m \<Longrightarrow> \<not> EqualFold k name \<or> k = name \<Longrightarrow> canonical_for name (map_put k v m)"
  by (auto simp: canonical_for_def)

lemma map_of_map_put_all:
  "distinct (keys ext) \<Longrightarrow> map_of (map_put_all ext m) = map_of m ++ map_of ext"
proof (induction ext arbitrary: m)
  case (Cons kv ext)
  obtain k v where "kv = (k, v)" by (cases kv)
  moreover from this Cons.prems have "map_of ext k = None" by (simp add: map_of_eq_None_iff)
  ultimately show ?case using Cons by (auto simp: map_put_all_def fun_eq_iff map_add_def split: option.splits)
qed (simp add: map_put_all_def)

lemma keys_map_put_all: "fst ` set (map_put_all ext m) = fst ` set m \<union> fst ` set ext"
proof (induction ext arbitrary: m)
  case (Cons kv ext)
  then show ?case by (cases kv) (auto simp: map_put_all_def)
qed (simp add: map_put_all_def)

subsection \<open>Promotion\<close>

lemma promote_attr_facts:
  assumes "canonical_for a m" "promote_attr (m, ext) a = (m1, ext1)"
  shows "map_of m1 = (map_of m)(a := None)" "fst ` set m1 \<subseteq> fst ` set m"
    "map_of ext1 = (if map_of m a \<noteq> None then (map_of ext)(a := map_of m a) else map_of ext)"
    "distinct (keys ext) \<Longrightarrow> distinct (keys ext1)" "distinct (keys m) \<Longrightarrow> distinct (keys m1)"
  using assms set_keys_map_del [of a m]
  by (auto simp: promote_attr_def find_fold_lookup simp del: set_keys_map_del split: option.splits)

definition promoted :: "string list \<Rightarrow> attrs \<times> attrs \<Rightarrow> attrs \<times> attrs \<Rightarrow> bool" where
  "promoted as st st' = (case (st, st') of ((m, ext), (m', ext')) \<Rightarrow>
     map_of m' = (\<lambda>k. if k \<in> set as then None else map_of m k) \<and>
     map_of ext' = (\<lambda>k. if k \<in> set as \<and> map_of m k \<noteq> None then map_of m k else map_of ext k) \<and>
     (distinct (keys ext) \<longrightarrow> distinct (keys ext')) \<and> (distinct (keys m) \<longrightarrow> distinct (keys m')) \<and>
     fst ` set m' \<subseteq> fst ` set m)"

lemma promote_attrs:
  "\<forall>a \<in> set as. canonical_for a m \<Longrightarrow> promoted as (m, ext) (foldl promote_attr (m, ext) as)"
proof (induction as arbitrary: m ext)
  case Nil
  then show ?case by (simp add: promoted_def)
next
  case (Cons a as)
  obtain m1 ext1 where step: "promote_attr (m, ext) a = (m1, ext1)" by fastforce
  note one = promote_attr_facts [OF _ step]
  have "\<forall>b \<in> set as. canonical_for b m1" using Cons.prems one(2) by (auto intro: canonical_for_subset)
  note ih = Cons.IH [OF this, of ext1]
  obtain m' ext' where rest: "foldl promote_attr (m1, ext1) as = (m', ext')" by fastforce
  from ih have "fst ` set m' \<subseteq> fst ` set m1" by (simp add: promoted_def rest)
  also have "\<dots> \<subseteq> fst ` set m" using one(2) Cons.prems by simp
  finally show ?case
    using Cons.prems one(1,3-5) ih step by (simp add: promoted_def rest fun_eq_iff, auto)
qed

subsection \<open>The round trip\<close>

lemma rename_round_trip:
  assumes "canonical_for old m" "\<forall>k \<in> fst ` set m. \<not> EqualFold k new" "\<not> EqualFold old new"
  shows "map_of (rename_fold new old (rename_fold old new m)) = map_of m"
proof (cases "map_of m old")
  case None
  have "canonical_for new m" using assms(2) by (auto simp: canonical_for_def)
  moreover have "map_of m new = None" using assms(2) by (auto simp: map_of_eq_None_iff)
  ultimately show ?thesis using None assms(1) by (simp add: rename_fold_def find_fold_lookup)
next
  case (Some v)
  let ?m = "map_del old (map_put new v m)"
  have eq: "rename_fold old new m = ?m" using Some assms(1) by (simp add: rename_fold_def find_fold_lookup)
  have "fst ` set ?m = insert new (fst ` set m) - {old}" by (simp only: set_keys_map_del set_keys_map_put)
  then have "canonical_for new ?m" using assms(2) unfolding canonical_for_def by auto
  moreover have ne: "new \<noteq> old" using assms(3) by (auto simp: EqualFold_sym)
  ultimately have "rename_fold new old ?m = map_del new (map_put old v ?m)"
    by (simp add: rename_fold_def find_fold_lookup)
  moreover have "map_of m new = None" using assms(2) by (auto simp: map_of_eq_None_iff)
  ultimately show ?thesis using Some ne eq by (auto simp: fun_eq_iff)
qed

text \<open>The v1 resources that convert without loss: no two names differ in case alone, the enterprise attributes are
  spelled canonically, no group has an \<open>id\<close>, and a manager has no \<open>value\<close>.\<close>

fun manager_ok :: "gval \<Rightarrow> bool" where
  "manager_ok (GMap mm) = (canonical_for ''managerId'' mm \<and> list_all (\<lambda>(k, _). \<not> EqualFold k ''value'') mm)"
| "manager_ok v = True"

fun groups_ok :: "gval \<Rightarrow> bool" where
  "groups_ok (GArr arr) = list_all (\<lambda>v. group_value v = v) arr"
| "groups_ok v = True"

definition v1_ok :: "attrs \<Rightarrow> bool" where
  "v1_ok m = (distinct (fold_keys m) \<and>
     list_all (\<lambda>a. canonical_for a m) (''schemas'' # enterpriseAttrs) \<and>
     list_all (\<lambda>(k, v). \<not> EqualFold k v2EnterpriseSchemaURI \<and>
        (EqualFold k ''groups'' \<longrightarrow> groups_ok v) \<and> (k = ''manager'' \<longrightarrow> manager_ok v)) m)"

text \<open>Values are the same up to the order of a manager's entries.\<close>

definition same_value :: "gval option \<Rightarrow> gval option \<Rightarrow> bool" where
  "same_value v w = (v = w \<or> (\<exists>a b. v = Some (GMap a) \<and> w = Some (GMap b) \<and> map_of a = map_of b))"

lemma fold_keys_iff: "distinct (fold_keys m) \<longleftrightarrow> distinct (keys m) \<and> inj_on ToLower (fst ` set m)"
proof -
  have "fold_keys m = map ToLower (keys m)" by (simp add: fold_keys_def comp_def)
  then show ?thesis by (simp only: distinct_map [of ToLower "keys m"] set_map)
qed

lemma fold_keys_subset:
  "inj_on ToLower A \<Longrightarrow> fst ` set m \<subseteq> A \<Longrightarrow> distinct (keys m) \<Longrightarrow> distinct (fold_keys m)"
  by (simp add: fold_keys_iff inj_on_subset)

lemma Attributes_FromMap_lookup:
  assumes "distinct (fold_keys m)"
  shows "map_of (Attributes (FromMap m)) k = (if reserved k then None else map_of m k)"
proof -
  have d: "distinct (keys (filter (\<lambda>kv. \<not> reserved (fst kv)) m))"
    using assms by (intro distinct_filter_keys) (simp add: fold_keys_def)
  have "Attributes (FromMap m) = filter (\<lambda>kv. \<not> reserved (fst kv)) m"
    using foldl_map_put_fresh [of "[]"] d by (simp add: FromMap_def foldl_from_entry empty_resource_def)
  moreover have "map_of (filter (\<lambda>kv. \<not> reserved (fst kv)) m) k = (if reserved k then None else map_of m k)"
    by (induction m) auto
  ultimately show ?thesis by simp
qed

lemma Schemas_FromMap:
  assumes "distinct (fold_keys m)" "map_of m ''schemas'' = Some (GStrs ss)"
  shows "Schemas (FromMap m) = ss"
proof -
  let ?e = "entries ''schemas'' m"
  have l: "ToLower ''schemas'' = ''schemas''" by code_simp
  have mem: "(''schemas'', GStrs ss) \<in> set ?e" using assms(2) l by (auto simp: entries_def dest: map_of_SomeD)
  have "distinct (map (\<lambda>kv. ToLower (fst kv)) ?e)"
    unfolding entries_def using assms(1) unfolding fold_keys_def by (rule distinct_map_filter)
  then have "length ?e \<le> 1" by (rule distinct_same_image [where a = "''schemas''"]) (simp add: entries_def)
  with mem have "?e = [(''schemas'', GStrs ss)]" by (cases ?e) auto
  then show ?thesis by (simp add: FromMap_def foldl_from_entry empty_resource_def schemas_step_def)
qed

text \<open>The stages of \<open>ToV2\<close>, as lookups.\<close>

definition rename_manager :: "string \<Rightarrow> string \<Rightarrow> gval \<Rightarrow> gval" where
  "rename_manager old new v = (case v of GMap mm \<Rightarrow> GMap (rename_fold old new mm) | _ \<Rightarrow> v)"

lemma fix_manager_to_v1_lookup:
  assumes "canonical_for ''manager'' m"
  shows "map_of (fixManagerFieldToV1 m) k =
    (if k = ''manager'' then map_option (rename_manager ''value'' ''managerId'') (map_of m k) else map_of m k)"
  by (auto simp: fixManagerFieldToV1_def find_fold_lookup [OF assms] rename_manager_def split: option.splits gval.splits)

lemma fix_groups_lookup:
  assumes "\<And>k v. (k, v) \<in> set m \<Longrightarrow> EqualFold k ''groups'' \<Longrightarrow> groups_ok v" "distinct (keys m)"
  shows "map_of (fixGroupsMembership m) = map_of m" "fst ` set (fixGroupsMembership m) = fst ` set m"
    "distinct (keys (fixGroupsMembership m))"
proof -
  have ok: "map group_value arr = arr" if "find_fold ''groups'' m = Some (k, GArr arr)" for k arr
    using assms(1) [of k "GArr arr"] find_fold_Some [OF that] by (auto simp: list_all_iff intro: map_idI)
  have mem: "map_of m k = Some v" if "find_fold ''groups'' m = Some (k, v)" for k v
    using find_fold_Some [OF that] assms(2) by simp
  show "map_of (fixGroupsMembership m) = map_of m"
    by (auto simp: fixGroupsMembership_def fun_eq_iff ok mem split: option.splits gval.splits)
  have "k \<in> fst ` set m" if "find_fold ''groups'' m = Some (k, v)" for k v
    using find_fold_Some [OF that] by force
  then show "fst ` set (fixGroupsMembership m) = fst ` set m" "distinct (keys (fixGroupsMembership m))"
    using assms(2) by (auto simp: fixGroupsMembership_def insert_absorb simp del: image_insert split: option.splits gval.splits)
qed

text \<open>What \<open>promoteEnterpriseExtension\<close> and \<open>fixManagerField\<close> do together: the enterprise attributes move into the
  extension, the manager of the extension with its \<open>managerId\<close> renamed.\<close>

definition v2_extension :: "attrs \<Rightarrow> string \<Rightarrow> gval option" where
  "v2_extension m k =
     (if k \<in> set enterpriseAttrs
      then (if k = ''manager'' then map_option (rename_manager ''managerId'' ''value'') (map_of m k) else map_of m k)
      else None)"

lemma enterprise_names:
  "list_all (\<lambda>a. EqualFold a ''manager'' \<longrightarrow> a = ''manager'') enterpriseAttrs"
  "list_all (\<lambda>a. \<not> EqualFold a v2EnterpriseSchemaURI) enterpriseAttrs"
  "list_all (\<lambda>a. \<not> reserved a) enterpriseAttrs"
  by code_simp+

lemma enterprise_canonical:
  assumes "a \<in> set enterpriseAttrs"
  shows "EqualFold a ''manager'' \<Longrightarrow> a = ''manager''" "\<not> EqualFold a v2EnterpriseSchemaURI" "\<not> reserved a"
  using enterprise_names assms by (simp_all only: list_all_iff simp_thms)

lemma map_put_twice [simp]: "map_put k v (map_put k w m) = map_put k v m"
  by (induction k w m rule: map_put.induct) auto

lemma map_of_empty_iff: "m = [] \<longleftrightarrow> (\<forall>k. map_of m k = None)"
proof (cases m)
  case (Cons kv l)
  then have "map_of m (fst kv) = Some (snd kv)" by (cases kv) simp
  then show ?thesis using Cons by (metis list.distinct(1) option.distinct(1))
qed simp

lemma enterprise_stage:
  assumes "\<forall>a \<in> set enterpriseAttrs. canonical_for a m"
    "\<forall>k \<in> fst ` set m. \<not> EqualFold k v2EnterpriseSchemaURI" "distinct (keys m)"
  defines "f \<equiv> fixManagerField (promoteEnterpriseExtension m)"
  shows "distinct (keys f)" "fst ` set f \<subseteq> insert v2EnterpriseSchemaURI (fst ` set m)"
    "k \<noteq> v2EnterpriseSchemaURI \<Longrightarrow> map_of f k = (if k \<in> set enterpriseAttrs then None else map_of m k)"
    "case map_of f v2EnterpriseSchemaURI of
       None \<Rightarrow> \<forall>k. v2_extension m k = None
     | Some e \<Rightarrow> \<exists>ext. e = GMap ext \<and> distinct (keys ext) \<and> map_of ext = v2_extension m"
proof -
  obtain m' ext where pr: "foldl promote_attr (m, []) enterpriseAttrs = (m', ext)" by fastforce
  note facts = promote_attrs [OF assms(1), of "[]", unfolded pr promoted_def, simplified]
  let ?p = "promoteEnterpriseExtension m"
  have p: "?p = (if ext \<noteq> [] then map_put v2EnterpriseSchemaURI (GMap ext) m' else m')"
    by (simp add: promoteEnterpriseExtension_def pr)
  have keys_p: "fst ` set ?p \<subseteq> insert v2EnterpriseSchemaURI (fst ` set m)" "distinct (keys ?p)"
    using facts assms(3) by (auto simp: p)
  have can_p: "canonical_for v2EnterpriseSchemaURI ?p"
    using keys_p(1) assms(2) unfolding canonical_for_def by blast
  have ext_of: "map_of ext k = (if k \<in> set enterpriseAttrs then map_of m k else None)" for k
    using facts by (cases "map_of m k") auto
  have ext_keys: "fst ` set ext \<subseteq> set enterpriseAttrs"
  proof
    fix k assume "k \<in> fst ` set ext"
    then have "map_of ext k \<noteq> None" by (simp add: map_of_eq_None_iff)
    then show "k \<in> set enterpriseAttrs" using ext_of [of k] by (metis (full_types))
  qed
  then have can_ext: "canonical_for ''manager'' ext"
    using enterprise_canonical(1) unfolding canonical_for_def by blast
  have v2_m: "map_of m' v2EnterpriseSchemaURI = None"
  proof -
    have "v2EnterpriseSchemaURI \<notin> fst ` set m" using assms(2) EqualFold_refl by blast
    then have "map_of m v2EnterpriseSchemaURI = None" by (simp only: map_of_eq_None_iff not_False_eq_True)
    then show ?thesis using facts by simp
  qed
  have "v2_extension m k = None \<longleftrightarrow> map_of ext k = None" for k
    by (simp add: v2_extension_def ext_of)
  moreover have "ext = [] \<longleftrightarrow> (\<forall>k. map_of ext k = None)" by (rule map_of_empty_iff)
  ultimately have ext_nil: "ext = [] \<longleftrightarrow> (\<forall>k. v2_extension m k = None)" by simp
  define ext' where "ext' = (case map_of ext ''manager'' of
      Some (GMap mm) \<Rightarrow> map_put ''manager'' (GMap (rename_fold ''managerId'' ''value'' mm)) ext | _ \<Rightarrow> ext)"
  have v2_p: "map_of ?p v2EnterpriseSchemaURI = (if ext = [] then None else Some (GMap ext))"
    by (simp add: p v2_m)
  have sub: "fst ` set ext' = fst ` set ext" "distinct (keys ext) \<Longrightarrow> distinct (keys ext')"
    using map_of_SomeD [of ext "''manager''"]
    by (force simp: ext'_def split: option.splits gval.splits)+
  have ext'_of: "map_of ext' = v2_extension m"
    by (auto simp: ext'_def fun_eq_iff v2_extension_def ext_of rename_manager_def enterpriseAttrs_def
        split: option.splits gval.splits)
  have f: "f = (if ext = [] then m' else map_put v2EnterpriseSchemaURI (GMap ext') ?p)"
    unfolding f_def fixManagerField_def find_fold_lookup [OF can_p] v2_p
    by (auto simp: ext'_def find_fold_lookup [OF can_ext] p map_put_twice split: option.splits gval.splits)
  show "distinct (keys f)" using facts assms(3) by (auto simp: f p)
  show "fst ` set f \<subseteq> insert v2EnterpriseSchemaURI (fst ` set m)"
    using facts unfolding f p by (simp del: image_insert) blast
  show "map_of f k = (if k \<in> set enterpriseAttrs then None else map_of m k)" if "k \<noteq> v2EnterpriseSchemaURI"
    using that facts by (simp add: f p)
  show "case map_of f v2EnterpriseSchemaURI of
       None \<Rightarrow> \<forall>k. v2_extension m k = None
     | Some e \<Rightarrow> \<exists>ext. e = GMap ext \<and> distinct (keys ext) \<and> map_of ext = v2_extension m"
    using ext_nil sub(2) ext'_of facts v2_m by (simp add: f)
qed

lemma v1_okD:
  assumes "v1_ok m"
  shows "distinct (keys m)" "inj_on ToLower (fst ` set m)" "canonical_for ''schemas'' m"
    "\<forall>a \<in> set enterpriseAttrs. canonical_for a m"
    "\<forall>k \<in> fst ` set m. \<not> EqualFold k v2EnterpriseSchemaURI"
    "(k, v) \<in> set m \<Longrightarrow> EqualFold k ''groups'' \<Longrightarrow> groups_ok v"
    "map_of m ''manager'' = Some v \<Longrightarrow> manager_ok v"
  using assms map_of_SomeD [of m "''manager''" v]
  by (auto simp: v1_ok_def fold_keys_iff list_all_iff)

lemma v1_names:
  "\<not> EqualFold v2EnterpriseSchemaURI ''groups''" "\<not> EqualFold ''schemas'' ''groups''"
  "\<not> EqualFold ''schemas'' v2EnterpriseSchemaURI" "\<not> reserved v2EnterpriseSchemaURI"
  "\<not> EqualFold v2EnterpriseSchemaURI ''manager''" "v2EnterpriseSchemaURI \<notin> set enterpriseAttrs"
  "reserved ''schemas''" "''schemas'' \<notin> set enterpriseAttrs" "\<not> EqualFold v2EnterpriseSchemaURI ''schemas''"
  "''schemas'' \<noteq> v2EnterpriseSchemaURI"
  by code_simp+

lemma to_v2_stage:
  assumes "v1_ok m" "map_of m ''schemas'' = Some s" "r = ToV2 m rt"
  shows "Schemas r = remapSchemasToV2 s rt"
    "fst ` set (Attributes r) \<subseteq> insert v2EnterpriseSchemaURI (fst ` set m)"
    "\<not> reserved k \<Longrightarrow> k \<noteq> v2EnterpriseSchemaURI \<Longrightarrow>
       map_of (Attributes r) k = (if k \<in> set enterpriseAttrs then None else map_of m k)"
    "case map_of (Attributes r) v2EnterpriseSchemaURI of
       None \<Rightarrow> \<forall>k. v2_extension m k = None
     | Some e \<Rightarrow> \<exists>ext. e = GMap ext \<and> distinct (keys ext) \<and> map_of ext = v2_extension m"
proof -
  let ?m = "map_put ''schemas'' (GStrs (remapSchemasToV2 s rt)) m"
  let ?f = "fixManagerField (promoteEnterpriseExtension ?m)"
  note ok = v1_okD [OF assms(1)]
  have r: "r = FromMap (fixGroupsMembership ?f)" by (simp add: assms(3) ToV2_def assms(2))
  have mem: "''schemas'' \<in> fst ` set m" using map_of_SomeD [OF assms(2)] by force
  have km: "fst ` set ?m = fst ` set m" using mem by (simp only: set_keys_map_put insert_absorb)
  have can: "\<forall>a \<in> set enterpriseAttrs. canonical_for a ?m" "\<forall>k \<in> fst ` set ?m. \<not> EqualFold k v2EnterpriseSchemaURI"
    using ok(4,5) by (simp_all only: canonical_for_def km ball_simps)
  have d: "distinct (keys ?m)" using ok(1) by simp
  note stage = enterprise_stage [OF can d]
  have ext: "v2_extension ?m = v2_extension m"
    using v1_names(8) by (auto simp: v2_extension_def fun_eq_iff enterpriseAttrs_def)
  have look: "map_of ?f k = (if k \<in> set enterpriseAttrs then None else map_of ?m k)"
    if "k \<noteq> v2EnterpriseSchemaURI" for k
    using stage(3) that .
  have groups: "groups_ok v" if "(k, v) \<in> set ?f" "EqualFold k ''groups''" for k v
  proof -
    have "map_of ?f k = Some v" using that(1) stage(1) by simp
    moreover have ne: "k \<noteq> v2EnterpriseSchemaURI" "k \<noteq> ''schemas''" using that(2) v1_names(1,2) by blast+
    ultimately have "map_of m k = Some v" using look [OF ne(1)] by (simp split: if_splits)
    then show ?thesis using ok(6) that(2) by (metis map_of_SomeD)
  qed
  have g: "map_of (fixGroupsMembership ?f) = map_of ?f"
    "fst ` set (fixGroupsMembership ?f) = fst ` set ?f" "distinct (keys (fixGroupsMembership ?f))"
    by (rule fix_groups_lookup, erule (1) groups, rule stage(1))+
  have inj: "inj_on ToLower (insert v2EnterpriseSchemaURI (fst ` set m))"
    using ok(2,5) by (auto simp: inj_on_def EqualFold_def)
  have fk: "distinct (fold_keys (fixGroupsMembership ?f))"
    by (rule fold_keys_subset [OF inj _ g(3)]) (use stage(2) in \<open>simp only: g(2) km\<close>)
  have att: "map_of (Attributes r) k = (if reserved k then None else map_of ?f k)" for k
    unfolding r by (simp add: Attributes_FromMap_lookup [OF fk] g(1))
  have "map_of ?f ''schemas'' = Some (GStrs (remapSchemasToV2 s rt))"
    using look [OF v1_names(10)] v1_names(8) by simp
  then show "Schemas r = remapSchemasToV2 s rt" unfolding r using Schemas_FromMap [OF fk] g(1) by simp
  show "fst ` set (Attributes r) \<subseteq> insert v2EnterpriseSchemaURI (fst ` set m)"
  proof
    fix k assume "k \<in> fst ` set (Attributes r)"
    then have "map_of (Attributes r) k \<noteq> None" by (simp only: map_of_eq_None_iff not_not)
    then have "map_of ?f k \<noteq> None" by (simp add: att split: if_splits)
    then show "k \<in> insert v2EnterpriseSchemaURI (fst ` set m)"
      using stage(2) unfolding km map_of_eq_None_iff by (simp only: not_not subset_iff)
  qed
  show "map_of (Attributes r) k = (if k \<in> set enterpriseAttrs then None else map_of m k)"
    if "\<not> reserved k" "k \<noteq> v2EnterpriseSchemaURI"
  proof -
    have "k \<noteq> ''schemas''" using that(1) v1_names(7) by blast
    then show ?thesis using that look by (simp add: att)
  qed
  show "case map_of (Attributes r) v2EnterpriseSchemaURI of
       None \<Rightarrow> \<forall>k. v2_extension m k = None
     | Some e \<Rightarrow> \<exists>ext. e = GMap ext \<and> distinct (keys ext) \<and> map_of ext = v2_extension m"
    using stage(4) by (simp only: att v1_names(4) if_False ext)
qed

lemma ToMap_lookup:
  assumes "wf_resource r" "\<not> reserved k"
  shows "map_of (ToMap r) k = map_of (Attributes r) k"
proof -
  have "k \<noteq> ''schemas''" "k \<noteq> ''id''" "k \<noteq> ''externalId''" "k \<noteq> ''meta''"
    using assms(2) by (auto simp: reserved_def ToLower_def)
  then show ?thesis by (simp add: ToMap_eq [OF assms(1)] map_add_def split: option.splits)
qed

definition common_names :: "string list" where
  "common_names = [''schemas'', ''id'', ''externalId'', ''meta'']"

lemma insert_chain:
  "M1 \<subseteq> insert s A \<Longrightarrow> M3 \<subseteq> insert x (insert i M1) \<Longrightarrow> T \<subseteq> insert t M3 \<Longrightarrow> T \<subseteq> A \<union> {s, i, x, t}"
  by blast

lemma ToMap_keys: "fst ` set (ToMap r) \<subseteq> fst ` set (Attributes r) \<union> set common_names"
proof -
  have str: "fst ` set (put_str k s m) \<subseteq> insert k (fst ` set m)" for k s m
    by (simp add: put_str_def subset_insertI)
  define m1 where "m1 = (if Schemas r \<noteq> [] then map_put ''schemas'' (GStrs (Schemas r)) (Attributes r) else Attributes r)"
  define m3 where "m3 = put_str ''externalId'' (ExternalID r) (put_str ''id'' (ID r) m1)"
  have "fst ` set m1 \<subseteq> insert ''schemas'' (fst ` set (Attributes r))" by (simp add: m1_def subset_insertI)
  moreover have "fst ` set m3 \<subseteq> insert ''externalId'' (insert ''id'' (fst ` set m1))"
    unfolding m3_def by (rule order.trans [OF str insert_mono [OF str]])
  moreover have "ToMap r = (if meta_present (Meta r) then map_put ''meta'' (GMap (meta_map (Meta r))) m3 else m3)"
    by (simp add: ToMap_def m1_def m3_def Let_def)
  then have "fst ` set (ToMap r) \<subseteq> insert ''meta'' (fst ` set m3)" by (simp add: subset_insertI)
  ultimately show ?thesis unfolding common_names_def list.set Un_insert_right Un_empty_right
    by (rule insert_chain [unfolded Un_insert_right Un_empty_right])
qed

lemma ToMap_schemas: "wf_resource r \<Longrightarrow> Schemas r \<noteq> [] \<Longrightarrow> map_of (ToMap r) ''schemas'' = Some (GStrs (Schemas r))"
  using not_reserved_keys [of "Attributes r"]
  by (simp add: ToMap_eq wf_resource_def map_add_def map_of_eq_None_iff [THEN iffD2])

lemma remap_V2_nonempty: "remapSchemasToV2 s rt \<noteq> []"
proof -
  have "fst st \<noteq> [] \<Longrightarrow> fst (foldl to_v2_step st raw) \<noteq> []" for st raw
    by (induction raw arbitrary: st) (auto simp: to_v2_step_def append_unseen_def split: prod.splits)
  then show ?thesis by (simp add: remapSchemasToV2_def Let_def split: option.splits)
qed

text \<open>\<open>FromV2\<close> on what \<open>ToV2\<close> made, as lookups.\<close>

lemma from_v2_stage:
  assumes "wf_resource r" "Schemas r \<noteq> []" "\<forall>k \<in> fst ` set (Attributes r). k = v2EnterpriseSchemaURI \<or> \<not> EqualFold k v2EnterpriseSchemaURI"
    and ext: "case map_of (Attributes r) v2EnterpriseSchemaURI of
       None \<Rightarrow> \<forall>k. e k = None
     | Some x \<Rightarrow> \<exists>ext. x = GMap ext \<and> distinct (keys ext) \<and> map_of ext = e"
    and e: "e v2EnterpriseSchemaURI = None" "\<forall>k. reserved k \<longrightarrow> e k = None"
  shows "\<not> reserved k \<Longrightarrow> map_of (v1_flat r rt) k =
       (if k = v2EnterpriseSchemaURI then None else case e k of Some v \<Rightarrow> Some v | None \<Rightarrow> map_of (Attributes r) k)"
    "map_of (v1_flat r rt) ''schemas'' = Some (GStrs (remapSchemasToV1 (GStrs (Schemas r)) rt))"
    "fst ` set (v1_flat r rt) \<subseteq> fst ` set (Attributes r) \<union> set common_names \<union> {k. e k \<noteq> None}"
proof -
  let ?m = "map_put ''schemas'' (GStrs (remapSchemasToV1 (GStrs (Schemas r)) rt)) (ToMap r)"
  have flat: "v1_flat r rt = flattenEnterpriseExtension ?m"
    by (simp add: v1_flat_def ToMap_schemas [OF assms(1,2)])
  have "''schemas'' \<in> set common_names" by (simp add: common_names_def)
  then have km: "fst ` set ?m \<subseteq> fst ` set (Attributes r) \<union> set common_names"
    using ToMap_keys [of r] by (simp only: set_keys_map_put) blast
  have "list_all (\<lambda>k. \<not> EqualFold k v2EnterpriseSchemaURI) common_names"
    by code_simp
  then have "\<forall>k \<in> set common_names. \<not> EqualFold k v2EnterpriseSchemaURI" by (simp only: list_all_iff)
  then have can: "canonical_for v2EnterpriseSchemaURI ?m"
    using km assms(3) unfolding canonical_for_def by blast
  have look: "map_of ?m k = map_of (Attributes r) k" if "\<not> reserved k" for k
  proof -
    have "k \<noteq> ''schemas''" using that v1_names(7) by blast
    then show ?thesis using ToMap_lookup [OF assms(1) that] by simp
  qed
  note v2 = look [OF v1_names(4)]
  note find = find_fold_lookup [OF can, unfolded v2]
  show "map_of (v1_flat r rt) k =
       (if k = v2EnterpriseSchemaURI then None else case e k of Some v \<Rightarrow> Some v | None \<Rightarrow> map_of (Attributes r) k)"
    if "\<not> reserved k"
    using ext e look [OF that] unfolding flat flattenEnterpriseExtension_def find
    by (auto simp: map_of_map_put_all map_add_def split: option.splits)
  show "map_of (v1_flat r rt) ''schemas'' = Some (GStrs (remapSchemasToV1 (GStrs (Schemas r)) rt))"
    using ext e(2) [rule_format, OF v1_names(7)] v1_names(10) unfolding flat flattenEnterpriseExtension_def find
    by (auto simp: map_of_map_put_all map_add_def split: option.splits)
  have e_keys: "fst ` set ext = {k. e k \<noteq> None}" if "map_of ext = e" for ext
    using map_of_eq_None_iff [of ext] by (auto simp only: that)
  show "fst ` set (v1_flat r rt) \<subseteq> fst ` set (Attributes r) \<union> set common_names \<union> {k. e k \<noteq> None}"
  proof (cases "map_of (Attributes r) v2EnterpriseSchemaURI")
    case None
    then have "v1_flat r rt = ?m" by (simp add: flat flattenEnterpriseExtension_def find)
    then have "fst ` set (v1_flat r rt) \<subseteq> fst ` set (Attributes r) \<union> set common_names" using km by (simp only:)
    then show ?thesis by (rule le_supI1)
  next
    case (Some x)
    then obtain ext where x: "x = GMap ext" "map_of ext = e" using ext by auto
    then have "v1_flat r rt = map_put_all ext (map_del v2EnterpriseSchemaURI ?m)"
      using Some by (simp add: flat flattenEnterpriseExtension_def find)
    then have "fst ` set (v1_flat r rt) = fst ` set ?m - {v2EnterpriseSchemaURI} \<union> {k. e k \<noteq> None}"
      by (simp only: keys_map_put_all e_keys [OF x(2)] set_keys_map_del)
    also have "\<dots> \<subseteq> fst ` set (Attributes r) \<union> set common_names \<union> {k. e k \<noteq> None}"
      by (rule Un_mono [OF order.trans [OF Diff_subset km] order.refl])
    finally show ?thesis .
  qed
qed

definition v2_uri_of :: "string \<Rightarrow> string" where
  "v2_uri_of s = (if s = EnterpriseSchemaURI then v2EnterpriseSchemaURI else s)"

lemma uri_ne [simp]:
  "v2UserSchemaURI \<noteq> v2EnterpriseSchemaURI" "v2GroupSchemaURI \<noteq> v2EnterpriseSchemaURI"
  "v2EnterpriseSchemaURI \<noteq> v2UserSchemaURI" "v2EnterpriseSchemaURI \<noteq> v2GroupSchemaURI"
  "v2UserSchemaURI \<noteq> EnterpriseSchemaURI" "v2GroupSchemaURI \<noteq> EnterpriseSchemaURI"
  "CoreSchemaURI \<noteq> EnterpriseSchemaURI" "EnterpriseSchemaURI \<noteq> CoreSchemaURI"
  by code_simp+

lemma foldl_to_v2:
  assumes "distinct l" "set seen = set res" "CoreSchemaURI \<notin> set l" "v2EnterpriseSchemaURI \<notin> set l"
    "v2_uri_of ` set l \<inter> set res = {}"
  shows "fst (foldl to_v2_step (res, seen) l) = res @ map v2_uri_of l"
  using assms
proof (induction l arbitrary: res seen)
  case (Cons s l)
  have new: "s \<noteq> CoreSchemaURI" "v2_uri_of s \<notin> set seen" "v2_uri_of ` set l \<inter> set res = {}"
    using Cons.prems(2,3,5) by auto
  have step: "to_v2_step (res, seen) s = (res @ [v2_uri_of s], v2_uri_of s # seen)"
    using new(1,2) by (cases "s = EnterpriseSchemaURI") (simp_all add: to_v2_step_def append_unseen_def v2_uri_of_def)
  have "v2_uri_of s \<notin> v2_uri_of ` set l"
    using Cons.prems(1,4) by (auto simp: v2_uri_of_def split: if_splits)
  then have "v2_uri_of ` set l \<inter> set (res @ [v2_uri_of s]) = {}" using new(3) by simp
  then show ?case
    using Cons.IH [of "v2_uri_of s # seen" "res @ [v2_uri_of s]"] Cons.prems(1-4) step by simp
qed simp

lemma foldl_to_v1:
  assumes "distinct l" "set seen = set res" "set l \<inter> {v2UserSchemaURI, v2GroupSchemaURI, v2EnterpriseSchemaURI} = {}"
    "set l \<inter> set res = {}"
  shows "fst (foldl to_v1_step (res, seen) (map v2_uri_of l)) = res @ l"
  using assms
proof (induction l arbitrary: res seen)
  case (Cons s l)
  have new: "s \<notin> set seen" "s \<notin> {v2UserSchemaURI, v2GroupSchemaURI, v2EnterpriseSchemaURI}"
    "set l \<inter> {v2UserSchemaURI, v2GroupSchemaURI, v2EnterpriseSchemaURI} = {}" "set l \<inter> set (res @ [s]) = {}"
    using Cons.prems by auto
  have "to_v1_step (res, seen) (v2_uri_of s) = (res @ [s], s # seen)"
    using new(1,2) by (cases "s = EnterpriseSchemaURI") (simp_all add: to_v1_step_def append_unseen_def v2_uri_of_def)
  then show ?case using Cons.IH [of "s # seen" "res @ [s]"] Cons.prems(1,2) new(3,4) by simp
qed simp

lemma schemas_round_trip:
  assumes "distinct (CoreSchemaURI # l)" "set l \<inter> {v2UserSchemaURI, v2GroupSchemaURI, v2EnterpriseSchemaURI} = {}"
  shows "remapSchemasToV1 (GStrs (remapSchemasToV2 (GArr (map GStr (CoreSchemaURI # l))) rt)) rt = CoreSchemaURI # l"
proof -
  define v2 where "v2 = (if EqualFold rt ''Group'' then v2GroupSchemaURI else v2UserSchemaURI)"
  have v2: "v2 \<noteq> v2EnterpriseSchemaURI" "v2 \<notin> set l" "v2 = v2UserSchemaURI \<or> v2 = v2GroupSchemaURI"
    using assms(2) by (auto simp: v2_def)
  have items: "str_items (GStr CoreSchemaURI # map GStr l) = CoreSchemaURI # l" by simp
  have "remapSchemasToV2 (GArr (map GStr (CoreSchemaURI # l))) rt = fst (foldl to_v2_step ([v2], [v2]) l)"
    by (simp add: remapSchemasToV2_def v2_def to_v2_step_def)
  also have "\<dots> = v2 # map v2_uri_of l"
    by (subst foldl_to_v2) (use assms v2 in \<open>auto simp: v2_uri_of_def\<close>)
  finally have to: "remapSchemasToV2 (GArr (map GStr (CoreSchemaURI # l))) rt = v2 # map v2_uri_of l" .
  have "to_v1_step ([CoreSchemaURI], [CoreSchemaURI]) v2 = ([CoreSchemaURI], [CoreSchemaURI])"
    using v2(3) by (simp add: to_v1_step_def)
  then have "remapSchemasToV1 (GStrs (v2 # map v2_uri_of l)) rt =
      fst (foldl to_v1_step ([CoreSchemaURI], [CoreSchemaURI]) (map v2_uri_of l))"
    by (simp add: remapSchemasToV1_def)
  also have "\<dots> = CoreSchemaURI # l"
    by (subst foldl_to_v1) (use assms in auto)
  finally show ?thesis by (simp only: to)
qed

lemma manager_round_trip:
  assumes "manager_ok v"
  shows "same_value (Some (rename_manager ''value'' ''managerId'' (rename_manager ''managerId'' ''value'' v))) (Some v)"
proof (cases v)
  case (GMap mm)
  have "\<not> EqualFold ''managerId'' ''value''" by code_simp
  then have "map_of (rename_fold ''value'' ''managerId'' (rename_fold ''managerId'' ''value'' mm)) = map_of mm"
    using assms GMap by (intro rename_round_trip) (auto simp: list_all_iff)
  then show ?thesis by (simp add: GMap rename_manager_def same_value_def)
qed (simp_all add: rename_manager_def same_value_def)


definition v1_sample :: attrs where
  "v1_sample = [(''schemas'', GArr (map GStr (CoreSchemaURI # [EnterpriseSchemaURI]))), (''userName'', GStr ''bjensen''),
     (''employeeNumber'', GStr ''701984''),
     (''manager'', GMap [(''managerId'', GStr ''26118915''), (''displayName'', GStr ''John Smith'')])]"


subsection \<open>What the conversion loses\<close>

text \<open>The direct membership of a group becomes \<open>value\<close> on the way to 2.0 and stays so on the way back.\<close>

lemma v1_group_id_lost:
  "map_of (FromV2 (ToV2 [(''groups'', GArr [GMap [(''id'', GStr ''g1'')]])] ''User'') ''User'') ''groups'' =
     Some (GArr [GMap [(''value'', GStr ''g1'')]])"
  by code_simp

text \<open>An extension object that a v1 resource already carries is replaced by the promoted attributes.\<close>

lemma v1_extension_overwritten:
  "map_of (Attributes (ToV2 [(v2EnterpriseSchemaURI, GMap [(''division'', GStr ''d'')]), (''department'', GStr ''x'')] ''User''))
     v2EnterpriseSchemaURI = Some (GMap [(''department'', GStr ''x'')])"
  by code_simp

text \<open>\<open>FromV2\<close> leaves its argument with the v1 spelling of the manager.\<close>

lemma v1_source_damaged:
  "Attributes (FromV2_source (empty_resource\<lparr>Attributes :=
       [(v2EnterpriseSchemaURI, GMap [(''manager'', GMap [(''value'', GStr ''26'')])])]\<rparr>) ''User'') =
     [(v2EnterpriseSchemaURI, GMap [(''manager'', GMap [(''managerId'', GStr ''26'')])])]"
  by code_simp

end
