(* ===== verification/Server_Simulation.thy ===== *)
theory Server_Simulation
  imports Routing_Facts
begin

text \<open>
  Refinement of stores.  The locale \<open>store_simulation\<close> is the contract between two stores whose operations give
  the same results from related states; the server then answers every request, bulk requests included, in
  the same way over either of them, and leaves related states, the same audit trail and the same log.
\<close>

definition with_store :: "'t store_ops \<Rightarrow> 's config \<Rightarrow> 't config" where
  "with_store ops cfg =
     \<lparr>cfg_store = ops, cfg_registry = cfg_registry cfg, cfg_basePath = cfg_basePath cfg, cfg_authFunc = cfg_authFunc cfg,
      cfg_spConfig = cfg_spConfig cfg, cfg_maxBulkOps = cfg_maxBulkOps cfg,
      cfg_defaultPageSize = cfg_defaultPageSize cfg, cfg_maxPageSize = cfg_maxPageSize cfg\<rparr>"

lemma with_store_simps [simp]:
  "cfg_store (with_store ops cfg) = ops" "cfg_registry (with_store ops cfg) = cfg_registry cfg"
  "cfg_basePath (with_store ops cfg) = cfg_basePath cfg" "cfg_authFunc (with_store ops cfg) = cfg_authFunc cfg"
  "cfg_spConfig (with_store ops cfg) = cfg_spConfig cfg" "cfg_maxBulkOps (with_store ops cfg) = cfg_maxBulkOps cfg"
  "cfg_defaultPageSize (with_store ops cfg) = cfg_defaultPageSize cfg"
  "cfg_maxPageSize (with_store ops cfg) = cfg_maxPageSize cfg"
  by (simp_all add: with_store_def)

definition sim_state :: "('s \<Rightarrow> 't \<Rightarrow> bool) \<Rightarrow> 's sstate \<Rightarrow> 't sstate \<Rightarrow> bool" where
  "sim_state sim st st' = (sim (ss_store st) (ss_store st') \<and> ss_audit st = ss_audit st' \<and> ss_log st = ss_log st' \<and>
     ss_tick st = ss_tick st')"

definition agree :: "('s \<Rightarrow> 't \<Rightarrow> bool) \<Rightarrow> 'a \<times> 's \<Rightarrow> 'a \<times> 't \<Rightarrow> bool" where
  "agree sim x y = (fst x = fst y \<and> sim (snd x) (snd y))"

lemma agree_pair [simp]: "agree sim (a, s) (b, t) \<longleftrightarrow> a = b \<and> sim s t"
  by (simp add: agree_def)

lemma agreeE:
  assumes "agree sim x y"
  obtains a s t where "x = (a, s)" "y = (a, t)" "sim s t"
  using assms by (metis agree_def prod.collapse)

text \<open>Without the store, a configuration acts the same.\<close>

lemma with_store_same [simp]:
  "resourceLocation (with_store ops cfg) = resourceLocation cfg" "url_suffix (with_store ops cfg) = url_suffix cfg"
  "clamp_count (with_store ops cfg) = clamp_count cfg" "bulk_sub_request (with_store ops cfg) = bulk_sub_request cfg"
  by - (intro ext, simp add: resourceLocation_def url_suffix_def clamp_count_def bulk_sub_request_def cong: if_cong split: option.split)+

lemma with_store_list [simp]:
  "store_params (with_store ops cfg) = store_params cfg" "listed (with_store ops cfg) = listed cfg"
  by - (intro ext, simp add: store_params_def listed_def)+

lemma logAudit_sim [simp]:
  "sim_state sim st st' \<Longrightarrow> sim_state sim (logAudit W r op rt rid status st) (logAudit W r op rt rid status st')"
  by (simp add: sim_state_def logAudit_def)

lemma call_store_sim:
  assumes "sim_state sim st st'" "\<And>e s t. sim s t \<Longrightarrow> agree sim (f e s) (g e t)"
  shows "agree (sim_state sim) (call_store W f st) (call_store W g st')"
proof -
  have t: "ss_tick st = ss_tick st'" using assms(1) by (simp add: sim_state_def)
  have "agree sim (f (W (ss_tick st)) (ss_store st)) (g (W (ss_tick st)) (ss_store st'))"
    using assms by (simp add: sim_state_def)
  then obtain a s2 t2 where "f (W (ss_tick st)) (ss_store st) = (a, s2)" "g (W (ss_tick st')) (ss_store st') = (a, t2)"
    "sim s2 t2" using t by (auto elim: agreeE)
  then show ?thesis using assms(1) by (simp add: call_store_def sim_state_def)
qed

lemma write_sim:
  assumes "sim_state sim st st'"
  shows "agree (sim_state sim) (write_store_error W r op rt rid err st) (write_store_error W r op rt rid err st')"
    and "agree (sim_state sim) (write_resource cfg W r op rt rid status wr res st)
      (write_resource (with_store ops cfg) W r op rt rid status wr res st')"
  using assms by (simp_all add: write_store_error_def write_resource_def Let_def)

locale store_simulation =
  fixes ops :: "'s store_ops" and ops' :: "'t store_ops" and sim :: "'s \<Rightarrow> 't \<Rightarrow> bool"
  assumes create: "sim s t \<Longrightarrow> agree sim (st_Create ops e rt x s) (st_Create ops' e rt x t)"
    and get: "sim s t \<Longrightarrow> agree sim (st_Get ops e rt rid s) (st_Get ops' e rt rid t)"
    and list: "sim s t \<Longrightarrow> agree sim (st_List ops e rt p s) (st_List ops' e rt p t)"
    and replace: "sim s t \<Longrightarrow> agree sim (st_Replace ops e rt rid x s) (st_Replace ops' e rt rid x t)"
    and patch: "sim s t \<Longrightarrow> agree sim (st_Patch ops e rt rid pops s) (st_Patch ops' e rt rid pops t)"
    and delete: "sim s t \<Longrightarrow> agree sim (st_Delete ops e rt rid s) (st_Delete ops' e rt rid t)"
begin

lemma handleCreate_sim:
  assumes "cfg_store cfg = ops" "sim_state sim st st'"
  shows "agree (sim_state sim) (handleCreate cfg W rt r st) (handleCreate (with_store ops' cfg) W rt r st')"
proof (cases "decode_object (Body r)")
  case (Ok m)
  have "agree (sim_state sim) (call_store W (\<lambda>e. st_Create ops e rt (FromMap m)) st)
      (call_store W (\<lambda>e. st_Create ops' e rt (FromMap m)) st')"
    using assms(2) create by (rule call_store_sim)
  then obtain a s2 t2 where c: "call_store W (\<lambda>e. st_Create ops e rt (FromMap m)) st = (a, s2)"
    "call_store W (\<lambda>e. st_Create ops' e rt (FromMap m)) st' = (a, t2)" "sim_state sim s2 t2" by (rule agreeE)
  then show ?thesis using Ok assms(1) by (cases a) (simp_all add: handleCreate_def write_sim)
qed (use assms in \<open>simp_all add: handleCreate_def\<close>)

lemma handleGet_sim:
  assumes "cfg_store cfg = ops" "sim_state sim st st'"
  shows "agree (sim_state sim) (handleGet cfg W rt rid r st) (handleGet (with_store ops' cfg) W rt rid r st')"
proof -
  have "agree (sim_state sim) (call_store W (\<lambda>e. st_Get ops e rt rid) st) (call_store W (\<lambda>e. st_Get ops' e rt rid) st')"
    using assms(2) get by (rule call_store_sim)
  then obtain a s2 t2 where c: "call_store W (\<lambda>e. st_Get ops e rt rid) st = (a, s2)"
    "call_store W (\<lambda>e. st_Get ops' e rt rid) st' = (a, t2)" "sim_state sim s2 t2" by (rule agreeE)
  then show ?thesis using assms(1) by (cases a) (simp_all add: handleGet_def write_sim)
qed

lemma run_list_sim:
  assumes "cfg_store cfg = ops" "sim_state sim st st'"
  shows "agree (sim_state sim) (run_list cfg W rt r p st) (run_list (with_store ops' cfg) W rt r p st')"
proof -
  have "agree (sim_state sim) (call_store W (\<lambda>e. st_List ops e rt p) st) (call_store W (\<lambda>e. st_List ops' e rt p) st')"
    using assms(2) list by (rule call_store_sim)
  then obtain a s2 t2 where c: "call_store W (\<lambda>e. st_List ops e rt p) st = (a, s2)"
    "call_store W (\<lambda>e. st_List ops' e rt p) st' = (a, t2)" "sim_state sim s2 t2" by (rule agreeE)
  then show ?thesis using assms(1) by (cases a) (simp_all add: run_list_def write_sim)
qed

lemma handleList_sim:
  assumes "cfg_store cfg = ops" "sim_state sim st st'"
  shows "agree (sim_state sim) (handleList cfg W rt r st) (handleList (with_store ops' cfg) W rt r st')"
  using assms run_list_sim by (simp add: handleList_def Let_def split: sum.split)

lemma handleReplace_sim:
  assumes "cfg_store cfg = ops" "sim_state sim st st'"
  shows "agree (sim_state sim) (handleReplace cfg W rt rid r st) (handleReplace (with_store ops' cfg) W rt rid r st')"
proof (cases "decode_object (Body r)")
  case (Ok m)
  have "agree (sim_state sim) (call_store W (\<lambda>e. st_Replace ops e rt rid (FromMap m)) st)
      (call_store W (\<lambda>e. st_Replace ops' e rt rid (FromMap m)) st')"
    using assms(2) replace by (rule call_store_sim)
  then obtain a s2 t2 where c: "call_store W (\<lambda>e. st_Replace ops e rt rid (FromMap m)) st = (a, s2)"
    "call_store W (\<lambda>e. st_Replace ops' e rt rid (FromMap m)) st' = (a, t2)" "sim_state sim s2 t2" by (rule agreeE)
  then show ?thesis using Ok assms(1) by (cases a) (simp_all add: handleReplace_def write_sim)
qed (use assms in \<open>simp_all add: handleReplace_def\<close>)

lemma handlePatch_sim:
  assumes "cfg_store cfg = ops" "sim_state sim st st'"
  shows "agree (sim_state sim) (handlePatch cfg W rt rid r st) (handlePatch (with_store ops' cfg) W rt rid r st')"
proof (cases "decode_object (Body r)")
  case (Ok m)
  show ?thesis
  proof (cases "ParsePatchRequest m")
    case (Inl e)
    then show ?thesis using Ok assms by (simp add: handlePatch_def write_sim)
  next
    case (Inr req)
    have "agree (sim_state sim) (call_store W (\<lambda>e. st_Patch ops e rt rid (Operations req)) st)
        (call_store W (\<lambda>e. st_Patch ops' e rt rid (Operations req)) st')"
      using assms(2) patch by (rule call_store_sim)
    then obtain a s2 t2 where c: "call_store W (\<lambda>e. st_Patch ops e rt rid (Operations req)) st = (a, s2)"
      "call_store W (\<lambda>e. st_Patch ops' e rt rid (Operations req)) st' = (a, t2)" "sim_state sim s2 t2" by (rule agreeE)
    then show ?thesis using Ok Inr assms(1) by (cases a) (simp_all add: handlePatch_def write_sim)
  qed
qed (use assms in \<open>simp_all add: handlePatch_def\<close>)

lemma handleDelete_sim:
  assumes "cfg_store cfg = ops" "sim_state sim st st'"
  shows "agree (sim_state sim) (handleDelete cfg W rt rid r st) (handleDelete (with_store ops' cfg) W rt rid r st')"
proof -
  have "agree (sim_state sim) (call_store W (\<lambda>e. st_Delete ops e rt rid) st) (call_store W (\<lambda>e. st_Delete ops' e rt rid) st')"
    using assms(2) delete by (rule call_store_sim)
  then obtain a s2 t2 where c: "call_store W (\<lambda>e. st_Delete ops e rt rid) st = (a, s2)"
    "call_store W (\<lambda>e. st_Delete ops' e rt rid) st' = (a, t2)" "sim_state sim s2 t2" by (rule agreeE)
  then show ?thesis using assms(1) by (cases a) (simp_all add: handleDelete_def write_sim)
qed

lemmas handlers_sim = handleCreate_sim handleGet_sim handleList_sim handleReplace_sim handlePatch_sim handleDelete_sim

lemma routeResource_sim:
  assumes "cfg_store cfg = ops" "sim_state sim st st'"
  shows "agree (sim_state sim) (routeResource cfg W ep rest r st) (routeResource (with_store ops' cfg) W ep rest r st')"
  using assms handlers_sim by (simp add: routeResource_def Let_def split: option.split)

lemma discovery_sim:
  assumes "sim_state sim st st'"
  shows "agree (sim_state sim) (handleServiceProviderConfig cfg r st) (handleServiceProviderConfig (with_store ops' cfg) r st')"
    "agree (sim_state sim) (handleResourceTypes cfg r st) (handleResourceTypes (with_store ops' cfg) r st')"
    "agree (sim_state sim) (handleSchemas cfg r st) (handleSchemas (with_store ops' cfg) r st')"
  using assms
  by (simp_all add: handleServiceProviderConfig_def handleResourceTypes_def handleSchemas_def Let_def split: option.split)

lemma executeBulkOp_sim:
  assumes "\<And>r st st'. sim_state sim st st' \<Longrightarrow> rel_option (agree (sim_state sim)) (f r st) (g r st')"
    and "sim_state sim st st'"
  shows "rel_option (agree (sim_state sim)) (executeBulkOp cfg purl f r op st)
    (executeBulkOp (with_store ops' cfg) purl g r op st')"
proof -
  note q = assms(1) [OF assms(2)]
  show ?thesis
  proof (cases "BPath op = [] \<or> (\<exists>e. purl (cfg_basePath cfg @ BPath op) = Inl e)")
    case True
    then show ?thesis using assms(2) by (auto simp: executeBulkOp_def Let_def)
  next
    case False
    then obtain v where v: "BPath op \<noteq> []" "purl (cfg_basePath cfg @ BPath op) = Inr v"
      by (cases "purl (cfg_basePath cfg @ BPath op)") auto
    let ?q = "bulk_sub_request cfg r op v"
    from q [of ?q] consider "f ?q st = None" "g ?q st' = None"
      | a s t where "f ?q st = Some (a, s)" "g ?q st' = Some (a, t)" "sim_state sim s t"
      by (cases "f ?q st"; cases "g ?q st'") (auto elim: agreeE)
    then show ?thesis using v
      by cases (auto simp: executeBulkOp_def Let_def split: sum.split)
  qed
qed

lemma bulk_loop_sim:
  assumes "\<And>op st st'. sim_state sim st st' \<Longrightarrow> rel_option (agree (sim_state sim)) (f op st) (g op st')"
  shows "sim_state sim st st' \<Longrightarrow>
    rel_option (agree (sim_state sim)) (bulk_loop f foe n bops acc st) (bulk_loop g foe n bops acc st')"
proof (induction bops arbitrary: n acc st st')
  case (Cons op bops)
  from assms [OF Cons.prems, of op] consider "f op st = None" "g op st' = None"
    | a s t where "f op st = Some (a, s)" "g op st' = Some (a, t)" "sim_state sim s t"
    by (cases "f op st"; cases "g op st'") (auto elim: agreeE)
  then show ?case
  proof cases
    case (2 a s t)
    then show ?thesis using Cons.IH [OF 2(3)] by (cases a) (simp_all add: Let_def)
  qed simp
qed simp

lemma handleBulk_sim:
  assumes "\<And>r st st'. sim_state sim st st' \<Longrightarrow> rel_option (agree (sim_state sim)) (f r st) (g r st')"
    and "sim_state sim st st'"
  shows "rel_option (agree (sim_state sim)) (handleBulk cfg purl f r st) (handleBulk (with_store ops' cfg) purl g r st')"
proof (cases "decode_object (Body r)")
  case (Ok m)
  show ?thesis
  proof (cases "ParseBulkRequest m")
    case (Inr req)
    have "rel_option (agree (sim_state sim))
        (bulk_loop (executeBulkOp cfg purl f r) (FailOnErrors req) 0 (BOperations req) [] st)
        (bulk_loop (executeBulkOp (with_store ops' cfg) purl g r) (FailOnErrors req) 0 (BOperations req) [] st')"
      by (rule bulk_loop_sim [OF _ assms(2)], rule executeBulkOp_sim, erule assms(1))
    then show ?thesis using Ok Inr assms(2)
      by (auto simp: handleBulk_def rel_option_iff agree_def split: option.split sum.split prod.split)
  qed (use Ok assms(2) in \<open>simp add: handleBulk_def\<close>)
qed (use assms(2) in \<open>simp_all add: handleBulk_def\<close>)

lemma route_with_sim:
  assumes "cfg_store cfg = ops" "sim_state sim st st'"
    and "rel_option (agree (sim_state sim)) (f r st) (g r st')"
  shows "rel_option (agree (sim_state sim)) (route_with cfg W f r st) (route_with (with_store ops' cfg) W g r st')"
proof -
  have "agree (sim_state sim) (if_method m (handleServiceProviderConfig cfg) r st)
      (if_method m (handleServiceProviderConfig (with_store ops' cfg)) r st')"
    "agree (sim_state sim) (if_method m (handleResourceTypes cfg) r st)
      (if_method m (handleResourceTypes (with_store ops' cfg)) r st')"
    "agree (sim_state sim) (if_method m (handleSchemas cfg) r st)
      (if_method m (handleSchemas (with_store ops' cfg)) r st')" for m
    using assms(2) discovery_sim [OF assms(2)] by (simp_all add: if_method_def)
  then show ?thesis
    using routeResource_sim [OF assms(1,2)] assms(2,3)
    by (simp add: route_with_def split: option.split prod.split)
qed

lemma route_fuel_sim:
  assumes "cfg_store cfg = ops"
  shows "sim_state sim st st' \<Longrightarrow>
    rel_option (agree (sim_state sim)) (route_fuel n cfg W purl r st) (route_fuel n (with_store ops' cfg) W purl r st')"
proof (induction n arbitrary: r st st')
  case (Suc n)
  have "rel_option (agree (sim_state sim)) (handleBulk cfg purl (route_fuel n cfg W purl) r st)
      (handleBulk (with_store ops' cfg) purl (route_fuel n (with_store ops' cfg) W purl) r st')"
    using Suc by (intro handleBulk_sim)
  then show ?case using route_with_sim [OF assms Suc.prems] by simp
qed simp

lemma ServeHTTP_sim:
  assumes "cfg_store cfg = ops" "sim_state sim st st'"
  shows "agree (sim_state sim) (ServeHTTP cfg W purl r st) (ServeHTTP (with_store ops' cfg) W purl r st')"
proof -
  have "agree (sim_state sim) (route cfg W purl r st) (route (with_store ops' cfg) W purl r st')" for r
    using route_fuel_sim [OF assms, of "Suc (body_depth (Body r))" W purl r] assms(2)
    by (auto simp: route_def rel_option_iff split: option.split)
  note h = this
  have l: "agree (sim_state sim) (loggingMiddleware (route cfg W purl) r st)
      (loggingMiddleware (route (with_store ops' cfg) W purl) r st')" for r
    using h [of r] by (auto simp: loggingMiddleware_def sim_state_def elim!: agreeE split: sum.split)
  have "agree (sim_state sim) (authMiddleware cfg (loggingMiddleware (route cfg W purl)) r st)
      (authMiddleware (with_store ops' cfg) (loggingMiddleware (route (with_store ops' cfg) W purl)) r st')" for r
    using l assms(2) by (simp add: authMiddleware_def split: option.split sum.split)
  then have "agree (sim_state sim)
      (contentTypeMiddleware (authMiddleware cfg (loggingMiddleware (route cfg W purl))) r st)
      (contentTypeMiddleware (authMiddleware (with_store ops' cfg) (loggingMiddleware (route (with_store ops' cfg) W purl))) r st')"
    using assms(2) by (simp add: contentTypeMiddleware_def Let_def)
  then show ?thesis
    by (auto simp: ServeHTTP_def chain_def recoveryMiddleware_def elim!: agreeE split: sum.split)
qed

end

end
