(* ===== verification/Tracing.thy ===== *)
theory Tracing
  imports Server_Simulation Server_Samples
begin

text \<open>
  The tracing decorator (\<open>store/otel.go\<close>) and the store events (\<open>store/event.go\<close>).  A span is what the code gives to OpenTelemetry: a name, attributes and the error it
  recorded; the state of a traced store is that of the wrapped store and the spans ended so far.  The decorator
  keeps the contract of a store (\<open>sublocale\<close>) and is invisible to a client of the server.
\<close>

subsection \<open>Spans\<close>

record span =
  sp_Name :: string
  sp_Attributes :: "(string \<times> string) list"
  sp_Error :: "string option"

text \<open>\<open>defer span.End()\<close>: the span ends on every way out, a panic included.\<close>

definition spanned ::
    "string \<Rightarrow> (string \<times> string) list \<Rightarrow> (store_error, 'a) outcome \<times> 's \<Rightarrow> span list \<Rightarrow>
     (store_error, 'a) outcome \<times> ('s \<times> span list)" where
  "spanned name as res spans =
     (case res of (r, s) \<Rightarrow>
        (r, (s, spans @ [\<lparr>sp_Name = name, sp_Attributes = as,
             sp_Error = (case r of Err err \<Rightarrow> Some (err_text err) | _ \<Rightarrow> None)\<rparr>])))"

definition type_attr :: "string \<Rightarrow> (string \<times> string) list" where
  "type_attr resourceType = [(''scim.resource_type'', resourceType)]"

definition id_attrs :: "string \<Rightarrow> string \<Rightarrow> (string \<times> string) list" where
  "id_attrs resourceType rid = [(''scim.resource_type'', resourceType), (''scim.resource_id'', rid)]"

definition Create_traced :: "'s store_ops \<Rightarrow> env \<Rightarrow> string \<Rightarrow> resource \<Rightarrow> 's \<times> span list \<Rightarrow>
    (store_error, resource) outcome \<times> ('s \<times> span list)" where
  "Create_traced ops e rt res t = spanned ''store.Create'' (type_attr rt) (st_Create ops e rt res (fst t)) (snd t)"

definition Get_traced :: "'s store_ops \<Rightarrow> env \<Rightarrow> string \<Rightarrow> string \<Rightarrow> 's \<times> span list \<Rightarrow>
    (store_error, resource) outcome \<times> ('s \<times> span list)" where
  "Get_traced ops e rt rid t = spanned ''store.Get'' (id_attrs rt rid) (st_Get ops e rt rid (fst t)) (snd t)"

definition List_traced :: "'s store_ops \<Rightarrow> env \<Rightarrow> string \<Rightarrow> ListParams \<Rightarrow> 's \<times> span list \<Rightarrow>
    (store_error, ListResult) outcome \<times> ('s \<times> span list)" where
  "List_traced ops e rt p t = spanned ''store.List'' (type_attr rt) (st_List ops e rt p (fst t)) (snd t)"

definition Replace_traced :: "'s store_ops \<Rightarrow> env \<Rightarrow> string \<Rightarrow> string \<Rightarrow> resource \<Rightarrow> 's \<times> span list \<Rightarrow>
    (store_error, resource) outcome \<times> ('s \<times> span list)" where
  "Replace_traced ops e rt rid res t =
     spanned ''store.Replace'' (id_attrs rt rid) (st_Replace ops e rt rid res (fst t)) (snd t)"

definition Patch_traced :: "'s store_ops \<Rightarrow> env \<Rightarrow> string \<Rightarrow> string \<Rightarrow> PatchOp list \<Rightarrow> 's \<times> span list \<Rightarrow>
    (store_error, resource) outcome \<times> ('s \<times> span list)" where
  "Patch_traced ops e rt rid pops t =
     spanned ''store.Patch'' (id_attrs rt rid) (st_Patch ops e rt rid pops (fst t)) (snd t)"

definition Delete_traced :: "'s store_ops \<Rightarrow> env \<Rightarrow> string \<Rightarrow> string \<Rightarrow> 's \<times> span list \<Rightarrow>
    (store_error, unit) outcome \<times> ('s \<times> span list)" where
  "Delete_traced ops e rt rid t =
     spanned ''store.Delete'' (id_attrs rt rid) (st_Delete ops e rt rid (fst t)) (snd t)"

definition NewTracingStore :: "'s store_ops \<Rightarrow> ('s \<times> span list) store_ops" where
  "NewTracingStore ops =
     \<lparr>st_Create = Create_traced ops, st_Get = Get_traced ops, st_List = List_traced ops, st_Replace = Replace_traced ops,
      st_Patch = Patch_traced ops, st_Delete = Delete_traced ops\<rparr>"

lemma NewTracingStore_simps [simp]:
  "st_Create (NewTracingStore ops) = Create_traced ops" "st_Get (NewTracingStore ops) = Get_traced ops"
  "st_List (NewTracingStore ops) = List_traced ops" "st_Replace (NewTracingStore ops) = Replace_traced ops"
  "st_Patch (NewTracingStore ops) = Patch_traced ops" "st_Delete (NewTracingStore ops) = Delete_traced ops"
  by (simp_all add: NewTracingStore_def)

lemmas traced_defs = Create_traced_def Get_traced_def List_traced_def Replace_traced_def Patch_traced_def
  Delete_traced_def

subsection \<open>The decorated store\<close>

lemma fst_spanned [simp]: "fst (spanned n as res sp) = fst res"
  by (simp add: spanned_def split: prod.split)

lemma spanned_eq:
  "spanned n as res sp = (r, t) \<longleftrightarrow> res = (r, fst t) \<and>
     snd t = sp @ [\<lparr>sp_Name = n, sp_Attributes = as, sp_Error = (case r of Err err \<Rightarrow> Some (err_text err) | _ \<Rightarrow> None)\<rparr>]"
  by (cases res; cases t) (auto simp: spanned_def)

text \<open>One call, one more span, which carries the error text if the call failed; result and effect are the wrapped
  call's.\<close>

lemma spanned_agree: "agree (\<lambda>s t. s = fst t) res (spanned n as res sp)"
  by (cases res) (simp add: spanned_def agree_def)

interpretation tracing: store_simulation ops "NewTracingStore ops" "\<lambda>s t. s = fst t" for ops
  by unfold_locales (simp_all add: traced_defs spanned_agree)

text \<open>The contract of a store passes to its decoration.\<close>

locale traced_store = store_contract ops abs inv fresh key view avail
  for ops :: "'s store_ops" and abs :: "'s \<Rightarrow> 'k \<times> string \<Rightarrow> 'v option" and inv :: "'s \<Rightarrow> bool"
    and fresh :: "env \<Rightarrow> string \<Rightarrow> 's \<Rightarrow> bool" and key :: "string \<Rightarrow> 'k" and view :: "string \<Rightarrow> 'v \<Rightarrow> resource"
    and avail :: "env \<Rightarrow> 's \<Rightarrow> bool"

sublocale traced_store \<subseteq> traced: store_contract "NewTracingStore ops" "\<lambda>t. abs (fst t)" "\<lambda>t. inv (fst t)"
    "\<lambda>e rt t. fresh e rt (fst t)" key view "\<lambda>e t. avail e (fst t)"
proof (unfold_locales, goal_cases)
  case (1 t e rt x r t')
  then show ?case using create_ok [of "fst t" e rt x r "fst t'"] by (simp add: traced_defs spanned_eq)
next
  case (2 t e rt rid x r t')
  then show ?case using replace_ok [of "fst t" e rt rid x r "fst t'"] by (simp add: traced_defs spanned_eq)
next
  case (3 t e rt rid pops r t')
  then show ?case using patch_ok [of "fst t" e rt rid pops r "fst t'"] by (simp add: traced_defs spanned_eq)
next
  case (4 t e rt rid u t')
  then show ?case using delete_ok [of "fst t" e rt rid u "fst t'"] by (simp add: traced_defs spanned_eq)
next
  case (5 t e rt rid r t')
  then show ?case using get_ok [of "fst t" e rt rid r "fst t'"] by (simp add: traced_defs spanned_eq)
next
  case (6 t e rt rid k t')
  then show ?case using get_err [of "fst t" e rt rid k "fst t'"] by (simp add: traced_defs spanned_eq)
next
  case (7 t e rt x k t')
  then show ?case using no_write(1) [of "fst t" e rt x k "fst t'"] by (simp add: traced_defs spanned_eq)
next
  case (8 t e rt rid x k t')
  then show ?case using no_write(2) [of "fst t" e rt rid x k "fst t'"] by (simp add: traced_defs spanned_eq)
next
  case (9 t e rt rid pops k t')
  then show ?case using no_write(3) [of "fst t" e rt rid pops k "fst t'"] by (simp add: traced_defs spanned_eq)
next
  case (10 t e rt rid k t')
  then show ?case using no_write(4) [of "fst t" e rt rid k "fst t'"] by (simp add: traced_defs spanned_eq)
next
  case (11 t e rt rid m)
  then show ?case using get_returns [of "fst t" e rt rid m] by (simp add: traced_defs)
qed

interpretation traced_memory: traced_store "memory_ops (no_post h)" content mem_inv fresh_id "\<lambda>rt. rt" "\<lambda>rt. Clone"
    "\<lambda>e s. ctx_err e = None" for h
  by (rule traced_store.intro, rule memory.store_contract_axioms)

text \<open>C15: A server over a traced store answers every request as the server over the store itself, with the same
  state of the store, the same audit trail and log.\<close>

theorem tracing_invisible:
  assumes "ss_store st = fst (ss_store st')" "ss_audit st = ss_audit st'" "ss_log st = ss_log st'" "ss_tick st = ss_tick st'"
    and "ServeHTTP cfg W purl r st = (res, st1)"
    and "ServeHTTP (with_store (NewTracingStore (cfg_store cfg)) cfg) W purl r st' = (res', st1')"
  shows "res' = res \<and> fst (ss_store st1') = ss_store st1 \<and> ss_audit st1' = ss_audit st1 \<and> ss_log st1' = ss_log st1"
proof -
  have "sim_state (\<lambda>s t. s = fst t) st st'" using assms(1-4) by (simp add: sim_state_def)
  from tracing.ServeHTTP_sim [OF refl this, where cfg = cfg and W = W and purl = purl and r = r]
  show ?thesis by (simp add: assms(5,6) sim_state_def)
qed

definition traced_config :: "(mem \<times> span list) config" where
  "traced_config = with_store (NewTracingStore (cfg_store plain_config)) plain_config"

definition traced_state :: "(mem \<times> span list) sstate" where
  "traced_state = \<lparr>ss_store = ([], []), ss_audit = [], ss_log = [], ss_tick = 0\<rparr>"

theorem tracing_invisible_witness:
  "answer_status (ServeHTTP traced_config sample_world sample_purl post_bob traced_state) = 201"
proof -
  obtain res st1 where s: "ServeHTTP plain_config sample_world sample_purl post_bob sample_state = (res, st1)" by fastforce
  obtain res' st1' where t: "ServeHTTP traced_config sample_world sample_purl post_bob traced_state = (res', st1')" by fastforce
  have "ss_store sample_state = fst (ss_store traced_state)" "ss_audit sample_state = ss_audit traced_state"
    "ss_log sample_state = ss_log traced_state" "ss_tick sample_state = ss_tick traced_state"
    by (simp_all add: sample_state_def traced_state_def)
  from tracing_invisible [OF this s] t have "res' = res" by (simp add: traced_config_def)
  moreover have "answer_status (res, st1) = 201" using post_bob_run s by (simp add: serve_def)
  ultimately show ?thesis by (simp add: t answer_status_def)
qed

subsection \<open>Events of a store\<close>

datatype EventType = EventCreated | EventUpdated | EventDeleted

record store_event =
  se_Type :: EventType
  se_ResourceType :: string
  se_ResourceID :: string
  se_Resource :: "resource option"
  se_Timestamp :: time

end
