(* ===== verification/Audit_Json.thy ===== *)
theory Audit_Json
  imports Server
begin

text \<open>
  The loggers of package \<open>audit\<close> (\<open>json.go\<close>, \<open>noop.go\<close>).  The JSON logger hands one object for each event to an
  \<open>io.Writer\<close>, which is the parameter \<open>wr\<close>: what the n-th write answers.  \<open>json.Encoder\<close> keeps the error of a failed
  write and answers every later call with it.
\<close>

fun Operation_String :: "Operation \<Rightarrow> string" where
  "Operation_String OperationCreate = ''create''"
| "Operation_String OperationRead = ''read''"
| "Operation_String OperationReplace = ''replace''"
| "Operation_String OperationPatch = ''patch''"
| "Operation_String OperationDelete = ''delete''"
| "Operation_String OperationList = ''list''"
| "Operation_String OperationBulk = ''bulk''"

text \<open>\<open>time.Time\<close> in JSON: RFC 3339 with the fraction of the second, without trailing zeros.  Years outside 0 to 9999
  are an error.\<close>

definition time_json :: "time \<Rightarrow> string + string" where
  "time_json t =
     (let (y, m, d) = civil_of_days (t div day_ns)
      in if y < 0 \<or> y > 9999 then
           Inl ''json: error calling MarshalJSON for type time.Time: Time.MarshalJSON: year outside of range [0,9999]''
         else Inr (format_rfc3339_nano t))"

definition omit_empty :: "string \<Rightarrow> string \<Rightarrow> attrs" where
  "omit_empty k s = (if s \<noteq> [] then [(k, GStr s)] else [])"

definition event_json :: "Event \<Rightarrow> string + gval" where
  "event_json ev =
     (case time_json (ev_Timestamp ev) of
        Inl err \<Rightarrow> Inl err
      | Inr t \<Rightarrow> Inr (GMap ([(''timestamp'', GStr t), (''operation'', GStr (Operation_String (ev_Operation ev)))] @
          omit_empty ''resourceType'' (ev_ResourceType ev) @ omit_empty ''resourceId'' (ev_ResourceID ev) @
          omit_empty ''actorId'' (ev_ActorID ev) @ omit_empty ''requestId'' (ev_RequestID ev) @
          [(''statusCode'', GInt KInt (ev_StatusCode ev))] @ omit_empty ''error'' (ev_Error ev) @
          (if ev_Attributes ev \<noteq> [] then [(''attributes'', GStrs (ev_Attributes ev))] else []))))"

record json_logger =
  jl_lines :: "gval list"
  jl_err :: "string option"

definition NewJSONLogger :: json_logger where
  "NewJSONLogger = \<lparr>jl_lines = [], jl_err = None\<rparr>"

definition JSONLogger_Log :: "(nat \<Rightarrow> gval \<Rightarrow> string option) \<Rightarrow> Event \<Rightarrow> json_logger \<Rightarrow> string option \<times> json_logger" where
  "JSONLogger_Log wr ev l =
     (case jl_err l of
        Some err \<Rightarrow> (Some err, l)
      | None \<Rightarrow>
          (case event_json ev of
             Inl err \<Rightarrow> (Some err, l)
           | Inr v \<Rightarrow>
               (case wr (length (jl_lines l)) v of
                  None \<Rightarrow> (None, l\<lparr>jl_lines := jl_lines l @ [v]\<rparr>)
                | Some err \<Rightarrow> (Some err, l\<lparr>jl_err := Some err\<rparr>))))"

definition NoopLogger_Log :: "Event \<Rightarrow> string option" where
  "NoopLogger_Log ev = None"

text \<open>The logger over a trail of events.\<close>

definition log_trail :: "(nat \<Rightarrow> gval \<Rightarrow> string option) \<Rightarrow> Event list \<Rightarrow> json_logger" where
  "log_trail wr evs = foldl (\<lambda>l ev. snd (JSONLogger_Log wr ev l)) NewJSONLogger evs"

lemma log_trail_snoc: "log_trail wr (evs @ [ev]) = snd (JSONLogger_Log wr ev (log_trail wr evs))"
  by (simp add: log_trail_def)

text \<open>The events whose time can be written, as JSON.\<close>

definition printable :: "Event list \<Rightarrow> gval list" where
  "printable evs = concat (map (\<lambda>ev. case event_json ev of Inr v \<Rightarrow> [v] | Inl _ \<Rightarrow> []) evs)"

lemma log_trail_lines:
  "(jl_err (log_trail wr evs) = None \<longrightarrow> jl_lines (log_trail wr evs) = printable evs) \<and>
   (\<exists>rest. printable evs = jl_lines (log_trail wr evs) @ rest)"
proof (induction evs rule: rev_induct)
  case Nil
  then show ?case by (simp add: log_trail_def NewJSONLogger_def printable_def)
next
  case (snoc ev evs)
  have p: "printable (evs @ [ev]) = printable evs @ (case event_json ev of Inr v \<Rightarrow> [v] | Inl _ \<Rightarrow> [])"
    by (simp add: printable_def)
  show ?case
  proof (cases "jl_err (log_trail wr evs)")
    case None
    then show ?thesis using snoc p
      by (auto simp: log_trail_snoc JSONLogger_Log_def split: sum.split option.split)
  next
    case (Some err)
    then show ?thesis using snoc p by (auto simp: log_trail_snoc JSONLogger_Log_def)
  qed
qed

text \<open>The JSON audit log is a prefix of the trail: every event is one line in its order until a write fails, and after
  a failed write no event is logged again, whatever the writer does.\<close>

theorem json_log_prefix:
  "jl_lines (log_trail wr evs) = printable evs \<or>
   (\<exists>n err. n < length (printable evs) \<and> jl_lines (log_trail wr evs) = take n (printable evs) \<and>
      jl_err (log_trail wr evs) = Some err \<and>
      (\<forall>wr' ev. JSONLogger_Log wr' ev (log_trail wr evs) = (Some err, log_trail wr evs)))"
proof -
  let ?l = "log_trail wr evs"
  obtain rest where rest: "printable evs = jl_lines ?l @ rest" using log_trail_lines by blast
  show ?thesis
  proof (cases "jl_err ?l")
    case None
    then show ?thesis using log_trail_lines [of wr evs] by simp
  next
    case (Some err)
    then have "JSONLogger_Log wr' ev ?l = (Some err, ?l)" for wr' ev by (simp add: JSONLogger_Log_def)
    then show ?thesis using rest Some by (cases rest) (auto intro!: exI [of _ "length (jl_lines ?l)"])
  qed
qed

end
