(* ===== verification/Sql_Filter.thy ===== *)
theory Sql_Filter
  imports Filter_Eval
begin

text \<open>
  Package \<open>connector/sql\<close>: the mapping of attribute paths to columns (\<open>mapper.go\<close>) and the translation of filters into
  SQL conditions with parameters (\<open>filter.go\<close>).  The translation state of the code is its argument list, which the
  sub-states share; dialect, mapper and table alias are arguments here.  \<open>sql_filter_parameterised\<close> says that a value
  of the filter reaches the database as an argument only.
\<close>

subsection \<open>Columns\<close>

record ColumnRef =
  Table :: string
  Column :: string

record Mapper =
  CustomMappings :: "string gmap"
  ColumnRefs :: "ColumnRef gmap"

definition NewMapper :: Mapper where
  "NewMapper = \<lparr>CustomMappings = [], ColumnRefs = []\<rparr>"

definition IsExtension :: "string \<Rightarrow> bool" where
  "IsExtension attrPath = (CHR '':'' \<in> set attrPath)"

definition isUpper :: "char \<Rightarrow> bool" where
  "isUpper r = (65 \<le> char_code r \<and> char_code r \<le> 90)"

text \<open>The loop of \<open>camelToSnake\<close>, with the character before.\<close>

fun snake_loop :: "char option \<Rightarrow> string \<Rightarrow> string" where
  "snake_loop prev [] = []"
| "snake_loop prev (r # rs) =
     (if isUpper r then (case prev of Some p \<Rightarrow> if p \<noteq> CHR ''_'' then ''_'' else [] | None \<Rightarrow> []) @ [lower_char r]
      else [r]) @ snake_loop (Some r) rs"

definition camelToSnake :: "string \<Rightarrow> string" where
  "camelToSnake s = snake_loop None s"

definition Ref :: "Mapper \<Rightarrow> string \<Rightarrow> ColumnRef option" where
  "Ref m attrPath =
     (if IsExtension attrPath then None
      else case map_of (ColumnRefs m) attrPath of
        Some ref \<Rightarrow> Some ref
      | None \<Rightarrow>
          (case map_of (CustomMappings m) attrPath of
             Some col \<Rightarrow> Some \<lparr>Table = [], Column = col\<rparr>
           | None \<Rightarrow>
               (case SplitN2 (CHR ''.'') attrPath of
                  [a] \<Rightarrow> Some \<lparr>Table = [], Column = camelToSnake a\<rparr>
                | [a, b] \<Rightarrow> Some \<lparr>Table = [], Column = camelToSnake a @ ''_'' @ camelToSnake b\<rparr>
                | _ \<Rightarrow> Some \<lparr>Table = [], Column = camelToSnake attrPath\<rparr>)))"

definition ColumnName :: "Mapper \<Rightarrow> string \<Rightarrow> string option" where
  "ColumnName m attrPath = map_option Column (Ref m attrPath)"

subsection \<open>Translation\<close>

datatype Dialect = DialectPostgres | DialectMySQL

record FilterResult =
  Clause :: string
  Args :: "gval list"
  FErr :: "string option"

text \<open>A translation continues with the argument list, also behind an error; \<open>attrName[:1]\<close> panics on the empty name.\<close>

type_synonym sql_result = "(string, string) outcome \<times> gval list"

definition placeholder :: "Dialect \<Rightarrow> gval \<Rightarrow> gval list \<Rightarrow> string \<times> gval list" where
  "placeholder d val as =
     (let as = as @ [val] in (if d = DialectMySQL then ''?'' else ''$'' @ nat_str (length as), as))"

definition quote :: "Dialect \<Rightarrow> string \<Rightarrow> string" where
  "quote d name =
     (if d = DialectMySQL then ''`'' @ ReplaceChar (CHR 0x60) ''``'' name @ ''`''
      else [dquote] @ ReplaceChar dquote [dquote, dquote] name @ [dquote])"

definition colRef :: "Dialect \<Rightarrow> string \<Rightarrow> string \<Rightarrow> string" where
  "colRef d tableAlias col =
     (if tableAlias \<noteq> [] then quote d tableAlias @ ''.'' @ quote d col else quote d col)"

abbreviation sq :: string where "sq \<equiv> [CHR 0x27]"

definition like_clause :: "Dialect \<Rightarrow> CompareOp \<Rightarrow> string \<Rightarrow> string" where
  "like_clause d op p =
     (if d = DialectMySQL then
        (case op of
           OpCo \<Rightarrow> '' LIKE CONCAT('' @ sq @ ''%'' @ sq @ '', '' @ p @ '', '' @ sq @ ''%'' @ sq @ '')''
         | OpSw \<Rightarrow> '' LIKE CONCAT('' @ p @ '', '' @ sq @ ''%'' @ sq @ '')''
         | _ \<Rightarrow> '' LIKE CONCAT('' @ sq @ ''%'' @ sq @ '', '' @ p @ '')'')
      else
        (case op of
           OpCo \<Rightarrow> '' LIKE '' @ sq @ ''%'' @ sq @ '' || '' @ p @ '' || '' @ sq @ ''%'' @ sq
         | OpSw \<Rightarrow> '' LIKE '' @ p @ '' || '' @ sq @ ''%'' @ sq
         | _ \<Rightarrow> '' LIKE '' @ sq @ ''%'' @ sq @ '' || '' @ p))"

definition compare_clause :: "Dialect \<Rightarrow> CompareOp \<Rightarrow> string \<Rightarrow> string" where
  "compare_clause d op p =
     (case op of
        OpEq \<Rightarrow> '' = '' @ p
      | OpNe \<Rightarrow> '' != '' @ p
      | OpGt \<Rightarrow> '' > '' @ p
      | OpGe \<Rightarrow> '' >= '' @ p
      | OpLt \<Rightarrow> '' < '' @ p
      | OpLe \<Rightarrow> '' <= '' @ p
      | _ \<Rightarrow> like_clause d op p)"

definition column_text :: "Dialect \<Rightarrow> Mapper \<Rightarrow> string \<Rightarrow> attr_path \<Rightarrow> string + string" where
  "column_text d m tableAlias path =
     (case Ref m (path_String path) of
        None \<Rightarrow> Inl (''attribute '' @ Quote (path_String path) @ '' cannot be mapped to a column'')
      | Some mref \<Rightarrow>
          Inr (if Table mref \<noteq> [] then quote d (Table mref) @ ''.'' @ quote d (Column mref)
               else colRef d tableAlias (Column mref)))"

definition translateAttrExpr ::
    "Dialect \<Rightarrow> Mapper \<Rightarrow> string \<Rightarrow> attr_path \<Rightarrow> CompareOp \<Rightarrow> gval \<Rightarrow> gval list \<Rightarrow> sql_result" where
  "translateAttrExpr d m tableAlias path op val as =
     (case column_text d m tableAlias path of
        Inl err \<Rightarrow> (Err err, as)
      | Inr ref \<Rightarrow>
          if op = OpPr then (Ok (ref @ '' IS NOT NULL''), as)
          else (let (p, as) = placeholder d val as in (Ok (ref @ compare_clause d op p), as)))"

definition exists_text :: "Dialect \<Rightarrow> string \<Rightarrow> string \<Rightarrow> string \<Rightarrow> string" where
  "exists_text d tableAlias attrName inner =
     (let subAlias = quote d (take 1 attrName);
          parentID = (if tableAlias \<noteq> [] then quote d tableAlias @ ''.id'' else ''id'')
      in ''EXISTS (SELECT 1 FROM '' @ quote d (attrName @ ''s'') @ '' '' @ subAlias @ '' WHERE '' @ subAlias @
         ''.resource_id = '' @ parentID @ '' AND '' @ inner @ '')'')"

primrec translateExpr :: "Dialect \<Rightarrow> Mapper \<Rightarrow> FilterExpression \<Rightarrow> string \<Rightarrow> gval list \<Rightarrow> sql_result" where
  "translateExpr d m (AttrExpression path op val) tableAlias as = translateAttrExpr d m tableAlias path op val as"
| "translateExpr d m (LogicalExpression l op r) tableAlias as =
     (case translateExpr d m l tableAlias as of
        (Ok left, as) \<Rightarrow>
          (case translateExpr d m r tableAlias as of
             (Ok right, as) \<Rightarrow>
               (Ok (''('' @ left @ '' '' @ (if op = LogicalOr then ''OR'' else ''AND'') @ '' '' @ right @ '')''), as)
           | (e, as) \<Rightarrow> (e, as))
      | (e, as) \<Rightarrow> (e, as))"
| "translateExpr d m (NotExpression f) tableAlias as =
     (case translateExpr d m f tableAlias as of
        (Ok inner, as) \<Rightarrow> (Ok (''NOT ('' @ inner @ '')''), as)
      | (e, as) \<Rightarrow> (e, as))"
| "translateExpr d m (ValuePathExpression path f) tableAlias as =
     (let attrName = ToLower (AttributeName path)
      in if attrName = [] then (Panic ''runtime error: slice bounds out of range [:1] with length 0'', as)
         else (case translateExpr d m f (take 1 attrName) as of
                 (Ok inner, as) \<Rightarrow> (Ok (exists_text d tableAlias attrName inner), as)
               | (e, as) \<Rightarrow> (e, as)))"

definition TranslateFilter ::
    "FilterExpression option \<Rightarrow> Mapper \<Rightarrow> Dialect \<Rightarrow> string \<Rightarrow> (string, FilterResult) outcome" where
  "TranslateFilter expr m d tableAlias =
     (case expr of
        None \<Rightarrow> Ok \<lparr>Clause = [], Args = [], FErr = None\<rparr>
      | Some f \<Rightarrow>
          (case translateExpr d m f tableAlias [] of
             (Ok c, as) \<Rightarrow> Ok \<lparr>Clause = c, Args = as, FErr = None\<rparr>
           | (Err e, as) \<Rightarrow> Ok \<lparr>Clause = [], Args = as, FErr = Some e\<rparr>
           | (Panic p, as) \<Rightarrow> Panic p))"

subsection \<open>Values are arguments\<close>

text \<open>A filter without its comparison values, and the values in the order of the text.\<close>

primrec shape :: "FilterExpression \<Rightarrow> FilterExpression" where
  "shape (AttrExpression path op val) = AttrExpression path op GNil"
| "shape (LogicalExpression l op r) = LogicalExpression (shape l) op (shape r)"
| "shape (NotExpression f) = NotExpression (shape f)"
| "shape (ValuePathExpression path f) = ValuePathExpression path (shape f)"

primrec filter_values :: "FilterExpression \<Rightarrow> gval list" where
  "filter_values (AttrExpression path op val) = (if op = OpPr then [] else [val])"
| "filter_values (LogicalExpression l op r) = filter_values l @ filter_values r"
| "filter_values (NotExpression f) = filter_values f"
| "filter_values (ValuePathExpression path f) = filter_values f"

text \<open>A text with numbered parameters.\<close>

datatype piece = Txt string | Param

fun render :: "Dialect \<Rightarrow> nat \<Rightarrow> piece list \<Rightarrow> string" where
  "render d n [] = []"
| "render d n (Txt s # ps) = s @ render d n ps"
| "render d n (Param # ps) = (if d = DialectMySQL then ''?'' else ''$'' @ nat_str (Suc n)) @ render d (Suc n) ps"

definition params :: "piece list \<Rightarrow> nat" where
  "params ps = length (filter (\<lambda>p. p = Param) ps)"

lemma params_simps [simp]: "params [] = 0" "params (Txt s # ps) = params ps" "params (Param # ps) = Suc (params ps)"
  "params (ps @ qs) = params ps + params qs"
  by (simp_all add: params_def)

lemma render_append [simp]: "render d n (ps @ qs) = render d n ps @ render d (n + params ps) qs"
  by (induction d n ps rule: render.induct) simp_all

definition affix :: "(string \<Rightarrow> string) \<Rightarrow> bool" where
  "affix f = (\<exists>a b. \<forall>p. f p = a @ p @ b)"

lemma affixI: "(\<And>p. f p = a @ p @ b) \<Longrightarrow> affix f"
  unfolding affix_def by blast

lemma affix_like: "affix (like_clause d op)"
proof (cases d)
  case DialectPostgres
  then show ?thesis
    by (cases "op = OpCo"; cases "op = OpSw")
      (auto simp: like_clause_def split: CompareOp.split
        intro: affixI [of _ "'' LIKE '' @ sq @ ''%'' @ sq @ '' || ''" "'' || '' @ sq @ ''%'' @ sq"]
          affixI [of _ "'' LIKE ''" "'' || '' @ sq @ ''%'' @ sq"] affixI [of _ "'' LIKE '' @ sq @ ''%'' @ sq @ '' || ''" "[]"])
next
  case DialectMySQL
  then show ?thesis
    by (cases "op = OpCo"; cases "op = OpSw")
      (auto simp: like_clause_def split: CompareOp.split
        intro: affixI [of _ "'' LIKE CONCAT('' @ sq @ ''%'' @ sq @ '', ''" "'', '' @ sq @ ''%'' @ sq @ '')''"]
          affixI [of _ "'' LIKE CONCAT(''" "'', '' @ sq @ ''%'' @ sq @ '')''"]
          affixI [of _ "'' LIKE CONCAT('' @ sq @ ''%'' @ sq @ '', ''" "'')''"])
qed

lemma affix_compare: "affix (compare_clause d op)"
proof (cases "op \<in> {OpCo, OpSw, OpEw, OpPr}")
  case True
  then have "compare_clause d op = like_clause d op" by (auto simp: compare_clause_def fun_eq_iff)
  then show ?thesis by (simp add: affix_like)
next
  case False
  define sgn where "sgn = (case op of OpEq \<Rightarrow> '' = '' | OpNe \<Rightarrow> '' != '' | OpGt \<Rightarrow> '' > '' | OpGe \<Rightarrow> '' >= ''
      | OpLt \<Rightarrow> '' < '' | _ \<Rightarrow> '' <= '')"
  have "compare_clause d op p = sgn @ p @ []" for p
    using False by (cases op) (simp_all add: compare_clause_def sgn_def)
  then show ?thesis by (rule affixI)
qed

lemma compare_clause_split: "\<exists>a b. \<forall>p. compare_clause d op p = a @ p @ b"
  using affix_compare unfolding affix_def .

text \<open>What a translated filter says for every filter of its shape.\<close>

definition translates_as :: "Dialect \<Rightarrow> Mapper \<Rightarrow> FilterExpression \<Rightarrow> string \<Rightarrow> piece list \<Rightarrow> bool" where
  "translates_as d m e ta ps =
     (params ps = length (filter_values e) \<and>
      (\<forall>e' as. shape e' = shape e \<longrightarrow>
         translateExpr d m e' ta as = (Ok (render d (length as) ps), as @ filter_values e')))"

lemma shape_inv:
  "shape e' = AttrExpression path op GNil \<Longrightarrow> \<exists>v. e' = AttrExpression path op v"
  "shape e' = LogicalExpression a op' b \<Longrightarrow> \<exists>l r. e' = LogicalExpression l op' r \<and> shape l = a \<and> shape r = b"
  "shape e' = NotExpression a \<Longrightarrow> \<exists>f. e' = NotExpression f \<and> shape f = a"
  "shape e' = ValuePathExpression path a \<Longrightarrow> \<exists>f. e' = ValuePathExpression path f \<and> shape f = a"
  by (cases e'; simp)+

lemma shape_values: "length (filter_values (shape e)) = length (filter_values e)"
  by (induction e) simp_all

lemma translate_pieces: "fst (translateExpr d m e ta as) = Ok c \<Longrightarrow> \<exists>ps. translates_as d m e ta ps"
proof (induction e arbitrary: ta as c)
  case (AttrExpression path op val)
  then obtain ref where ref: "column_text d m ta path = Inr ref"
    by (auto simp: translateAttrExpr_def split: sum.splits)
  obtain a b where ab: "\<And>p. compare_clause d op p = a @ p @ b" using compare_clause_split by blast
  show ?case
  proof (cases "op = OpPr")
    case True
    then show ?thesis using ref
      by (intro exI [of _ "[Txt (ref @ '' IS NOT NULL'')]"]) (auto simp: translates_as_def translateAttrExpr_def dest!: shape_inv(1))
  next
    case False
    then show ?thesis using ref ab
      by (intro exI [of _ "[Txt (ref @ a), Param, Txt b]"])
        (auto simp: translates_as_def translateAttrExpr_def placeholder_def Let_def dest!: shape_inv(1))
  qed
next
  case (LogicalExpression l op r)
  then obtain cl as1 where l: "translateExpr d m l ta as = (Ok cl, as1)"
    by (auto split: prod.splits outcome.splits)
  then obtain cr where r: "fst (translateExpr d m r ta as1) = Ok cr"
    using LogicalExpression.prems by (auto split: prod.splits outcome.splits)
  obtain ps qs where ps: "translates_as d m l ta ps" and qs: "translates_as d m r ta qs"
    using LogicalExpression.IH(1) [of ta as cl] LogicalExpression.IH(2) [OF r] l by auto
  let ?ps = "[Txt ''(''] @ ps @ [Txt ('' '' @ (if op = LogicalOr then ''OR'' else ''AND'') @ '' '')] @ qs @ [Txt '')'']"
  have "translates_as d m (LogicalExpression l op r) ta ?ps"
    unfolding translates_as_def
  proof (intro conjI allI impI)
    show "params ?ps = length (filter_values (LogicalExpression l op r))"
      using ps qs by (simp add: translates_as_def)
    fix e' bs assume "shape e' = shape (LogicalExpression l op r)"
    then obtain l' r' where e': "e' = LogicalExpression l' op r'" "shape l' = shape l" "shape r' = shape r"
      by (auto dest!: shape_inv(2))
    have "length (filter_values l') = length (filter_values l)" using e'(2) shape_values by metis
    then show "translateExpr d m e' ta bs = (Ok (render d (length bs) ?ps), bs @ filter_values e')"
      using ps qs e' by (simp add: translates_as_def)
  qed
  then show ?case by blast
next
  case (NotExpression f)
  then obtain c' where "fst (translateExpr d m f ta as) = Ok c'"
    by (auto split: prod.splits outcome.splits)
  then obtain ps where ps: "translates_as d m f ta ps" using NotExpression.IH by blast
  have "translates_as d m (NotExpression f) ta ([Txt ''NOT (''] @ ps @ [Txt '')''])"
    using ps by (force simp: translates_as_def dest!: shape_inv(3))
  then show ?case by blast
next
  case (ValuePathExpression path f)
  let ?n = "ToLower (AttributeName path)"
  have ne: "?n \<noteq> []" using ValuePathExpression.prems by (auto simp: Let_def split: if_splits)
  then obtain c' where "fst (translateExpr d m f (take 1 ?n) as) = Ok c'"
    using ValuePathExpression.prems by (auto simp: Let_def split: prod.splits outcome.splits)
  then obtain ps where ps: "translates_as d m f (take 1 ?n) ps" using ValuePathExpression.IH by blast
  obtain a b where ab: "\<And>inner. exists_text d ta ?n inner = a @ inner @ b"
    unfolding exists_text_def Let_def by (metis append.assoc)
  have "translates_as d m (ValuePathExpression path f) ta ([Txt a] @ ps @ [Txt b])"
    unfolding translates_as_def
  proof (intro conjI allI impI)
    show "params ([Txt a] @ ps @ [Txt b]) = length (filter_values (ValuePathExpression path f))"
      using ps by (simp add: translates_as_def)
    fix e' bs assume "shape e' = shape (ValuePathExpression path f)"
    then obtain f' where f': "e' = ValuePathExpression path f'" "shape f' = shape f"
      by (auto dest!: shape_inv(4))
    then show "translateExpr d m e' ta bs = (Ok (render d (length bs) ([Txt a] @ ps @ [Txt b])), bs @ filter_values e')"
      using ps ne by (simp add: translates_as_def ab Let_def)
  qed
  then show ?case by blast
qed

text \<open>C31: A comparison value never becomes part of the SQL text: the clause is a text with parameters numbered from
  one in the order of the filter's values, which are the arguments, and a filter that differs in its values alone
  has the same clause.\<close>

theorem sql_filter_parameterised:
  assumes "TranslateFilter (Some e) m d ta = Ok fr" "FErr fr = None"
  shows "\<exists>ps. Clause fr = render d 0 ps \<and> params ps = length (Args fr) \<and> Args fr = filter_values e \<and>
    (\<forall>e'. shape e' = shape e \<longrightarrow>
       TranslateFilter (Some e') m d ta = Ok \<lparr>Clause = Clause fr, Args = filter_values e', FErr = None\<rparr>)"
proof -
  obtain c as where c: "translateExpr d m e ta [] = (Ok c, as)" "fr = \<lparr>Clause = c, Args = as, FErr = None\<rparr>"
    using assms by (auto simp: TranslateFilter_def split: prod.splits outcome.splits)
  then obtain ps where ps: "translates_as d m e ta ps" using translate_pieces [of d m e ta "[]" c] by auto
  then have "translateExpr d m e ta [] = (Ok (render d 0 ps), filter_values e)"
    by (simp add: translates_as_def)
  then show ?thesis using ps c
    by (intro exI [of _ ps]) (auto simp: translates_as_def TranslateFilter_def)
qed

theorem sql_filter_parameterised_witness:
  "\<exists>fr. TranslateFilter (Some (AttrExpression \<lparr>attr_path.Schema = [], AttributeName = ''userName'', SubAttribute = []\<rparr> OpEq (GStr ''x'')))
     NewMapper DialectMySQL [] = Ok fr \<and> Args fr = [GStr ''x'']"
proof -
  let ?e = "AttrExpression \<lparr>attr_path.Schema = [], AttributeName = ''userName'', SubAttribute = []\<rparr> OpEq (GStr ''x'')"
  let ?r = "\<lparr>Clause = ''`user_name` = ?'', Args = [GStr ''x''], FErr = None\<rparr>"
  have r: "TranslateFilter (Some ?e) NewMapper DialectMySQL [] = Ok ?r" by code_simp
  show ?thesis using sql_filter_parameterised [OF r] r by auto
qed

end
