(* ===== verification/Sql_Schema.thy ===== *)
theory Sql_Schema
  imports Sql_Filter Core_Schema
begin

text \<open>
  The table definitions that package \<open>connector/sql\<close> generates from a schema (\<open>schema.go\<close>): one main table, and a
  table for each multi-valued attribute.
\<close>

record TableDef =
  MainTable :: string
  AuxTables :: "string list"

definition nullConstraint :: "bool \<Rightarrow> string" where
  "nullConstraint req = (if req then '' NOT NULL'' else '' NULL'')"

definition idCol :: "Dialect \<Rightarrow> string" where
  "idCol d = (if d = DialectMySQL then ''id VARCHAR(255) NOT NULL PRIMARY KEY'' else ''id TEXT NOT NULL PRIMARY KEY'')"

definition textCol :: "string \<Rightarrow> bool \<Rightarrow> Dialect \<Rightarrow> string" where
  "textCol name req d = name @ '' TEXT'' @ nullConstraint req"

definition boolCol :: "string \<Rightarrow> bool \<Rightarrow> Dialect \<Rightarrow> string" where
  "boolCol name req d =
     name @ (if d = DialectMySQL then '' TINYINT(1)'' else '' BOOLEAN'') @ nullConstraint req"

definition intCol :: "string \<Rightarrow> bool \<Rightarrow> Dialect \<Rightarrow> string" where
  "intCol name req d = name @ '' INTEGER'' @ nullConstraint req"

definition decimalCol :: "string \<Rightarrow> bool \<Rightarrow> Dialect \<Rightarrow> string" where
  "decimalCol name req d = name @ '' NUMERIC'' @ nullConstraint req"

definition timestampCol :: "string \<Rightarrow> Dialect \<Rightarrow> string" where
  "timestampCol name d = name @ (if d = DialectMySQL then '' DATETIME NULL'' else '' TIMESTAMPTZ NULL'')"

definition blobCol :: "string \<Rightarrow> Dialect \<Rightarrow> string" where
  "blobCol name d = name @ (if d = DialectMySQL then '' LONGBLOB NULL'' else '' BYTEA NULL'')"

definition fkCol :: "string \<Rightarrow> string \<Rightarrow> Dialect \<Rightarrow> string" where
  "fkCol name refTable d =
     name @ (if d = DialectMySQL then '' VARCHAR(255)'' else '' TEXT'') @ '' NOT NULL REFERENCES '' @ refTable @
     ''(id) ON DELETE CASCADE''"

definition scimAttrToColDef :: "string \<Rightarrow> Attribute \<Rightarrow> Dialect \<Rightarrow> string" where
  "scimAttrToColDef colName a d =
     (if attr_Type a = TypeBoolean then boolCol colName (attr_Required a) d
      else if attr_Type a = TypeInteger then intCol colName (attr_Required a) d
      else if attr_Type a = TypeDecimal then decimalCol colName (attr_Required a) d
      else if attr_Type a = TypeDateTime then timestampCol colName d
      else if attr_Type a = TypeBinary then blobCol colName d
      else textCol colName (attr_Required a) d)"

fun column_lines :: "string list \<Rightarrow> string" where
  "column_lines [] = []"
| "column_lines [col] = ''    '' @ col @ [CHR 0x0A]"
| "column_lines (col # cols) = ''    '' @ col @ '','' @ [CHR 0x0A] @ column_lines cols"

definition buildCreateTable :: "string \<Rightarrow> string list \<Rightarrow> string" where
  "buildCreateTable tableName cols =
     ''CREATE TABLE IF NOT EXISTS '' @ tableName @ '' ('' @ [CHR 0x0A] @ column_lines cols @ '')''"

definition mapped_column :: "string \<Rightarrow> Attribute \<Rightarrow> Dialect \<Rightarrow> string list" where
  "mapped_column path a d =
     (case ColumnName NewMapper path of Some col \<Rightarrow> [scimAttrToColDef col a d] | None \<Rightarrow> [])"

definition aux_columns :: "string \<Rightarrow> Attribute \<Rightarrow> Dialect \<Rightarrow> string list" where
  "aux_columns mainTableName a d =
     [idCol d, fkCol ''resource_id'' mainTableName d] @
     (if attr_Type a = TypeComplex then concat (map (\<lambda>sub. mapped_column (attr_Name sub) sub d) (attr_SubAttributes a))
      else [scimAttrToColDef ''value'' a d])"

definition generateAuxTable :: "string \<Rightarrow> Attribute \<Rightarrow> Dialect \<Rightarrow> string" where
  "generateAuxTable mainTableName a d =
     buildCreateTable (mainTableName @ ''_'' @ ToLower (attr_Name a)) (aux_columns mainTableName a d)"

text \<open>What an attribute adds: columns of the main table, and tables of its own.\<close>

definition sub_columns :: "string \<Rightarrow> Dialect \<Rightarrow> Attribute \<Rightarrow> Attribute \<Rightarrow> string list \<times> string list" where
  "sub_columns mainTableName d a sub =
     (if attr_MultiValued sub then ([], [generateAuxTable mainTableName sub d])
      else (mapped_column (attr_Name a @ ''.'' @ attr_Name sub) sub d, []))"

definition attr_columns :: "string \<Rightarrow> Dialect \<Rightarrow> Attribute \<Rightarrow> string list \<times> string list" where
  "attr_columns mainTableName d a =
     (if attr_MultiValued a then ([], [generateAuxTable mainTableName a d])
      else if attr_Type a = TypeComplex then
        (let cs = map (sub_columns mainTableName d a) (attr_SubAttributes a)
         in (concat (map fst cs), concat (map snd cs)))
      else (mapped_column (attr_Name a) a d, []))"

definition fixed_columns :: "Dialect \<Rightarrow> string list" where
  "fixed_columns d =
     [idCol d, textCol ''external_id'' False d, timestampCol ''meta_created'' d, timestampCol ''meta_last_modified'' d,
      textCol ''meta_location'' False d, textCol ''meta_version'' False d]"

definition main_columns :: "ResourceType \<Rightarrow> Schema \<Rightarrow> string \<Rightarrow> Dialect \<Rightarrow> string list" where
  "main_columns rt s tablePrefix d =
     fixed_columns d @
     concat (map (\<lambda>a. fst (attr_columns (tablePrefix @ ToLower (rt_Name rt) @ ''s'') d a)) (sch_Attributes s))"

definition GenerateTableDef :: "ResourceType \<Rightarrow> Schema \<Rightarrow> string \<Rightarrow> Dialect \<Rightarrow> TableDef" where
  "GenerateTableDef rt s tablePrefix d =
     (let mainTableName = tablePrefix @ ToLower (rt_Name rt) @ ''s''
      in \<lparr>MainTable = buildCreateTable mainTableName (main_columns rt s tablePrefix d),
          AuxTables = concat (map (\<lambda>a. snd (attr_columns mainTableName d a)) (sch_Attributes s))\<rparr>)"

definition column_name :: "string \<Rightarrow> string" where
  "column_name col = takeWhile (\<lambda>c. c \<noteq> CHR '' '') col"

text \<open>The tables of the built-in schemas: those list \<open>id\<close> and \<open>externalId\<close> as attributes, so that the columns the
  generator always adds are there twice.\<close>

lemma ColumnName_id: "ColumnName NewMapper ''id'' = Some ''id''"
  by code_simp

lemma column_name_textCol_id: "column_name (textCol ''id'' r d) = ''id''"
  by (simp add: textCol_def column_name_def)

lemma column_name_idCol: "column_name (idCol d) = ''id''"
  by (cases d) (simp_all add: idCol_def column_name_def)

lemma attr_columns_id:
  assumes "attr_Name a = ''id''" "attr_Type a = TypeString" "\<not> attr_MultiValued a"
  shows "fst (attr_columns t d a) = [textCol ''id'' (attr_Required a) d]"
proof -
  have "attr_Type a \<noteq> TypeComplex" using assms(2) by simp
  then have "fst (attr_columns t d a) = mapped_column ''id'' a d" by (simp add: attr_columns_def assms(1,3))
  moreover have "scimAttrToColDef c a d = textCol c (attr_Required a) d" for c by (simp add: scimAttrToColDef_def assms(2))
  ultimately show ?thesis by (simp only: mapped_column_def ColumnName_id option.case)
qed

lemma id_column_repeats:
  assumes "sch_Attributes s = a # as" "attr_Name a = ''id''" "attr_Type a = TypeString" "\<not> attr_MultiValued a"
  shows "\<not> distinct (map column_name (main_columns rt s p d))"
proof -
  let ?f = "\<lambda>a. fst (attr_columns (p @ ToLower (rt_Name rt) @ ''s'') d a)"
  have "main_columns rt s p d = fixed_columns d @ textCol ''id'' (attr_Required a) d # concat (map ?f as)"
    by (simp only: main_columns_def assms(1) list.map concat.simps attr_columns_id[OF assms(2-4)] append_Cons append_Nil)
  moreover have "idCol d \<in> set (fixed_columns d)" by (simp only: fixed_columns_def list.set_intros)
  ultimately show ?thesis
    by (simp only: map_append list.map column_name_textCol_id distinct_append set_map list.set)
      (metis IntI column_name_idCol empty_iff imageI insertI1)
qed

lemma builtin_first_attribute:
  "\<exists>a as. sch_Attributes CoreUserSchema = a # as \<and> attr_Name a = ''id'' \<and> attr_Type a = TypeString \<and> \<not> attr_MultiValued a"
  "\<exists>a as. sch_Attributes CoreGroupSchema = a # as \<and> attr_Name a = ''id'' \<and> attr_Type a = TypeString \<and> \<not> attr_MultiValued a"
  by (simp_all add: CoreUserSchema_def CoreGroupSchema_def user_identity_attrs_def group_attrs_def attr_def_def)

theorem generated_columns_repeat:
  "\<not> distinct (map column_name (main_columns UserResourceType CoreUserSchema p d)) \<and>
   \<not> distinct (map column_name (main_columns GroupResourceType CoreGroupSchema p d))"
  using builtin_first_attribute id_column_repeats by blast

end
