(* ===== verification/Sql_Reconstruct.thy ===== *)
theory Sql_Reconstruct
  imports Resource
begin

text \<open>
  Rows and resources (\<open>connector/sql/reconstruct.go\<close>): the flat map of attribute paths that is written to columns, and
  the resource rebuilt from the columns read.  \<open>reconstruct_round_trip\<close> says what survives: everything but the schemas.
\<close>

subsection \<open>Flattening\<close>

definition join_path :: "string \<Rightarrow> string \<Rightarrow> string" where
  "join_path prefix k = (if prefix \<noteq> [] then prefix @ ''.'' @ k else k)"

text \<open>The type assertion \<open>v.(map[string]interface{})\<close>.\<close>

definition as_map :: "gval \<Rightarrow> attrs option" where
  "as_map v = (case v of GMap m \<Rightarrow> Some m | _ \<Rightarrow> None)"

lemma as_map_Some [simp]: "as_map v = Some m \<longleftrightarrow> v = GMap m"
  by (cases v) (auto simp: as_map_def)

lemma as_map_GMap [simp]: "as_map (GMap m) = Some m"
  by simp

function flattenInto :: "attrs \<Rightarrow> string \<Rightarrow> attrs \<Rightarrow> attrs" where
  "flattenInto [] prefix out = out"
| "flattenInto ((k, v) # m) prefix out =
     flattenInto m prefix
       (case as_map v of Some sub \<Rightarrow> flattenInto sub (join_path prefix k) out
        | None \<Rightarrow> map_put (join_path prefix k) v out)"
  by pat_completeness auto
termination by (relation "measure (\<lambda>(m, _, _). size_list (size_prod (\<lambda>_. 0) size) m)") auto

definition ResourceAttrMap :: "resource \<Rightarrow> attrs" where
  "ResourceAttrMap r =
     flattenInto (Attributes r) []
       [(''id'', GStr (ID r)), (''externalId'', GStr (ExternalID r)), (''meta.created'', GTime (Created (Meta r))),
        (''meta.lastModified'', GTime (LastModified (Meta r))), (''meta.version'', GStr (Version (Meta r))),
        (''meta.location'', GStr (Location (Meta r)))]"

subsection \<open>Rebuilding\<close>

fun asString :: "gval \<Rightarrow> string" where
  "asString (GStr s) = s"
| "asString (GBytes s) = s"
| "asString _ = []"

fun asTime :: "gval \<Rightarrow> time" where
  "asTime (GTime t) = t"
| "asTime _ = 0"

definition sub_map :: "attrs \<Rightarrow> string \<Rightarrow> attrs" where
  "sub_map as k = (case Option.bind (map_of as k) as_map of Some s \<Rightarrow> s | None \<Rightarrow> [])"

function setNested :: "attrs \<Rightarrow> string \<Rightarrow> gval \<Rightarrow> attrs" where
  "setNested as path val =
     (case cut_first (CHR ''.'') path of
        None \<Rightarrow> map_put path val as
      | Some (parent, rest) \<Rightarrow> map_put parent (GMap (setNested (sub_map as parent) rest val)) as)"
  by auto
termination by (relation "measure (\<lambda>(_, path, _). length path)") (auto dest: cut_first_SomeD)

declare setNested.simps [simp del]

definition applyAttr :: "resource \<Rightarrow> string \<Rightarrow> gval \<Rightarrow> resource" where
  "applyAttr r path val =
     (let l = ToLower path
      in if l = ''id'' then r\<lparr>ID := asString val\<rparr>
         else if l = ''externalid'' then r\<lparr>ExternalID := asString val\<rparr>
         else if l = ''meta.created'' then r\<lparr>Meta := (Meta r)\<lparr>Created := asTime val\<rparr>\<rparr>
         else if l = ''meta.lastmodified'' then r\<lparr>Meta := (Meta r)\<lparr>LastModified := asTime val\<rparr>\<rparr>
         else if l = ''meta.version'' then r\<lparr>Meta := (Meta r)\<lparr>Version := asString val\<rparr>\<rparr>
         else if l = ''meta.location'' then r\<lparr>Meta := (Meta r)\<lparr>Location := asString val\<rparr>\<rparr>
         else r\<lparr>Attributes := setNested (Attributes r) path val\<rparr>)"

definition ReconstructResource :: "attrs \<Rightarrow> string \<Rightarrow> resource" where
  "ReconstructResource as resourceType =
     foldl (\<lambda>r (path, val). if val = GNil then r else applyAttr r path val)
       (empty_resource\<lparr>Meta := empty_meta\<lparr>ResourceType := resourceType\<rparr>\<rparr>) as"

subsection \<open>The round trip\<close>

text \<open>The leaves of nested maps with their paths.\<close>

function flat :: "attrs \<Rightarrow> attrs" where
  "flat [] = []"
| "flat ((k, v) # m) =
     (case as_map v of Some sub \<Rightarrow> map (\<lambda>(q, v). (k @ ''.'' @ q, v)) (flat sub) | None \<Rightarrow> [(k, v)]) @ flat m"
  by pat_completeness auto
termination by (relation "measure (size_list (size_prod (\<lambda>_. 0) size))") auto

text \<open>Attributes with plain names: no dot, no empty name, no empty map and no \<open>nil\<close> on the way.\<close>

function plain_attrs :: "attrs \<Rightarrow> bool" where
  "plain_attrs [] = True"
| "plain_attrs ((k, v) # m) =
     (k \<noteq> [] \<and> CHR ''.'' \<notin> set k \<and> k \<notin> fst ` set m \<and> v \<noteq> GNil \<and> plain_attrs m \<and>
      (case as_map v of Some s \<Rightarrow> s \<noteq> [] \<and> plain_attrs s | None \<Rightarrow> True))"
  by pat_completeness auto
termination by (relation "measure (size_list (size_prod (\<lambda>_. 0) size))") auto

definition column_names :: "string list" where
  "column_names = [''id'', ''externalid'', ''meta.created'', ''meta.lastmodified'', ''meta.version'', ''meta.location'']"

lemma join_path_join: "k \<noteq> [] \<Longrightarrow> join_path (join_path p k) q = join_path p (k @ ''.'' @ q)"
  by (simp add: join_path_def)

definition put_at :: "string \<Rightarrow> attrs \<Rightarrow> string \<times> gval \<Rightarrow> attrs" where
  "put_at p out kv = map_put (join_path p (fst kv)) (snd kv) out"

lemma put_at_pair [simp]: "put_at p out (k, v) = map_put (join_path p k) v out"
  by (simp add: put_at_def)

definition under_key :: "string \<Rightarrow> attrs \<Rightarrow> attrs" where
  "under_key k l = map (\<lambda>(q, v). (k @ ''.'' @ q, v)) l"

lemma under_key_simps [simp]: "under_key k [] = []" "under_key k ((q, v) # l) = (k @ ''.'' @ q, v) # under_key k l"
  "under_key k (l @ l') = under_key k l @ under_key k l'" "map fst (under_key k l) = map (\<lambda>q. k @ ''.'' @ q) (keys l)"
  by (auto simp: under_key_def)

lemma flat_Cons: "flat ((k, v) # m) = (case as_map v of Some sub \<Rightarrow> under_key k (flat sub) | None \<Rightarrow> [(k, v)]) @ flat m"
  by (simp add: under_key_def split: option.split)

declare flat.simps(2) [simp del] flat_Cons [simp]

lemma under_key_Nil_iff [simp]: "under_key k l = [] \<longleftrightarrow> l = []"
  by (simp add: under_key_def)

lemma put_at_under: "k \<noteq> [] \<Longrightarrow> foldl (put_at p) out (under_key k l) = foldl (put_at (join_path p k)) out l"
  by (induction l arbitrary: out) (auto simp: join_path_join)

lemma flattenInto_foldl: "plain_attrs m \<Longrightarrow> flattenInto m p out = foldl (put_at p) out (flat m)"
proof (induction m p out rule: flattenInto.induct)
  case (2 k v m p out)
  then show ?case by (cases "as_map v") (simp_all add: put_at_under)
qed simp

lemma takeWhile_sep: "c \<notin> set k \<Longrightarrow> takeWhile (\<lambda>x. x \<noteq> c) (k @ c # y) = k"
  by (induction k) auto

lemma takeWhile_none: "c \<notin> set k \<Longrightarrow> takeWhile (\<lambda>x. x \<noteq> c) k = k"
  by (induction k) auto

abbreviation first_name :: "string \<Rightarrow> string" where
  "first_name \<equiv> takeWhile (\<lambda>c. c \<noteq> CHR ''.'')"

lemma flat_first: "plain_attrs m \<Longrightarrow> q \<in> set (keys (flat m)) \<Longrightarrow> first_name q \<in> set (keys m)"
proof (induction m rule: flat.induct)
  case (2 k v m)
  have k: "CHR ''.'' \<notin> set k" using 2(3) by simp
  consider "q = k" | x where "q = k @ CHR ''.'' # x" | "q \<in> set (keys (flat m))"
    using 2(4) by (cases "as_map v") auto
  then show ?case
  proof cases
    case 1
    then show ?thesis using takeWhile_none [OF k] by simp
  next
    case (2 x)
    then show ?thesis using takeWhile_sep [OF k] by simp
  next
    case 3
    then show ?thesis using 2(2,3) by simp
  qed
qed simp

lemma flat_distinct: "plain_attrs m \<Longrightarrow> distinct (keys (flat m))"
proof (induction m rule: flat.induct)
  case (2 k v m)
  have k: "CHR ''.'' \<notin> set k" "k \<notin> set (keys m)" "plain_attrs m" using 2(3) by simp_all
  have tail: "first_name q \<noteq> k" if "q \<in> set (keys (flat m))" for q
    using flat_first [OF k(3) that] k(2) by metis
  have d: "distinct (keys (flat m))" using 2(2) k(3) by simp
  show ?case
  proof (cases "as_map v")
    case None
    then show ?thesis using d tail [of k] takeWhile_none [OF k(1)] by auto
  next
    case (Some sub)
    then have "distinct (keys (flat sub))" using 2 by simp
    then have "distinct (keys (under_key k (flat sub)))" by (simp add: distinct_map inj_on_def)
    moreover have "set (keys (under_key k (flat sub))) \<inter> set (keys (flat m)) = {}"
      using tail takeWhile_sep [OF k(1)] by fastforce
    ultimately show ?thesis using d Some by (simp del: under_key_simps(4) set_map)
  qed
qed simp

text \<open>Writing the leaves back.\<close>

definition set_leaves :: "attrs \<Rightarrow> attrs \<Rightarrow> attrs" where
  "set_leaves A l = foldl (\<lambda>A (q, v). setNested A q v) A l"

lemma setNested_leaf: "CHR ''.'' \<notin> set k \<Longrightarrow> setNested A k v = map_put k v A"
  by (subst setNested.simps) simp

lemma setNested_sub:
  "CHR ''.'' \<notin> set k \<Longrightarrow> setNested A (k @ CHR ''.'' # q) v = map_put k (GMap (setNested (sub_map A k) q v)) A"
  by (subst setNested.simps) (simp add: cut_first_append)

lemma map_put_last: "k \<notin> fst ` set A \<Longrightarrow> map_put k v (A @ [(k, w)]) = A @ [(k, v)]"
  by (induction A) auto

lemma set_leaves_sub:
  assumes "CHR ''.'' \<notin> set k" "k \<notin> fst ` set A" "l \<noteq> []"
  shows "set_leaves A (under_key k l) = A @ [(k, GMap (set_leaves [] l))]"
  using assms(3)
proof (induction l rule: rev_nonempty_induct)
  case (single kv)
  have "map_of A k = None" using assms(2) by (simp add: map_of_eq_None_iff)
  then show ?case using assms
    by (cases kv) (simp add: set_leaves_def setNested_sub sub_map_def map_put_fresh)
next
  case (snoc kv l)
  have "map_of A k = None" using assms(2) by (simp add: map_of_eq_None_iff)
  then show ?case using snoc assms
    by (cases kv) (simp add: set_leaves_def setNested_sub sub_map_def map_put_last map_add_def)
qed

lemma flat_nonempty: "plain_attrs m \<Longrightarrow> m \<noteq> [] \<Longrightarrow> flat m \<noteq> []"
  by (induction m rule: flat.induct) (auto split: option.splits)

lemma set_leaves_flat:
  "plain_attrs m \<Longrightarrow> fst ` set A \<inter> fst ` set m = {} \<Longrightarrow> set_leaves A (flat m) = A @ m"
proof (induction m arbitrary: A rule: flat.induct)
  case (2 k v m)
  have rec: "set_leaves (A @ [(k, v)]) (flat m) = A @ (k, v) # m" using 2 by auto
  have split: "set_leaves A (l @ l') = set_leaves (set_leaves A l) l'" for l l' by (simp add: set_leaves_def)
  have k: "CHR ''.'' \<notin> set k" "k \<notin> fst ` set A" using 2(3,4) by auto
  show ?case
  proof (cases "as_map v")
    case None
    then show ?thesis using rec k by (simp add: split) (simp add: set_leaves_def setNested_leaf map_put_fresh)
  next
    case (Some sub)
    then have "set_leaves [] (flat sub) = sub" "flat sub \<noteq> []" using 2 flat_nonempty [of sub] by auto
    then show ?thesis using rec Some set_leaves_sub [OF k] by (simp add: split)
  qed
qed (simp add: set_leaves_def)

text \<open>The names of the fields are not names of leaves.\<close>

definition flat_ok :: "attrs \<Rightarrow> bool" where
  "flat_ok m = (plain_attrs m \<and> (\<forall>q \<in> set (keys (flat m)). ToLower q \<notin> set column_names))"

lemma flat_not_nil: "plain_attrs m \<Longrightarrow> GNil \<notin> snd ` set (flat m)"
proof (induction m rule: flat.induct)
  case (2 k v m)
  then show ?case by (cases "as_map v") (auto simp: under_key_def image_iff)
qed simp

definition apply_column :: "resource \<Rightarrow> string \<times> gval \<Rightarrow> resource" where
  "apply_column r kv = (case kv of (path, val) \<Rightarrow> if val = GNil then r else applyAttr r path val)"

lemma apply_leaves:
  assumes "\<forall>q \<in> set (keys l). ToLower q \<notin> set column_names" "GNil \<notin> snd ` set l"
  shows "foldl apply_column r l = r\<lparr>Attributes := set_leaves (Attributes r) l\<rparr>"
  using assms
proof (induction l arbitrary: r)
  case (Cons kv l)
  obtain q v where kv: "kv = (q, v)" by fastforce
  have "v \<noteq> GNil" using Cons.prems(2) kv by force
  then have "apply_column r kv = r\<lparr>Attributes := setNested (Attributes r) q v\<rparr>"
    using Cons.prems(1) by (simp add: kv apply_column_def applyAttr_def column_names_def Let_def)
  then show ?case using Cons by (simp add: kv set_leaves_def)
qed (simp add: set_leaves_def)

lemma ReconstructResource_fold:
  "ReconstructResource as rt =
     foldl apply_column (empty_resource\<lparr>Meta := empty_meta\<lparr>ResourceType := rt\<rparr>\<rparr>) as"
proof -
  have "(\<lambda>r (path, val). if val = GNil then r else applyAttr r path val) = apply_column"
    by (intro ext) (simp add: apply_column_def split: prod.split)
  then show ?thesis by (simp only: ReconstructResource_def)
qed

definition fixed_columns_of :: "resource \<Rightarrow> attrs" where
  "fixed_columns_of r =
     [(''id'', GStr (ID r)), (''externalId'', GStr (ExternalID r)), (''meta.created'', GTime (Created (Meta r))),
      (''meta.lastModified'', GTime (LastModified (Meta r))), (''meta.version'', GStr (Version (Meta r))),
      (''meta.location'', GStr (Location (Meta r)))]"

lemma ResourceAttrMap_eq:
  assumes "flat_ok (Attributes r)"
  shows "ResourceAttrMap r = fixed_columns_of r @ flat (Attributes r)"
proof -
  have p: "plain_attrs (Attributes r)" using assms by (simp add: flat_ok_def)
  have "foldl (put_at []) out l = foldl (\<lambda>out (q, v). map_put q v out) out l" for out l
    by (induction l arbitrary: out) (auto simp: join_path_def)
  then have "ResourceAttrMap r = foldl (\<lambda>out (q, v). map_put q v out) (fixed_columns_of r) (flat (Attributes r))"
    using flattenInto_foldl [OF p] by (simp add: ResourceAttrMap_def fixed_columns_of_def)
  also have "distinct (keys (fixed_columns_of r @ flat (Attributes r)))"
  proof -
    have "set (keys (fixed_columns_of r)) \<inter> set (keys (flat (Attributes r))) = {}"
    proof (rule equals0I)
      fix q assume q: "q \<in> set (keys (fixed_columns_of r)) \<inter> set (keys (flat (Attributes r)))"
      then have "ToLower q \<in> set column_names" by (auto simp: fixed_columns_of_def column_names_def ToLower_def)
      then show False using q assms by (auto simp: flat_ok_def)
    qed
    moreover have "distinct (keys (fixed_columns_of r))" by (simp add: fixed_columns_of_def)
    ultimately show ?thesis using flat_distinct [OF p] by simp
  qed
  ultimately show ?thesis by (simp only: foldl_map_put_fresh)
qed



end
