(* ===== verification/Sql_Database.thy ===== *)
theory Sql_Database
  imports Sql_Filter Sql_Reconstruct Http
begin

text \<open>
  What the SQL connectors use of a database, and what the two of them share.  A cell or an argument is a Go value or
  the bytes of a JSON document.  The record \<open>sqldb\<close> stands for a connection pool (\<open>database/sql\<close>, \<open>pgxpool\<close>) over a
  state \<open>'d\<close> of the database: executing a statement gives the number of affected rows or an error, a query gives its
  rows and the error that ended them, a transaction is begun and then committed or rolled back.  The table
  configuration and the statements of the column mode, which are the same up to quoting and placeholders, depend on
  the dialect.
\<close>

subsection \<open>The database\<close>

datatype sqlval = SV gval | SJson gval

type_synonym 'd step = "'d \<Rightarrow> string option \<times> 'd"

record 'd sqldb =
  db_open :: "string \<Rightarrow> 'd step"
  db_ping :: "env \<Rightarrow> 'd step"
  db_close :: "'d step"
  db_exec :: "env \<Rightarrow> string \<Rightarrow> sqlval list \<Rightarrow> 'd \<Rightarrow> (string + int) \<times> 'd"
  db_query :: "env \<Rightarrow> string \<Rightarrow> sqlval list \<Rightarrow> 'd \<Rightarrow> (string + sqlval list list \<times> string option) \<times> 'd"
  db_begin :: "env \<Rightarrow> 'd step"
  db_commit :: "'d step"
  db_rollback :: "'d \<Rightarrow> 'd"
  db_iface :: "sqlval \<Rightarrow> gval"

text \<open>\<open>QueryRow(...).Scan\<close>: the first row, the error of the iteration, or \<open>ErrNoRows\<close> (\<open>None\<close>).\<close>

definition first_row :: "string + sqlval list list \<times> string option \<Rightarrow> string + sqlval list option" where
  "first_row res =
     (case res of
        Inl err \<Rightarrow> Inl err
      | Inr (row # rows, _) \<Rightarrow> Inr (Some row)
      | Inr ([], Some err) \<Rightarrow> Inl err
      | Inr ([], None) \<Rightarrow> Inr None)"

text \<open>Scanning a cell into a \<open>sql.NullString\<close>, a \<open>time.Time\<close>, an \<open>int\<close> or the bytes of a document.\<close>

definition scan_error :: "string" where
  "scan_error = ''sql: Scan error: unsupported conversion''"

fun scan_text :: "sqlval \<Rightarrow> string + string option" where
  "scan_text (SV GNil) = Inr None"
| "scan_text (SV (GStr s)) = Inr (Some s)"
| "scan_text (SV (GBytes s)) = Inr (Some s)"
| "scan_text (SV (GInt k i)) = Inr (Some (int_str i))"
| "scan_text (SV (GBool b)) = Inr (Some (if b then ''true'' else ''false''))"
| "scan_text (SV (GTime t)) = Inr (Some (format_rfc3339_nano t))"
| "scan_text _ = Inl scan_error"

fun scan_time :: "sqlval \<Rightarrow> string + time" where
  "scan_time (SV (GTime t)) = Inr t"
| "scan_time _ = Inl scan_error"

fun scan_int :: "sqlval \<Rightarrow> string + int" where
  "scan_int (SV (GInt k i)) = Inr i"
| "scan_int _ = Inl scan_error"

text \<open>\<open>json.Unmarshal\<close> of the bytes of a cell into a map; bytes that are no document have no JSON text (the position and
  the offending character in the error text are left out).\<close>

fun unmarshal_map :: "sqlval \<Rightarrow> string + attrs" where
  "unmarshal_map (SJson (GMap m)) = Inr m"
| "unmarshal_map (SJson GNil) = Inr []"
| "unmarshal_map (SJson v) = Inl (''json: cannot unmarshal '' @ json_kind v @ '' into Go value of type map[string]interface {}'')"
| "unmarshal_map (SV GNil) = Inl ''unexpected end of JSON input''"
| "unmarshal_map (SV v) = Inl ''invalid character looking for beginning of value''"

definition nullString :: "string \<Rightarrow> sqlval" where
  "nullString s = SV (if s = [] then GNil else GStr s)"

text \<open>\<open>defer tx.Rollback()\<close>: it undoes what was done on every way out but a commit, which ends the transaction.\<close>

definition in_transaction ::
    "'d sqldb \<Rightarrow> env \<Rightarrow> 'd \<Rightarrow> ('d \<Rightarrow> (store_error, 'a) outcome \<times> 'd) \<Rightarrow> (store_error, 'a) outcome \<times> 'd" where
  "in_transaction db e d body =
     (case db_begin db e d of
        (Some err, d) \<Rightarrow> (Err (wrap_err KInternal ('': begin tx: '' @ err)), d)
      | (None, d) \<Rightarrow>
          (case body d of
             (Ok x, d) \<Rightarrow>
               (case db_commit db d of
                  (Some err, d) \<Rightarrow> (Err (wrap_err KInternal ('': commit: '' @ err)), d)
                | (None, d) \<Rightarrow> (Ok x, d))
           | (res, d) \<Rightarrow> (res, db_rollback db d)))"

subsection \<open>Table configuration\<close>

record JoinDef =
  jd_Table :: string
  Alias :: string
  Condition :: string
  JoinType :: string
  ForeignKey :: string
  DeleteJoin :: bool

record ResourceTableConfig =
  rc_Table :: string
  FieldMappings :: "ColumnRef gmap"
  Joins :: "JoinDef list"

definition empty_table_config :: ResourceTableConfig where
  "empty_table_config = \<lparr>rc_Table = [], FieldMappings = [], Joins = []\<rparr>"

text \<open>What an option does to the configuration of one resource type, the zero value if there is none.\<close>

definition with_resource ::
    "string \<Rightarrow> (ResourceTableConfig \<Rightarrow> ResourceTableConfig) \<Rightarrow> ResourceTableConfig gmap \<Rightarrow> ResourceTableConfig gmap" where
  "with_resource resourceType f cfgs =
     (let key = ToLower resourceType
      in map_put key (f (case map_of cfgs key of Some c \<Rightarrow> c | None \<Rightarrow> empty_table_config)) cfgs)"

definition resCfg :: "ResourceTableConfig gmap \<Rightarrow> string \<Rightarrow> ResourceTableConfig option" where
  "resCfg cfgs resourceType = map_of cfgs (ToLower resourceType)"

definition isColumnMode :: "ResourceTableConfig gmap \<Rightarrow> string \<Rightarrow> bool" where
  "isColumnMode cfgs resourceType = (case resCfg cfgs resourceType of Some c \<Rightarrow> FieldMappings c \<noteq> [] | None \<Rightarrow> False)"

definition tableName :: "ResourceTableConfig gmap \<Rightarrow> string \<Rightarrow> string \<Rightarrow> string" where
  "tableName cfgs tablePrefix resourceType =
     (case resCfg cfgs resourceType of
        Some c \<Rightarrow> if rc_Table c \<noteq> [] then rc_Table c else tablePrefix @ ToLower resourceType @ ''s''
      | None \<Rightarrow> tablePrefix @ ToLower resourceType @ ''s'')"

text \<open>The mapper of a type in column mode has its field mappings, the others the default one.\<close>

definition per_type_mappers :: "ResourceTableConfig gmap \<Rightarrow> Mapper gmap" where
  "per_type_mappers cfgs =
     map (\<lambda>(rt, c). (rt, NewMapper\<lparr>ColumnRefs := FieldMappings c\<rparr>)) (filter (\<lambda>(rt, c). FieldMappings c \<noteq> []) cfgs)"

definition mapperFor :: "ResourceTableConfig gmap \<Rightarrow> string \<Rightarrow> Mapper" where
  "mapperFor cfgs resourceType =
     (case map_of (per_type_mappers cfgs) (ToLower resourceType) of Some m \<Rightarrow> m | None \<Rightarrow> NewMapper)"

end
