(* ===== verification/Sql_Columns.thy ===== *)
theory Sql_Columns
  imports Sql_Database Memory_Store
begin

text \<open>
  The column mode of the SQL connectors: a resource type whose attributes are mapped to columns of a table of the user
  and of tables joined to it.  The Go code has these functions in both connectors (\<open>connector/mysql/store.go\<close>,
  \<open>connector/postgres/store.go\<close>) with the identifiers quoted and the placeholders written in the way of the database;
  here they have the dialect as an argument.
\<close>

subsection \<open>Statements\<close>

definition ph :: "Dialect \<Rightarrow> nat \<Rightarrow> string" where
  "ph d n = (if d = DialectMySQL then ''?'' else ''$'' @ nat_str n)"

definition comma :: "string list \<Rightarrow> string" where
  "comma = Join '', ''"

text \<open>Attribute paths with their columns, in the order of the paths.\<close>

definition orderedEntries :: "Dialect \<Rightarrow> ResourceTableConfig \<Rightarrow> (string \<times> string) list" where
  "orderedEntries d cfg =
     sort_key fst (map (\<lambda>(attr, ref).
       (attr, quote d (if Table ref = [] then rc_Table cfg else Table ref) @ ''.'' @ quote d (Column ref))) (FieldMappings cfg))"

definition join_text :: "Dialect \<Rightarrow> JoinDef \<Rightarrow> string" where
  "join_text d jd =
     '' '' @ (if JoinType jd = [] then ''LEFT'' else JoinType jd) @ '' JOIN '' @ quote d (jd_Table jd) @
     (if Alias jd \<noteq> [] then '' '' @ quote d (Alias jd) else []) @
     (if Condition jd \<noteq> [] then '' ON '' @ Condition jd else [])"

definition buildJoinSQL :: "Dialect \<Rightarrow> ResourceTableConfig \<Rightarrow> string" where
  "buildJoinSQL d cfg = concat (map (join_text d) (Joins cfg))"

definition primaryIDCol :: "ResourceTableConfig \<Rightarrow> string" where
  "primaryIDCol cfg =
     (case map_of (FieldMappings cfg) ''id'' of Some ref \<Rightarrow> if Column ref \<noteq> [] then Column ref else ''id'' | None \<Rightarrow> ''id'')"

definition buildColumnSelect :: "Dialect \<Rightarrow> ResourceTableConfig \<Rightarrow> (string \<times> string) list \<times> string \<times> string" where
  "buildColumnSelect d cfg =
     (let entries = orderedEntries d cfg
      in (entries,
          ''SELECT '' @ comma (map snd entries) @ '' FROM '' @ quote d (rc_Table cfg) @ buildJoinSQL d cfg,
          quote d (rc_Table cfg) @ ''.'' @ quote d (primaryIDCol cfg)))"

definition insert_text :: "Dialect \<Rightarrow> string \<Rightarrow> string list \<Rightarrow> nat \<Rightarrow> string" where
  "insert_text d table cols n =
     ''INSERT INTO '' @ quote d table @ '' ('' @ comma (map (quote d) cols) @ '') VALUES ('' @ comma (map (ph d) [1..<Suc n]) @ '')''"

definition update_text :: "Dialect \<Rightarrow> string \<Rightarrow> string \<Rightarrow> string list \<Rightarrow> string" where
  "update_text d table idCol cols =
     ''UPDATE '' @ quote d table @ '' SET '' @
     comma (map (\<lambda>(i, c). quote d c @ '' = '' @ ph d i) (enumerate 2 cols)) @ '' WHERE '' @ quote d idCol @ '' = '' @ ph d 1"

definition upsert_text :: "Dialect \<Rightarrow> JoinDef \<Rightarrow> string list \<Rightarrow> string" where
  "upsert_text d jd cols =
     ''INSERT INTO '' @ quote d (jd_Table jd) @ '' ('' @ comma (quote d (ForeignKey jd) # map (quote d) cols) @ '') VALUES ('' @
     comma (map (ph d) [1..<Suc (Suc (length cols))]) @ '')'' @
     (if d = DialectMySQL then
        '' ON DUPLICATE KEY UPDATE '' @ comma (map (\<lambda>c. quote d c @ '' = VALUES('' @ quote d c @ '')'') cols)
      else
        '' ON CONFLICT ('' @ quote d (ForeignKey jd) @ '') DO UPDATE SET '' @
        comma (map (\<lambda>c. quote d c @ '' = EXCLUDED.'' @ quote d c) cols))"

definition delete_text :: "Dialect \<Rightarrow> string \<Rightarrow> string \<Rightarrow> string" where
  "delete_text d table col = ''DELETE FROM '' @ quote d table @ '' WHERE '' @ quote d col @ '' = '' @ ph d 1"

subsection \<open>Values and tables\<close>

record table_split =
  priCols :: "string list"
  priVals :: "sqlval list"
  joinCols :: "string list gmap"
  joinVals :: "sqlval list gmap"

definition entry_list :: "'a list gmap \<Rightarrow> string \<Rightarrow> 'a list" where
  "entry_list m t = (case map_of m t of Some l \<Rightarrow> l | None \<Rightarrow> [])"

definition split_step :: "ResourceTableConfig \<Rightarrow> attrs \<Rightarrow> string \<Rightarrow> table_split \<Rightarrow> string \<times> ColumnRef \<Rightarrow> table_split" where
  "split_step cfg attrMap excludeCol st entry =
     (case entry of (attr, ref) \<Rightarrow>
        (let primary = (Table ref = [] \<or> Table ref = rc_Table cfg);
             val = SV (case map_of attrMap attr of Some v \<Rightarrow> v | None \<Rightarrow> GNil)
         in if Column ref = excludeCol \<and> primary then st
            else if primary then st\<lparr>priCols := priCols st @ [Column ref], priVals := priVals st @ [val]\<rparr>
            else st\<lparr>joinCols := map_put (Table ref) (entry_list (joinCols st) (Table ref) @ [Column ref]) (joinCols st),
                    joinVals := map_put (Table ref) (entry_list (joinVals st) (Table ref) @ [val]) (joinVals st)\<rparr>))"

definition splitByTable :: "ResourceTableConfig \<Rightarrow> attrs \<Rightarrow> string \<Rightarrow> table_split" where
  "splitByTable cfg attrMap excludeCol =
     foldl (split_step cfg attrMap excludeCol) \<lparr>priCols = [], priVals = [], joinCols = [], joinVals = []\<rparr> (FieldMappings cfg)"

definition scanColumnRow :: "'d sqldb \<Rightarrow> (string \<times> string) list \<Rightarrow> string \<Rightarrow> sqlval list \<Rightarrow> string + resource" where
  "scanColumnRow db flds resourceType row =
     (if length row \<noteq> length flds then Inl scan_error
      else Inr (ReconstructResource (zip (map fst flds) (map (db_iface db) row)) resourceType))"

definition isDuplicateEntry :: "string \<Rightarrow> bool" where
  "isDuplicateEntry err = (Contains err ''Duplicate entry'' \<or> Contains err ''1062'')"

definition isUniqueViolation :: "string \<Rightarrow> bool" where
  "isUniqueViolation err =
     (Contains err ''23505'' \<or> Contains err ''unique constraint'' \<or> Contains err ''unique_violation'')"

definition is_conflict :: "Dialect \<Rightarrow> string \<Rightarrow> bool" where
  "is_conflict d err = (if d = DialectMySQL then isDuplicateEntry err else isUniqueViolation err)"

definition generateUUID :: "string \<Rightarrow> string" where
  "generateUUID b =
     hex_encode (take 4 b) @ ''-'' @ hex_encode (take 2 (drop 4 b)) @ ''-'' @ hex_encode (take 2 (drop 6 b)) @ ''-'' @
     hex_encode (take 2 (drop 8 b)) @ ''-'' @ hex_encode (take 6 (drop 10 b))"

definition new_id :: "Dialect \<Rightarrow> env \<Rightarrow> store_error + string" where
  "new_id d e =
     (case rand_bytes e of
        Inl t \<Rightarrow> Inl (wrap_err KInternal ('': generate id: '' @ t))
      | Inr b \<Rightarrow> Inr (if d = DialectMySQL then hex_encode b else generateUUID b))"

text \<open>The two modes; \<open>j\<close> is the operation in JSON mode.\<close>

definition by_mode :: "ResourceTableConfig gmap \<Rightarrow> string \<Rightarrow> (ResourceTableConfig \<Rightarrow> 'a) \<Rightarrow> 'a \<Rightarrow> 'a" where
  "by_mode cfgs resourceType col j =
     (case resCfg cfgs resourceType of
        Some c \<Rightarrow> if FieldMappings c \<noteq> [] then col c else j
      | None \<Rightarrow> j)"

definition json_mode :: "ResourceTableConfig gmap \<Rightarrow> bool" where
  "json_mode cfgs = list_all (\<lambda>(_, c). FieldMappings c = []) cfgs"

lemma by_mode_json: "json_mode cfgs \<Longrightarrow> by_mode cfgs rt col j = j"
  by (auto simp: json_mode_def by_mode_def resCfg_def list_all_iff dest!: map_of_SomeD split: option.split)

subsection \<open>Operations\<close>

text \<open>The loops over the joined tables; the first error ends them.\<close>

fun insert_joins ::
    "Dialect \<Rightarrow> 'd sqldb \<Rightarrow> table_split \<Rightarrow> env \<Rightarrow> string \<Rightarrow> JoinDef list \<Rightarrow> resource \<Rightarrow> 'd \<Rightarrow>
     (store_error, resource) outcome \<times> 'd" where
  "insert_joins dl db sp e rid [] clone d = (Ok clone, d)"
| "insert_joins dl db sp e rid (jd # jds) clone d =
     (let cols = entry_list (joinCols sp) (jd_Table jd); vals = entry_list (joinVals sp) (jd_Table jd)
      in if ForeignKey jd = [] \<or> cols = [] then insert_joins dl db sp e rid jds clone d
         else (case db_exec db e (insert_text dl (jd_Table jd) (ForeignKey jd # cols) (Suc (length vals))) (SV (GStr rid) # vals) d of
                 (Inl err, d) \<Rightarrow> (Err (wrap_err KInternal ('': insert '' @ jd_Table jd @ '': '' @ err)), d)
               | (Inr _, d) \<Rightarrow> insert_joins dl db sp e rid jds clone d))"

fun upsert_joins ::
    "Dialect \<Rightarrow> 'd sqldb \<Rightarrow> table_split \<Rightarrow> env \<Rightarrow> string \<Rightarrow> JoinDef list \<Rightarrow> resource \<Rightarrow> 'd \<Rightarrow>
     (store_error, resource) outcome \<times> 'd" where
  "upsert_joins dl db sp e rid [] clone d = (Ok clone, d)"
| "upsert_joins dl db sp e rid (jd # jds) clone d =
     (let cols = entry_list (joinCols sp) (jd_Table jd); vals = entry_list (joinVals sp) (jd_Table jd)
      in if ForeignKey jd = [] \<or> cols = [] then upsert_joins dl db sp e rid jds clone d
         else (case db_exec db e (upsert_text dl jd cols) (SV (GStr rid) # vals) d of
                 (Inl err, d) \<Rightarrow> (Err (wrap_err KInternal ('': upsert '' @ jd_Table jd @ '': '' @ err)), d)
               | (Inr _, d) \<Rightarrow> upsert_joins dl db sp e rid jds clone d))"

fun delete_joins ::
    "Dialect \<Rightarrow> 'd sqldb \<Rightarrow> env \<Rightarrow> string \<Rightarrow> JoinDef list \<Rightarrow> 'd \<Rightarrow> (store_error, unit) outcome \<times> 'd" where
  "delete_joins dl db e rid [] d = (Ok (), d)"
| "delete_joins dl db e rid (jd # jds) d =
     (if \<not> DeleteJoin jd \<or> ForeignKey jd = [] then delete_joins dl db e rid jds d
      else (case db_exec db e (delete_text dl (jd_Table jd) (ForeignKey jd)) [SV (GStr rid)] d of
              (Inl err, d) \<Rightarrow> (Err (wrap_err KInternal ('': delete '' @ jd_Table jd @ '': '' @ err)), d)
            | (Inr _, d) \<Rightarrow> delete_joins dl db e rid jds d))"

definition createColumnMode ::
    "Dialect \<Rightarrow> 'd sqldb \<Rightarrow> ResourceTableConfig \<Rightarrow> env \<Rightarrow> string \<Rightarrow> resource \<Rightarrow> 'd \<Rightarrow> (store_error, resource) outcome \<times> 'd" where
  "createColumnMode dl db cfg e resourceType res d =
     (case new_id dl e of
        Inl err \<Rightarrow> (Err err, d)
      | Inr rid \<Rightarrow>
          (let clone = stamp_new rid resourceType (now e) (Clone res);
               attrMap = map_put ''meta.lastModified'' (GTime (now e)) (map_put ''meta.created'' (GTime (now e)) (ResourceAttrMap clone));
               sp = splitByTable cfg attrMap []
           in in_transaction db e d (\<lambda>d.
             (case db_exec db e (insert_text dl (rc_Table cfg) (priCols sp) (length (priVals sp))) (priVals sp) d of
                (Inl err, d) \<Rightarrow>
                  (Err (if is_conflict dl err then wrap_err KConflict ('': '' @ err)
                        else wrap_err KInternal ('': insert primary: '' @ err)), d)
              | (Inr _, d) \<Rightarrow> insert_joins dl db sp e rid (Joins cfg) clone d))))"

definition getColumnMode ::
    "Dialect \<Rightarrow> 'd sqldb \<Rightarrow> ResourceTableConfig \<Rightarrow> env \<Rightarrow> string \<Rightarrow> string \<Rightarrow> 'd \<Rightarrow> (store_error, resource) outcome \<times> 'd" where
  "getColumnMode dl db cfg e resourceType rid d =
     (let (flds, baseQ, idCol) = buildColumnSelect dl cfg
      in case db_query db e (baseQ @ '' WHERE '' @ idCol @ '' = '' @ ph dl 1) [SV (GStr rid)] d of
           (res, d) \<Rightarrow>
             ((case first_row res of
                 Inl err \<Rightarrow> Err (wrap_err KInternal ('': get: '' @ err))
               | Inr None \<Rightarrow> Err (not_found resourceType rid)
               | Inr (Some row) \<Rightarrow>
                   (case scanColumnRow db flds resourceType row of
                      Inl err \<Rightarrow> Err (wrap_err KInternal ('': get: '' @ err))
                    | Inr r \<Rightarrow> Ok r)), d))"

text \<open>Whether a row was there; without columns to write none is looked for.\<close>

definition update_row ::
    "Dialect \<Rightarrow> 'd sqldb \<Rightarrow> env \<Rightarrow> string \<Rightarrow> string \<Rightarrow> string list \<Rightarrow> sqlval list \<Rightarrow> string \<Rightarrow> 'd \<Rightarrow> (string + bool) \<times> 'd" where
  "update_row dl db e table idCol cols vals rid d =
     (if cols = [] then (Inr True, d)
      else (case db_exec db e (update_text dl table idCol cols)
                   (if dl = DialectMySQL then vals @ [SV (GStr rid)] else SV (GStr rid) # vals) d of
              (Inl err, d) \<Rightarrow> (Inl err, d)
            | (Inr n, d) \<Rightarrow> (Inr (n > 0), d)))"

definition replaceColumnMode ::
    "Dialect \<Rightarrow> 'd sqldb \<Rightarrow> ResourceTableConfig \<Rightarrow> env \<Rightarrow> string \<Rightarrow> string \<Rightarrow> resource \<Rightarrow> 'd \<Rightarrow> (store_error, resource) outcome \<times> 'd" where
  "replaceColumnMode dl db cfg e resourceType rid res d =
     (case getColumnMode dl db cfg e resourceType rid d of
        (Err err, d) \<Rightarrow> (Err err, d)
      | (Panic p, d) \<Rightarrow> (Panic p, d)
      | (Ok old, d) \<Rightarrow>
          (let clone = stamp_replaced rid resourceType (now e) old (Clone res);
               attrMap = map_put ''meta.lastModified'' (GTime (now e))
                 (map_put ''meta.created'' (GTime (Created (Meta old))) (ResourceAttrMap clone));
               sp = splitByTable cfg attrMap (primaryIDCol cfg)
           in in_transaction db e d (\<lambda>d.
             (case update_row dl db e (rc_Table cfg) (primaryIDCol cfg) (priCols sp) (priVals sp) rid d of
                (Inl err, d) \<Rightarrow>
                  (Err (if is_conflict dl err then wrap_err KConflict ('': '' @ err)
                        else wrap_err KInternal ('': update primary: '' @ err)), d)
              | (Inr False, d) \<Rightarrow> (Err (not_found resourceType rid), d)
              | (Inr True, d) \<Rightarrow> upsert_joins dl db sp e rid (Joins cfg) clone d))))"

definition deleteColumnMode ::
    "Dialect \<Rightarrow> 'd sqldb \<Rightarrow> ResourceTableConfig \<Rightarrow> env \<Rightarrow> string \<Rightarrow> string \<Rightarrow> 'd \<Rightarrow> (store_error, unit) outcome \<times> 'd" where
  "deleteColumnMode dl db cfg e resourceType rid d =
     in_transaction db e d (\<lambda>d.
       (case delete_joins dl db e rid (rev (Joins cfg)) d of
          (Ok _, d) \<Rightarrow>
            (case db_exec db e (delete_text dl (rc_Table cfg) (primaryIDCol cfg)) [SV (GStr rid)] d of
               (Inl err, d) \<Rightarrow> (Err (wrap_err KInternal ('': delete: '' @ err)), d)
             | (Inr n, d) \<Rightarrow> (if n = 0 then Err (not_found resourceType rid) else Ok (), d))
        | (res, d) \<Rightarrow> (res, d)))"

text \<open>The condition of a filter with its arguments, or a panic; a filter that cannot be translated gives no condition.\<close>

definition column_filter :: "Dialect \<Rightarrow> Mapper \<Rightarrow> FilterExpression option \<Rightarrow> string + string \<times> sqlval list" where
  "column_filter dl m f =
     (case f of
        None \<Rightarrow> Inr ([], [])
      | Some _ \<Rightarrow>
          (case TranslateFilter f m dl [] of
             Ok fr \<Rightarrow> Inr (if FErr fr = None \<and> Clause fr \<noteq> [] then ('' WHERE '' @ Clause fr, map SV (Args fr)) else ([], []))
           | Err p \<Rightarrow> Inl p
           | Panic p \<Rightarrow> Inl p))"

definition column_order :: "Dialect \<Rightarrow> Mapper \<Rightarrow> ListParams \<Rightarrow> string" where
  "column_order dl m lp =
     (if SortBy lp = [] then []
      else (case Ref m (SortBy lp) of
              None \<Rightarrow> []
            | Some ref \<Rightarrow>
                '' ORDER BY '' @ (if Table ref \<noteq> [] then quote dl (Table ref) @ ''.'' @ quote dl (Column ref) else Column ref) @
                (if LSortOrder lp = SortDescending then '' DESC'' else '' ASC'')))"

text \<open>MySQL is always given a limit, the number of rows when none is asked for; PostgreSQL only what is asked for.\<close>

definition column_limit :: "Dialect \<Rightarrow> ListParams \<Rightarrow> int \<Rightarrow> int \<Rightarrow> nat \<Rightarrow> string \<times> sqlval list" where
  "column_limit dl lp cnt startIndex nargs =
     (if dl = DialectMySQL then
        ('' LIMIT ? OFFSET ?'',
         [SV (GInt KInt (if Count lp \<le> 0 then cnt else Count lp)), SV (GInt KInt (startIndex - 1))])
      else
        (let (lim, largs) = (if Count lp > 0 then ('' LIMIT $'' @ nat_str (Suc nargs), [SV (GInt KInt (Count lp))]) else ([], []));
             (off, oargs) = (if startIndex > 1
                             then ('' OFFSET $'' @ nat_str (Suc (nargs + length largs)), [SV (GInt KInt (startIndex - 1))]) else ([], []))
         in (lim @ off, largs @ oargs)))"

definition scan_rows :: "(sqlval list \<Rightarrow> string + resource) \<Rightarrow> sqlval list list \<times> string option \<Rightarrow> string \<Rightarrow> string \<Rightarrow> store_error + resource list" where
  "scan_rows scan rows scan_msg rows_msg =
     (case map_sum_list scan (fst rows) of
        Inl err \<Rightarrow> Inl (wrap_err KInternal (scan_msg @ err))
      | Inr rs \<Rightarrow> (case snd rows of None \<Rightarrow> Inr rs | Some err \<Rightarrow> Inl (wrap_err KInternal (rows_msg @ err))))"

definition count_rows :: "'d sqldb \<Rightarrow> env \<Rightarrow> string \<Rightarrow> sqlval list \<Rightarrow> 'd \<Rightarrow> (string + int) \<times> 'd" where
  "count_rows db e q args d =
     (case db_query db e q args d of
        (res, d) \<Rightarrow>
          ((case first_row res of
              Inl err \<Rightarrow> Inl err
            | Inr None \<Rightarrow> Inl ''sql: no rows in result set''
            | Inr (Some [c]) \<Rightarrow> scan_int c
            | Inr (Some _) \<Rightarrow> Inl scan_error), d))"

definition listColumnMode ::
    "Dialect \<Rightarrow> 'd sqldb \<Rightarrow> Mapper \<Rightarrow> ResourceTableConfig \<Rightarrow> env \<Rightarrow> string \<Rightarrow> ListParams \<Rightarrow> 'd \<Rightarrow> (store_error, ListResult) outcome \<times> 'd" where
  "listColumnMode dl db m cfg e resourceType lp d =
     (let (flds, baseQ, _) = buildColumnSelect dl cfg
      in case column_filter dl m (Filter lp) of
           Inl p \<Rightarrow> (Panic p, d)
         | Inr (whereClause, args) \<Rightarrow>
             (case count_rows db e (''SELECT COUNT(*) FROM '' @ quote dl (rc_Table cfg) @ buildJoinSQL dl cfg @ whereClause) args d of
                (Inl err, d) \<Rightarrow> (Err (wrap_err KInternal ('': count: '' @ err)), d)
              | (Inr cnt, d) \<Rightarrow>
                  (let startIndex = (if StartIndex lp < 1 then 1 else StartIndex lp);
                       (lim, largs) = column_limit dl lp cnt startIndex (length args)
                   in case db_query db e (baseQ @ whereClause @ column_order dl m lp @ lim) (args @ largs) d of
                        (Inl err, d) \<Rightarrow> (Err (wrap_err KInternal ('': list: '' @ err)), d)
                      | (Inr rows, d) \<Rightarrow>
                          ((case scan_rows (scanColumnRow db flds resourceType) rows '': scan: '' '': rows: '' of
                              Inl err \<Rightarrow> Err err
                            | Inr rs \<Rightarrow> Ok \<lparr>Resources = rs, TotalResults = cnt, LStartIndex = startIndex,
                                 ItemsPerPage = int (length rs), NeedsClientFilter = False\<rparr>), d))))"

end
