(* ===== verification/Document_Store.thy ===== *)
theory Document_Store
  imports Memory_Store
begin

text \<open>
  The stores over a database have the same shape: \<open>Create\<close> stamps a clone and inserts it, \<open>Get\<close> selects a row,
  \<open>Replace\<close> selects and updates, \<open>Patch\<close> is a \<open>Get\<close> and a \<open>Replace\<close>, each with statements of its own.  The locale
  \<open>document_backend\<close> says what the four statements must do, and \<open>store_contract\<close> follows for the operations made of
  them.
\<close>

subsection \<open>Operations made of statements\<close>

definition doc_Create ::
    "(env \<Rightarrow> store_error + string) \<Rightarrow> (env \<Rightarrow> string \<Rightarrow> resource \<Rightarrow> 'd \<Rightarrow> (store_error, unit) outcome \<times> 'd) \<Rightarrow>
     env \<Rightarrow> string \<Rightarrow> resource \<Rightarrow> 'd \<Rightarrow> (store_error, resource) outcome \<times> 'd" where
  "doc_Create newid ins e rt res d =
     (case newid e of
        Inl err \<Rightarrow> (Err err, d)
      | Inr rid \<Rightarrow>
          (let clone = stamp_new rid rt (now e) (Clone res)
           in (case ins e rt clone d of
                 (Ok _, d) \<Rightarrow> (Ok clone, d) | (Err err, d) \<Rightarrow> (Err err, d) | (Panic p, d) \<Rightarrow> (Panic p, d))))"

definition doc_Replace ::
    "(env \<Rightarrow> string \<Rightarrow> string \<Rightarrow> 'd \<Rightarrow> (store_error, resource) outcome \<times> 'd) \<Rightarrow>
     (env \<Rightarrow> string \<Rightarrow> string \<Rightarrow> resource \<Rightarrow> 'd \<Rightarrow> (store_error, unit) outcome \<times> 'd) \<Rightarrow>
     env \<Rightarrow> string \<Rightarrow> string \<Rightarrow> resource \<Rightarrow> 'd \<Rightarrow> (store_error, resource) outcome \<times> 'd" where
  "doc_Replace sel upd e rt rid res d =
     (case sel e rt rid d of
        (Ok old, d) \<Rightarrow>
          (let clone = stamp_replaced rid rt (now e) old (Clone res)
           in (case upd e rt rid clone d of
                 (Ok _, d) \<Rightarrow> (Ok clone, d) | (Err err, d) \<Rightarrow> (Err err, d) | (Panic p, d) \<Rightarrow> (Panic p, d)))
      | (res, d) \<Rightarrow> (res, d))"

definition patch_with ::
    "('d \<Rightarrow> (store_error, resource) outcome \<times> 'd) \<Rightarrow> (resource \<Rightarrow> 'd \<Rightarrow> (store_error, resource) outcome \<times> 'd) \<Rightarrow>
     PatchOp list \<Rightarrow> 'd \<Rightarrow> (store_error, resource) outcome \<times> 'd" where
  "patch_with get replace pops d =
     (case get d of
        (Ok old, d) \<Rightarrow>
          (case ApplyPatch old pops of
             Inl err \<Rightarrow> (Err (wrap_err KBadPatch ('': '' @ res_error_text err)), d)
           | Inr patched \<Rightarrow> replace patched d)
      | (res, d) \<Rightarrow> (res, d))"

definition doc_ops ::
    "(env \<Rightarrow> store_error + string) \<Rightarrow> (env \<Rightarrow> string \<Rightarrow> resource \<Rightarrow> 'd \<Rightarrow> (store_error, unit) outcome \<times> 'd) \<Rightarrow>
     (env \<Rightarrow> string \<Rightarrow> string \<Rightarrow> 'd \<Rightarrow> (store_error, resource) outcome \<times> 'd) \<Rightarrow>
     (env \<Rightarrow> string \<Rightarrow> string \<Rightarrow> resource \<Rightarrow> 'd \<Rightarrow> (store_error, unit) outcome \<times> 'd) \<Rightarrow>
     (env \<Rightarrow> string \<Rightarrow> string \<Rightarrow> 'd \<Rightarrow> (store_error, unit) outcome \<times> 'd) \<Rightarrow>
     (env \<Rightarrow> string \<Rightarrow> ListParams \<Rightarrow> 'd \<Rightarrow> (store_error, ListResult) outcome \<times> 'd) \<Rightarrow> 'd store_ops" where
  "doc_ops newid ins sel upd del lst =
     \<lparr>st_Create = doc_Create newid ins, st_Get = sel, st_List = lst, st_Replace = doc_Replace sel upd,
      st_Patch = (\<lambda>e rt rid. patch_with (sel e rt rid) (doc_Replace sel upd e rt rid)), st_Delete = del\<rparr>"

lemma doc_ops_simps [simp]:
  "st_Create (doc_ops newid ins sel upd del lst) = doc_Create newid ins"
  "st_Get (doc_ops newid ins sel upd del lst) = sel"
  "st_List (doc_ops newid ins sel upd del lst) = lst"
  "st_Replace (doc_ops newid ins sel upd del lst) = doc_Replace sel upd"
  "st_Patch (doc_ops newid ins sel upd del lst) e rt rid = patch_with (sel e rt rid) (doc_Replace sel upd e rt rid)"
  "st_Delete (doc_ops newid ins sel upd del lst) = del"
  by (simp_all add: doc_ops_def)

subsection \<open>What is stored\<close>

text \<open>The clones that are stored have JSON values and no attribute under the name of a field, so that a document
  keeps them.\<close>

definition storable :: "resource \<Rightarrow> bool" where
  "storable r = (wf_resource r \<and> json_norm_map (Attributes r) = Attributes r)"

lemma json_norm_map_put: "json_norm_map (map_put k v m) = map_put k (json_norm v) (json_norm_map m)"
  by (induction k v m rule: map_put.induct) (auto simp: json_norm_map_def)

lemma storable_Clone [simp]: "storable (Clone r)"
proof -
  have "json_norm_map (Attributes q) = Attributes q \<Longrightarrow>
      json_norm_map (Attributes (foldl from_entry q (json_norm_map m))) = Attributes (foldl from_entry q (json_norm_map m))" for q m
    by (induction m arbitrary: q) (auto simp: Attributes_from_entry json_norm_map_put)
  from this [of empty_resource "ToMap r"] show ?thesis
    by (simp add: storable_def Clone_def FromMap_def empty_resource_def FromMap_wf [unfolded FromMap_def empty_resource_def])
qed

lemma storable_stamp [simp]:
  "storable (stamp_new rid rt t r) = storable r" "storable (stamp_replaced rid rt t old r) = storable r"
  by (simp_all add: storable_def stamp_new_def stamp_replaced_def wf_resource_def)

lemma Clone_storable: "storable r \<Longrightarrow> same_body (Clone r) r"
  by (simp add: storable_def same_body_def)

subsection \<open>The interface\<close>

locale document_backend =
  fixes newid :: "env \<Rightarrow> store_error + string"
    and ins :: "env \<Rightarrow> string \<Rightarrow> resource \<Rightarrow> 'd \<Rightarrow> (store_error, unit) outcome \<times> 'd"
    and sel :: "env \<Rightarrow> string \<Rightarrow> string \<Rightarrow> 'd \<Rightarrow> (store_error, resource) outcome \<times> 'd"
    and upd :: "env \<Rightarrow> string \<Rightarrow> string \<Rightarrow> resource \<Rightarrow> 'd \<Rightarrow> (store_error, unit) outcome \<times> 'd"
    and del :: "env \<Rightarrow> string \<Rightarrow> string \<Rightarrow> 'd \<Rightarrow> (store_error, unit) outcome \<times> 'd"
    and lst :: "env \<Rightarrow> string \<Rightarrow> ListParams \<Rightarrow> 'd \<Rightarrow> (store_error, ListResult) outcome \<times> 'd"
    and abs :: "'d \<Rightarrow> 'k \<times> string \<Rightarrow> 'v option" and inv :: "'d \<Rightarrow> bool" and key :: "string \<Rightarrow> 'k"
    and view :: "string \<Rightarrow> 'v \<Rightarrow> resource" and avail :: "env \<Rightarrow> 'd \<Rightarrow> bool"
  assumes ins_ok: "inv d \<Longrightarrow> storable c \<Longrightarrow> ins e rt c d = (Ok u, d') \<Longrightarrow>
      inv d' \<and> abs d (key rt, ID c) = None \<and> (\<exists>y. abs d' = (abs d)((key rt, ID c) \<mapsto> y) \<and> same_body (view rt y) c)"
    and ins_err: "inv d \<Longrightarrow> ins e rt c d = (Err k, d') \<Longrightarrow> inv d' \<and> abs d' = abs d"
    and sel_ok: "inv d \<Longrightarrow> sel e rt rid d = (Ok r, d') \<Longrightarrow>
      inv d' \<and> abs d' = abs d \<and> (\<exists>y. abs d (key rt, rid) = Some y \<and> r = view rt y)"
    and sel_err: "inv d \<Longrightarrow> sel e rt rid d = (Err k, d') \<Longrightarrow>
      inv d' \<and> abs d' = abs d \<and> (abs d (key rt, rid) \<noteq> None \<longrightarrow> \<not> avail e d)"
    and sel_returns: "inv d \<Longrightarrow> fst (sel e rt rid d) \<noteq> Panic m"
    and upd_ok: "inv d \<Longrightarrow> storable c \<Longrightarrow> ID c = rid \<Longrightarrow> abs d (key rt, rid) \<noteq> None \<Longrightarrow> upd e rt rid c d = (Ok u, d') \<Longrightarrow>
      inv d' \<and> (\<exists>y. abs d' = (abs d)((key rt, rid) \<mapsto> y) \<and> same_body (view rt y) c)"
    and upd_err: "inv d \<Longrightarrow> upd e rt rid c d = (Err k, d') \<Longrightarrow> inv d' \<and> abs d' = abs d"
    and del_ok: "inv d \<Longrightarrow> del e rt rid d = (Ok u, d') \<Longrightarrow>
      inv d' \<and> abs d (key rt, rid) \<noteq> None \<and> abs d' = (abs d)((key rt, rid) := None)"
    and del_err: "inv d \<Longrightarrow> del e rt rid d = (Err k, d') \<Longrightarrow> inv d' \<and> abs d' = abs d"
begin

lemma create_cases:
  assumes "doc_Create newid ins e rt x d = (res, d')"
  obtains err where "newid e = Inl err" "res = Err err" "d' = d"
    | rid u where "newid e = Inr rid" "ins e rt (stamp_new rid rt (now e) (Clone x)) d = (Ok u, d')"
      "res = Ok (stamp_new rid rt (now e) (Clone x))"
    | rid k where "newid e = Inr rid" "ins e rt (stamp_new rid rt (now e) (Clone x)) d = (Err k, d')" "res = Err k"
    | p where "res = Panic p"
  using assms by (auto simp: doc_Create_def Let_def split: sum.splits prod.splits outcome.splits)

lemma replace_cases:
  assumes "doc_Replace sel upd e rt rid x d = (res, d')"
  obtains old d1 u where "sel e rt rid d = (Ok old, d1)"
      "upd e rt rid (stamp_replaced rid rt (now e) old (Clone x)) d1 = (Ok u, d')"
      "res = Ok (stamp_replaced rid rt (now e) old (Clone x))"
    | old d1 k where "sel e rt rid d = (Ok old, d1)"
      "upd e rt rid (stamp_replaced rid rt (now e) old (Clone x)) d1 = (Err k, d')" "res = Err k"
    | k where "sel e rt rid d = (Err k, d')" "res = Err k"
    | p where "res = Panic p"
  using assms by (auto simp: doc_Replace_def Let_def split: prod.splits outcome.splits)

lemma replace_Ok:
  assumes "inv d" "doc_Replace sel upd e rt rid x d = (Ok r, d')"
  shows "inv d' \<and> abs d (key rt, rid) \<noteq> None \<and> ID r = rid \<and> Attributes r = Attributes (Clone x) \<and>
    (\<exists>y. abs d' = (abs d)((key rt, rid) \<mapsto> y) \<and> same_body (view rt y) r)"
  using assms(2)
proof (cases rule: replace_cases)
  case (1 old d1 u)
  let ?c = "stamp_replaced rid rt (now e) old (Clone x)"
  have d1: "inv d1" "abs d1 = abs d" "abs d (key rt, rid) \<noteq> None" using sel_ok [OF assms(1) 1(1)] by auto
  have "ID ?c = rid" "Attributes ?c = Attributes (Clone x)" by (simp_all add: stamp_replaced_def)
  then show ?thesis using upd_ok [OF d1(1) _ _ _ 1(2)] d1 1(3) by auto
qed simp_all

lemma replace_Err:
  assumes "inv d" "doc_Replace sel upd e rt rid x d = (Err k, d')"
  shows "inv d' \<and> abs d' = abs d"
  using assms(2)
proof (cases rule: replace_cases)
  case (2 old d1 k')
  then show ?thesis using sel_ok [OF assms(1) 2(1)] upd_err [of d1] by auto
next
  case (3 k')
  then show ?thesis using sel_err [OF assms(1) 3(1)] by simp
qed simp_all

end

sublocale document_backend \<subseteq> doc: store_contract "doc_ops newid ins sel upd del lst" abs inv "\<lambda>e rt d. True" key view avail
proof (unfold_locales, goal_cases)
  case (1 d e rt x r d')
  then have "doc_Create newid ins e rt x d = (Ok r, d')" by simp
  then show ?case
  proof (cases rule: create_cases)
    case (2 rid u)
    have "storable (stamp_new rid rt (now e) (Clone x))" by simp
    from ins_ok [OF 1(1) this 2(2)] show ?thesis using 2(3) by auto
  qed simp_all
next
  case (2 d e rt rid x r d')
  then show ?case using replace_Ok [of d e rt rid x r d'] by simp
next
  case (3 d e rt rid pops r d')
  then obtain old d1 p where s: "sel e rt rid d = (Ok old, d1)" "doc_Replace sel upd e rt rid p d1 = (Ok r, d')"
    by (auto simp: patch_with_def split: prod.splits outcome.splits sum.splits)
  then show ?case using sel_ok [OF 3(1) s(1)] replace_Ok [OF _ s(2)] by simp
next
  case (4 d e rt rid u d')
  then show ?case using del_ok [of d e rt rid u d'] by simp
next
  case (5 d e rt rid r d')
  then show ?case using sel_ok [of d e rt rid r d'] by simp
next
  case (6 d e rt rid k d')
  then show ?case using sel_err [of d e rt rid k d'] by simp
next
  case (7 d e rt x k d')
  then have "doc_Create newid ins e rt x d = (Err k, d')" by simp
  then show ?case
  proof (cases rule: create_cases)
    case (3 rid k')
    then show ?thesis using ins_err [OF 7(1) 3(2)] by simp
  qed (use 7 in simp_all)
next
  case (8 d e rt rid x k d')
  then show ?case using replace_Err [of d e rt rid x k d'] by simp
next
  case (9 d e rt rid pops k d')
  then consider "sel e rt rid d = (Err k, d')" | old where "sel e rt rid d = (Ok old, d')"
    | old d1 p where "sel e rt rid d = (Ok old, d1)" "doc_Replace sel upd e rt rid p d1 = (Err k, d')"
    by (auto simp: patch_with_def split: prod.splits outcome.splits sum.splits)
  then show ?case
  proof cases
    case 1
    then show ?thesis using sel_err [OF 9(1)] by simp
  next
    case (2 old)
    then show ?thesis using sel_ok [OF 9(1)] by simp
  next
    case (3 old d1 p)
    then show ?thesis using sel_ok [OF 9(1) 3(1)] replace_Err [OF _ 3(2)] by simp
  qed
next
  case (10 d e rt rid k d')
  then show ?case using del_err [of d e rt rid k d'] by simp
next
  case (11 d e rt rid m)
  then show ?case using sel_returns [of d e rt rid m] by simp
qed

context document_backend
begin

text \<open>Two PATCH requests whose statements interleave: the first reads, the second runs, the first writes.  Both succeed,
  and what is stored is the first patch of what it read: the second is lost.\<close>

lemma interleaved_patch:
  assumes "inv d" "sel e rt rid d = (Ok old, d1)" "st_Patch (doc_ops newid ins sel upd del lst) eB rt rid opsB d1 = (Ok rB, d2)"
    and "ApplyPatch old opsA = Inr new" "doc_Replace sel upd e rt rid new d2 = (Ok rA, d3)" "avail e' d3"
  shows "\<exists>q d4. sel e' rt rid d3 = (Ok q, d4) \<and> Attributes q = Attributes (Clone new)"
proof -
  have "inv d1" using sel_ok [OF assms(1,2)] by simp
  then have "inv d2" using doc.patch_ok [OF _ assms(3)] by simp
  from replace_Ok [OF this assms(5)] obtain y where
    "inv d3" "abs d3 (key rt, rid) = Some y" "same_body (view rt y) rA" "Attributes rA = Attributes (Clone new)" by auto
  then show ?thesis using doc.get_entry [of d3 rt rid y e'] assms(6) by (auto simp: same_body_def)
qed

end

end
