(* ===== verification/Mysql_Store.thy ===== *)
theory Mysql_Store
  imports Sql_Columns Schema Document_Store
begin

text \<open>
  The MySQL store (\<open>connector/mysql/store.go\<close>, \<open>options.go\<close>).  A resource type without field mappings is in JSON mode:
  a row has the resource as a document in the column \<open>data\<close> and some attributes in columns of their own.  The operations
  are those of a store that \<open>Init\<close> has connected.
\<close>

subsection \<open>Configuration\<close>

record my_config =
  my_dsn :: string
  my_tablePrefix :: string
  my_autoMigrate :: bool
  my_registry :: "Registry option"
  my_maxConns :: int
  my_connTimeout :: int
  my_resourceConfigs :: "ResourceTableConfig gmap"

definition my_defaultConfig :: my_config where
  "my_defaultConfig =
     \<lparr>my_dsn = [], my_tablePrefix = ''scim_'', my_autoMigrate = False, my_registry = None, my_maxConns = 10,
      my_connTimeout = 30 * second_ns, my_resourceConfigs = []\<rparr>"

type_synonym my_option = "my_config \<Rightarrow> my_config"

definition my_WithDSN :: "string \<Rightarrow> my_option" where
  "my_WithDSN dsn c = c\<lparr>my_dsn := dsn\<rparr>"

definition my_WithTablePrefix :: "string \<Rightarrow> my_option" where
  "my_WithTablePrefix prefix c = c\<lparr>my_tablePrefix := prefix\<rparr>"

definition my_WithAutoMigrate :: "bool \<Rightarrow> my_option" where
  "my_WithAutoMigrate enabled c = c\<lparr>my_autoMigrate := enabled\<rparr>"

definition my_WithSchemaRegistry :: "Registry \<Rightarrow> my_option" where
  "my_WithSchemaRegistry reg c = c\<lparr>my_registry := Some reg\<rparr>"

definition my_WithMaxConns :: "int \<Rightarrow> my_option" where
  "my_WithMaxConns n c = c\<lparr>my_maxConns := n\<rparr>"

definition my_resource :: "string \<Rightarrow> (ResourceTableConfig \<Rightarrow> ResourceTableConfig) \<Rightarrow> my_option" where
  "my_resource resourceType f c = c\<lparr>my_resourceConfigs := with_resource resourceType f (my_resourceConfigs c)\<rparr>"

definition my_WithTableName :: "string \<Rightarrow> string \<Rightarrow> my_option" where
  "my_WithTableName resourceType t = my_resource resourceType (\<lambda>cfg. cfg\<lparr>rc_Table := t\<rparr>)"

definition my_WithFieldMapping :: "string \<Rightarrow> string \<Rightarrow> string \<Rightarrow> my_option" where
  "my_WithFieldMapping resourceType scimAttr col =
     my_resource resourceType
       (\<lambda>cfg. cfg\<lparr>FieldMappings := map_put scimAttr \<lparr>Table = [], Column = col\<rparr> (FieldMappings cfg)\<rparr>)"

definition my_WithTableFieldMapping :: "string \<Rightarrow> string \<Rightarrow> string \<Rightarrow> string \<Rightarrow> my_option" where
  "my_WithTableFieldMapping resourceType scimAttr t col =
     my_resource resourceType
       (\<lambda>cfg. cfg\<lparr>FieldMappings := map_put scimAttr \<lparr>Table = t, Column = col\<rparr> (FieldMappings cfg)\<rparr>)"

definition my_WithJoin :: "string \<Rightarrow> JoinDef \<Rightarrow> my_option" where
  "my_WithJoin resourceType jd = my_resource resourceType (\<lambda>cfg. cfg\<lparr>Joins := Joins cfg @ [jd]\<rparr>)"

definition my_WithResourceConfig :: "string \<Rightarrow> ResourceTableConfig \<Rightarrow> my_option" where
  "my_WithResourceConfig resourceType rc = my_resource resourceType (\<lambda>_. rc)"

definition my_New :: "my_option list \<Rightarrow> string + my_config" where
  "my_New opts =
     (let cfg = foldl (\<lambda>c opt. opt c) my_defaultConfig opts
      in if my_dsn cfg = [] then Inl ''mysql store: DSN is required (use WithDSN)'' else Inr cfg)"

subsection \<open>Connection\<close>

abbreviation bt :: "string \<Rightarrow> string" where "bt \<equiv> quote DialectMySQL"

definition my_users_ddl :: "string \<Rightarrow> string" where
  "my_users_ddl t =
     ''CREATE TABLE IF NOT EXISTS '' @ bt t @ '' ('' @ [CHR 0x0A] @ ''    id            VARCHAR(255) PRIMARY KEY,'' @
     [CHR 0x0A] @ ''    external_id   VARCHAR(255),'' @ [CHR 0x0A] @ ''    user_name     VARCHAR(255) UNIQUE,'' @
     [CHR 0x0A] @ ''    meta_created  DATETIME(6) NOT NULL,'' @ [CHR 0x0A] @
     ''    meta_last_mod DATETIME(6) NOT NULL,'' @ [CHR 0x0A] @ ''    meta_version  VARCHAR(255),'' @ [CHR 0x0A] @
     ''    active        TINYINT(1) DEFAULT 1,'' @ [CHR 0x0A] @ ''    data          JSON NOT NULL,'' @ [CHR 0x0A] @
     ''    schemas       JSON'' @ [CHR 0x0A] @ '')''"

definition my_groups_ddl :: "string \<Rightarrow> string" where
  "my_groups_ddl t =
     ''CREATE TABLE IF NOT EXISTS '' @ bt t @ '' ('' @ [CHR 0x0A] @ ''    id            VARCHAR(255) PRIMARY KEY,'' @
     [CHR 0x0A] @ ''    external_id   VARCHAR(255),'' @ [CHR 0x0A] @ ''    display_name  VARCHAR(255),'' @
     [CHR 0x0A] @ ''    meta_created  DATETIME(6) NOT NULL,'' @ [CHR 0x0A] @
     ''    meta_last_mod DATETIME(6) NOT NULL,'' @ [CHR 0x0A] @ ''    meta_version  VARCHAR(255),'' @ [CHR 0x0A] @
     ''    data          JSON NOT NULL,'' @ [CHR 0x0A] @ ''    schemas       JSON'' @ [CHR 0x0A] @ '')''"

definition migrate_table ::
    "'d sqldb \<Rightarrow> env \<Rightarrow> ResourceTableConfig gmap \<Rightarrow> string \<Rightarrow> string \<Rightarrow> string \<Rightarrow> 'd step" where
  "migrate_table db e cfgs key ddl name d =
     (if isColumnMode cfgs key then (None, d)
      else (case db_exec db e ddl [] d of
              (Inl err, d) \<Rightarrow> (Some (''create '' @ name @ '' table: '' @ err), d)
            | (Inr _, d) \<Rightarrow> (None, d)))"

definition my_migrate :: "my_config \<Rightarrow> 'd sqldb \<Rightarrow> env \<Rightarrow> 'd step" where
  "my_migrate cfg db e d =
     (case migrate_table db e (my_resourceConfigs cfg) ''user'' (my_users_ddl (my_tablePrefix cfg @ ''users'')) ''users'' d of
        (Some err, d) \<Rightarrow> (Some err, d)
      | (None, d) \<Rightarrow>
          migrate_table db e (my_resourceConfigs cfg) ''group'' (my_groups_ddl (my_tablePrefix cfg @ ''groups'')) ''groups'' d)"

definition my_Init :: "my_config \<Rightarrow> 'd sqldb \<Rightarrow> env \<Rightarrow> 'd step" where
  "my_Init cfg db e d =
     (case db_open db (my_dsn cfg) d of
        (Some err, d) \<Rightarrow> (Some (''mysql store: open: '' @ err), d)
      | (None, d) \<Rightarrow>
          (case db_ping db e d of
             (Some err, d) \<Rightarrow> (Some (''mysql store: ping: '' @ err), snd (db_close db d))
           | (None, d) \<Rightarrow>
               if my_autoMigrate cfg then
                 (case my_migrate cfg db e d of
                    (Some err, d) \<Rightarrow> (Some (''mysql store: migrate: '' @ err), d)
                  | (None, d) \<Rightarrow> (None, d))
               else (None, d)))"

text \<open>\<open>Close\<close> and \<open>Healthy\<close>; the flag says whether \<open>Init\<close> has set the connection.\<close>

definition my_Close :: "bool \<Rightarrow> 'd sqldb \<Rightarrow> 'd step" where
  "my_Close initialised db d = (if initialised then db_close db d else (None, d))"

definition my_Healthy :: "bool \<Rightarrow> 'd sqldb \<Rightarrow> env \<Rightarrow> 'd step" where
  "my_Healthy initialised db e d =
     (if initialised then db_ping db e d else (Some ''mysql store: not initialized'', d))"

subsection \<open>Documents\<close>

definition userNameFromAttrs :: "attrs \<Rightarrow> string" where
  "userNameFromAttrs as =
     (case find (\<lambda>(k, v). EqualFold k ''userName'' \<and> (case v of GStr _ \<Rightarrow> True | _ \<Rightarrow> False)) as of
        Some (_, GStr s) \<Rightarrow> s | _ \<Rightarrow> [])"

definition activeFromAttrs :: "attrs \<Rightarrow> gval" where
  "activeFromAttrs as = (case find (\<lambda>(k, _). EqualFold k ''active'') as of Some (_, v) \<Rightarrow> v | None \<Rightarrow> GBool True)"

text \<open>\<open>json.Marshal(clone.ToMap())\<close>, and of the schemas, which are a nil slice if there are none.\<close>

definition data_json :: "resource \<Rightarrow> sqlval" where
  "data_json r = SJson (GMap (json_norm_map (ToMap r)))"

definition schemas_json :: "string list \<Rightarrow> sqlval" where
  "schemas_json ss = SJson (if ss = [] then GNil else GArr (map GStr ss))"

text \<open>\<open>json.Unmarshal\<close> into a \<open>[]string\<close>; no bytes, or other values, leave the schemas as they are.\<close>

fun unmarshal_strings :: "sqlval \<Rightarrow> string list option" where
  "unmarshal_strings (SJson GNil) = Some []"
| "unmarshal_strings (SJson (GArr vs)) =
     (if list_all (\<lambda>v. case v of GStr _ \<Rightarrow> True | GNil \<Rightarrow> True | _ \<Rightarrow> False) vs
      then Some (map (\<lambda>v. case v of GStr s \<Rightarrow> s | _ \<Rightarrow> []) vs) else None)"
| "unmarshal_strings _ = None"

definition jsonBytesToResource :: "sqlval \<Rightarrow> sqlval \<Rightarrow> string + resource" where
  "jsonBytesToResource data schemasJSON =
     (case unmarshal_map data of
        Inl err \<Rightarrow> Inl (''unmarshal data: '' @ err)
      | Inr m \<Rightarrow>
          Inr (case unmarshal_strings schemasJSON of
                 Some schemas \<Rightarrow> (FromMap m)\<lparr>Schemas := schemas\<rparr>
               | None \<Rightarrow> FromMap m))"

record json_row =
  jr_id :: "string option"
  jr_externalID :: "string option"
  jr_created :: time
  jr_lastMod :: time
  jr_version :: "string option"
  jr_data :: sqlval
  jr_schemas :: sqlval

definition scan_json_row :: "sqlval list \<Rightarrow> string + json_row" where
  "scan_json_row row =
     (case row of
        [c1, c2, c3, c4, c5, c6, c7] \<Rightarrow>
          (case scan_text c1 of Inl err \<Rightarrow> Inl err | Inr rid \<Rightarrow>
           (case scan_text c2 of Inl err \<Rightarrow> Inl err | Inr ext \<Rightarrow>
            (case scan_time c3 of Inl err \<Rightarrow> Inl err | Inr created \<Rightarrow>
             (case scan_time c4 of Inl err \<Rightarrow> Inl err | Inr lastMod \<Rightarrow>
              (case scan_text c5 of Inl err \<Rightarrow> Inl err | Inr version \<Rightarrow>
                 Inr \<lparr>jr_id = rid, jr_externalID = ext, jr_created = created, jr_lastMod = lastMod, jr_version = version,
                      jr_data = c6, jr_schemas = c7\<rparr>)))))
      | _ \<Rightarrow> Inl scan_error)"

definition row_resource :: "string \<Rightarrow> json_row \<Rightarrow> string + resource" where
  "row_resource resourceType row =
     (case jsonBytesToResource (jr_data row) (jr_schemas row) of
        Inl err \<Rightarrow> Inl err
      | Inr r \<Rightarrow>
          Inr (r\<lparr>ID := (case jr_id row of Some s \<Rightarrow> s | None \<Rightarrow> []),
                 ExternalID := (case jr_externalID row of Some s \<Rightarrow> s | None \<Rightarrow> ExternalID r),
                 Meta := (Meta r)\<lparr>Created := jr_created row, LastModified := jr_lastMod row,
                   Version := (case jr_version row of Some s \<Rightarrow> s | None \<Rightarrow> Version (Meta r)),
                   ResourceType := resourceType\<rparr>\<rparr>))"

definition scanJSONRow :: "string \<Rightarrow> string \<Rightarrow> sqlval list \<Rightarrow> store_error + resource" where
  "scanJSONRow resourceType scan_msg row =
     (case scan_json_row row of
        Inl err \<Rightarrow> Inl (wrap_err KInternal (scan_msg @ err))
      | Inr jr \<Rightarrow>
          (case row_resource resourceType jr of
             Inl err \<Rightarrow> Inl (wrap_err KInternal ('': '' @ err))
           | Inr r \<Rightarrow> Inr r))"

subsection \<open>Operations in JSON mode\<close>

definition is_user_type :: "string \<Rightarrow> bool" where
  "is_user_type resourceType = (ToLower resourceType = ''user'')"

definition my_insert_rest :: "bool \<Rightarrow> string" where
  "my_insert_rest user =
     (if user then
        '' (id, external_id, user_name, meta_created, meta_last_mod, meta_version, active, data, schemas)'' @
        [CHR 0x0A, CHR 0x09, CHR 0x09, CHR 0x09] @ '' VALUES (?, ?, ?, ?, ?, ?, ?, ?, ?)''
      else
        '' (id, external_id, meta_created, meta_last_mod, meta_version, data, schemas)'' @
        [CHR 0x0A, CHR 0x09, CHR 0x09, CHR 0x09] @ '' VALUES (?, ?, ?, ?, ?, ?, ?)'')"

definition my_insert :: "string \<Rightarrow> string \<Rightarrow> resource \<Rightarrow> time \<Rightarrow> string \<times> sqlval list" where
  "my_insert t resourceType clone t0 =
     (''INSERT INTO '' @ bt t @ my_insert_rest (is_user_type resourceType),
      if is_user_type resourceType then
        [SV (GStr (ID clone)), nullString (ExternalID clone), nullString (userNameFromAttrs (Attributes clone)),
         SV (GTime t0), SV (GTime t0), nullString (Version (Meta clone)), SV (activeFromAttrs (Attributes clone)),
         data_json clone, schemas_json (Schemas clone)]
      else
        [SV (GStr (ID clone)), nullString (ExternalID clone), SV (GTime t0), SV (GTime t0),
         nullString (Version (Meta clone)), data_json clone, schemas_json (Schemas clone)])"

definition my_select_head :: string where
  "my_select_head =
     ''SELECT id, external_id, meta_created, meta_last_mod, meta_version, data, schemas'' @
     [CHR 0x0A, CHR 0x09, CHR 0x09] @ '' FROM ''"

definition my_select :: "string \<Rightarrow> string" where
  "my_select t = my_select_head @ bt t @ '' WHERE id = ?''"

definition my_update_rest :: "bool \<Rightarrow> string" where
  "my_update_rest user =
     (if user then
        '' SET external_id=?, user_name=?, meta_last_mod=?, meta_version=?, active=?, data=?, schemas=?'' @
        [CHR 0x0A, CHR 0x09, CHR 0x09, CHR 0x09] @ '' WHERE id=?''
      else
        '' SET external_id=?, meta_last_mod=?, meta_version=?, data=?, schemas=?'' @
        [CHR 0x0A, CHR 0x09, CHR 0x09, CHR 0x09] @ '' WHERE id=?'')"

definition my_update :: "string \<Rightarrow> string \<Rightarrow> resource \<Rightarrow> time \<Rightarrow> string \<Rightarrow> string \<times> sqlval list" where
  "my_update t resourceType clone t0 rid =
     (''UPDATE '' @ bt t @ my_update_rest (is_user_type resourceType),
      if is_user_type resourceType then
        [nullString (ExternalID clone), nullString (userNameFromAttrs (Attributes clone)), SV (GTime t0),
         nullString (Version (Meta clone)), SV (activeFromAttrs (Attributes clone)), data_json clone,
         schemas_json (Schemas clone), SV (GStr rid)]
      else
        [nullString (ExternalID clone), SV (GTime t0), nullString (Version (Meta clone)), data_json clone,
         schemas_json (Schemas clone), SV (GStr rid)])"

definition my_delete :: "string \<Rightarrow> string" where
  "my_delete t = ''DELETE FROM '' @ bt t @ '' WHERE id = ?''"

definition my_list_text :: "string \<Rightarrow> string \<Rightarrow> string \<Rightarrow> string" where
  "my_list_text t whr ord = my_select_head @ bt t @ whr @ ord @ '' LIMIT ? OFFSET ?''"

definition my_table :: "my_config \<Rightarrow> string \<Rightarrow> string" where
  "my_table cfg resourceType = tableName (my_resourceConfigs cfg) (my_tablePrefix cfg) resourceType"

definition my_createJSONMode ::
    "my_config \<Rightarrow> 'd sqldb \<Rightarrow> env \<Rightarrow> string \<Rightarrow> resource \<Rightarrow> 'd \<Rightarrow> (store_error, resource) outcome \<times> 'd" where
  "my_createJSONMode cfg db e resourceType res d =
     (case new_id DialectMySQL e of
        Inl err \<Rightarrow> (Err err, d)
      | Inr rid \<Rightarrow>
          (let clone = stamp_new rid resourceType (now e) (Clone res);
               (q, args) = my_insert (my_table cfg resourceType) resourceType clone (now e)
           in case db_exec db e q args d of
                (Inl err, d) \<Rightarrow>
                  (Err (if isDuplicateEntry err then wrap_err KConflict ('': '' @ err)
                        else wrap_err KInternal ('': insert: '' @ err)), d)
              | (Inr _, d) \<Rightarrow> (Ok clone, d)))"

definition my_getJSONMode ::
    "my_config \<Rightarrow> 'd sqldb \<Rightarrow> env \<Rightarrow> string \<Rightarrow> string \<Rightarrow> 'd \<Rightarrow> (store_error, resource) outcome \<times> 'd" where
  "my_getJSONMode cfg db e resourceType rid d =
     (case db_query db e (my_select (my_table cfg resourceType)) [SV (GStr rid)] d of
        (res, d) \<Rightarrow>
          ((case first_row res of
              Inl err \<Rightarrow> Err (wrap_err KInternal ('': scan: '' @ err))
            | Inr None \<Rightarrow> Err (wrap_err KNotFound [])
            | Inr (Some row) \<Rightarrow>
                (case scanJSONRow resourceType '': scan: '' row of Inl err \<Rightarrow> Err err | Inr r \<Rightarrow> Ok r)), d))"

definition my_where :: "FilterExpression option \<Rightarrow> string + string \<times> sqlval list" where
  "my_where f = column_filter DialectMySQL NewMapper f"

definition my_order :: "ListParams \<Rightarrow> string" where
  "my_order lp =
     (if SortBy lp = [] then []
      else (case ColumnName NewMapper (SortBy lp) of
              None \<Rightarrow> []
            | Some col \<Rightarrow> '' ORDER BY '' @ bt col @ (if LSortOrder lp = SortDescending then '' DESC'' else '' ASC'')))"

definition scan_json_rows :: "string \<Rightarrow> sqlval list list \<times> string option \<Rightarrow> store_error + resource list" where
  "scan_json_rows resourceType rows =
     (case map_sum_list (scanJSONRow resourceType '': scan row: '') (fst rows) of
        Inl err \<Rightarrow> Inl err
      | Inr rs \<Rightarrow> (case snd rows of None \<Rightarrow> Inr rs | Some err \<Rightarrow> Inl (wrap_err KInternal ('': rows: '' @ err))))"

definition my_listJSONMode ::
    "my_config \<Rightarrow> 'd sqldb \<Rightarrow> env \<Rightarrow> string \<Rightarrow> ListParams \<Rightarrow> 'd \<Rightarrow> (store_error, ListResult) outcome \<times> 'd" where
  "my_listJSONMode cfg db e resourceType lp d =
     (let t = my_table cfg resourceType
      in case my_where (Filter lp) of
           Inl p \<Rightarrow> (Panic p, d)
         | Inr (whr, args) \<Rightarrow>
             (case count_rows db e (''SELECT COUNT(*) FROM '' @ bt t @ whr) args d of
                (Inl err, d) \<Rightarrow> (Err (wrap_err KInternal ('': count: '' @ err)), d)
              | (Inr cnt, d) \<Rightarrow>
                  (let startIndex = (if StartIndex lp < 1 then 1 else StartIndex lp);
                       limit = (if Count lp \<le> 0 then cnt else Count lp)
                   in if limit = 0 then
                        (Ok \<lparr>Resources = [], TotalResults = cnt, LStartIndex = startIndex, ItemsPerPage = 0,
                             NeedsClientFilter = False\<rparr>, d)
                      else
                        (case db_query db e (my_list_text t whr (my_order lp))
                                (args @ [SV (GInt KInt limit), SV (GInt KInt (startIndex - 1))]) d of
                           (Inl err, d) \<Rightarrow> (Err (wrap_err KInternal ('': query: '' @ err)), d)
                         | (Inr rows, d) \<Rightarrow>
                             ((case scan_json_rows resourceType rows of
                                 Inl err \<Rightarrow> Err err
                               | Inr rs \<Rightarrow>
                                   Ok \<lparr>Resources = rs, TotalResults = cnt, LStartIndex = startIndex,
                                       ItemsPerPage = int (length rs),
                                       NeedsClientFilter = (Filter lp \<noteq> None \<and> whr = [])\<rparr>), d)))))"

definition my_replaceJSONMode ::
    "my_config \<Rightarrow> 'd sqldb \<Rightarrow> env \<Rightarrow> string \<Rightarrow> string \<Rightarrow> resource \<Rightarrow> 'd \<Rightarrow> (store_error, resource) outcome \<times> 'd" where
  "my_replaceJSONMode cfg db e resourceType rid res d =
     (case my_getJSONMode cfg db e resourceType rid d of
        (Err err, d) \<Rightarrow> (Err err, d)
      | (Panic p, d) \<Rightarrow> (Panic p, d)
      | (Ok old, d) \<Rightarrow>
          (let clone = stamp_replaced rid resourceType (now e) old (Clone res);
               (q, args) = my_update (my_table cfg resourceType) resourceType clone (now e) rid
           in case db_exec db e q args d of
                (Inl err, d) \<Rightarrow>
                  (Err (if isDuplicateEntry err then wrap_err KConflict ('': '' @ err)
                        else wrap_err KInternal ('': update: '' @ err)), d)
              | (Inr n, d) \<Rightarrow> (if n = 0 then Err (not_found resourceType rid) else Ok clone, d)))"

definition my_deleteJSONMode ::
    "my_config \<Rightarrow> 'd sqldb \<Rightarrow> env \<Rightarrow> string \<Rightarrow> string \<Rightarrow> 'd \<Rightarrow> (store_error, unit) outcome \<times> 'd" where
  "my_deleteJSONMode cfg db e resourceType rid d =
     (case db_exec db e (my_delete (my_table cfg resourceType)) [SV (GStr rid)] d of
        (Inl err, d) \<Rightarrow> (Err (wrap_err KInternal ('': delete: '' @ err)), d)
      | (Inr n, d) \<Rightarrow> (if n = 0 then Err (not_found resourceType rid) else Ok (), d))"

subsection \<open>The store\<close>

definition my_Create :: "my_config \<Rightarrow> 'd sqldb \<Rightarrow> env \<Rightarrow> string \<Rightarrow> resource \<Rightarrow> 'd \<Rightarrow> (store_error, resource) outcome \<times> 'd" where
  "my_Create cfg db e resourceType res =
     by_mode (my_resourceConfigs cfg) resourceType (\<lambda>c. createColumnMode DialectMySQL db c e resourceType res)
       (my_createJSONMode cfg db e resourceType res)"

definition my_Get :: "my_config \<Rightarrow> 'd sqldb \<Rightarrow> env \<Rightarrow> string \<Rightarrow> string \<Rightarrow> 'd \<Rightarrow> (store_error, resource) outcome \<times> 'd" where
  "my_Get cfg db e resourceType rid =
     by_mode (my_resourceConfigs cfg) resourceType (\<lambda>c. getColumnMode DialectMySQL db c e resourceType rid)
       (my_getJSONMode cfg db e resourceType rid)"

definition my_List :: "my_config \<Rightarrow> 'd sqldb \<Rightarrow> env \<Rightarrow> string \<Rightarrow> ListParams \<Rightarrow> 'd \<Rightarrow> (store_error, ListResult) outcome \<times> 'd" where
  "my_List cfg db e resourceType lp =
     by_mode (my_resourceConfigs cfg) resourceType
       (\<lambda>c. listColumnMode DialectMySQL db (mapperFor (my_resourceConfigs cfg) resourceType) c e resourceType lp)
       (my_listJSONMode cfg db e resourceType lp)"

definition my_Replace ::
    "my_config \<Rightarrow> 'd sqldb \<Rightarrow> env \<Rightarrow> string \<Rightarrow> string \<Rightarrow> resource \<Rightarrow> 'd \<Rightarrow> (store_error, resource) outcome \<times> 'd" where
  "my_Replace cfg db e resourceType rid res =
     by_mode (my_resourceConfigs cfg) resourceType (\<lambda>c. replaceColumnMode DialectMySQL db c e resourceType rid res)
       (my_replaceJSONMode cfg db e resourceType rid res)"

definition my_Patch ::
    "my_config \<Rightarrow> 'd sqldb \<Rightarrow> env \<Rightarrow> string \<Rightarrow> string \<Rightarrow> PatchOp list \<Rightarrow> 'd \<Rightarrow> (store_error, resource) outcome \<times> 'd" where
  "my_Patch cfg db e resourceType rid =
     patch_with (my_Get cfg db e resourceType rid) (my_Replace cfg db e resourceType rid)"

definition my_Delete :: "my_config \<Rightarrow> 'd sqldb \<Rightarrow> env \<Rightarrow> string \<Rightarrow> string \<Rightarrow> 'd \<Rightarrow> (store_error, unit) outcome \<times> 'd" where
  "my_Delete cfg db e resourceType rid =
     by_mode (my_resourceConfigs cfg) resourceType (\<lambda>c. deleteColumnMode DialectMySQL db c e resourceType rid)
       (my_deleteJSONMode cfg db e resourceType rid)"

definition mysql_ops :: "my_config \<Rightarrow> 'd sqldb \<Rightarrow> 'd store_ops" where
  "mysql_ops cfg db =
     \<lparr>st_Create = my_Create cfg db, st_Get = my_Get cfg db, st_List = my_List cfg db, st_Replace = my_Replace cfg db,
      st_Patch = my_Patch cfg db, st_Delete = my_Delete cfg db\<rparr>"

end
