(* ===== verification/Sql_Laws.thy ===== *)
theory Sql_Laws
  imports Sql_Database Document_Store
begin

text \<open>
  What the stores rely on of a relational database, as a locale: tables of rows with a primary key \<open>id\<close>, compared byte
  by byte.  \<open>parse\<close> is how the database reads the text of a statement.  The laws are those of SQL for a statement outside
  of a transaction: an insertion adds a row under an id that was not there, an update changes the listed columns of the
  row with the id or affects no row, a deletion removes it or affects no row, a statement that fails changes nothing, and
  a selection by id has that row or none.  What a column gives back of what was written to it is \<open>stored\<close>.
\<close>

datatype stmt =
    InsertRow string "string list"
  | SelectRow string "string list"
  | UpdateRow string "string list" bool
  | DeleteRow string

type_synonym sqlrow = "string \<Rightarrow> sqlval option"

definition cell :: "sqlrow \<Rightarrow> string \<Rightarrow> sqlval" where
  "cell row c = (case row c of Some v \<Rightarrow> v | None \<Rightarrow> SV GNil)"

definition new_cells :: "(sqlval \<Rightarrow> sqlval) \<Rightarrow> string list \<Rightarrow> sqlval list \<Rightarrow> sqlrow" where
  "new_cells stored cols vs = map_of (zip cols (map stored vs))"

definition update_args :: "bool \<Rightarrow> string \<Rightarrow> sqlval list \<Rightarrow> sqlval list" where
  "update_args id_first rid vs = (if id_first then SV (GStr rid) # vs else vs @ [SV (GStr rid)])"

locale sql_database =
  fixes db :: "'d sqldb" and parse :: "string \<Rightarrow> stmt option" and rows :: "'d \<Rightarrow> string \<times> string \<Rightarrow> sqlrow option"
    and ok :: "'d \<Rightarrow> bool" and avail :: "env \<Rightarrow> 'd \<Rightarrow> bool" and stored :: "sqlval \<Rightarrow> sqlval"
  assumes exec_insert: "ok d \<Longrightarrow> parse q = Some (InsertRow t (''id'' # cols)) \<Longrightarrow> length vs = length cols \<Longrightarrow>
      db_exec db e q (SV (GStr rid) # vs) d = (Inr n, d') \<Longrightarrow>
      ok d' \<and> rows d (t, rid) = None \<and>
      rows d' = (rows d)((t, rid) \<mapsto> new_cells stored (''id'' # cols) (SV (GStr rid) # vs))"
    and exec_update: "ok d \<Longrightarrow> parse q = Some (UpdateRow t cols id_first) \<Longrightarrow> length vs = length cols \<Longrightarrow>
      db_exec db e q (update_args id_first rid vs) d = (Inr n, d') \<Longrightarrow>
      ok d' \<and> (if n = 0 then rows d' = rows d
               else \<exists>row. rows d (t, rid) = Some row \<and> rows d' = (rows d)((t, rid) \<mapsto> row ++ new_cells stored cols vs))"
    and exec_delete: "ok d \<Longrightarrow> parse q = Some (DeleteRow t) \<Longrightarrow> db_exec db e q [SV (GStr rid)] d = (Inr n, d') \<Longrightarrow>
      ok d' \<and> (if n = 0 then rows d' = rows d
               else rows d (t, rid) \<noteq> None \<and> rows d' = (rows d)((t, rid) := None))"
    and exec_error: "ok d \<Longrightarrow> parse q \<noteq> None \<Longrightarrow> db_exec db e q vs d = (Inl err, d') \<Longrightarrow> ok d' \<and> rows d' = rows d"
    and query_select: "ok d \<Longrightarrow> parse q = Some (SelectRow t cols) \<Longrightarrow> db_query db e q [SV (GStr rid)] d = (res, d') \<Longrightarrow>
      ok d' \<and> rows d' = rows d \<and>
      (case first_row res of
         Inl err \<Rightarrow> \<not> avail e d
       | Inr None \<Rightarrow> rows d (t, rid) = None
       | Inr (Some cs) \<Rightarrow> \<exists>row. rows d (t, rid) = Some row \<and> cs = map (cell row) cols)"
    and stored_text: "scan_text (stored (SV (GStr s))) = Inr (Some s)"
    and stored_null: "scan_text (stored (SV GNil)) = Inr None"
    and stored_time: "\<exists>t1. scan_time (stored (SV (GTime t0))) = Inr t1"
    and stored_json: "stored (SJson v) = SJson v"
begin

lemma stored_nullString: "scan_text (stored (nullString s)) = Inr (if s = [] then None else Some s)"
  by (simp add: nullString_def stored_text stored_null)

end

end
