(* ===== verification/Mysql_Contract.thy ===== *)
theory Mysql_Contract
  imports Mysql_Store Sql_Laws
begin

text \<open>
  The MySQL store in JSON mode keeps the contract of a store, over every database that keeps the laws of \<open>sql_database\<close>
  and reads the statements of the connector as they are meant.
\<close>

subsection \<open>The statements\<close>

definition my_columns :: "string list" where
  "my_columns = [''id'', ''external_id'', ''meta_created'', ''meta_last_mod'', ''meta_version'', ''data'', ''schemas'']"

definition my_insert_columns :: "string \<Rightarrow> string list" where
  "my_insert_columns rt =
     (if is_user_type rt then
        [''external_id'', ''user_name'', ''meta_created'', ''meta_last_mod'', ''meta_version'', ''active'', ''data'', ''schemas'']
      else [''external_id'', ''meta_created'', ''meta_last_mod'', ''meta_version'', ''data'', ''schemas''])"

definition my_update_columns :: "string \<Rightarrow> string list" where
  "my_update_columns rt =
     (if is_user_type rt then [''external_id'', ''user_name'', ''meta_last_mod'', ''meta_version'', ''active'', ''data'', ''schemas'']
      else [''external_id'', ''meta_last_mod'', ''meta_version'', ''data'', ''schemas''])"

text \<open>The database reads the statements; the texts do not depend on the resource.\<close>

definition my_reads :: "(string \<Rightarrow> stmt option) \<Rightarrow> bool" where
  "my_reads parse =
     (\<forall>t rt c t0 rid.
        parse (fst (my_insert t rt c t0)) = Some (InsertRow t (''id'' # my_insert_columns rt)) \<and>
        parse (fst (my_update t rt c t0 rid)) = Some (UpdateRow t (my_update_columns rt) False) \<and>
        parse (my_select t) = Some (SelectRow t my_columns) \<and>
        parse (my_delete t) = Some (DeleteRow t))"

subsection \<open>Rows\<close>

definition my_view :: "string \<Rightarrow> sqlrow \<Rightarrow> resource" where
  "my_view rt row = (case scanJSONRow rt [] (map (cell row) my_columns) of Inr r \<Rightarrow> r | Inl _ \<Rightarrow> empty_resource)"

definition my_row :: "string \<Rightarrow> sqlrow \<Rightarrow> bool" where
  "my_row rid row =
     (\<exists>jr m. scan_json_row (map (cell row) my_columns) = Inr jr \<and> jr_id jr = Some rid \<and> jr_data jr = SJson (GMap m))"

lemma my_row_view:
  assumes "my_row rid row"
  shows "scanJSONRow rt msg (map (cell row) my_columns) = Inr (my_view rt row) \<and> ID (my_view rt row) = rid"
  using assms
  by (auto simp: my_row_def my_view_def scanJSONRow_def row_resource_def jsonBytesToResource_def split: option.split)

text \<open>A row with the columns of a clone reads as the clone.\<close>

definition holds_clone :: "sqlrow \<Rightarrow> resource \<Rightarrow> bool" where
  "holds_clone row c =
     (scan_text (cell row ''id'') = Inr (Some (ID c)) \<and>
      scan_text (cell row ''external_id'') = Inr (if ExternalID c = [] then None else Some (ExternalID c)) \<and>
      (\<exists>t. scan_time (cell row ''meta_created'') = Inr t) \<and> (\<exists>t. scan_time (cell row ''meta_last_mod'') = Inr t) \<and>
      scan_text (cell row ''meta_version'') = Inr (if Version (Meta c) = [] then None else Some (Version (Meta c))) \<and>
      cell row ''data'' = data_json c \<and> cell row ''schemas'' = schemas_json (Schemas c))"

lemma unmarshal_schemas [simp]: "unmarshal_strings (schemas_json ss) = Some ss"
  by (cases ss) (simp_all add: schemas_json_def list_all_iff comp_def)

lemma holds_clone_view:
  assumes "holds_clone row c" "storable c"
  shows "my_row (ID c) row \<and> same_body (my_view rt row) c"
proof -
  obtain t1 t2 where
    "scan_json_row (map (cell row) my_columns) =
       Inr \<lparr>jr_id = Some (ID c), jr_externalID = (if ExternalID c = [] then None else Some (ExternalID c)),
            jr_created = t1, jr_lastMod = t2, jr_version = (if Version (Meta c) = [] then None else Some (Version (Meta c))),
            jr_data = data_json c, jr_schemas = schemas_json (Schemas c)\<rparr>"
    using assms(1) by (auto simp: holds_clone_def scan_json_row_def my_columns_def)
  moreover have "FromMap (json_norm_map (ToMap c)) = Clone c" by (simp add: Clone_def)
  moreover have "same_body (Clone c) c" using assms(2) by (rule Clone_storable)
  ultimately show ?thesis
    by (auto simp: my_row_def my_view_def scanJSONRow_def row_resource_def jsonBytesToResource_def data_json_def same_body_def)
qed

subsection \<open>The operations as statements\<close>

definition my_ins :: "my_config \<Rightarrow> 'd sqldb \<Rightarrow> env \<Rightarrow> string \<Rightarrow> resource \<Rightarrow> 'd \<Rightarrow> (store_error, unit) outcome \<times> 'd" where
  "my_ins cfg db e rt clone d =
     (let (q, args) = my_insert (my_table cfg rt) rt clone (now e)
      in case db_exec db e q args d of
           (Inl err, d) \<Rightarrow>
             (Err (if isDuplicateEntry err then wrap_err KConflict ('': '' @ err)
                   else wrap_err KInternal ('': insert: '' @ err)), d)
         | (Inr _, d) \<Rightarrow> (Ok (), d))"

definition my_upd ::
    "my_config \<Rightarrow> 'd sqldb \<Rightarrow> env \<Rightarrow> string \<Rightarrow> string \<Rightarrow> resource \<Rightarrow> 'd \<Rightarrow> (store_error, unit) outcome \<times> 'd" where
  "my_upd cfg db e rt rid clone d =
     (let (q, args) = my_update (my_table cfg rt) rt clone (now e) rid
      in case db_exec db e q args d of
           (Inl err, d) \<Rightarrow>
             (Err (if isDuplicateEntry err then wrap_err KConflict ('': '' @ err)
                   else wrap_err KInternal ('': update: '' @ err)), d)
         | (Inr n, d) \<Rightarrow> (if n = 0 then Err (not_found rt rid) else Ok (), d))"

lemma my_create_doc: "my_createJSONMode cfg db = doc_Create (new_id DialectMySQL) (my_ins cfg db)"
  by (intro ext) (auto simp: my_createJSONMode_def doc_Create_def my_ins_def Let_def split: sum.split prod.split)

lemma my_replace_doc: "my_replaceJSONMode cfg db = doc_Replace (my_getJSONMode cfg db) (my_upd cfg db)"
  by (intro ext) (auto simp: my_replaceJSONMode_def doc_Replace_def my_upd_def Let_def split: sum.split prod.split outcome.split)

lemma mysql_ops_doc:
  assumes "json_mode (my_resourceConfigs cfg)"
  shows "mysql_ops cfg db = doc_ops (new_id DialectMySQL) (my_ins cfg db) (my_getJSONMode cfg db) (my_upd cfg db)
    (my_deleteJSONMode cfg db) (my_listJSONMode cfg db)"
proof -
  have "my_Create cfg db = my_createJSONMode cfg db" "my_Get cfg db = my_getJSONMode cfg db"
    "my_List cfg db = my_listJSONMode cfg db" "my_Replace cfg db = my_replaceJSONMode cfg db"
    "my_Delete cfg db = my_deleteJSONMode cfg db"
    by (intro ext, simp add: my_Create_def my_Get_def my_List_def my_Replace_def my_Delete_def by_mode_json [OF assms])+
  moreover from this have "my_Patch cfg db =
      (\<lambda>e rt rid. patch_with (my_getJSONMode cfg db e rt rid) (doc_Replace (my_getJSONMode cfg db) (my_upd cfg db) e rt rid))"
    by (intro ext) (simp only: my_Patch_def my_replace_doc)
  ultimately show ?thesis by (simp only: mysql_ops_def doc_ops_def my_create_doc my_replace_doc)
qed

subsection \<open>The contract\<close>

definition my_inv :: "my_config \<Rightarrow> ('d \<Rightarrow> string \<times> string \<Rightarrow> sqlrow option) \<Rightarrow> ('d \<Rightarrow> bool) \<Rightarrow> 'd \<Rightarrow> bool" where
  "my_inv cfg rows ok d = (ok d \<and> (\<forall>rt rid row. rows d (my_table cfg rt, rid) = Some row \<longrightarrow> my_row rid row))"

lemma my_inv_same: "my_inv cfg rows ok d \<Longrightarrow> ok d' \<Longrightarrow> rows d' = rows d \<Longrightarrow> my_inv cfg rows ok d'"
  by (simp add: my_inv_def)

lemma my_inv_put:
  "my_inv cfg rows ok d \<Longrightarrow> ok d' \<Longrightarrow> rows d' = (rows d)((t, rid) \<mapsto> row) \<Longrightarrow> my_row rid row \<Longrightarrow> my_inv cfg rows ok d'"
  by (simp add: my_inv_def)

lemma my_inv_del: "my_inv cfg rows ok d \<Longrightarrow> ok d' \<Longrightarrow> rows d' = (rows d)((t, rid) := None) \<Longrightarrow> my_inv cfg rows ok d'"
  by (simp add: my_inv_def)

locale mysql_database = sql_database db parse rows ok avail stored
  for db :: "'d sqldb" and parse :: "string \<Rightarrow> stmt option" and rows :: "'d \<Rightarrow> string \<times> string \<Rightarrow> sqlrow option"
    and ok :: "'d \<Rightarrow> bool" and avail :: "env \<Rightarrow> 'd \<Rightarrow> bool" and stored :: "sqlval \<Rightarrow> sqlval" +
  fixes cfg :: my_config
  assumes reads: "my_reads parse" and json: "json_mode (my_resourceConfigs cfg)"
begin

lemma insert_holds:
  assumes "my_insert t rt c t0 = (q, args)"
  shows "\<exists>vs. args = SV (GStr (ID c)) # vs \<and> length vs = length (my_insert_columns rt) \<and>
    holds_clone (new_cells stored (''id'' # my_insert_columns rt) args) c"
proof -
  obtain t1 where t1: "scan_time (stored (SV (GTime t0))) = Inr t1" using stored_time by blast
  show ?thesis
    using assms
    by (cases "is_user_type rt")
      (auto simp: my_insert_def my_insert_columns_def holds_clone_def cell_def new_cells_def stored_text stored_nullString
        stored_json t1 data_json_def schemas_json_def)
qed

lemma update_holds:
  assumes "my_update t rt c t0 (ID c) = (q, args)" "my_row (ID c) row"
  shows "\<exists>vs. args = update_args False (ID c) vs \<and> length vs = length (my_update_columns rt) \<and>
    holds_clone (row ++ new_cells stored (my_update_columns rt) vs) c"
proof -
  obtain t1 where t1: "scan_time (stored (SV (GTime t0))) = Inr t1" using stored_time by blast
  obtain jr where "scan_json_row (map (cell row) my_columns) = Inr jr" "jr_id jr = Some (ID c)"
    using assms(2) by (auto simp: my_row_def)
  then have "scan_text (cell row ''id'') = Inr (Some (ID c))" "\<exists>t. scan_time (cell row ''meta_created'') = Inr t"
    by (auto simp: scan_json_row_def my_columns_def split: sum.splits)
  then show ?thesis
    using assms(1)
    by (cases "is_user_type rt")
      (auto simp: my_update_def my_update_columns_def update_args_def holds_clone_def cell_def new_cells_def map_add_def
        stored_text stored_nullString stored_json t1 data_json_def schemas_json_def)
qed

lemma select_row:
  assumes "my_inv cfg rows ok d" "my_getJSONMode cfg db e rt rid d = (res, d')"
  shows "my_inv cfg rows ok d' \<and> rows d' = rows d \<and>
    (case res of
       Ok r \<Rightarrow> \<exists>row. rows d (my_table cfg rt, rid) = Some row \<and> r = my_view rt row
     | Err k \<Rightarrow> rows d (my_table cfg rt, rid) = None \<or> \<not> avail e d
     | Panic p \<Rightarrow> False)"
proof -
  obtain qres where q: "db_query db e (my_select (my_table cfg rt)) [SV (GStr rid)] d = (qres, d')"
    using assms(2) by (cases "db_query db e (my_select (my_table cfg rt)) [SV (GStr rid)] d") (simp add: my_getJSONMode_def)
  have "parse (my_select (my_table cfg rt)) = Some (SelectRow (my_table cfg rt) my_columns)"
    using reads by (simp add: my_reads_def)
  from query_select [OF _ this q] assms(1) have r: "ok d'" "rows d' = rows d"
    "case first_row qres of Inl err \<Rightarrow> \<not> avail e d | Inr None \<Rightarrow> rows d (my_table cfg rt, rid) = None
     | Inr (Some cs) \<Rightarrow> \<exists>row. rows d (my_table cfg rt, rid) = Some row \<and> cs = map (cell row) my_columns"
    by (auto simp: my_inv_def)
  have inv: "my_inv cfg rows ok d'" using my_inv_same [OF assms(1) r(1,2)] .
  show ?thesis
  proof (cases "first_row qres")
    case (Inl err)
    then show ?thesis using assms(2) q r inv by (auto simp: my_getJSONMode_def)
  next
    case (Inr row)
    show ?thesis
    proof (cases row)
      case None
      then show ?thesis using Inr assms(2) q r inv by (auto simp: my_getJSONMode_def)
    next
      case (Some cs)
      then obtain rw where rw: "rows d (my_table cfg rt, rid) = Some rw" "cs = map (cell rw) my_columns" using Inr r(3) by auto
      then have "my_row rid rw" using assms(1) by (auto simp: my_inv_def)
      from my_row_view [OF this] show ?thesis using Some Inr assms(2) q r inv rw by (auto simp: my_getJSONMode_def)
    qed
  qed
qed

end

sublocale mysql_database \<subseteq> my: document_backend "new_id DialectMySQL" "my_ins cfg db" "my_getJSONMode cfg db"
    "my_upd cfg db" "my_deleteJSONMode cfg db" "my_listJSONMode cfg db" rows "my_inv cfg rows ok" "my_table cfg"
    my_view avail
proof (unfold_locales, goal_cases)
  case (1 d c e rt u d')
  obtain q args where q: "my_insert (my_table cfg rt) rt c (now e) = (q, args)" by fastforce
  then obtain vs where vs: "args = SV (GStr (ID c)) # vs" "length vs = length (my_insert_columns rt)"
    "holds_clone (new_cells stored (''id'' # my_insert_columns rt) args) c" using insert_holds by blast
  obtain n where n: "db_exec db e q (SV (GStr (ID c)) # vs) d = (Inr n, d')"
    using 1(3) q vs(1) by (auto simp: my_ins_def split: prod.splits sum.splits)
  have "parse q = Some (InsertRow (my_table cfg rt) (''id'' # my_insert_columns rt))"
    using reads q by (metis my_reads_def fst_conv)
  from exec_insert [OF _ this vs(2) n] 1(1)
  have d': "ok d'" "rows d (my_table cfg rt, ID c) = None"
    "rows d' = (rows d)((my_table cfg rt, ID c) \<mapsto> new_cells stored (''id'' # my_insert_columns rt) args)"
    by (auto simp: my_inv_def vs(1))
  then show ?case using holds_clone_view [OF vs(3) 1(2)] my_inv_put [OF 1(1) d'(1) d'(3)] by blast
next
  case (2 d e rt c k d')
  obtain q args where q: "my_insert (my_table cfg rt) rt c (now e) = (q, args)" by fastforce
  then obtain err where err: "db_exec db e q args d = (Inl err, d')"
    using 2(2) by (auto simp: my_ins_def split: prod.splits sum.splits)
  have "parse q \<noteq> None" using reads q by (metis my_reads_def fst_conv option.discI)
  from exec_error [OF _ this err] 2(1) show ?case by (auto simp: my_inv_def)
next
  case (3 d e rt rid r d')
  from select_row [OF this] show ?case by simp
next
  case (4 d e rt rid k d')
  from select_row [OF this] show ?case by auto
next
  case (5 d e rt rid m)
  then show ?case by (auto simp: my_getJSONMode_def split: prod.split sum.split option.split)
next
  case (6 d c rid rt e u d')
  obtain q args where q: "my_update (my_table cfg rt) rt c (now e) rid = (q, args)" by fastforce
  obtain row where row: "rows d (my_table cfg rt, rid) = Some row" using 6(4) by blast
  then have "my_row (ID c) row" using 6(1,3) by (auto simp: my_inv_def)
  from update_holds [OF q [folded 6(3)] this] obtain vs where vs: "args = update_args False rid vs"
    "length vs = length (my_update_columns rt)" "holds_clone (row ++ new_cells stored (my_update_columns rt) vs) c"
    using 6(3) by blast
  obtain n where n: "db_exec db e q (update_args False rid vs) d = (Inr n, d')" "n \<noteq> 0"
    using 6(5) q vs(1) by (auto simp: my_upd_def split: prod.splits sum.splits if_splits)
  have "parse q = Some (UpdateRow (my_table cfg rt) (my_update_columns rt) False)"
    using reads q by (metis my_reads_def fst_conv)
  from exec_update [OF _ this vs(2) n(1)] 6(1) n(2) row
  have d': "ok d'" "rows d' = (rows d)((my_table cfg rt, rid) \<mapsto> row ++ new_cells stored (my_update_columns rt) vs)"
    by (auto simp: my_inv_def)
  then show ?case using holds_clone_view [OF vs(3) 6(2)] my_inv_put [OF 6(1) d'] 6(3) by blast
next
  case (7 d e rt rid c k d')
  obtain q args where q: "my_update (my_table cfg rt) rt c (now e) rid = (q, args)" by fastforce
  have p: "parse q = Some (UpdateRow (my_table cfg rt) (my_update_columns rt) False)"
    using reads q by (metis my_reads_def fst_conv)
  have "\<exists>vs. args = update_args False rid vs \<and> length vs = length (my_update_columns rt)"
    using q by (cases "is_user_type rt") (auto simp: my_update_def my_update_columns_def update_args_def)
  then obtain vs where vs: "args = update_args False rid vs" "length vs = length (my_update_columns rt)" by blast
  consider err where "db_exec db e q args d = (Inl err, d')" | "db_exec db e q args d = (Inr 0, d')"
    using 7(2) q by (auto simp: my_upd_def split: prod.splits sum.splits if_splits)
  then show ?case
  proof cases
    case 1
    from exec_error [OF _ _ this] 7(1) p show ?thesis by (auto simp: my_inv_def)
  next
    case 2
    from exec_update [OF _ p vs(2) 2 [unfolded vs(1)]] 7(1) show ?thesis by (auto simp: my_inv_def)
  qed
next
  case (8 d e rt rid u d')
  then obtain n where n: "db_exec db e (my_delete (my_table cfg rt)) [SV (GStr rid)] d = (Inr n, d')" "n \<noteq> 0"
    by (auto simp: my_deleteJSONMode_def split: prod.splits sum.splits if_splits)
  have "parse (my_delete (my_table cfg rt)) = Some (DeleteRow (my_table cfg rt))" using reads by (simp add: my_reads_def)
  from exec_delete [OF _ this n(1)] 8(1) n(2) show ?case by (auto simp: my_inv_def)
next
  case (9 d e rt rid k d')
  have p: "parse (my_delete (my_table cfg rt)) = Some (DeleteRow (my_table cfg rt))" using reads by (simp add: my_reads_def)
  consider err where "db_exec db e (my_delete (my_table cfg rt)) [SV (GStr rid)] d = (Inl err, d')"
    | "db_exec db e (my_delete (my_table cfg rt)) [SV (GStr rid)] d = (Inr 0, d')"
    using 9(2) by (auto simp: my_deleteJSONMode_def split: prod.splits sum.splits if_splits)
  then show ?case
  proof cases
    case 1
    from exec_error [OF _ _ this] 9(1) p show ?thesis by (auto simp: my_inv_def)
  next
    case 2
    from exec_delete [OF _ p 2] 9(1) show ?thesis by (auto simp: my_inv_def)
  qed
qed

end
