(* ===== verification/Postgres_Store.thy ===== *)
theory Postgres_Store
  imports Sql_Columns Schema Document_Store
begin

text \<open>
  The PostgreSQL store (\<open>connector/postgres/store.go\<close>, \<open>query.go\<close>, \<open>schema.go\<close>, \<open>options.go\<close>).  In JSON mode a resource
  is read from the document in the column \<open>data\<close> alone.  A filter that cannot be translated is evaluated by the
  connector, on the first thousand rows.
\<close>

subsection \<open>Configuration\<close>

record pg_config =
  pg_dsn :: string
  pg_tablePrefix :: string
  pg_autoMigrate :: bool
  pg_registry :: "Registry option"
  pg_maxConns :: int
  pg_minConns :: int
  pg_connTimeout :: int
  pg_resourceConfigs :: "ResourceTableConfig gmap"

definition pg_defaultConfig :: pg_config where
  "pg_defaultConfig =
     \<lparr>pg_dsn = [], pg_tablePrefix = ''scim_'', pg_autoMigrate = False, pg_registry = None, pg_maxConns = 10,
      pg_minConns = 2, pg_connTimeout = 30 * second_ns, pg_resourceConfigs = []\<rparr>"

type_synonym pg_option = "pg_config \<Rightarrow> pg_config"

definition pg_WithDSN :: "string \<Rightarrow> pg_option" where
  "pg_WithDSN dsn c = c\<lparr>pg_dsn := dsn\<rparr>"

definition pg_WithTablePrefix :: "string \<Rightarrow> pg_option" where
  "pg_WithTablePrefix prefix c = c\<lparr>pg_tablePrefix := prefix\<rparr>"

definition pg_WithAutoMigrate :: "bool \<Rightarrow> pg_option" where
  "pg_WithAutoMigrate enabled c = c\<lparr>pg_autoMigrate := enabled\<rparr>"

definition pg_WithSchemaRegistry :: "Registry \<Rightarrow> pg_option" where
  "pg_WithSchemaRegistry reg c = c\<lparr>pg_registry := Some reg\<rparr>"

definition pg_WithMaxConns :: "int \<Rightarrow> pg_option" where
  "pg_WithMaxConns n c = c\<lparr>pg_maxConns := n\<rparr>"

definition pg_WithMinConns :: "int \<Rightarrow> pg_option" where
  "pg_WithMinConns n c = c\<lparr>pg_minConns := n\<rparr>"

definition pg_WithConnTimeout :: "int \<Rightarrow> pg_option" where
  "pg_WithConnTimeout n c = c\<lparr>pg_connTimeout := n\<rparr>"

definition pg_resource :: "string \<Rightarrow> (ResourceTableConfig \<Rightarrow> ResourceTableConfig) \<Rightarrow> pg_option" where
  "pg_resource resourceType f c = c\<lparr>pg_resourceConfigs := with_resource resourceType f (pg_resourceConfigs c)\<rparr>"

definition pg_WithTableName :: "string \<Rightarrow> string \<Rightarrow> pg_option" where
  "pg_WithTableName resourceType t = pg_resource resourceType (\<lambda>cfg. cfg\<lparr>rc_Table := t\<rparr>)"

definition pg_WithFieldMapping :: "string \<Rightarrow> string \<Rightarrow> string \<Rightarrow> pg_option" where
  "pg_WithFieldMapping resourceType scimAttr col =
     pg_resource resourceType
       (\<lambda>cfg. cfg\<lparr>FieldMappings := map_put scimAttr \<lparr>Table = [], Column = col\<rparr> (FieldMappings cfg)\<rparr>)"

definition pg_WithTableFieldMapping :: "string \<Rightarrow> string \<Rightarrow> string \<Rightarrow> string \<Rightarrow> pg_option" where
  "pg_WithTableFieldMapping resourceType scimAttr t col =
     pg_resource resourceType
       (\<lambda>cfg. cfg\<lparr>FieldMappings := map_put scimAttr \<lparr>Table = t, Column = col\<rparr> (FieldMappings cfg)\<rparr>)"

definition pg_WithJoin :: "string \<Rightarrow> JoinDef \<Rightarrow> pg_option" where
  "pg_WithJoin resourceType jd = pg_resource resourceType (\<lambda>cfg. cfg\<lparr>Joins := Joins cfg @ [jd]\<rparr>)"

definition pg_WithResourceConfig :: "string \<Rightarrow> ResourceTableConfig \<Rightarrow> pg_option" where
  "pg_WithResourceConfig resourceType rc = pg_resource resourceType (\<lambda>_. rc)"

definition pg_New :: "pg_option list \<Rightarrow> string + pg_config" where
  "pg_New opts =
     (let cfg = foldl (\<lambda>c opt. opt c) pg_defaultConfig opts
      in if pg_dsn cfg = [] then Inl ''postgres store: DSN is required (use WithDSN)'' else Inr cfg)"

definition pg_table :: "pg_config \<Rightarrow> string \<Rightarrow> string" where
  "pg_table cfg resourceType = tableName (pg_resourceConfigs cfg) (pg_tablePrefix cfg) resourceType"

subsection \<open>Connection and schema\<close>

abbreviation qi :: "string \<Rightarrow> string" where "qi \<equiv> quote DialectPostgres"

definition pg_ddl :: "string \<Rightarrow> string \<Rightarrow> string" where
  "pg_ddl t uniq =
     [CHR 0x0A] @ ''CREATE TABLE IF NOT EXISTS '' @ qi t @ '' ('' @ [CHR 0x0A] @
     ''    id            TEXT NOT NULL PRIMARY KEY,'' @ [CHR 0x0A] @ ''    external_id   TEXT,'' @ [CHR 0x0A] @
     ''    user_name     TEXT'' @ uniq @ '','' @ [CHR 0x0A] @
     ''    meta_created  TIMESTAMPTZ NOT NULL DEFAULT now(),'' @ [CHR 0x0A] @
     ''    meta_last_mod TIMESTAMPTZ NOT NULL DEFAULT now(),'' @ [CHR 0x0A] @ ''    meta_version  TEXT,'' @
     [CHR 0x0A] @ ''    active        BOOLEAN NOT NULL DEFAULT true,'' @ [CHR 0x0A] @
     ''    data          JSONB NOT NULL,'' @ [CHR 0x0A] @ ''    schemas       TEXT[]'' @ [CHR 0x0A] @ '')''"

text \<open>The error of creating the index is discarded.\<close>

definition migrateResourceType :: "pg_config \<Rightarrow> 'd sqldb \<Rightarrow> env \<Rightarrow> ResourceType \<Rightarrow> 'd step" where
  "migrateResourceType cfg db e rt d =
     (let t = pg_table cfg (rt_Name rt)
      in case db_exec db e (pg_ddl t (if EqualFold (rt_Name rt) ''User'' then '' UNIQUE'' else [])) [] d of
           (Inl err, d) \<Rightarrow> (Some (''create table '' @ t @ '': '' @ err), d)
         | (Inr _, d) \<Rightarrow>
             (None, snd (db_exec db e
                (''CREATE INDEX IF NOT EXISTS '' @ qi (t @ ''_data_gin'') @ '' ON '' @ qi t @ '' USING GIN (data)'') [] d)))"

fun migrate_types :: "pg_config \<Rightarrow> 'd sqldb \<Rightarrow> env \<Rightarrow> ResourceType list \<Rightarrow> 'd step" where
  "migrate_types cfg db e [] d = (None, d)"
| "migrate_types cfg db e (rt # rts) d =
     (if isColumnMode (pg_resourceConfigs cfg) (rt_Name rt) then migrate_types cfg db e rts d
      else (case migrateResourceType cfg db e rt d of
              (Some err, d) \<Rightarrow> (Some (''migrate '' @ rt_Name rt @ '': '' @ err), d)
            | (None, d) \<Rightarrow> migrate_types cfg db e rts d))"

definition pg_migrate :: "pg_config \<Rightarrow> 'd sqldb \<Rightarrow> env \<Rightarrow> 'd step" where
  "pg_migrate cfg db e d =
     (case pg_registry cfg of None \<Rightarrow> (None, d) | Some reg \<Rightarrow> migrate_types cfg db e (Registry_ResourceTypes reg) d)"

text \<open>\<open>Init\<close>; \<open>db_open\<close> is parsing the DSN and creating the pool, whose two errors \<open>perr\<close> tells apart.\<close>

definition pg_Init :: "pg_config \<Rightarrow> string option \<Rightarrow> 'd sqldb \<Rightarrow> env \<Rightarrow> 'd step" where
  "pg_Init cfg perr db e d =
     (case perr of
        Some err \<Rightarrow> (Some (''postgres store: parse DSN: '' @ err), d)
      | None \<Rightarrow>
          (case db_open db (pg_dsn cfg) d of
             (Some err, d) \<Rightarrow> (Some (''postgres store: create pool: '' @ err), d)
           | (None, d) \<Rightarrow>
               if pg_autoMigrate cfg then
                 (case pg_migrate cfg db e d of
                    (Some err, d) \<Rightarrow> (Some (''postgres store: migration failed: '' @ err), snd (db_close db d))
                  | (None, d) \<Rightarrow> (None, d))
               else (None, d)))"

text \<open>\<open>Close\<close> clears the pool; the flag says whether there is one.\<close>

definition pg_Close :: "bool \<Rightarrow> 'd sqldb \<Rightarrow> 'd \<Rightarrow> bool \<times> 'd" where
  "pg_Close initialised db d = (False, if initialised then snd (db_close db d) else d)"

definition pg_Healthy :: "bool \<Rightarrow> string option \<Rightarrow> 'd sqldb \<Rightarrow> env \<Rightarrow> 'd step" where
  "pg_Healthy initialised acquire_err db e d =
     (if \<not> initialised then (Some ''postgres store: pool not initialised'', d)
      else (case acquire_err of
              Some err \<Rightarrow> (Some (''postgres store: acquire connection: '' @ err), d)
            | None \<Rightarrow> db_ping db e d))"

subsection \<open>Statements in JSON mode\<close>

definition extractUserName :: "resource \<Rightarrow> string" where
  "extractUserName r =
     (case find (\<lambda>(k, v). EqualFold k ''userName'' \<and> (case v of GStr _ \<Rightarrow> True | _ \<Rightarrow> False)) (Attributes r) of
        Some (_, GStr s) \<Rightarrow> s | _ \<Rightarrow> [])"

definition extractActive :: "resource \<Rightarrow> bool" where
  "extractActive r =
     (case find (\<lambda>(k, v). EqualFold k ''active'' \<and> (case v of GBool _ \<Rightarrow> True | _ \<Rightarrow> False)) (Attributes r) of
        Some (_, GBool b) \<Rightarrow> b | _ \<Rightarrow> True)"

text \<open>A nil slice of strings is \<open>NULL\<close>.\<close>

definition pg_schemas :: "string list \<Rightarrow> sqlval" where
  "pg_schemas ss = SV (if ss = [] then GNil else GStrs ss)"

definition pg_data :: "resource \<Rightarrow> sqlval" where
  "pg_data r = SJson (GMap (json_norm_map (ToMap r)))"

definition pg_insert_head :: string where
  "pg_insert_head = [CHR 0x0A, CHR 0x09, CHR 0x09] @ ''INSERT INTO ''"

definition pg_insert_rest :: string where
  "pg_insert_rest =
     [CHR 0x0A, CHR 0x09, CHR 0x09, CHR 0x09] @
     ''(id, external_id, user_name, meta_created, meta_last_mod, meta_version, active, data, schemas)'' @
     [CHR 0x0A, CHR 0x09, CHR 0x09] @ ''VALUES ($1, $2, $3, $4, $5, $6, $7, $8, $9)'' @ [CHR 0x0A, CHR 0x09]"

definition pg_insert_text :: "string \<Rightarrow> string" where
  "pg_insert_text t = pg_insert_head @ qi t @ pg_insert_rest"

definition pg_insert_args :: "resource \<Rightarrow> sqlval list" where
  "pg_insert_args clone =
     [SV (GStr (ID clone)), nullString (ExternalID clone), nullString (extractUserName clone),
      SV (GTime (Created (Meta clone))), SV (GTime (LastModified (Meta clone))), nullString (Version (Meta clone)),
      SV (GBool (extractActive clone)), pg_data clone, pg_schemas (Schemas clone)]"

definition pg_update_head :: string where
  "pg_update_head = [CHR 0x0A, CHR 0x09, CHR 0x09] @ ''UPDATE ''"

definition pg_update_rest :: string where
  "pg_update_rest =
     '' SET'' @ [CHR 0x0A, CHR 0x09, CHR 0x09, CHR 0x09] @ ''external_id   = $2,'' @
     [CHR 0x0A, CHR 0x09, CHR 0x09, CHR 0x09] @ ''user_name     = $3,'' @ [CHR 0x0A, CHR 0x09, CHR 0x09, CHR 0x09] @
     ''meta_last_mod = $4,'' @ [CHR 0x0A, CHR 0x09, CHR 0x09, CHR 0x09] @ ''meta_version  = $5,'' @
     [CHR 0x0A, CHR 0x09, CHR 0x09, CHR 0x09] @ ''active        = $6,'' @ [CHR 0x0A, CHR 0x09, CHR 0x09, CHR 0x09] @
     ''data          = $7,'' @ [CHR 0x0A, CHR 0x09, CHR 0x09, CHR 0x09] @ ''schemas       = $8'' @
     [CHR 0x0A, CHR 0x09, CHR 0x09] @ ''WHERE id = $1'' @ [CHR 0x0A, CHR 0x09]"

definition pg_update_text :: "string \<Rightarrow> string" where
  "pg_update_text t = pg_update_head @ qi t @ pg_update_rest"

definition pg_update_args :: "resource \<Rightarrow> sqlval list" where
  "pg_update_args clone =
     [nullString (ExternalID clone), nullString (extractUserName clone), SV (GTime (LastModified (Meta clone))),
      nullString (Version (Meta clone)), SV (GBool (extractActive clone)), pg_data clone, pg_schemas (Schemas clone)]"

definition pg_select :: "string \<Rightarrow> string" where
  "pg_select t = ''SELECT data FROM '' @ qi t @ '' WHERE id = $1''"

definition pg_delete :: "string \<Rightarrow> string" where
  "pg_delete t = ''DELETE FROM '' @ qi t @ '' WHERE id = $1''"

definition pg_scanJSONRow :: "sqlval list \<Rightarrow> string + resource" where
  "pg_scanJSONRow row =
     (case row of
        [c] \<Rightarrow>
          (case unmarshal_map c of
             Inl err \<Rightarrow> Inl (''unmarshal resource JSON: '' @ err)
           | Inr m \<Rightarrow> Inr (FromMap m))
      | _ \<Rightarrow> Inl scan_error)"

subsection \<open>Queries\<close>

text \<open>The translation of a filter: a panic, an error, or a result.\<close>

definition pg_translate :: "FilterExpression option \<Rightarrow> (string, string \<times> sqlval list) outcome" where
  "pg_translate f =
     (case TranslateFilter f NewMapper DialectPostgres [] of
        Ok fr \<Rightarrow> (case FErr fr of Some err \<Rightarrow> Err err | None \<Rightarrow> Ok (Clause fr, map SV (Args fr)))
      | Err p \<Rightarrow> Panic p
      | Panic p \<Rightarrow> Panic p)"

definition buildListQuery :: "string \<Rightarrow> ListParams \<Rightarrow> (string, string \<times> sqlval list) outcome" where
  "buildListQuery t lp =
     (case pg_translate (Filter lp) of
        Err err \<Rightarrow> Err err
      | Panic p \<Rightarrow> Panic p
      | Ok (clause, args) \<Rightarrow>
          (let ord = (if SortBy lp = [] then []
                      else (case ColumnName NewMapper (SortBy lp) of
                              None \<Rightarrow> []
                            | Some col \<Rightarrow> '' ORDER BY '' @ qi col @ (if LSortOrder lp = SortDescending then '' DESC'' else '' ASC'')));
               (lim, largs) = (if Count lp > 0
                               then ('' LIMIT $'' @ nat_str (Suc (length args)), [SV (GInt KInt (Count lp))]) else ([], []));
               (off, oargs) = (if StartIndex lp > 1
                               then ('' OFFSET $'' @ nat_str (Suc (length args + length largs)), [SV (GInt KInt (StartIndex lp - 1))])
                               else ([], []))
           in Ok (''SELECT data FROM '' @ qi t @ (if clause \<noteq> [] then '' WHERE '' @ clause else []) @ ord @ lim @ off,
                  args @ largs @ oargs)))"

definition buildCountQuery :: "string \<Rightarrow> FilterExpression option \<Rightarrow> (string, string \<times> sqlval list) outcome" where
  "buildCountQuery t f =
     (case pg_translate f of
        Err err \<Rightarrow> Err err
      | Panic p \<Rightarrow> Panic p
      | Ok (clause, args) \<Rightarrow> Ok (''SELECT COUNT(*) FROM '' @ qi t @ (if clause \<noteq> [] then '' WHERE '' @ clause else []), args))"

definition buildFallbackQuery :: "string \<Rightarrow> string \<times> sqlval list" where
  "buildFallbackQuery t = (''SELECT data FROM '' @ qi t @ '' LIMIT 1000'', [])"

subsection \<open>Operations in JSON mode\<close>

definition pg_createJSONMode ::
    "pg_config \<Rightarrow> 'd sqldb \<Rightarrow> env \<Rightarrow> string \<Rightarrow> resource \<Rightarrow> 'd \<Rightarrow> (store_error, resource) outcome \<times> 'd" where
  "pg_createJSONMode cfg db e resourceType res d =
     (case new_id DialectPostgres e of
        Inl err \<Rightarrow> (Err err, d)
      | Inr rid \<Rightarrow>
          (let clone = stamp_new rid resourceType (now e) (Clone res)
           in case db_exec db e (pg_insert_text (pg_table cfg resourceType)) (pg_insert_args clone) d of
                (Inl err, d) \<Rightarrow>
                  (Err (if isUniqueViolation err then wrap_err KConflict ('': '' @ err)
                        else wrap_err KInternal ('': insert: '' @ err)), d)
              | (Inr _, d) \<Rightarrow> (Ok clone, d)))"

definition pg_getJSONMode ::
    "pg_config \<Rightarrow> 'd sqldb \<Rightarrow> env \<Rightarrow> string \<Rightarrow> string \<Rightarrow> 'd \<Rightarrow> (store_error, resource) outcome \<times> 'd" where
  "pg_getJSONMode cfg db e resourceType rid d =
     (case db_query db e (pg_select (pg_table cfg resourceType)) [SV (GStr rid)] d of
        (res, d) \<Rightarrow>
          ((case first_row res of
              Inl err \<Rightarrow> Err (wrap_err KInternal ('': get: '' @ err))
            | Inr None \<Rightarrow> Err (not_found resourceType rid)
            | Inr (Some row) \<Rightarrow>
                (case pg_scanJSONRow row of
                   Inl err \<Rightarrow> Err (wrap_err KInternal ('': get: '' @ err))
                 | Inr r \<Rightarrow> Ok r)), d))"

text \<open>Filtering, sorting and paging in the connector.\<close>

definition client_list :: "ListParams \<Rightarrow> resource list \<Rightarrow> (store_error, ListResult) outcome" where
  "client_list lp resources =
     (let filtered = filter (\<lambda>r. case Filter lp of None \<Rightarrow> True | Some f \<Rightarrow> EvalFilter f r) resources;
          filtered = (if SortBy lp \<noteq> [] then SortResources filtered (SortBy lp) (LSortOrder lp) else filtered)
      in case page_of filtered (StartIndex lp) (if Count lp \<le> 0 then -1 else Count lp) of
           None \<Rightarrow> Panic ''runtime error: slice bounds out of range''
         | Some (startIndex, page) \<Rightarrow>
             Ok \<lparr>Resources = page, TotalResults = int (length filtered), LStartIndex = startIndex,
                 ItemsPerPage = int (length page), NeedsClientFilter = False\<rparr>)"

definition pg_count :: "'d sqldb \<Rightarrow> env \<Rightarrow> string \<Rightarrow> FilterExpression option \<Rightarrow> 'd \<Rightarrow> (store_error, int option) outcome \<times> 'd" where
  "pg_count db e t f d =
     (case buildCountQuery t f of
        Panic p \<Rightarrow> (Panic p, d)
      | Err _ \<Rightarrow> (Ok None, d)
      | Ok (q, args) \<Rightarrow>
          (case count_rows db e q args d of
             (Inl err, d) \<Rightarrow> (Err (wrap_err KInternal ('': count query: '' @ err)), d)
           | (Inr n, d) \<Rightarrow> (Ok (Some n), d)))"

definition pg_listJSONMode ::
    "pg_config \<Rightarrow> 'd sqldb \<Rightarrow> env \<Rightarrow> string \<Rightarrow> ListParams \<Rightarrow> 'd \<Rightarrow> (store_error, ListResult) outcome \<times> 'd" where
  "pg_listJSONMode cfg db e resourceType lp d =
     (let t = pg_table cfg resourceType
      in case pg_count db e t (Filter lp) d of
           (Panic p, d) \<Rightarrow> (Panic p, d)
         | (Err err, d) \<Rightarrow> (Err err, d)
         | (Ok cnt, d) \<Rightarrow>
             (let (q, args) = (case buildListQuery t lp of Ok qa \<Rightarrow> qa | _ \<Rightarrow> buildFallbackQuery t)
              in case db_query db e q args d of
                   (Inl err, d) \<Rightarrow> (Err (wrap_err KInternal ('': list query: '' @ err)), d)
                 | (Inr rows, d) \<Rightarrow>
                     ((case scan_rows pg_scanJSONRow rows '': scan row: '' '': rows iteration: '' of
                         Inl err \<Rightarrow> Err err
                       | Inr resources \<Rightarrow>
                           (case cnt of
                              None \<Rightarrow> client_list lp resources
                            | Some n \<Rightarrow>
                                Ok \<lparr>Resources = resources, TotalResults = n,
                                    LStartIndex = (if StartIndex lp < 1 then 1 else StartIndex lp),
                                    ItemsPerPage = int (length resources), NeedsClientFilter = False\<rparr>)), d)))"

definition pg_replaceJSONMode ::
    "pg_config \<Rightarrow> 'd sqldb \<Rightarrow> env \<Rightarrow> string \<Rightarrow> string \<Rightarrow> resource \<Rightarrow> 'd \<Rightarrow> (store_error, resource) outcome \<times> 'd" where
  "pg_replaceJSONMode cfg db e resourceType rid res d =
     (case pg_getJSONMode cfg db e resourceType rid d of
        (Err err, d) \<Rightarrow> (Err err, d)
      | (Panic p, d) \<Rightarrow> (Panic p, d)
      | (Ok old, d) \<Rightarrow>
          (let clone = stamp_replaced rid resourceType (now e) old (Clone res)
           in case db_exec db e (pg_update_text (pg_table cfg resourceType)) (SV (GStr rid) # pg_update_args clone) d of
                (Inl err, d) \<Rightarrow>
                  (Err (if isUniqueViolation err then wrap_err KConflict ('': '' @ err)
                        else wrap_err KInternal ('': update: '' @ err)), d)
              | (Inr n, d) \<Rightarrow> (if n = 0 then Err (not_found resourceType rid) else Ok clone, d)))"

definition pg_deleteJSONMode ::
    "pg_config \<Rightarrow> 'd sqldb \<Rightarrow> env \<Rightarrow> string \<Rightarrow> string \<Rightarrow> 'd \<Rightarrow> (store_error, unit) outcome \<times> 'd" where
  "pg_deleteJSONMode cfg db e resourceType rid d =
     (case db_exec db e (pg_delete (pg_table cfg resourceType)) [SV (GStr rid)] d of
        (Inl err, d) \<Rightarrow> (Err (wrap_err KInternal ('': delete: '' @ err)), d)
      | (Inr n, d) \<Rightarrow> (if n = 0 then Err (not_found resourceType rid) else Ok (), d))"

subsection \<open>Operations in column mode\<close>

definition pg_createColumnMode ::
    "'d sqldb \<Rightarrow> ResourceTableConfig \<Rightarrow> env \<Rightarrow> string \<Rightarrow> resource \<Rightarrow> 'd \<Rightarrow> (store_error, resource) outcome \<times> 'd" where
  "pg_createColumnMode = createColumnMode DialectPostgres"

definition pg_getColumnMode ::
    "'d sqldb \<Rightarrow> ResourceTableConfig \<Rightarrow> env \<Rightarrow> string \<Rightarrow> string \<Rightarrow> 'd \<Rightarrow> (store_error, resource) outcome \<times> 'd" where
  "pg_getColumnMode = getColumnMode DialectPostgres"

definition pg_listColumnMode ::
    "'d sqldb \<Rightarrow> Mapper \<Rightarrow> ResourceTableConfig \<Rightarrow> env \<Rightarrow> string \<Rightarrow> ListParams \<Rightarrow> 'd \<Rightarrow> (store_error, ListResult) outcome \<times> 'd" where
  "pg_listColumnMode = listColumnMode DialectPostgres"

definition pg_replaceColumnMode ::
    "'d sqldb \<Rightarrow> ResourceTableConfig \<Rightarrow> env \<Rightarrow> string \<Rightarrow> string \<Rightarrow> resource \<Rightarrow> 'd \<Rightarrow> (store_error, resource) outcome \<times> 'd" where
  "pg_replaceColumnMode = replaceColumnMode DialectPostgres"

definition pg_deleteColumnMode ::
    "'d sqldb \<Rightarrow> ResourceTableConfig \<Rightarrow> env \<Rightarrow> string \<Rightarrow> string \<Rightarrow> 'd \<Rightarrow> (store_error, unit) outcome \<times> 'd" where
  "pg_deleteColumnMode = deleteColumnMode DialectPostgres"

subsection \<open>The store\<close>

definition pg_Create :: "pg_config \<Rightarrow> 'd sqldb \<Rightarrow> env \<Rightarrow> string \<Rightarrow> resource \<Rightarrow> 'd \<Rightarrow> (store_error, resource) outcome \<times> 'd" where
  "pg_Create cfg db e resourceType res =
     by_mode (pg_resourceConfigs cfg) resourceType (\<lambda>c. pg_createColumnMode db c e resourceType res)
       (pg_createJSONMode cfg db e resourceType res)"

definition pg_Get :: "pg_config \<Rightarrow> 'd sqldb \<Rightarrow> env \<Rightarrow> string \<Rightarrow> string \<Rightarrow> 'd \<Rightarrow> (store_error, resource) outcome \<times> 'd" where
  "pg_Get cfg db e resourceType rid =
     by_mode (pg_resourceConfigs cfg) resourceType (\<lambda>c. pg_getColumnMode db c e resourceType rid)
       (pg_getJSONMode cfg db e resourceType rid)"

definition pg_List :: "pg_config \<Rightarrow> 'd sqldb \<Rightarrow> env \<Rightarrow> string \<Rightarrow> ListParams \<Rightarrow> 'd \<Rightarrow> (store_error, ListResult) outcome \<times> 'd" where
  "pg_List cfg db e resourceType lp =
     by_mode (pg_resourceConfigs cfg) resourceType
       (\<lambda>c. pg_listColumnMode db (mapperFor (pg_resourceConfigs cfg) resourceType) c e resourceType lp)
       (pg_listJSONMode cfg db e resourceType lp)"

definition pg_Replace ::
    "pg_config \<Rightarrow> 'd sqldb \<Rightarrow> env \<Rightarrow> string \<Rightarrow> string \<Rightarrow> resource \<Rightarrow> 'd \<Rightarrow> (store_error, resource) outcome \<times> 'd" where
  "pg_Replace cfg db e resourceType rid res =
     by_mode (pg_resourceConfigs cfg) resourceType (\<lambda>c. pg_replaceColumnMode db c e resourceType rid res)
       (pg_replaceJSONMode cfg db e resourceType rid res)"

definition pg_Patch ::
    "pg_config \<Rightarrow> 'd sqldb \<Rightarrow> env \<Rightarrow> string \<Rightarrow> string \<Rightarrow> PatchOp list \<Rightarrow> 'd \<Rightarrow> (store_error, resource) outcome \<times> 'd" where
  "pg_Patch cfg db e resourceType rid =
     patch_with (pg_Get cfg db e resourceType rid) (pg_Replace cfg db e resourceType rid)"

definition pg_Delete :: "pg_config \<Rightarrow> 'd sqldb \<Rightarrow> env \<Rightarrow> string \<Rightarrow> string \<Rightarrow> 'd \<Rightarrow> (store_error, unit) outcome \<times> 'd" where
  "pg_Delete cfg db e resourceType rid =
     by_mode (pg_resourceConfigs cfg) resourceType (\<lambda>c. pg_deleteColumnMode db c e resourceType rid)
       (pg_deleteJSONMode cfg db e resourceType rid)"

definition postgres_ops :: "pg_config \<Rightarrow> 'd sqldb \<Rightarrow> 'd store_ops" where
  "postgres_ops cfg db =
     \<lparr>st_Create = pg_Create cfg db, st_Get = pg_Get cfg db, st_List = pg_List cfg db, st_Replace = pg_Replace cfg db,
      st_Patch = pg_Patch cfg db, st_Delete = pg_Delete cfg db\<rparr>"

end
