(* ===== verification/Postgres_Contract.thy ===== *)
theory Postgres_Contract
  imports Postgres_Store Sql_Laws
begin

text \<open>
  The PostgreSQL store in JSON mode keeps the contract of a store, over every database that keeps the laws of
  \<open>sql_database\<close> and reads the statements of the connector as they are meant.
\<close>

definition pg_insert_columns :: "string list" where
  "pg_insert_columns =
     [''external_id'', ''user_name'', ''meta_created'', ''meta_last_mod'', ''meta_version'', ''active'', ''data'', ''schemas'']"

definition pg_update_columns :: "string list" where
  "pg_update_columns = [''external_id'', ''user_name'', ''meta_last_mod'', ''meta_version'', ''active'', ''data'', ''schemas'']"

definition pg_reads :: "(string \<Rightarrow> stmt option) \<Rightarrow> bool" where
  "pg_reads parse =
     (\<forall>t. parse (pg_insert_text t) = Some (InsertRow t (''id'' # pg_insert_columns)) \<and>
          parse (pg_update_text t) = Some (UpdateRow t pg_update_columns True) \<and>
          parse (pg_select t) = Some (SelectRow t [''data'']) \<and>
          parse (pg_delete t) = Some (DeleteRow t))"

subsection \<open>Rows\<close>

definition pg_view :: "string \<Rightarrow> sqlrow \<Rightarrow> resource" where
  "pg_view rt row = (case pg_scanJSONRow [cell row ''data''] of Inr r \<Rightarrow> r | Inl _ \<Rightarrow> empty_resource)"

definition pg_row :: "sqlrow \<Rightarrow> bool" where
  "pg_row row = (\<exists>m. cell row ''data'' = SJson (GMap m))"

lemma pg_row_view: "pg_row row \<Longrightarrow> pg_scanJSONRow [cell row ''data''] = Inr (pg_view rt row)"
  by (auto simp: pg_row_def pg_view_def pg_scanJSONRow_def)

lemma pg_data_view:
  assumes "cell row ''data'' = pg_data c" "storable c"
  shows "pg_row row \<and> same_body (pg_view rt row) c"
  using assms(1) Clone_storable [OF assms(2)]
  by (simp add: pg_row_def pg_view_def pg_scanJSONRow_def pg_data_def Clone_def)

subsection \<open>The operations as statements\<close>

definition pg_ins :: "pg_config \<Rightarrow> 'd sqldb \<Rightarrow> env \<Rightarrow> string \<Rightarrow> resource \<Rightarrow> 'd \<Rightarrow> (store_error, unit) outcome \<times> 'd" where
  "pg_ins cfg db e rt clone d =
     (case db_exec db e (pg_insert_text (pg_table cfg rt)) (pg_insert_args clone) d of
        (Inl err, d) \<Rightarrow>
          (Err (if isUniqueViolation err then wrap_err KConflict ('': '' @ err)
                else wrap_err KInternal ('': insert: '' @ err)), d)
      | (Inr _, d) \<Rightarrow> (Ok (), d))"

definition pg_upd ::
    "pg_config \<Rightarrow> 'd sqldb \<Rightarrow> env \<Rightarrow> string \<Rightarrow> string \<Rightarrow> resource \<Rightarrow> 'd \<Rightarrow> (store_error, unit) outcome \<times> 'd" where
  "pg_upd cfg db e rt rid clone d =
     (case db_exec db e (pg_update_text (pg_table cfg rt)) (SV (GStr rid) # pg_update_args clone) d of
        (Inl err, d) \<Rightarrow>
          (Err (if isUniqueViolation err then wrap_err KConflict ('': '' @ err)
                else wrap_err KInternal ('': update: '' @ err)), d)
      | (Inr n, d) \<Rightarrow> (if n = 0 then Err (not_found rt rid) else Ok (), d))"

lemma pg_create_doc: "pg_createJSONMode cfg db = doc_Create (new_id DialectPostgres) (pg_ins cfg db)"
  by (intro ext) (auto simp: pg_createJSONMode_def doc_Create_def pg_ins_def Let_def split: sum.split prod.split)

lemma pg_replace_doc: "pg_replaceJSONMode cfg db = doc_Replace (pg_getJSONMode cfg db) (pg_upd cfg db)"
  by (intro ext) (auto simp: pg_replaceJSONMode_def doc_Replace_def pg_upd_def Let_def split: sum.split prod.split outcome.split)

lemma postgres_ops_doc:
  assumes "json_mode (pg_resourceConfigs cfg)"
  shows "postgres_ops cfg db = doc_ops (new_id DialectPostgres) (pg_ins cfg db) (pg_getJSONMode cfg db) (pg_upd cfg db)
    (pg_deleteJSONMode cfg db) (pg_listJSONMode cfg db)"
proof -
  have "pg_Create cfg db = pg_createJSONMode cfg db" "pg_Get cfg db = pg_getJSONMode cfg db"
    "pg_List cfg db = pg_listJSONMode cfg db" "pg_Replace cfg db = pg_replaceJSONMode cfg db"
    "pg_Delete cfg db = pg_deleteJSONMode cfg db"
    by (intro ext, simp add: pg_Create_def pg_Get_def pg_List_def pg_Replace_def pg_Delete_def by_mode_json [OF assms])+
  moreover from this have "pg_Patch cfg db =
      (\<lambda>e rt rid. patch_with (pg_getJSONMode cfg db e rt rid) (doc_Replace (pg_getJSONMode cfg db) (pg_upd cfg db) e rt rid))"
    by (intro ext) (simp only: pg_Patch_def pg_replace_doc)
  ultimately show ?thesis by (simp only: postgres_ops_def doc_ops_def pg_create_doc pg_replace_doc)
qed

subsection \<open>The contract\<close>

definition pg_inv :: "pg_config \<Rightarrow> ('d \<Rightarrow> string \<times> string \<Rightarrow> sqlrow option) \<Rightarrow> ('d \<Rightarrow> bool) \<Rightarrow> 'd \<Rightarrow> bool" where
  "pg_inv cfg rows ok d = (ok d \<and> (\<forall>rt rid row. rows d (pg_table cfg rt, rid) = Some row \<longrightarrow> pg_row row))"

locale postgres_database = sql_database db parse rows ok avail stored
  for db :: "'d sqldb" and parse :: "string \<Rightarrow> stmt option" and rows :: "'d \<Rightarrow> string \<times> string \<Rightarrow> sqlrow option"
    and ok :: "'d \<Rightarrow> bool" and avail :: "env \<Rightarrow> 'd \<Rightarrow> bool" and stored :: "sqlval \<Rightarrow> sqlval" +
  fixes cfg :: pg_config
  assumes reads: "pg_reads parse" and json: "json_mode (pg_resourceConfigs cfg)"
begin

lemma pg_parses:
  "parse (pg_insert_text t) = Some (InsertRow t (''id'' # pg_insert_columns))"
  "parse (pg_update_text t) = Some (UpdateRow t pg_update_columns True)"
  "parse (pg_select t) = Some (SelectRow t [''data''])"
  "parse (pg_delete t) = Some (DeleteRow t)"
  using reads by (auto simp: pg_reads_def)

lemma insert_data:
  "\<exists>vs. pg_insert_args c = SV (GStr (ID c)) # vs \<and> length vs = length pg_insert_columns \<and>
    cell (new_cells stored (''id'' # pg_insert_columns) (pg_insert_args c)) ''data'' = pg_data c"
  by (simp add: pg_insert_args_def pg_insert_columns_def cell_def new_cells_def stored_json pg_data_def)

lemma update_data:
  "length (pg_update_args c) = length pg_update_columns \<and>
    cell (row ++ new_cells stored pg_update_columns (pg_update_args c)) ''data'' = pg_data c"
  by (simp add: pg_update_args_def pg_update_columns_def cell_def new_cells_def map_add_def stored_json pg_data_def)

lemma select_row:
  assumes "pg_inv cfg rows ok d" "pg_getJSONMode cfg db e rt rid d = (res, d')"
  shows "pg_inv cfg rows ok d' \<and> rows d' = rows d \<and>
    (case res of
       Ok r \<Rightarrow> \<exists>row. rows d (pg_table cfg rt, rid) = Some row \<and> r = pg_view rt row
     | Err k \<Rightarrow> rows d (pg_table cfg rt, rid) = None \<or> \<not> avail e d
     | Panic p \<Rightarrow> False)"
proof -
  obtain qres where q: "db_query db e (pg_select (pg_table cfg rt)) [SV (GStr rid)] d = (qres, d')"
    using assms(2) by (cases "db_query db e (pg_select (pg_table cfg rt)) [SV (GStr rid)] d") (simp add: pg_getJSONMode_def)
  from query_select [OF _ pg_parses(3) q] assms(1) have r: "ok d'" "rows d' = rows d"
    "case first_row qres of Inl err \<Rightarrow> \<not> avail e d | Inr None \<Rightarrow> rows d (pg_table cfg rt, rid) = None
     | Inr (Some cs) \<Rightarrow> \<exists>row. rows d (pg_table cfg rt, rid) = Some row \<and> cs = map (cell row) [''data'']"
    by (auto simp: pg_inv_def)
  have inv: "pg_inv cfg rows ok d'" using assms(1) r(1,2) by (simp add: pg_inv_def)
  consider err where "first_row qres = Inl err" | "first_row qres = Inr None"
    | row where "first_row qres = Inr (Some [cell row ''data''])" "rows d (pg_table cfg rt, rid) = Some row"
    using r(3) by (cases "first_row qres") (auto split: option.splits)
  then show ?thesis
  proof cases
    case (3 row)
    then have "pg_row row" using assms(1) by (auto simp: pg_inv_def)
    from pg_row_view [OF this, of rt] show ?thesis using 3 assms(2) q r inv by (auto simp: pg_getJSONMode_def)
  qed (use assms(2) q r inv in \<open>auto simp: pg_getJSONMode_def\<close>)
qed

end

sublocale postgres_database \<subseteq> pg: document_backend "new_id DialectPostgres" "pg_ins cfg db" "pg_getJSONMode cfg db"
    "pg_upd cfg db" "pg_deleteJSONMode cfg db" "pg_listJSONMode cfg db" rows "pg_inv cfg rows ok" "pg_table cfg"
    pg_view avail
proof (unfold_locales, goal_cases)
  case (1 d c e rt u d')
  obtain vs where vs: "pg_insert_args c = SV (GStr (ID c)) # vs" "length vs = length pg_insert_columns"
    "cell (new_cells stored (''id'' # pg_insert_columns) (pg_insert_args c)) ''data'' = pg_data c" using insert_data by blast
  obtain n where n: "db_exec db e (pg_insert_text (pg_table cfg rt)) (SV (GStr (ID c)) # vs) d = (Inr n, d')"
    using 1(3) vs(1) by (auto simp: pg_ins_def split: prod.splits sum.splits)
  from exec_insert [OF _ pg_parses(1) vs(2) n] 1(1) pg_data_view [OF vs(3) 1(2)] show ?case
    by (auto simp: pg_inv_def vs(1))
next
  case (2 d e rt c k d')
  then obtain err where "db_exec db e (pg_insert_text (pg_table cfg rt)) (pg_insert_args c) d = (Inl err, d')"
    by (auto simp: pg_ins_def split: prod.splits sum.splits)
  from exec_error [OF _ _ this] 2(1) show ?case by (auto simp: pg_inv_def pg_parses)
next
  case (3 d e rt rid r d')
  from select_row [OF this] show ?case by simp
next
  case (4 d e rt rid k d')
  from select_row [OF this] show ?case by auto
next
  case (5 d e rt rid m)
  then show ?case by (auto simp: pg_getJSONMode_def split: prod.split sum.split option.split)
next
  case (6 d c rid rt e u d')
  obtain n where n: "db_exec db e (pg_update_text (pg_table cfg rt)) (update_args True rid (pg_update_args c)) d = (Inr n, d')" "n \<noteq> 0"
    using 6(5) by (auto simp: pg_upd_def update_args_def split: prod.splits sum.splits if_splits)
  have l: "length (pg_update_args c) = length pg_update_columns" using update_data by blast
  from exec_update [OF _ pg_parses(2) l n(1)] 6(1) n(2) obtain row where d': "ok d'" "rows d (pg_table cfg rt, rid) = Some row"
    "rows d' = (rows d)((pg_table cfg rt, rid) \<mapsto> row ++ new_cells stored pg_update_columns (pg_update_args c))"
    by (auto simp: pg_inv_def)
  have "pg_row (row ++ new_cells stored pg_update_columns (pg_update_args c)) \<and>
      same_body (pg_view rt (row ++ new_cells stored pg_update_columns (pg_update_args c))) c"
    using pg_data_view update_data 6(2) by blast
  then show ?case using d' 6(1) by (auto simp: pg_inv_def)
next
  case (7 d e rt rid c k d')
  have l: "length (pg_update_args c) = length pg_update_columns" using update_data by blast
  consider err where "db_exec db e (pg_update_text (pg_table cfg rt)) (SV (GStr rid) # pg_update_args c) d = (Inl err, d')"
    | "db_exec db e (pg_update_text (pg_table cfg rt)) (update_args True rid (pg_update_args c)) d = (Inr 0, d')"
    using 7(2) by (auto simp: pg_upd_def update_args_def split: prod.splits sum.splits if_splits)
  then show ?case
  proof cases
    case 1
    from exec_error [OF _ _ this] 7(1) show ?thesis by (auto simp: pg_inv_def pg_parses)
  next
    case 2
    from exec_update [OF _ pg_parses(2) l 2] 7(1) show ?thesis by (auto simp: pg_inv_def)
  qed
next
  case (8 d e rt rid u d')
  then obtain n where n: "db_exec db e (pg_delete (pg_table cfg rt)) [SV (GStr rid)] d = (Inr n, d')" "n \<noteq> 0"
    by (auto simp: pg_deleteJSONMode_def split: prod.splits sum.splits if_splits)
  from exec_delete [OF _ pg_parses(4) n(1)] 8(1) n(2) show ?case by (auto simp: pg_inv_def)
next
  case (9 d e rt rid k d')
  consider err where "db_exec db e (pg_delete (pg_table cfg rt)) [SV (GStr rid)] d = (Inl err, d')"
    | "db_exec db e (pg_delete (pg_table cfg rt)) [SV (GStr rid)] d = (Inr 0, d')"
    using 9(2) by (auto simp: pg_deleteJSONMode_def split: prod.splits sum.splits if_splits)
  then show ?case
  proof cases
    case 1
    from exec_error [OF _ _ this] 9(1) show ?thesis by (auto simp: pg_inv_def pg_parses)
  next
    case 2
    from exec_delete [OF _ pg_parses(4) 2] 9(1) show ?thesis by (auto simp: pg_inv_def)
  qed
qed

end
