(* ===== verification/Sql_Mini.thy ===== *)
theory Sql_Mini
  imports Mysql_Contract Postgres_Contract "HOL-Library.AList" "HOL-Library.Sublist"
begin

text \<open>
  A small database that runs the statements of the connectors, so that the laws of \<open>sql_database\<close> are seen to hold
  together and the stores can be run.  A statement is read by a grammar: a head, a quoted name of a table, and one of the
  texts that may follow.  The state is an association list of rows, themselves association lists of columns.
\<close>

subsection \<open>Reading a statement\<close>

text \<open>The name between quotes in which the quote character is doubled, and what follows it.\<close>

fun read_name :: "char \<Rightarrow> string \<Rightarrow> (string \<times> string) option" where
  "read_name c [] = None"
| "read_name c (x # s) =
     (if x \<noteq> c then map_option (\<lambda>(n, r). (x # n, r)) (read_name c s)
      else (case s of
              y # s' \<Rightarrow> if y = c then map_option (\<lambda>(n, r). (c # n, r)) (read_name c s') else Some ([], s)
            | [] \<Rightarrow> Some ([], [])))"

fun read_ident :: "char \<Rightarrow> string \<Rightarrow> (string \<times> string) option" where
  "read_ident c (x # s) = (if x = c then read_name c s else None)"
| "read_ident c [] = None"

type_synonym grammar = "(string \<times> (string \<times> (string \<Rightarrow> stmt)) list) list"

fun parse_with :: "char \<Rightarrow> grammar \<Rightarrow> string \<Rightarrow> stmt option" where
  "parse_with c [] q = None"
| "parse_with c ((h, rests) # g) q =
     (if prefix h q then
        (case read_ident c (drop (length h) q) of
           Some (t, r) \<Rightarrow> map_option (\<lambda>b. b t) (map_of rests r)
         | None \<Rightarrow> None)
      else parse_with c g q)"

definition no_start :: "char \<Rightarrow> string \<Rightarrow> bool" where
  "no_start c r = (case r of x # _ \<Rightarrow> x \<noteq> c | [] \<Rightarrow> True)"

lemma read_name_quoted: "no_start c r \<Longrightarrow> read_name c (ReplaceChar c [c, c] t @ c # r) = Some (t, r)"
  by (induction t) (auto simp: no_start_def split: list.split)

definition quote_char :: "Dialect \<Rightarrow> char" where
  "quote_char dl = (if dl = DialectMySQL then CHR 0x60 else dquote)"

lemma read_ident_quoted [simp]: "no_start (quote_char dl) r \<Longrightarrow> read_ident (quote_char dl) (quote dl t @ r) = Some (t, r)"
  by (auto simp: quote_def quote_char_def read_name_quoted)

lemma parse_with_here:
  "no_start (quote_char dl) r \<Longrightarrow>
   parse_with (quote_char dl) ((h, rests) # g) (h @ quote dl t @ r) = map_option (\<lambda>b. b t) (map_of rests r)"
  by (simp add: read_ident_quoted)

lemma parse_with_later: "\<not> prefix h q \<Longrightarrow> parse_with c ((h, rests) # g) q = parse_with c g q"
  by simp

subsection \<open>Running it\<close>

type_synonym mini = "((string \<times> string) \<times> (string \<times> sqlval) list) list"

definition mini_rows :: "mini \<Rightarrow> string \<times> string \<Rightarrow> sqlrow option" where
  "mini_rows d k = map_option map_of (map_of d k)"

definition mini_error :: string where
  "mini_error = ''Error 1062: Duplicate entry''"

fun mini_run :: "stmt \<Rightarrow> sqlval list \<Rightarrow> mini \<Rightarrow> (string + int) \<times> mini" where
  "mini_run (InsertRow t cols) (SV (GStr rid) # vs) d =
     (if map_of d (t, rid) = None then (Inr 1, ((t, rid), zip cols (SV (GStr rid) # vs)) # d) else (Inl mini_error, d))"
| "mini_run (UpdateRow t cols id_first) (v # vs) d =
     (let args = (if id_first then vs else butlast (v # vs))
      in case (if id_first then v else last (v # vs)) of
           SV (GStr rid) \<Rightarrow>
             (case map_of d (t, rid) of
                Some row \<Rightarrow> (Inr 1, ((t, rid), zip cols args @ row) # d)
              | None \<Rightarrow> (Inr 0, d))
         | _ \<Rightarrow> (Inr 0, d))"
| "mini_run (DeleteRow t) [SV (GStr rid)] d =
     (if map_of d (t, rid) = None then (Inr 0, d) else (Inr 1, AList.delete (t, rid) d))"
| "mini_run _ _ d = (Inl mini_error, d)"

definition mini_select :: "stmt \<Rightarrow> sqlval list \<Rightarrow> mini \<Rightarrow> sqlval list list" where
  "mini_select st vs d =
     (case (st, vs) of
        (SelectRow t cols, [SV (GStr rid)]) \<Rightarrow>
          (case map_of d (t, rid) of Some row \<Rightarrow> [map (cell (map_of row)) cols] | None \<Rightarrow> [])
      | _ \<Rightarrow> [])"

definition mini_db :: "(string \<Rightarrow> stmt option) \<Rightarrow> mini sqldb" where
  "mini_db parse =
     \<lparr>db_open = (\<lambda>_ d. (None, d)), db_ping = (\<lambda>_ d. (None, d)), db_close = (\<lambda>d. (None, d)),
      db_exec = (\<lambda>_ q vs d. case parse q of Some st \<Rightarrow> mini_run st vs d | None \<Rightarrow> (Inl mini_error, d)),
      db_query = (\<lambda>_ q vs d. (case parse q of Some st \<Rightarrow> Inr (mini_select st vs d, None) | None \<Rightarrow> Inl mini_error, d)),
      db_begin = (\<lambda>_ d. (None, d)), db_commit = (\<lambda>d. (None, d)), db_rollback = (\<lambda>d. d),
      db_iface = (\<lambda>c. case c of SV v \<Rightarrow> v | SJson _ \<Rightarrow> GNil)\<rparr>"

lemma mini_db_simps [simp]:
  "db_exec (mini_db parse) e q vs d = (case parse q of Some st \<Rightarrow> mini_run st vs d | None \<Rightarrow> (Inl mini_error, d))"
  "db_query (mini_db parse) e q vs d =
     (case parse q of Some st \<Rightarrow> Inr (mini_select st vs d, None) | None \<Rightarrow> Inl mini_error, d)"
  by (simp_all add: mini_db_def)

lemma mini_run_error: "mini_run st vs d = (Inl err, d') \<Longrightarrow> d' = d"
  by (induction st vs d rule: mini_run.induct) (auto simp: Let_def split: if_splits sqlval.splits gval.splits option.splits)

lemma mini_update:
  assumes "mini_run (UpdateRow t cols idf) (update_args idf rid vs) d = (Inr n, d')" "length vs = length cols"
  shows "if n = 0 then d' = d
    else \<exists>row. mini_rows d (t, rid) = Some row \<and> mini_rows d' = (mini_rows d)((t, rid) \<mapsto> row ++ new_cells (\<lambda>v. v) cols vs)"
proof -
  obtain v vs' where u: "update_args idf rid vs = v # vs'"
    by (cases "update_args idf rid vs") (auto simp: update_args_def split: if_splits)
  have "(if idf then vs' else butlast (v # vs')) = vs" "(if idf then v else last (v # vs')) = SV (GStr rid)"
    using u by (auto simp: update_args_def split: if_splits) (metis butlast_snoc last_snoc butlast.simps(2) last.simps)+
  then show ?thesis
    using assms(1) by (auto simp: u Let_def mini_rows_def new_cells_def split: option.splits)
qed

lemma mini_laws: "sql_database (mini_db parse) parse mini_rows (\<lambda>d. True) (\<lambda>e d. True) (\<lambda>v. v)"
proof (unfold_locales, goal_cases)
  case (1 d q t cols vs e rid n d')
  then show ?case by (auto simp: mini_rows_def new_cells_def split: if_splits)
next
  case (2 d q t cols idf vs e rid n d')
  then have "mini_run (UpdateRow t cols idf) (update_args idf rid vs) d = (Inr n, d')" by simp
  from mini_update [OF this 2(3)] show ?case by simp
next
  case (3 d q t e rid n d')
  then show ?case by (auto simp: mini_rows_def delete_conv' split: if_splits)
next
  case (4 d q e vs err d')
  then show ?case by (auto dest: mini_run_error)
next
  case (5 d q t cols e rid res d')
  then show ?case by (auto simp: mini_select_def first_row_def mini_rows_def split: option.splits)
qed simp_all

subsection \<open>The statements of the connectors\<close>

definition my_grammar :: grammar where
  "my_grammar =
     [(''INSERT INTO '', [(my_insert_rest True, \<lambda>t. InsertRow t (''id'' # my_insert_columns ''user'')),
                        (my_insert_rest False, \<lambda>t. InsertRow t (''id'' # my_insert_columns ''group''))]),
      (my_select_head, [('' WHERE id = ?'', \<lambda>t. SelectRow t my_columns)]),
      (''UPDATE '', [(my_update_rest True, \<lambda>t. UpdateRow t (my_update_columns ''user'') False),
                   (my_update_rest False, \<lambda>t. UpdateRow t (my_update_columns ''group'') False)]),
      (''DELETE FROM '', [('' WHERE id = ?'', DeleteRow)])]"

definition my_parse :: "string \<Rightarrow> stmt option" where
  "my_parse = parse_with (quote_char DialectMySQL) my_grammar"

definition pg_grammar :: grammar where
  "pg_grammar =
     [(pg_insert_head, [(pg_insert_rest, \<lambda>t. InsertRow t (''id'' # pg_insert_columns))]),
      (pg_update_head, [(pg_update_rest, \<lambda>t. UpdateRow t pg_update_columns True)]),
      (''SELECT data FROM '', [('' WHERE id = $1'', \<lambda>t. SelectRow t [''data''])]),
      (''DELETE FROM '', [('' WHERE id = $1'', DeleteRow)])]"

definition pg_parse :: "string \<Rightarrow> stmt option" where
  "pg_parse = parse_with (quote_char DialectPostgres) pg_grammar"

lemma starts [simp]:
  "no_start (quote_char dl) (my_insert_rest b)" "no_start (quote_char dl) (my_update_rest b)"
  "no_start (quote_char dl) ('' WHERE id = ?'')" "no_start (quote_char dl) ('' WHERE id = $1'')"
  "no_start (quote_char dl) pg_insert_rest" "no_start (quote_char dl) pg_update_rest"
  by (simp_all add: no_start_def quote_char_def dquote_def my_insert_rest_def my_update_rest_def pg_insert_rest_def pg_update_rest_def)

lemma other_heads [simp]:
  "\<not> prefix ''INSERT INTO '' (my_select_head @ s)" "\<not> prefix ''INSERT INTO '' (''UPDATE '' @ s)"
  "\<not> prefix ''INSERT INTO '' (''DELETE FROM '' @ s)" "\<not> prefix my_select_head (''UPDATE '' @ s)"
  "\<not> prefix my_select_head (''DELETE FROM '' @ s)" "\<not> prefix ''UPDATE '' (''DELETE FROM '' @ s)"
  "\<not> prefix pg_insert_head (pg_update_head @ s)" "\<not> prefix pg_insert_head (''SELECT data FROM '' @ s)"
  "\<not> prefix pg_insert_head (''DELETE FROM '' @ s)" "\<not> prefix pg_update_head (''SELECT data FROM '' @ s)"
  "\<not> prefix pg_update_head (''DELETE FROM '' @ s)" "\<not> prefix ''SELECT data FROM '' (''DELETE FROM '' @ s)"
  by (simp_all add: my_select_head_def pg_insert_head_def pg_update_head_def)

lemma user_rests [simp]: "my_insert_rest False \<noteq> my_insert_rest True" "my_update_rest False \<noteq> my_update_rest True"
  by (simp_all add: my_insert_rest_def my_update_rest_def)

lemma lower_type [simp]: "ToLower ''user'' = ''user''" "ToLower ''group'' = ''group''"
  by code_simp+

lemma columns_of_type:
  "my_insert_columns rt = my_insert_columns (if is_user_type rt then ''user'' else ''group'')"
  "my_update_columns rt = my_update_columns (if is_user_type rt then ''user'' else ''group'')"
  by (simp_all add: my_insert_columns_def my_update_columns_def is_user_type_def)

lemma my_parse_reads: "my_reads my_parse"
  unfolding my_reads_def
proof (intro allI conjI)
  fix t rt c t0 rid
  show "my_parse (fst (my_insert t rt c t0)) = Some (InsertRow t (''id'' # my_insert_columns rt))"
    by (cases "is_user_type rt")
      (simp_all only: my_parse_def my_grammar_def my_insert_def fst_conv parse_with_here starts columns_of_type [of rt]
        if_True if_False, simp_all)
  show "my_parse (my_select t) = Some (SelectRow t my_columns)"
    by (simp only: my_parse_def my_grammar_def my_select_def parse_with_later other_heads parse_with_here starts) simp
  show "my_parse (fst (my_update t rt c t0 rid)) = Some (UpdateRow t (my_update_columns rt) False)"
    by (cases "is_user_type rt")
      (simp_all only: my_parse_def my_grammar_def my_update_def fst_conv parse_with_later other_heads parse_with_here starts
        columns_of_type [of rt] if_True if_False, simp_all add: my_select_head_def)
  show "my_parse (my_delete t) = Some (DeleteRow t)"
    by (simp only: my_parse_def my_grammar_def my_delete_def parse_with_later other_heads parse_with_here starts) (simp add: my_select_head_def)
qed

lemma pg_parse_reads: "pg_reads pg_parse"
  unfolding pg_reads_def
proof (intro allI conjI)
  fix t
  show "pg_parse (pg_insert_text t) = Some (InsertRow t (''id'' # pg_insert_columns))"
    by (simp only: pg_parse_def pg_grammar_def pg_insert_text_def parse_with_here starts) simp
  show "pg_parse (pg_update_text t) = Some (UpdateRow t pg_update_columns True)"
    by (simp only: pg_parse_def pg_grammar_def pg_update_text_def parse_with_later other_heads parse_with_here starts) simp
  show "pg_parse (pg_select t) = Some (SelectRow t [''data''])"
    by (simp only: pg_parse_def pg_grammar_def pg_select_def parse_with_later other_heads parse_with_here starts) (simp add: pg_insert_head_def pg_update_head_def)
  show "pg_parse (pg_delete t) = Some (DeleteRow t)"
    by (simp only: pg_parse_def pg_grammar_def pg_delete_def parse_with_later other_heads parse_with_here starts) (simp add: pg_insert_head_def pg_update_head_def)
qed

subsection \<open>The stores over it\<close>

interpretation mini: sql_database "mini_db parse" parse mini_rows "\<lambda>d. True" "\<lambda>e d. True" "\<lambda>v. v" for parse
  by (rule mini_laws)

interpretation mini_my: mysql_database "mini_db my_parse" my_parse mini_rows "\<lambda>d. True" "\<lambda>e d. True" "\<lambda>v. v" my_defaultConfig
  by unfold_locales (simp_all add: my_parse_reads my_defaultConfig_def json_mode_def)

interpretation mini_pg: postgres_database "mini_db pg_parse" pg_parse mini_rows "\<lambda>d. True" "\<lambda>e d. True" "\<lambda>v. v" pg_defaultConfig
  by unfold_locales (simp_all add: pg_parse_reads pg_defaultConfig_def json_mode_def)

end
