(* ===== verification/Store_Calls.thy ===== *)
theory Store_Calls
  imports Store_API
begin

text \<open>
  The abstract store: a map from a key and an id to what is stored, and what each call may answer and do to it.  Every
  store that keeps \<open>store_contract\<close> is a refinement of it, over every sequence of calls.
\<close>

datatype store_call =
    CallCreate env string resource
  | CallGet env string string
  | CallReplace env string string resource
  | CallPatch env string string "PatchOp list"
  | CallDelete env string string

type_synonym answer = "(store_error, resource option) outcome"

definition some_answer :: "(store_error, resource) outcome \<times> 's \<Rightarrow> answer \<times> 's" where
  "some_answer p = (case p of (Ok r, s) \<Rightarrow> (Ok (Some r), s) | (Err k, s) \<Rightarrow> (Err k, s) | (Panic m, s) \<Rightarrow> (Panic m, s))"

fun call_store :: "'s store_ops \<Rightarrow> store_call \<Rightarrow> 's \<Rightarrow> answer \<times> 's" where
  "call_store ops (CallCreate e rt x) s = some_answer (st_Create ops e rt x s)"
| "call_store ops (CallGet e rt rid) s = some_answer (st_Get ops e rt rid s)"
| "call_store ops (CallReplace e rt rid x) s = some_answer (st_Replace ops e rt rid x s)"
| "call_store ops (CallPatch e rt rid pops) s = some_answer (st_Patch ops e rt rid pops s)"
| "call_store ops (CallDelete e rt rid) s =
     (case st_Delete ops e rt rid s of
        (Ok _, s) \<Rightarrow> (Ok None, s) | (Err k, s) \<Rightarrow> (Err k, s) | (Panic m, s) \<Rightarrow> (Panic m, s))"

fun run_calls :: "'s store_ops \<Rightarrow> store_call list \<Rightarrow> 's \<Rightarrow> answer list \<times> 's" where
  "run_calls ops [] s = ([], s)"
| "run_calls ops (c # cs) s =
     (let (a, s) = call_store ops c s; (as, s) = run_calls ops cs s in (a # as, s))"

text \<open>A call that fails changes nothing; one that succeeds stores, reads or removes one entry.\<close>

fun map_step ::
    "(string \<Rightarrow> 'k) \<Rightarrow> (string \<Rightarrow> 'v \<Rightarrow> resource) \<Rightarrow> ('k \<times> string \<Rightarrow> 'v option) \<Rightarrow> store_call \<Rightarrow> answer \<Rightarrow>
     ('k \<times> string \<Rightarrow> 'v option) \<Rightarrow> bool" where
  "map_step key view m (CallCreate e rt x) (Ok (Some r)) m' =
     (m (key rt, ID r) = None \<and> (\<exists>y. m' = m((key rt, ID r) \<mapsto> y) \<and> same_body (view rt y) r))"
| "map_step key view m (CallGet e rt rid) (Ok (Some r)) m' = (m' = m \<and> map_option (view rt) (m (key rt, rid)) = Some r)"
| "map_step key view m (CallReplace e rt rid x) (Ok (Some r)) m' =
     (m (key rt, rid) \<noteq> None \<and> ID r = rid \<and> (\<exists>y. m' = m((key rt, rid) \<mapsto> y) \<and> same_body (view rt y) r))"
| "map_step key view m (CallPatch e rt rid pops) (Ok (Some r)) m' =
     (m (key rt, rid) \<noteq> None \<and> (\<exists>y. m' = m((key rt, rid) \<mapsto> y) \<and> same_body (view rt y) r))"
| "map_step key view m (CallDelete e rt rid) (Ok None) m' = (m (key rt, rid) \<noteq> None \<and> m' = m((key rt, rid) := None))"
| "map_step key view m c (Err k) m' = (m' = m)"
| "map_step key view m c _ m' = False"

fun map_run ::
    "(string \<Rightarrow> 'k) \<Rightarrow> (string \<Rightarrow> 'v \<Rightarrow> resource) \<Rightarrow> ('k \<times> string \<Rightarrow> 'v option) \<Rightarrow> store_call list \<Rightarrow> answer list \<Rightarrow>
     ('k \<times> string \<Rightarrow> 'v option) \<Rightarrow> bool" where
  "map_run key view m [] [] m' = (m' = m)"
| "map_run key view m (c # cs) (a # as) m' =
     (\<exists>m1. map_step key view m c a m1 \<and> map_run key view m1 cs as m')"
| "map_run key view m _ _ m' = False"

definition returns :: "'s store_ops \<Rightarrow> bool" where
  "returns ops =
     ((\<forall>e rt x s p. fst (st_Create ops e rt x s) \<noteq> Panic p) \<and> (\<forall>e rt rid s p. fst (st_Get ops e rt rid s) \<noteq> Panic p) \<and>
      (\<forall>e rt rid x s p. fst (st_Replace ops e rt rid x s) \<noteq> Panic p) \<and>
      (\<forall>e rt rid os s p. fst (st_Patch ops e rt rid os s) \<noteq> Panic p) \<and>
      (\<forall>e rt rid s p. fst (st_Delete ops e rt rid s) \<noteq> Panic p))"

lemma some_answer_cases:
  assumes "some_answer p = (a, s')"
  obtains r where "p = (Ok r, s')" "a = Ok (Some r)" | k where "p = (Err k, s')" "a = Err k"
    | m where "p = (Panic m, s')" "a = Panic m"
  using assms by (auto simp: some_answer_def split: prod.splits outcome.splits)

context store_contract
begin

lemma call_refines:
  assumes "inv s" "returns ops" "\<And>e rt. fresh e rt s" "call_store ops c s = (a, s')"
  shows "inv s' \<and> map_step key view (abs s) c a (abs s')"
proof (cases c)
  case (CallCreate e rt x)
  then have "some_answer (st_Create ops e rt x s) = (a, s')" using assms(4) by simp
  then show ?thesis
  proof (cases rule: some_answer_cases)
    case (1 r)
    then show ?thesis using create_ok [OF assms(1,3) 1(1)] CallCreate by simp
  next
    case (3 m)
    then show ?thesis using assms(2) unfolding returns_def by (metis fst_conv)
  qed (use no_write(1) [OF assms(1)] CallCreate in auto)
next
  case (CallGet e rt rid)
  then have "some_answer (st_Get ops e rt rid s) = (a, s')" using assms(4) by simp
  then show ?thesis
  proof (cases rule: some_answer_cases)
    case (1 r)
    then show ?thesis using get_ok [OF assms(1) 1(1)] CallGet by auto
  next
    case (3 m)
    then show ?thesis using assms(2) unfolding returns_def by (metis fst_conv)
  qed (use get_err [OF assms(1)] CallGet in auto)
next
  case (CallReplace e rt rid x)
  then have "some_answer (st_Replace ops e rt rid x s) = (a, s')" using assms(4) by simp
  then show ?thesis
  proof (cases rule: some_answer_cases)
    case (1 r)
    then show ?thesis using replace_ok [OF assms(1) 1(1)] CallReplace by simp
  next
    case (3 m)
    then show ?thesis using assms(2) unfolding returns_def by (metis fst_conv)
  qed (use no_write(2) [OF assms(1)] CallReplace in auto)
next
  case (CallPatch e rt rid pops)
  then have "some_answer (st_Patch ops e rt rid pops s) = (a, s')" using assms(4) by simp
  then show ?thesis
  proof (cases rule: some_answer_cases)
    case (1 r)
    then show ?thesis using patch_ok [OF assms(1) 1(1)] CallPatch by simp
  next
    case (3 m)
    then show ?thesis using assms(2) unfolding returns_def by (metis fst_conv)
  qed (use no_write(3) [OF assms(1)] CallPatch in auto)
next
  case (CallDelete e rt rid)
  obtain res s1 where d: "st_Delete ops e rt rid s = (res, s1)" by fastforce
  moreover from assms(2) this have "res \<noteq> Panic m" for m unfolding returns_def by (metis fst_conv)
  ultimately show ?thesis
    using assms(4) CallDelete delete_ok [OF assms(1)] no_write(4) [OF assms(1)] by (cases res) auto
qed

lemma run_refines:
  assumes "inv s" "returns ops" "\<And>e rt s. fresh e rt s" "run_calls ops cs s = (as, s')"
  shows "inv s' \<and> map_run key view (abs s) cs as (abs s')"
  using assms(1,4)
proof (induction cs arbitrary: s as)
  case (Cons c cs)
  obtain a s1 where 1: "call_store ops c s = (a, s1)" by fastforce
  obtain as1 s2 where 2: "run_calls ops cs s1 = (as1, s2)" by fastforce
  have "as = a # as1" "s2 = s'" using Cons.prems(2) 1 2 by auto
  then show ?case using call_refines [OF Cons.prems(1) assms(2,3) 1] Cons.IH [of s1 as1] 2 by auto
qed simp

end

end
