(* ===== verification/Sql_Store_Facts.thy ===== *)
theory Sql_Store_Facts
  imports Sql_Mini Store_Calls
begin

text \<open>
  What the SQL stores do, over every database that keeps the laws of \<open>sql_database\<close>: both refine the abstract store, a
  PATCH can be lost to one that runs between its two statements, and what the text of a listing has of the request.
\<close>

subsection \<open>Refinement\<close>

context mysql_database
begin

lemma ops_doc: "mysql_ops cfg db = doc_ops (new_id DialectMySQL) (my_ins cfg db) (my_getJSONMode cfg db) (my_upd cfg db)
    (my_deleteJSONMode cfg db) (my_listJSONMode cfg db)"
  by (rule mysql_ops_doc [OF json])

lemma ops_return: "returns (mysql_ops cfg db)"
  by (auto simp: returns_def ops_doc doc_Create_def doc_Replace_def patch_with_def my_ins_def my_upd_def my_getJSONMode_def
    my_deleteJSONMode_def Let_def split: sum.splits prod.splits outcome.splits option.splits if_splits)

lemma calls_refine:
  assumes "my_inv cfg rows ok d" "run_calls (mysql_ops cfg db) cs d = (as, d')"
  shows "my_inv cfg rows ok d' \<and> map_run (my_table cfg) my_view (rows d) cs as (rows d')"
  using my.doc.run_refines [of d cs as d'] assms ops_return by (simp add: ops_doc)

lemma patches_interleave:
  assumes "my_inv cfg rows ok d" "my_Get cfg db e rt rid d = (Ok old, d1)" "my_Patch cfg db eB rt rid opsB d1 = (Ok rB, d2)"
    and "ApplyPatch old opsA = Inr new" "my_Replace cfg db e rt rid new d2 = (Ok rA, d3)" "avail e' d3"
  shows "\<exists>q d4. my_Get cfg db e' rt rid d3 = (Ok q, d4) \<and> Attributes q = Attributes (Clone new)"
proof -
  have ops: "my_Get cfg db = my_getJSONMode cfg db" "my_Replace cfg db = doc_Replace (my_getJSONMode cfg db) (my_upd cfg db)"
    "my_Patch cfg db eB rt rid = st_Patch (mysql_ops cfg db) eB rt rid"
    using arg_cong [OF ops_doc, of st_Get] arg_cong [OF ops_doc, of st_Replace] by (simp_all add: mysql_ops_def)
  show ?thesis
    using my.interleaved_patch [of d e rt rid old d1 eB opsB rB d2 opsA new rA d3 e'] assms by (simp add: ops ops_doc)
qed

end

context postgres_database
begin

lemma ops_doc: "postgres_ops cfg db = doc_ops (new_id DialectPostgres) (pg_ins cfg db) (pg_getJSONMode cfg db) (pg_upd cfg db)
    (pg_deleteJSONMode cfg db) (pg_listJSONMode cfg db)"
  by (rule postgres_ops_doc [OF json])

lemma ops_return: "returns (postgres_ops cfg db)"
  by (auto simp: returns_def ops_doc doc_Create_def doc_Replace_def patch_with_def pg_ins_def pg_upd_def pg_getJSONMode_def
    pg_deleteJSONMode_def Let_def split: sum.splits prod.splits outcome.splits option.splits if_splits)

lemma calls_refine:
  assumes "pg_inv cfg rows ok d" "run_calls (postgres_ops cfg db) cs d = (as, d')"
  shows "pg_inv cfg rows ok d' \<and> map_run (pg_table cfg) pg_view (rows d) cs as (rows d')"
  using pg.doc.run_refines [of d cs as d'] assms ops_return by (simp add: ops_doc)

end



definition sample_env :: env where
  "sample_env = \<lparr>ctx_err = None, rand_bytes = Inr ''kkkkkkkkkkkkkkkk'', now = 0\<rparr>"

definition sample_bob :: resource where
  "sample_bob = empty_resource\<lparr>Attributes := [(''userName'', GStr ''bob'')]\<rparr>"

definition sample_id :: string where
  "sample_id = ''6b6b6b6b6b6b6b6b6b6b6b6b6b6b6b6b''"

definition sample_stored :: resource where
  "sample_stored = stamp_new sample_id ''User'' 0 sample_bob"

definition sample_calls :: "store_call list" where
  "sample_calls =
     [CallCreate sample_env ''User'' sample_bob, CallGet sample_env ''User'' sample_id,
      CallDelete sample_env ''User'' sample_id, CallGet sample_env ''User'' sample_id]"


definition sample_calls_pg :: "store_call list" where
  "sample_calls_pg =
     [CallCreate sample_env ''User'' sample_bob,
      CallReplace sample_env ''User'' ''6b6b6b6b-6b6b-6b6b-6b6b-6b6b6b6b6b6b'' sample_bob,
      CallDelete sample_env ''User'' ''6b6b6b6b-6b6b-6b6b-6b6b-6b6b6b6b6b6b'']"

definition sample_stored_pg :: resource where
  "sample_stored_pg = stamp_new ''6b6b6b6b-6b6b-6b6b-6b6b-6b6b6b6b6b6b'' ''User'' 0 sample_bob"


subsection \<open>Interleaved PATCH requests\<close>

text \<open>C34: PATCH on the MySQL store is a Get and a Replace without a transaction.  When a second PATCH runs between the
  two, both succeed and what is read afterwards has the attributes of the first patch of what it read: the second is
  lost.\<close>

theorem mysql_patch_lost:
  assumes "mysql_database db parse rows ok avail stored cfg" "my_inv cfg rows ok d"
    and "my_Get cfg db e rt rid d = (Ok old, d1)" "my_Patch cfg db eB rt rid opsB d1 = (Ok rB, d2)"
    and "ApplyPatch old opsA = Inr new" "my_Replace cfg db e rt rid new d2 = (Ok rA, d3)" "avail e' d3"
  shows "\<exists>q d4. my_Get cfg db e' rt rid d3 = (Ok q, d4) \<and> Attributes q = Attributes (Clone new)"
  by (rule mysql_database.patches_interleave [OF assms])

definition sample_set :: "string \<Rightarrow> string \<Rightarrow> PatchOp" where
  "sample_set k v =
     \<lparr>Op = PatchOpReplace,
      Path = Some \<lparr>PatchPath.Attribute = \<lparr>attr_path.Schema = [], AttributeName = k, SubAttribute = []\<rparr>, ValueFilter = None,
        PSubAttribute = []\<rparr>,
      Value = GStr v\<rparr>"

definition sample_mini :: mini where
  "sample_mini = snd (my_Create my_defaultConfig (mini_db my_parse) sample_env ''User'' sample_bob [])"

definition sample_mini2 :: mini where
  "sample_mini2 = snd (my_Patch my_defaultConfig (mini_db my_parse) sample_env ''User'' sample_id [sample_set ''title'' ''b''] sample_mini)"

definition sample_mini3 :: mini where
  "sample_mini3 = snd (my_Replace my_defaultConfig (mini_db my_parse) sample_env ''User'' sample_id
     (sample_stored\<lparr>Attributes := [(''userName'', GStr ''bob''), (''nickName'', GStr ''a'')]\<rparr>) sample_mini2)"

theorem mysql_patch_lost_witness:
  "\<exists>rB q d4. my_Patch my_defaultConfig (mini_db my_parse) sample_env ''User'' sample_id [sample_set ''title'' ''b''] sample_mini =
       (Ok rB, sample_mini2) \<and>
     map_of (Attributes rB) ''title'' = Some (GStr ''b'') \<and>
     my_Get my_defaultConfig (mini_db my_parse) sample_env ''User'' sample_id sample_mini3 = (Ok q, d4) \<and>
     Attributes q = [(''userName'', GStr ''bob''), (''nickName'', GStr ''a'')]"
proof -
  let ?new = "sample_stored\<lparr>Attributes := [(''userName'', GStr ''bob''), (''nickName'', GStr ''a'')]\<rparr>"
  let ?rB = "sample_stored\<lparr>Attributes := [(''userName'', GStr ''bob''), (''title'', GStr ''b'')]\<rparr>"
  have created: "my_Create my_defaultConfig (mini_db my_parse) sample_env ''User'' sample_bob [] = (Ok sample_stored, sample_mini)"
    by code_simp
  have get: "my_Get my_defaultConfig (mini_db my_parse) sample_env ''User'' sample_id sample_mini = (Ok sample_stored, sample_mini)"
    by code_simp
  have patchB: "my_Patch my_defaultConfig (mini_db my_parse) sample_env ''User'' sample_id [sample_set ''title'' ''b''] sample_mini =
      (Ok ?rB, sample_mini2)"
    by code_simp
  have patchA: "ApplyPatch sample_stored [sample_set ''nickName'' ''a''] = Inr ?new" by code_simp
  have inv0: "my_inv my_defaultConfig mini_rows (\<lambda>d. True) []" by (simp add: my_inv_def mini_rows_def)
  have "run_calls (mysql_ops my_defaultConfig (mini_db my_parse)) [CallCreate sample_env ''User'' sample_bob] [] =
      ([Ok (Some sample_stored)], sample_mini)"
    using created by (simp add: mysql_ops_def some_answer_def)
  from mini_my.calls_refine [OF inv0 this] have inv: "my_inv my_defaultConfig mini_rows (\<lambda>d. True) sample_mini" by simp
  have "\<exists>rA. my_Replace my_defaultConfig (mini_db my_parse) sample_env ''User'' sample_id ?new sample_mini2 = (Ok rA, sample_mini3)"
    by (rule exI [of _ ?new]) code_simp
  then obtain rA where
    replace: "my_Replace my_defaultConfig (mini_db my_parse) sample_env ''User'' sample_id ?new sample_mini2 = (Ok rA, sample_mini3)" ..
  have clone: "Attributes (Clone ?new) = [(''userName'', GStr ''bob''), (''nickName'', GStr ''a'')]" by code_simp
  have title: "map_of (Attributes ?rB) ''title'' = Some (GStr ''b'')" by code_simp
  obtain q d4 where "my_Get my_defaultConfig (mini_db my_parse) sample_env ''User'' sample_id sample_mini3 = (Ok q, d4)"
    "Attributes q = Attributes (Clone ?new)"
    using mysql_patch_lost [where e' = sample_env, OF mini_my.mysql_database_axioms inv get patchB patchA replace TrueI]
    by (elim exE conjE) (erule (1) that)
  then show ?thesis using patchB title clone by (intro exI conjI) (assumption | simp only:)+
qed

subsection \<open>Listings\<close>

text \<open>C35: a filter that cannot be translated, such as one on an extension attribute, is dropped by the MySQL store: the
  listing is the one without a filter, and only the flag \<open>NeedsClientFilter\<close>, which nothing reads, may tell.\<close>

theorem mysql_filter_dropped:
  assumes "json_mode (my_resourceConfigs cfg)"
    and "TranslateFilter (Some f) NewMapper DialectMySQL [] = Ok fr" "FErr fr \<noteq> None"
    and "my_List cfg db e rt (lp\<lparr>Filter := Some f\<rparr>) d = (Ok r, d')"
  shows "\<exists>b. my_List cfg db e rt (lp\<lparr>Filter := None\<rparr>) d = (Ok (r\<lparr>NeedsClientFilter := b\<rparr>), d')"
proof -
  have w: "my_where (Some f) = Inr ([], [])" "my_where None = Inr ([], [])"
    using assms(2,3) by (simp_all add: my_where_def column_filter_def)
  have o: "my_order (lp\<lparr>Filter := x\<rparr>) = my_order lp" for x by (simp add: my_order_def)
  have json: "my_List cfg db e rt = my_listJSONMode cfg db e rt"
    by (intro ext) (simp add: my_List_def by_mode_json [OF assms(1)])
  have "my_listJSONMode cfg db e rt (lp\<lparr>Filter := None\<rparr>) d =
      (case my_listJSONMode cfg db e rt (lp\<lparr>Filter := Some f\<rparr>) d of
         (Ok r, d') \<Rightarrow> (Ok (r\<lparr>NeedsClientFilter := False\<rparr>), d') | res \<Rightarrow> res)"
    by (simp add: my_listJSONMode_def w o Let_def split: prod.split sum.split)
  then show ?thesis using assms(4) by (auto simp: json)
qed

definition sample_ext_filter :: FilterExpression where
  "sample_ext_filter =
     AttrExpression \<lparr>attr_path.Schema = ''urn:ietf:params:scim:schemas:extension:enterprise:2.0:User'',
       AttributeName = ''department'', SubAttribute = []\<rparr> OpEq (GStr ''x'')"

definition sample_list :: ListParams where
  "sample_list = \<lparr>Filter = None, SortBy = [], LSortOrder = SortAscending, StartIndex = 1, Count = 0, LAttributes = [],
     LExcludedAttributes = []\<rparr>"

text \<open>A database that answers every query with one row and records the texts of the statements.\<close>

definition recorder :: "sqlval list \<Rightarrow> string list sqldb" where
  "recorder row =
     \<lparr>db_open = (\<lambda>_ d. (None, d)), db_ping = (\<lambda>_ d. (None, d)), db_close = (\<lambda>d. (None, d)),
      db_exec = (\<lambda>_ q _ d. (Inr 1, d @ [q])),
      db_query = (\<lambda>_ q _ d. (Inr ([if HasPrefix q ''SELECT COUNT'' then [SV (GInt KInt 1)] else row], None), d @ [q])),
      db_begin = (\<lambda>_ d. (None, d)), db_commit = (\<lambda>d. (None, d)), db_rollback = (\<lambda>d. d),
      db_iface = (\<lambda>c. case c of SV v \<Rightarrow> v | SJson _ \<Rightarrow> GNil)\<rparr>"

lemma recorder_query:
  "db_query (recorder row) e q args d =
     (Inr ([if HasPrefix q ''SELECT COUNT'' then [SV (GInt KInt 1)] else row], None), d @ [q])"
  by (simp add: recorder_def)

lemma recorder_count: "count_rows (recorder row) e (''SELECT COUNT(*) FROM '' @ q) args d = (Inr 1, d @ [''SELECT COUNT(*) FROM '' @ q])"
  by (simp add: count_rows_def recorder_query first_row_def HasPrefix_def)

definition sample_row :: "sqlval list" where
  "sample_row = [SV (GStr ''1''), SV GNil, SV (GTime 0), SV (GTime 0), SV GNil, SJson (GMap []), SJson GNil]"

theorem mysql_filter_dropped_witness:
  "\<exists>r r' b d. my_List my_defaultConfig (recorder sample_row) sample_env ''User'' (sample_list\<lparr>Filter := Some sample_ext_filter\<rparr>) [] =
       (Ok r, d) \<and>
     length (Resources r) = 1 \<and>
     my_List my_defaultConfig (recorder sample_row) sample_env ''User'' (sample_list\<lparr>Filter := None\<rparr>) [] =
       (Ok (r\<lparr>NeedsClientFilter := b\<rparr>), d)"
proof -
  let ?l = "my_List my_defaultConfig (recorder sample_row) sample_env ''User'' (sample_list\<lparr>Filter := Some sample_ext_filter\<rparr>) []"
  have m: "json_mode (my_resourceConfigs my_defaultConfig)" by code_simp
  have t: "TranslateFilter (Some sample_ext_filter) NewMapper DialectMySQL [] =
      Ok \<lparr>Clause = [], Args = [], FErr = FErr (case TranslateFilter (Some sample_ext_filter) NewMapper DialectMySQL [] of Ok fr \<Rightarrow> fr)\<rparr>"
    "FErr (case TranslateFilter (Some sample_ext_filter) NewMapper DialectMySQL [] of Ok fr \<Rightarrow> fr) \<noteq> None"
    by code_simp+
  have "(case ?l of (Ok r, d) \<Rightarrow> length (Resources r) = 1 | _ \<Rightarrow> False)" by code_simp
  then obtain r d where l: "?l = (Ok r, d)" "length (Resources r) = 1" by (auto split: prod.splits outcome.splits)
  from mysql_filter_dropped [OF m t(1) _ l(1)] t(2) l show ?thesis by auto
qed

text \<open>in column mode the text of the attribute to sort by, when no mapping has it, is a part of the statement as it
  is, neither quoted nor checked: any text without capitals and dots.\<close>

theorem column_sort_injected:
  assumes "Filter lp = None" "SortBy lp = s" "s \<noteq> []" "\<not> IsExtension s" "CHR ''.'' \<notin> set s" "camelToSnake s = s"
    and "map_of (ColumnRefs m) s = None" "map_of (CustomMappings m) s = None"
  shows "\<exists>count pre post. snd (listColumnMode dl (recorder row) m cfg e rt lp []) = [count, pre @ '' ORDER BY '' @ s @ post]"
proof -
  have "SplitN2 (CHR ''.'') s = [s]" using assms(5) by (simp add: SplitN2_def)
  then have "Ref m s = Some \<lparr>Table = [], Column = s\<rparr>" using assms(4,6-8) by (simp add: Ref_def)
  then obtain dir where o: "column_order dl m lp = '' ORDER BY '' @ s @ dir" using assms(2,3) by (simp add: column_order_def)
  obtain flds baseQ idc where b: "buildColumnSelect dl cfg = (flds, baseQ, idc)" by (cases "buildColumnSelect dl cfg") auto
  obtain lim largs where l: "column_limit dl lp 1 (if StartIndex lp < 1 then 1 else StartIndex lp) 0 = (lim, largs)" by fastforce
  have f: "column_filter dl m (Filter lp) = Inr ([], [])" by (simp add: column_filter_def assms(1))
  have "snd (listColumnMode dl (recorder row) m cfg e rt lp []) =
      [''SELECT COUNT(*) FROM '' @ quote dl (rc_Table cfg) @ buildJoinSQL dl cfg, baseQ @ '' ORDER BY '' @ s @ dir @ lim]"
    by (simp only: listColumnMode_def b f o recorder_count Let_def prod.case sum.case append_Nil append_Nil2 list.size)
      (simp add: l recorder_query)
  then show ?thesis by (simp only:) (intro exI, rule refl)
qed

theorem column_sort_injected_witness:
  "\<exists>count pre post.
     snd (listColumnMode DialectMySQL (recorder []) NewMapper empty_table_config sample_env ''User''
       (sample_list\<lparr>SortBy := ''(select sleep(9))''\<rparr>) []) = [count, pre @ '' ORDER BY '' @ ''(select sleep(9))'' @ post]"
proof -
  have "\<not> IsExtension ''(select sleep(9))''" "camelToSnake ''(select sleep(9))'' = ''(select sleep(9))''"
    "map_of (ColumnRefs NewMapper) ''(select sleep(9))'' = None" "map_of (CustomMappings NewMapper) ''(select sleep(9))'' = None"
    "CHR ''.'' \<notin> set ''(select sleep(9))''"
    by code_simp+
  then show ?thesis by (intro column_sort_injected) (simp_all add: sample_list_def)
qed

end
