(* ===== verification/Mongo_Docs.thy ===== *)
theory Mongo_Docs
  imports Sql_Reconstruct Memory_Store
begin

text \<open>
  The filters and documents of the MongoDB connector (\<open>connector/mongodb/query.go\<close> and the conversions at the end of
  \<open>store.go\<close>).  A query document is a \<open>bson\<close> value: \<open>BD\<close> is the ordered \<open>bson.D\<close>, \<open>BA\<close> the array \<open>bson.A\<close>, \<open>BV\<close> any
  other value.  A stored document is a \<open>bson.M\<close>, a map of Go values; nested ones that the code or the driver makes are
  \<open>GNamed\<close> values, which the type switches of the package \<open>resource\<close> do not see as maps.
\<close>

subsection \<open>Filters\<close>

datatype bson = BV gval | BD "(string \<times> bson) list" | BA "bson list"

type_synonym bson_d = "(string \<times> bson) list"

definition mongoID :: string where "mongoID = ''_id''"

definition scimFieldToMongoField :: "attr_path \<Rightarrow> string" where
  "scimFieldToMongoField path =
     (if EqualFold (AttributeName path) ''id'' \<and> SubAttribute path = [] \<and> attr_path.Schema path = [] then mongoID
      else if SubAttribute path \<noteq> [] then AttributeName path @ ''.'' @ SubAttribute path
      else AttributeName path)"

text \<open>\<open>val, _ := e.Value.(string)\<close>: empty for any other value.\<close>

fun str_or_empty :: "gval \<Rightarrow> string" where
  "str_or_empty (GStr s) = s"
| "str_or_empty _ = []"

fun mongo_condition :: "CompareOp \<Rightarrow> gval \<Rightarrow> bson" where
  "mongo_condition OpEq v = BV v"
| "mongo_condition OpNe v = BD [(''$ne'', BV v)]"
| "mongo_condition OpCo v = BD [(''$regex'', BV (GStr (''.*'' @ str_or_empty v @ ''.*'')))]"
| "mongo_condition OpSw v = BD [(''$regex'', BV (GStr (''^'' @ str_or_empty v)))]"
| "mongo_condition OpEw v = BD [(''$regex'', BV (GStr (str_or_empty v @ ''$'')))]"
| "mongo_condition OpGt v = BD [(''$gt'', BV v)]"
| "mongo_condition OpGe v = BD [(''$gte'', BV v)]"
| "mongo_condition OpLt v = BD [(''$lt'', BV v)]"
| "mongo_condition OpLe v = BD [(''$lte'', BV v)]"
| "mongo_condition OpPr v = BD [(''$exists'', BV (GBool True)), (''$ne'', BV GNil)]"

definition mongo_translateAttrExpr :: "attr_path \<Rightarrow> CompareOp \<Rightarrow> gval \<Rightarrow> string + bson_d" where
  "mongo_translateAttrExpr path op v = Inr [(scimFieldToMongoField path, mongo_condition op v)]"

fun mongo_translateExpr :: "FilterExpression \<Rightarrow> string + bson_d" where
  "mongo_translateExpr (AttrExpression path op v) = mongo_translateAttrExpr path op v"
| "mongo_translateExpr (LogicalExpression l op r) =
     (case mongo_translateExpr l of
        Inl err \<Rightarrow> Inl err
      | Inr left \<Rightarrow>
          (case mongo_translateExpr r of
             Inl err \<Rightarrow> Inl err
           | Inr right \<Rightarrow> Inr [(case op of LogicalAnd \<Rightarrow> ''$and'' | LogicalOr \<Rightarrow> ''$or'', BA [BD left, BD right])]))"
| "mongo_translateExpr (NotExpression e) =
     (case mongo_translateExpr e of Inl err \<Rightarrow> Inl err | Inr inner \<Rightarrow> Inr [(''$nor'', BA [BD inner])])"
| "mongo_translateExpr (ValuePathExpression path e) =
     (case mongo_translateExpr e of
        Inl err \<Rightarrow> Inl err
      | Inr inner \<Rightarrow> Inr [(AttributeName path, BD [(''$elemMatch'', BD inner)])])"

definition mongo_TranslateFilter :: "FilterExpression option \<Rightarrow> string + bson_d" where
  "mongo_TranslateFilter expr = (case expr of None \<Rightarrow> Inr [] | Some e \<Rightarrow> mongo_translateExpr e)"

lemma mongo_translates: "\<exists>q. mongo_TranslateFilter f = Inr q"
proof -
  have "\<exists>q. mongo_translateExpr e = Inr q" for e
    by (induction e) (auto simp: mongo_translateAttrExpr_def)
  then show ?thesis by (cases f) (auto simp: mongo_TranslateFilter_def)
qed

subsection \<open>Documents\<close>

definition doc_entry :: "attrs \<Rightarrow> string \<times> gval \<Rightarrow> attrs" where
  "doc_entry doc kv = (case kv of (k, v) \<Rightarrow> if EqualFold k ''id'' then map_put mongoID v doc else map_put k v doc)"

definition resourceToDoc :: "resource \<Rightarrow> attrs" where
  "resourceToDoc r = foldl doc_entry [] (ToMap r)"

definition docToResource :: "attrs \<Rightarrow> string \<Rightarrow> resource" where
  "docToResource doc resourceType =
     (let m = foldl (\<lambda>m (k, v). if k = mongoID then map_put ''id'' v m else map_put k v m) [] doc;
          r = FromMap m
      in r\<lparr>Meta := (Meta r)\<lparr>ResourceType := resourceType\<rparr>\<rparr>)"

subsection \<open>Documents with mapped fields\<close>

record LookupConfig =
  From :: string
  LocalField :: string
  ForeignField :: string
  As :: string
  lk_FieldMappings :: "string gmap"

record ResourceCollectionConfig =
  Collection :: string
  coll_FieldMappings :: "string gmap"
  Lookups :: "LookupConfig list"

text \<open>The loop of \<open>flattenMap\<close> is that of \<open>flattenInto\<close> of the SQL helpers, \<open>setNestedAttr\<close> that of \<open>setNested\<close>.\<close>

definition flattenMap :: "attrs \<Rightarrow> string \<Rightarrow> attrs \<Rightarrow> attrs" where
  "flattenMap = flattenInto"

definition setNestedAttr :: "attrs \<Rightarrow> string \<Rightarrow> gval \<Rightarrow> attrs" where
  "setNestedAttr = setNested"

definition flattenResource :: "resource \<Rightarrow> attrs" where
  "flattenResource r =
     flattenMap (Attributes r) []
       [(''id'', GStr (ID r)), (''externalId'', GStr (ExternalID r)), (''meta.created'', GTime (Created (Meta r))),
        (''meta.lastModified'', GTime (LastModified (Meta r))), (''meta.version'', GStr (Version (Meta r)))]"

definition bsonM :: "attrs \<Rightarrow> gval" where
  "bsonM m = GNamed ''bson.M'' (GMap m)"

definition as_bsonM :: "gval \<Rightarrow> attrs option" where
  "as_bsonM v = (case v of GNamed n (GMap m) \<Rightarrow> if n = ''bson.M'' then Some m else None | _ \<Rightarrow> None)"

lemma as_bsonM_Some [simp]: "as_bsonM v = Some m \<longleftrightarrow> v = bsonM m"
  by (auto simp: as_bsonM_def bsonM_def split: gval.split)

definition sub_doc :: "attrs \<Rightarrow> string \<Rightarrow> attrs" where
  "sub_doc doc k = (case Option.bind (map_of doc k) as_bsonM of Some s \<Rightarrow> s | None \<Rightarrow> [])"

function setDotPath :: "attrs \<Rightarrow> string \<Rightarrow> gval \<Rightarrow> attrs" where
  "setDotPath doc path val =
     (case cut_first (CHR ''.'') path of
        None \<Rightarrow> map_put path val doc
      | Some (parent, rest) \<Rightarrow> map_put parent (bsonM (setDotPath (sub_doc doc parent) rest val)) doc)"
  by auto
termination by (relation "measure (\<lambda>(_, path, _). length path)") (auto dest: cut_first_SomeD)

declare setDotPath.simps [simp del]

function flattenDoc :: "attrs \<Rightarrow> string \<Rightarrow> attrs \<Rightarrow> attrs" where
  "flattenDoc [] prefix out = out"
| "flattenDoc ((k, v) # doc) prefix out =
     flattenDoc doc prefix
       (case as_bsonM v of
          Some sub \<Rightarrow> foldl (\<lambda>out (k, v). map_put k v out) out (flattenDoc sub (join_path prefix k) [])
        | None \<Rightarrow> map_put (join_path prefix k) v out)"
  by pat_completeness auto
termination by (relation "measure (\<lambda>(m, _, _). size_list (size_prod (\<lambda>_. 0) size) m)") (auto simp: bsonM_def)

definition mapped_field :: "attrs \<Rightarrow> attrs \<times> string list \<Rightarrow> string \<times> string \<Rightarrow> attrs \<times> string list" where
  "mapped_field flatMap st entry =
     (case (st, entry) of
        ((doc, mapped), (scimAttr, bsonPath)) \<Rightarrow>
          (case map_of flatMap scimAttr of
             None \<Rightarrow> (doc, mapped)
           | Some val \<Rightarrow>
               (if scimAttr = ''id'' then map_put mongoID val doc else setDotPath doc bsonPath val, scimAttr # mapped)))"

definition unmapped_field :: "string list \<Rightarrow> attrs \<Rightarrow> string \<times> gval \<Rightarrow> attrs" where
  "unmapped_field mapped doc kv =
     (case kv of (k, v) \<Rightarrow>
        if k \<in> set mapped then doc
        else if k = ''id'' then (if map_of doc mongoID = None then map_put mongoID v doc else doc)
        else setDotPath doc k v)"

definition resourceToMappedDoc :: "resource \<Rightarrow> ResourceCollectionConfig \<Rightarrow> attrs" where
  "resourceToMappedDoc r cfg =
     (let flatMap = flattenResource r;
          (doc, mapped) = foldl (mapped_field flatMap) ([], []) (coll_FieldMappings cfg)
      in foldl (unmapped_field mapped) doc flatMap)"

definition applyAttrToResource :: "resource \<Rightarrow> string \<Rightarrow> gval \<Rightarrow> resource" where
  "applyAttrToResource r path val =
     (let l = ToLower path
      in if l = ''id'' then (case val of GStr s \<Rightarrow> r\<lparr>ID := s\<rparr> | _ \<Rightarrow> r)
         else if l = ''externalid'' then (case val of GStr s \<Rightarrow> r\<lparr>ExternalID := s\<rparr> | _ \<Rightarrow> r)
         else if l = ''meta.created'' then (case val of GTime t \<Rightarrow> r\<lparr>Meta := (Meta r)\<lparr>Created := t\<rparr>\<rparr> | _ \<Rightarrow> r)
         else if l = ''meta.lastmodified'' then (case val of GTime t \<Rightarrow> r\<lparr>Meta := (Meta r)\<lparr>LastModified := t\<rparr>\<rparr> | _ \<Rightarrow> r)
         else if l = ''meta.version'' then (case val of GStr s \<Rightarrow> r\<lparr>Meta := (Meta r)\<lparr>Version := s\<rparr>\<rparr> | _ \<Rightarrow> r)
         else r\<lparr>Attributes := setNestedAttr (Attributes r) path val\<rparr>)"

text \<open>The attributes read under their SCIM paths: by the reverse mapping, the id, and what is mapped by none.\<close>

definition doc_attrs :: "attrs \<Rightarrow> string gmap \<Rightarrow> attrs" where
  "doc_attrs flt mappings =
     (let reverseMap = foldl (\<lambda>m (scimAttr, bsonPath). map_put bsonPath scimAttr m) [] mappings;
          (as, used) = foldl (\<lambda>(as, used) (bsonPath, scimAttr).
             case map_of flt bsonPath of Some val \<Rightarrow> (map_put scimAttr val as, bsonPath # used) | None \<Rightarrow> (as, used)) ([], []) reverseMap;
          (as, used) = (if map_of as ''id'' = None
             then (case map_of flt mongoID of Some v \<Rightarrow> (map_put ''id'' v as, mongoID # used) | None \<Rightarrow> (as, used))
             else (as, used))
      in foldl (\<lambda>as (path, val). if path \<in> set used then as else map_put path val as) as flt)"

definition mappedDocToResource :: "attrs \<Rightarrow> ResourceCollectionConfig \<Rightarrow> string \<Rightarrow> resource" where
  "mappedDocToResource doc cfg resourceType =
     foldl (\<lambda>r (path, val). applyAttrToResource r path val)
       (empty_resource\<lparr>Meta := empty_meta\<lparr>ResourceType := resourceType\<rparr>\<rparr>)
       (doc_attrs (flattenDoc doc [] []) (coll_FieldMappings cfg))"

definition lookup_stages :: "LookupConfig \<Rightarrow> bson list" where
  "lookup_stages lk =
     [BD [(''$lookup'', BD [(''from'', BV (GStr (From lk))), (''localField'', BV (GStr (LocalField lk))),
        (''foreignField'', BV (GStr (ForeignField lk))), (''as'', BV (GStr (As lk)))])],
      BD [(''$unwind'', BD [(''path'', BV (GStr (''$'' @ As lk))), (''preserveNullAndEmptyArrays'', BV (GBool True))])]]"

definition buildAggregatePipeline :: "string \<Rightarrow> ResourceCollectionConfig \<Rightarrow> bson list" where
  "buildAggregatePipeline rid cfg =
     BD [(''$match'', BD [(mongoID, BV (GStr rid))])] # concat (map lookup_stages (Lookups cfg))"

end
