(* ===== verification/Mongo_Store.thy ===== *)
theory Mongo_Store
  imports Mongo_Docs Schema Document_Store Http
begin

text \<open>
  The MongoDB store (\<open>connector/mongodb/store.go\<close>, \<open>options.go\<close>).  The record \<open>mongodb\<close> stands for the client of the
  driver over a state \<open>'d\<close>: a call gives a result or an error; of a failed write it also says whether
  \<open>mongo.IsDuplicateKeyError\<close> holds, and a cursor gives documents or the error of decoding one, and the error that ended
  it.  The operations are those of a store that \<open>Init\<close> has connected.
\<close>

subsection \<open>The driver\<close>

type_synonym write_error = "bool \<times> string"

record find_opts =
  fo_skip :: int
  fo_limit :: "int option"
  fo_sort :: "(string \<times> int) option"

type_synonym cursor = "(string + attrs) list \<times> string option"

record 'd mongodb =
  mg_connect :: "string \<Rightarrow> 'd \<Rightarrow> string option \<times> 'd"
  mg_ping :: "env \<Rightarrow> 'd \<Rightarrow> string option \<times> 'd"
  mg_disconnect :: "env \<Rightarrow> 'd \<Rightarrow> string option \<times> 'd"
  mg_create_index :: "env \<Rightarrow> string \<Rightarrow> bson_d \<Rightarrow> string \<Rightarrow> 'd \<Rightarrow> string option \<times> 'd"
  mg_insert_one :: "env \<Rightarrow> string \<Rightarrow> attrs \<Rightarrow> 'd \<Rightarrow> write_error option \<times> 'd"
  mg_find_one :: "env \<Rightarrow> string \<Rightarrow> bson_d \<Rightarrow> 'd \<Rightarrow> (string + attrs option) \<times> 'd"
  mg_aggregate :: "env \<Rightarrow> string \<Rightarrow> bson list \<Rightarrow> 'd \<Rightarrow> (string + cursor) \<times> 'd"
  mg_count :: "env \<Rightarrow> string \<Rightarrow> bson_d \<Rightarrow> 'd \<Rightarrow> (string + int) \<times> 'd"
  mg_find :: "env \<Rightarrow> string \<Rightarrow> bson_d \<Rightarrow> find_opts \<Rightarrow> 'd \<Rightarrow> (string + cursor) \<times> 'd"
  mg_replace_one :: "env \<Rightarrow> string \<Rightarrow> bson_d \<Rightarrow> attrs \<Rightarrow> 'd \<Rightarrow> (write_error + int) \<times> 'd"
  mg_delete_one :: "env \<Rightarrow> string \<Rightarrow> bson_d \<Rightarrow> 'd \<Rightarrow> (string + int) \<times> 'd"

subsection \<open>Configuration\<close>

record mg_config =
  mg_uri :: string
  mg_database :: string
  mg_collPrefix :: string
  mg_autoMigrate :: bool
  mg_registry :: "Registry option"
  mg_timeout :: int
  mg_resourceConfigs :: "ResourceCollectionConfig gmap"

definition mg_defaultConfig :: mg_config where
  "mg_defaultConfig =
     \<lparr>mg_uri = [], mg_database = [], mg_collPrefix = ''scim_'', mg_autoMigrate = False, mg_registry = None,
      mg_timeout = 30 * second_ns, mg_resourceConfigs = []\<rparr>"

type_synonym mg_option = "mg_config \<Rightarrow> mg_config"

definition mg_WithURI :: "string \<Rightarrow> mg_option" where
  "mg_WithURI uri c = c\<lparr>mg_uri := uri\<rparr>"

definition mg_WithDatabase :: "string \<Rightarrow> mg_option" where
  "mg_WithDatabase name c = c\<lparr>mg_database := name\<rparr>"

definition mg_WithCollectionPrefix :: "string \<Rightarrow> mg_option" where
  "mg_WithCollectionPrefix prefix c = c\<lparr>mg_collPrefix := prefix\<rparr>"

definition mg_WithAutoMigrate :: "bool \<Rightarrow> mg_option" where
  "mg_WithAutoMigrate enabled c = c\<lparr>mg_autoMigrate := enabled\<rparr>"

definition mg_WithSchemaRegistry :: "Registry \<Rightarrow> mg_option" where
  "mg_WithSchemaRegistry reg c = c\<lparr>mg_registry := Some reg\<rparr>"

definition mg_WithTimeout :: "int \<Rightarrow> mg_option" where
  "mg_WithTimeout n c = c\<lparr>mg_timeout := n\<rparr>"

definition empty_collection_config :: ResourceCollectionConfig where
  "empty_collection_config = \<lparr>Collection = [], coll_FieldMappings = [], Lookups = []\<rparr>"

definition mg_resource :: "string \<Rightarrow> (ResourceCollectionConfig \<Rightarrow> ResourceCollectionConfig) \<Rightarrow> mg_option" where
  "mg_resource resourceType f c =
     (let key = ToLower resourceType; cfgs = mg_resourceConfigs c
      in c\<lparr>mg_resourceConfigs :=
           map_put key (f (case map_of cfgs key of Some rc \<Rightarrow> rc | None \<Rightarrow> empty_collection_config)) cfgs\<rparr>)"

definition mg_WithCollectionName :: "string \<Rightarrow> string \<Rightarrow> mg_option" where
  "mg_WithCollectionName resourceType name = mg_resource resourceType (\<lambda>cfg. cfg\<lparr>Collection := name\<rparr>)"

definition mg_WithTableName :: "string \<Rightarrow> string \<Rightarrow> mg_option" where
  "mg_WithTableName resourceType name = mg_WithCollectionName resourceType name"

definition mg_WithFieldMapping :: "string \<Rightarrow> string \<Rightarrow> string \<Rightarrow> mg_option" where
  "mg_WithFieldMapping resourceType scimAttr bsonPath =
     mg_resource resourceType (\<lambda>cfg. cfg\<lparr>coll_FieldMappings := map_put scimAttr bsonPath (coll_FieldMappings cfg)\<rparr>)"

definition mg_WithLookup :: "string \<Rightarrow> LookupConfig \<Rightarrow> mg_option" where
  "mg_WithLookup resourceType lk = mg_resource resourceType (\<lambda>cfg. cfg\<lparr>Lookups := Lookups cfg @ [lk]\<rparr>)"

definition mg_WithResourceConfig :: "string \<Rightarrow> ResourceCollectionConfig \<Rightarrow> mg_option" where
  "mg_WithResourceConfig resourceType rc = mg_resource resourceType (\<lambda>_. rc)"

definition mg_New :: "mg_option list \<Rightarrow> string + mg_config" where
  "mg_New opts =
     (let cfg = foldl (\<lambda>c opt. opt c) mg_defaultConfig opts
      in if mg_uri cfg = [] then Inl ''mongodb store: URI is required (use WithURI)''
         else if mg_database cfg = [] then Inl ''mongodb store: database name is required (use WithDatabase)''
         else Inr cfg)"

definition mg_resCfg :: "mg_config \<Rightarrow> string \<Rightarrow> ResourceCollectionConfig option" where
  "mg_resCfg cfg resourceType = map_of (mg_resourceConfigs cfg) (ToLower resourceType)"

definition isFieldMapped :: "mg_config \<Rightarrow> string \<Rightarrow> bool" where
  "isFieldMapped cfg resourceType =
     (case mg_resCfg cfg resourceType of Some c \<Rightarrow> coll_FieldMappings c \<noteq> [] | None \<Rightarrow> False)"

definition collectionName :: "mg_config \<Rightarrow> string \<Rightarrow> string" where
  "collectionName cfg resourceType =
     (case mg_resCfg cfg resourceType of
        Some c \<Rightarrow> if Collection c \<noteq> [] then Collection c else mg_collPrefix cfg @ ToLower resourceType @ ''s''
      | None \<Rightarrow> mg_collPrefix cfg @ ToLower resourceType @ ''s'')"

subsection \<open>Connection\<close>

definition ensureIndexes :: "mg_config \<Rightarrow> 'd mongodb \<Rightarrow> env \<Rightarrow> 'd \<Rightarrow> string option \<times> 'd" where
  "ensureIndexes cfg db e d =
     (if isFieldMapped cfg ''user'' then (None, d)
      else (case mg_create_index db e (collectionName cfg ''user'') [(''userName'', BV (GInt KInt 1))] ''unique_userName'' d of
              (Some err, d) \<Rightarrow> (Some (''create userName index: '' @ err), d)
            | (None, d) \<Rightarrow> (None, d)))"

definition mg_Init :: "mg_config \<Rightarrow> 'd mongodb \<Rightarrow> env \<Rightarrow> 'd \<Rightarrow> string option \<times> 'd" where
  "mg_Init cfg db e d =
     (case mg_connect db (mg_uri cfg) d of
        (Some err, d) \<Rightarrow> (Some (''mongodb store: connect: '' @ err), d)
      | (None, d) \<Rightarrow>
          (case mg_ping db e d of
             (Some err, d) \<Rightarrow> (Some (''mongodb store: ping: '' @ err), snd (mg_disconnect db e d))
           | (None, d) \<Rightarrow>
               if mg_autoMigrate cfg then
                 (case ensureIndexes cfg db e d of
                    (Some err, d) \<Rightarrow> (Some (''mongodb store: indexes: '' @ err), d)
                  | (None, d) \<Rightarrow> (None, d))
               else (None, d)))"

text \<open>The flag says whether \<open>Init\<close> has set the client.\<close>

definition mg_Close :: "bool \<Rightarrow> 'd mongodb \<Rightarrow> env \<Rightarrow> 'd \<Rightarrow> string option \<times> 'd" where
  "mg_Close initialised db e d = (if initialised then mg_disconnect db e d else (None, d))"

definition mg_Healthy :: "bool \<Rightarrow> 'd mongodb \<Rightarrow> env \<Rightarrow> 'd \<Rightarrow> string option \<times> 'd" where
  "mg_Healthy initialised db e d =
     (if initialised then mg_ping db e d else (Some ''mongodb store: not initialized'', d))"

subsection \<open>Operations\<close>

definition by_id :: "string \<Rightarrow> bson_d" where
  "by_id rid = [(mongoID, BV (GStr rid))]"

definition mg_new_id :: "env \<Rightarrow> store_error + string" where
  "mg_new_id e =
     (case rand_bytes e of
        Inl t \<Rightarrow> Inl (wrap_err KInternal ('': generate id: '' @ t))
      | Inr b \<Rightarrow> Inr (hex_encode b))"

text \<open>The document of a resource, and the resource of a document, with the fields mapped or not.\<close>

definition to_doc :: "mg_config \<Rightarrow> string \<Rightarrow> resource \<Rightarrow> attrs" where
  "to_doc cfg resourceType r =
     (if isFieldMapped cfg resourceType then
        (case mg_resCfg cfg resourceType of Some c \<Rightarrow> resourceToMappedDoc r c | None \<Rightarrow> resourceToDoc r)
      else resourceToDoc r)"

definition mg_ins :: "mg_config \<Rightarrow> 'd mongodb \<Rightarrow> env \<Rightarrow> string \<Rightarrow> resource \<Rightarrow> 'd \<Rightarrow> (store_error, unit) outcome \<times> 'd" where
  "mg_ins cfg db e resourceType clone d =
     (case mg_insert_one db e (collectionName cfg resourceType) (to_doc cfg resourceType clone) d of
        (Some (dup, err), d) \<Rightarrow>
          (Err (if dup then wrap_err KConflict ('': '' @ err) else wrap_err KInternal ('': insert: '' @ err)), d)
      | (None, d) \<Rightarrow> (Ok (), d))"

definition mg_Create :: "mg_config \<Rightarrow> 'd mongodb \<Rightarrow> env \<Rightarrow> string \<Rightarrow> resource \<Rightarrow> 'd \<Rightarrow> (store_error, resource) outcome \<times> 'd" where
  "mg_Create cfg db = doc_Create mg_new_id (mg_ins cfg db)"

definition mg_find_doc ::
    "mg_config \<Rightarrow> 'd mongodb \<Rightarrow> env \<Rightarrow> string \<Rightarrow> string \<Rightarrow> (attrs \<Rightarrow> resource) \<Rightarrow> 'd \<Rightarrow> (store_error, resource) outcome \<times> 'd" where
  "mg_find_doc cfg db e resourceType rid conv d =
     (case mg_find_one db e (collectionName cfg resourceType) (by_id rid) d of
        (Inl err, d) \<Rightarrow> (Err (wrap_err KInternal ('': findOne: '' @ err)), d)
      | (Inr None, d) \<Rightarrow> (Err (not_found resourceType rid), d)
      | (Inr (Some doc), d) \<Rightarrow> (Ok (conv doc), d))"

definition getSimple ::
    "mg_config \<Rightarrow> 'd mongodb \<Rightarrow> env \<Rightarrow> string \<Rightarrow> string \<Rightarrow> 'd \<Rightarrow> (store_error, resource) outcome \<times> 'd" where
  "getSimple cfg db e resourceType rid = mg_find_doc cfg db e resourceType rid (\<lambda>doc. docToResource doc resourceType)"

definition getWithConfig ::
    "mg_config \<Rightarrow> 'd mongodb \<Rightarrow> ResourceCollectionConfig \<Rightarrow> env \<Rightarrow> string \<Rightarrow> string \<Rightarrow> 'd \<Rightarrow>
     (store_error, resource) outcome \<times> 'd" where
  "getWithConfig cfg db c e resourceType rid d =
     (if Lookups c = [] then mg_find_doc cfg db e resourceType rid (\<lambda>doc. mappedDocToResource doc c resourceType) d
      else (case mg_aggregate db e (collectionName cfg resourceType) (buildAggregatePipeline rid c) d of
              (Inl err, d) \<Rightarrow> (Err (wrap_err KInternal ('': aggregate: '' @ err)), d)
            | (Inr ([], Some err), d) \<Rightarrow> (Err (wrap_err KInternal ('': cursor: '' @ err)), d)
            | (Inr ([], None), d) \<Rightarrow> (Err (not_found resourceType rid), d)
            | (Inr (Inl err # _, _), d) \<Rightarrow> (Err (wrap_err KInternal ('': decode: '' @ err)), d)
            | (Inr (Inr doc # _, _), d) \<Rightarrow> (Ok (mappedDocToResource doc c resourceType), d)))"

definition mg_Get :: "mg_config \<Rightarrow> 'd mongodb \<Rightarrow> env \<Rightarrow> string \<Rightarrow> string \<Rightarrow> 'd \<Rightarrow> (store_error, resource) outcome \<times> 'd" where
  "mg_Get cfg db e resourceType rid d =
     (case mg_resCfg cfg resourceType of
        Some c \<Rightarrow>
          if coll_FieldMappings c \<noteq> [] \<or> Lookups c \<noteq> [] then getWithConfig cfg db c e resourceType rid d
          else getSimple cfg db e resourceType rid d
      | None \<Rightarrow> getSimple cfg db e resourceType rid d)"

definition list_filter :: "ListParams \<Rightarrow> bson_d \<times> bool" where
  "list_filter lp =
     (case Filter lp of
        None \<Rightarrow> ([], False)
      | Some f \<Rightarrow> (case mongo_TranslateFilter (Some f) of Inl _ \<Rightarrow> ([], True) | Inr q \<Rightarrow> (q, False)))"

definition list_opts :: "mg_config \<Rightarrow> string \<Rightarrow> ListParams \<Rightarrow> int \<Rightarrow> find_opts" where
  "list_opts cfg resourceType lp total_count =
     (let startIndex = (if StartIndex lp < 1 then 1 else StartIndex lp);
          limit = (if Count lp \<le> 0 then total_count else Count lp)
      in \<lparr>fo_skip = startIndex - 1, fo_limit = (if limit > 0 then Some limit else None),
          fo_sort =
            (if SortBy lp = [] then None
             else Some (case Option.bind (mg_resCfg cfg resourceType) (\<lambda>c. map_of (coll_FieldMappings c) (SortBy lp)) of
                          Some mapped \<Rightarrow> mapped | None \<Rightarrow> SortBy lp,
                        if LSortOrder lp = SortDescending then -1 else 1))\<rparr>)"

definition list_doc :: "mg_config \<Rightarrow> string \<Rightarrow> attrs \<Rightarrow> resource" where
  "list_doc cfg resourceType doc =
     (case mg_resCfg cfg resourceType of
        Some c \<Rightarrow> if coll_FieldMappings c \<noteq> [] then mappedDocToResource doc c resourceType else docToResource doc resourceType
      | None \<Rightarrow> docToResource doc resourceType)"

definition list_docs :: "mg_config \<Rightarrow> string \<Rightarrow> cursor \<Rightarrow> store_error + resource list" where
  "list_docs cfg resourceType cur =
     (case map_sum_list (\<lambda>item. case item of Inl err \<Rightarrow> Inl err | Inr doc \<Rightarrow> Inr (list_doc cfg resourceType doc)) (fst cur) of
        Inl err \<Rightarrow> Inl (wrap_err KInternal ('': decode: '' @ err))
      | Inr rs \<Rightarrow> (case snd cur of None \<Rightarrow> Inr rs | Some err \<Rightarrow> Inl (wrap_err KInternal ('': cursor: '' @ err))))"

definition mg_List :: "mg_config \<Rightarrow> 'd mongodb \<Rightarrow> env \<Rightarrow> string \<Rightarrow> ListParams \<Rightarrow> 'd \<Rightarrow> (store_error, ListResult) outcome \<times> 'd" where
  "mg_List cfg db e resourceType lp d =
     (let (q, needs) = list_filter lp; coll = collectionName cfg resourceType
      in case mg_count db e coll q d of
           (Inl err, d) \<Rightarrow> (Err (wrap_err KInternal ('': count: '' @ err)), d)
         | (Inr n, d) \<Rightarrow>
             (case mg_find db e coll q (list_opts cfg resourceType lp n) d of
                (Inl err, d) \<Rightarrow> (Err (wrap_err KInternal ('': find: '' @ err)), d)
              | (Inr cur, d) \<Rightarrow>
                  ((case list_docs cfg resourceType cur of
                      Inl err \<Rightarrow> Err err
                    | Inr rs \<Rightarrow>
                        Ok \<lparr>Resources = rs, TotalResults = n, LStartIndex = (if StartIndex lp < 1 then 1 else StartIndex lp),
                            ItemsPerPage = int (length rs), NeedsClientFilter = needs\<rparr>), d)))"

definition mg_upd ::
    "mg_config \<Rightarrow> 'd mongodb \<Rightarrow> env \<Rightarrow> string \<Rightarrow> string \<Rightarrow> resource \<Rightarrow> 'd \<Rightarrow> (store_error, unit) outcome \<times> 'd" where
  "mg_upd cfg db e resourceType rid clone d =
     (case mg_replace_one db e (collectionName cfg resourceType) (by_id rid) (to_doc cfg resourceType clone) d of
        (Inl (dup, err), d) \<Rightarrow>
          (Err (if dup then wrap_err KConflict ('': '' @ err) else wrap_err KInternal ('': replace: '' @ err)), d)
      | (Inr n, d) \<Rightarrow> (if n = 0 then Err (not_found resourceType rid) else Ok (), d))"

definition mg_Replace ::
    "mg_config \<Rightarrow> 'd mongodb \<Rightarrow> env \<Rightarrow> string \<Rightarrow> string \<Rightarrow> resource \<Rightarrow> 'd \<Rightarrow> (store_error, resource) outcome \<times> 'd" where
  "mg_Replace cfg db = doc_Replace (mg_Get cfg db) (mg_upd cfg db)"

definition mg_Patch ::
    "mg_config \<Rightarrow> 'd mongodb \<Rightarrow> env \<Rightarrow> string \<Rightarrow> string \<Rightarrow> PatchOp list \<Rightarrow> 'd \<Rightarrow> (store_error, resource) outcome \<times> 'd" where
  "mg_Patch cfg db e resourceType rid =
     patch_with (mg_Get cfg db e resourceType rid) (mg_Replace cfg db e resourceType rid)"

definition mg_Delete :: "mg_config \<Rightarrow> 'd mongodb \<Rightarrow> env \<Rightarrow> string \<Rightarrow> string \<Rightarrow> 'd \<Rightarrow> (store_error, unit) outcome \<times> 'd" where
  "mg_Delete cfg db e resourceType rid d =
     (case mg_delete_one db e (collectionName cfg resourceType) (by_id rid) d of
        (Inl err, d) \<Rightarrow> (Err (wrap_err KInternal ('': delete: '' @ err)), d)
      | (Inr n, d) \<Rightarrow> (if n = 0 then Err (not_found resourceType rid) else Ok (), d))"

definition mongo_ops :: "mg_config \<Rightarrow> 'd mongodb \<Rightarrow> 'd store_ops" where
  "mongo_ops cfg db =
     \<lparr>st_Create = mg_Create cfg db, st_Get = mg_Get cfg db, st_List = mg_List cfg db, st_Replace = mg_Replace cfg db,
      st_Patch = mg_Patch cfg db, st_Delete = mg_Delete cfg db\<rparr>"

end
