(* ===== verification/Mongo_Facts.thy ===== *)
theory Mongo_Facts
  imports Mongo_Store "HOL-Library.AList"
begin

text \<open>
  What the MongoDB store relies on of the server and the driver, as a locale: a collection keeps documents under their
  \<open>_id\<close>, and what is read of a value is \<open>decode\<close>: scalars come back as they are, a nested document as a \<open>bson.M\<close> and
  an array as a \<open>bson.A\<close>, the types the driver decodes into.  The code looks for maps and slices of the plain Go types,
  so what was stored as a list of schemas or as metadata is not found again: \<open>mongo_read_back\<close>.
\<close>

definition back_map :: "(gval \<Rightarrow> gval) \<Rightarrow> attrs \<Rightarrow> attrs" where
  "back_map decode m = map (\<lambda>(k, v). (k, decode v)) m"

lemma back_map_simps [simp]: "back_map decode [] = []" "back_map decode ((k, v) # m) = (k, decode v) # back_map decode m"
  "back_map decode (m @ m') = back_map decode m @ back_map decode m'"
  by (simp_all add: back_map_def)

locale mongo_collection =
  fixes db :: "'d mongodb" and docs :: "'d \<Rightarrow> string \<times> string \<Rightarrow> attrs option" and ok :: "'d \<Rightarrow> bool"
    and avail :: "env \<Rightarrow> 'd \<Rightarrow> bool" and decode :: "gval \<Rightarrow> gval"
  assumes insert_one: "ok d \<Longrightarrow> map_of doc mongoID = Some (GStr i) \<Longrightarrow> mg_insert_one db e c doc d = (None, d') \<Longrightarrow>
      ok d' \<and> docs d (c, i) = None \<and> docs d' = (docs d)((c, i) \<mapsto> doc)"
    and find_one: "ok d \<Longrightarrow> mg_find_one db e c (by_id i) d = (res, d') \<Longrightarrow>
      ok d' \<and> docs d' = docs d \<and>
      (case res of Inl err \<Rightarrow> \<not> avail e d
       | Inr found \<Rightarrow> found = map_option (back_map decode) (docs d (c, i)))"
    and replace_one: "ok d \<Longrightarrow> map_of doc mongoID = Some (GStr i) \<Longrightarrow> mg_replace_one db e c (by_id i) doc d = (Inr n, d') \<Longrightarrow>
      ok d' \<and> (if n = 0 then docs d' = docs d else docs d (c, i) \<noteq> None \<and> docs d' = (docs d)((c, i) \<mapsto> doc))"
    and delete_one: "ok d \<Longrightarrow> mg_delete_one db e c (by_id i) d = (Inr n, d') \<Longrightarrow>
      ok d' \<and> (if n = 0 then docs d' = docs d else docs d (c, i) \<noteq> None \<and> docs d' = (docs d)((c, i) := None))"
    and back_scalar: "decode GNil = GNil" "decode (GBool b) = GBool b" "decode (GFloat64 f) = GFloat64 f" "decode (GStr s) = GStr s"
    and back_nested: "decode (GMap m) = bsonM (back_map decode m)" "decode (GArr vs) = GNamed ''bson.A'' (GArr (map decode vs))"
      "decode (GStrs ss) = GNamed ''bson.A'' (GArr (map GStr ss))"
begin

lemma json_not_named: "json_norm v \<noteq> GNamed n w"
  by (induction v) auto

lemma json_norm_back: "json_norm v = v \<Longrightarrow> json_norm (decode v) = v"
proof (induction v)
  case (GArr vs)
  from GArr(2) have "\<forall>v\<in>set vs. json_norm v = v" by (metis gval.inject(8) json_norm.simps(9) list.map_ident map_eq_conv)
  then show ?case using GArr by (simp add: back_nested map_idI)
next
  case (GMap m)
  have "json_norm v = v" if "(k, v) \<in> set m" for k v
  proof -
    have "map (\<lambda>(k, v). (k, json_norm v)) m = map (\<lambda>x. x) m" using GMap(2) by simp
    from map_eq_conv [THEN iffD1, OF this] that show ?thesis by fastforce
  qed
  then have "map ((\<lambda>(k, v). (k, json_norm v)) \<circ> (\<lambda>(k, v). (k, decode v))) m = m"
    using GMap(1) by (intro map_idI) force
  then show ?case by (simp add: back_nested bsonM_def back_map_def)
qed (use json_not_named in \<open>auto simp: back_scalar\<close>)

lemma json_norm_back_map: "json_norm_map m = m \<Longrightarrow> json_norm_map (back_map decode m) = m"
  using json_norm_back [of "GMap m"] by (simp add: json_norm_map_def back_nested bsonM_def)

end

subsection \<open>Reading documents\<close>

lemma doc_entries:
  assumes "list_all (\<lambda>(k, v). \<not> EqualFold k ''id'') m" "distinct (keys (out @ m))"
  shows "foldl doc_entry out m = out @ m"
  using assms
  by (induction m arbitrary: out) (auto simp: doc_entry_def map_put_fresh)

lemma not_reserved_id: "\<not> reserved k \<Longrightarrow> \<not> EqualFold k ''id''"
  by (auto simp: reserved_def EqualFold_def ToLower_def)

text \<open>The document of a resource has its parts in the order of \<open>ToMap\<close>, the id under \<open>_id\<close>.\<close>

lemma resourceToDoc_eq:
  assumes "wf_resource r" "mongoID \<notin> set (keys (Attributes r))"
  shows "resourceToDoc r =
     Attributes r @
     (if Schemas r \<noteq> [] then [(''schemas'', GStrs (Schemas r))] else []) @
     (if ID r \<noteq> [] then [(mongoID, GStr (ID r))] else []) @
     (if ExternalID r \<noteq> [] then [(''externalId'', GStr (ExternalID r))] else []) @
     (if meta_present (Meta r) then [(''meta'', GMap (meta_map (Meta r)))] else [])"
proof -
  have a: "foldl doc_entry [] (Attributes r) = Attributes r"
    using assms(1) doc_entries [of "Attributes r" "[]"]
    by (auto simp: wf_resource_def wf_attrs_def list_all_pair dest: not_reserved_id)
  have f: "\<not> EqualFold ''schemas'' ''id''" "\<not> EqualFold ''externalId'' ''id''" "\<not> EqualFold ''meta'' ''id''"
    by (simp_all add: EqualFold_def ToLower_def)
  have n: "''schemas'' \<noteq> mongoID" "''externalId'' \<noteq> mongoID" "''meta'' \<noteq> mongoID" by (simp_all add: mongoID_def)
  show ?thesis
    using not_reserved_keys [of "Attributes r"] assms n
    by (simp add: resourceToDoc_def ToMap_eq a doc_entry_def f wf_resource_def map_put_fresh)
qed

definition from_doc_entry :: "attrs \<Rightarrow> string \<times> gval \<Rightarrow> attrs" where
  "from_doc_entry m kv = (case kv of (k, v) \<Rightarrow> if k = mongoID then map_put ''id'' v m else map_put k v m)"

lemma docToResource_eq:
  "docToResource doc rt = (let r = FromMap (foldl from_doc_entry [] doc) in r\<lparr>Meta := (Meta r)\<lparr>ResourceType := rt\<rparr>\<rparr>)"
  by (simp add: docToResource_def from_doc_entry_def [abs_def] case_prod_unfold Let_def)

lemma from_doc_entries:
  assumes "mongoID \<notin> set (keys m)" "distinct (keys (out @ m))"
  shows "foldl from_doc_entry out m = out @ m"
  using assms
  by (induction m arbitrary: out) (auto simp: from_doc_entry_def map_put_fresh)

lemma keys_back_map [simp]: "keys (back_map decode m) = keys m"
  by (simp add: back_map_def comp_def case_prod_unfold)

context mongo_collection
begin

lemma hex_encode_Nil_iff: "hex_encode b = [] \<longleftrightarrow> b = []"
  by (cases b) (simp_all add: hex_encode_def)

text \<open>What \<open>docToResource\<close> makes of a document that was stored.\<close>

lemma read_doc:
  assumes "wf_resource r" "mongoID \<notin> set (keys (Attributes r))"
  shows "docToResource (back_map decode (resourceToDoc r)) rt =
    \<lparr>Schemas = [], ID = ID r, ExternalID = ExternalID r, Meta = empty_meta\<lparr>ResourceType := rt\<rparr>,
     Attributes = back_map decode (Attributes r)\<rparr>"
proof -
  let ?m = "back_map decode (Attributes r)"
  have w: "distinct (keys ?m)" "list_all (\<lambda>(k, v). \<not> reserved k) ?m"
    using assms(1) by (auto simp: wf_resource_def wf_attrs_def list_all_iff back_map_def comp_def case_prod_unfold)
  have f: "foldl from_doc_entry [] ?m = ?m" using from_doc_entries [of ?m "[]"] assms(2) w(1) by simp
  have g: "foldl from_entry empty_resource ?m = empty_resource\<lparr>Attributes := ?m\<rparr>"
    using from_entry_attrs [OF w, of empty_resource] by (simp add: empty_resource_def)
  have n: "''schemas'' \<noteq> mongoID" "''externalId'' \<noteq> mongoID" "''meta'' \<noteq> mongoID" by (simp_all add: mongoID_def)
  have k: "''schemas'' \<notin> fst ` set ?m" "''id'' \<notin> fst ` set ?m" "''externalId'' \<notin> fst ` set ?m" "''meta'' \<notin> fst ` set ?m"
    using not_reserved_keys [of ?m] w by (auto simp: wf_attrs_def)
  have "foldl from_doc_entry [] (back_map decode (resourceToDoc r)) = ?m @
      (if Schemas r \<noteq> [] then [(''schemas'', decode (GStrs (Schemas r)))] else []) @
      (if ID r \<noteq> [] then [(''id'', GStr (ID r))] else []) @
      (if ExternalID r \<noteq> [] then [(''externalId'', GStr (ExternalID r))] else []) @
      (if meta_present (Meta r) then [(''meta'', decode (GMap (meta_map (Meta r))))] else [])"
    using n k by (simp add: resourceToDoc_eq [OF assms] f from_doc_entry_def back_scalar map_put_fresh)
  then have "FromMap (foldl from_doc_entry [] (back_map decode (resourceToDoc r))) =
      empty_resource\<lparr>ID := ID r, ExternalID := ExternalID r, Attributes := ?m\<rparr>"
    by (simp add: FromMap_def g) (simp add: from_entry_def back_nested bsonM_def ToLower_def empty_resource_def)
  then show ?thesis by (simp add: docToResource_eq empty_resource_def empty_meta_def)
qed

text \<open>A resource that \<open>Create\<close> stored, as \<open>Get\<close> reads it.\<close>

lemma create_read:
  assumes "ok d" "mg_resCfg cfg rt = None" "rand_bytes e = Inr b" "b \<noteq> []"
    and "mongoID \<notin> set (keys (Attributes (Clone x)))"
    and "mg_Create cfg db e rt x d = (Ok r, d')" "avail e' d'"
  shows "\<exists>q d''. mg_Get cfg db e' rt (ID r) d' = (Ok q, d'') \<and> ID q = ID r \<and> ExternalID q = ExternalID r \<and>
    json_norm_map (Attributes q) = Attributes r \<and> Attributes q = back_map decode (Attributes r) \<and> Schemas q = [] \<and>
    Meta q = empty_meta\<lparr>ResourceType := rt\<rparr>"
proof -
  let ?c = "stamp_new (hex_encode b) rt (now e) (Clone x)"
  have simple: "to_doc cfg rt y = resourceToDoc y" for y by (simp add: to_doc_def isFieldMapped_def assms(2))
  have r: "r = ?c" "mg_insert_one db e (collectionName cfg rt) (resourceToDoc ?c) d = (None, d')"
    using assms(3,6) by (auto simp: mg_Create_def doc_Create_def mg_new_id_def mg_ins_def simple Let_def
      split: prod.splits option.splits outcome.splits if_splits)
  have wf: "wf_resource ?c" "mongoID \<notin> set (keys (Attributes ?c))" "ID ?c \<noteq> []" "ID ?c = hex_encode b"
    using assms(4,5) storable_Clone [of x] by (simp_all add: stamp_new_def hex_encode_Nil_iff storable_def wf_resource_def)
  have "map_of (resourceToDoc ?c) mongoID = Some (GStr (ID ?c))"
    using wf by (simp add: resourceToDoc_eq map_add_def map_of_eq_None_iff [THEN iffD2] mongoID_def)
  from insert_one [OF assms(1) this r(2)] have d': "ok d'" "docs d' (collectionName cfg rt, ID ?c) = Some (resourceToDoc ?c)"
    by simp_all
  obtain res d'' where f: "mg_find_one db e' (collectionName cfg rt) (by_id (ID ?c)) d' = (res, d'')" by fastforce
  from find_one [OF d'(1) f] d'(2) assms(7) have "res = Inr (Some (back_map decode (resourceToDoc ?c)))"
    by (cases res) auto
  then have "mg_Get cfg db e' rt (ID r) d' = (Ok (docToResource (back_map decode (resourceToDoc ?c)) rt), d'')"
    using f by (simp add: mg_Get_def assms(2) getSimple_def mg_find_doc_def r(1))
  moreover have "json_norm_map (back_map decode (Attributes r)) = Attributes r"
    using storable_Clone [of x] by (intro json_norm_back_map) (simp add: r(1) stamp_new_def storable_def)
  ultimately show ?thesis by (simp add: read_doc [OF wf(1,2)] r(1))
qed

end

subsection \<open>A small collection\<close>

fun mini_decode :: "gval \<Rightarrow> gval" where
  "mini_decode (GMap m) = bsonM (map (\<lambda>(k, v). (k, mini_decode v)) m)"
| "mini_decode (GArr vs) = GNamed ''bson.A'' (GArr (map mini_decode vs))"
| "mini_decode (GStrs ss) = GNamed ''bson.A'' (GArr (map GStr ss))"
| "mini_decode v = v"

type_synonym mini_mongo = "((string \<times> string) \<times> attrs) list"

definition mini_id :: "bson_d \<Rightarrow> string" where
  "mini_id q = (case q of [(_, BV (GStr i))] \<Rightarrow> i | _ \<Rightarrow> [])"

definition mini_mongodb :: "mini_mongo mongodb" where
  "mini_mongodb =
     \<lparr>mg_connect = (\<lambda>_ d. (None, d)), mg_ping = (\<lambda>_ d. (None, d)), mg_disconnect = (\<lambda>_ d. (None, d)),
      mg_create_index = (\<lambda>_ _ _ _ d. (None, d)),
      mg_insert_one = (\<lambda>_ c doc d.
        case map_of doc mongoID of
          Some (GStr i) \<Rightarrow> if map_of d (c, i) = None then (None, ((c, i), doc) # d) else (Some (True, ''E11000''), d)
        | _ \<Rightarrow> (Some (False, ''id''), d)),
      mg_find_one = (\<lambda>_ c q d. (Inr (map_option (back_map mini_decode) (map_of d (c, mini_id q))), d)),
      mg_aggregate = (\<lambda>_ _ _ d. (Inr ([], None), d)),
      mg_count = (\<lambda>_ c _ d. (Inr (int (length (filter (\<lambda>x. fst (fst x) = c) d))), d)),
      mg_find = (\<lambda>_ c _ _ d. (Inr (map (\<lambda>x. Inr (back_map mini_decode (snd x))) (filter (\<lambda>x. fst (fst x) = c) d), None), d)),
      mg_replace_one = (\<lambda>_ c q doc d.
        if map_of d (c, mini_id q) = None then (Inr 0, d) else (Inr 1, ((c, mini_id q), doc) # d)),
      mg_delete_one = (\<lambda>_ c q d.
        if map_of d (c, mini_id q) = None then (Inr 0, d) else (Inr 1, AList.delete (c, mini_id q) d))\<rparr>"

interpretation mini_mongo: mongo_collection mini_mongodb map_of "\<lambda>d. True" "\<lambda>e d. True" mini_decode
proof (unfold_locales, goal_cases)
  case (1 d doc i e c d')
  then show ?case by (auto simp: mini_mongodb_def split: if_splits)
next
  case (2 d e c i res d')
  then show ?case by (auto simp: mini_mongodb_def mini_id_def by_id_def)
next
  case (3 d doc i e c n d')
  then show ?case by (auto simp: mini_mongodb_def mini_id_def by_id_def split: if_splits)
next
  case (4 d e c i n d')
  then show ?case by (auto simp: mini_mongodb_def mini_id_def by_id_def delete_conv' split: if_splits)
qed (simp_all add: back_map_def)

subsection \<open>What is read back\<close>

text \<open>C36: A resource created in the MongoDB store is read back under its id with its external id and, up to the types of
  nested values, its attributes; but the driver decodes arrays and documents into its own types, which \<open>FromMap\<close> does not
  take for slices and maps, so the schemas and the metadata other than the type are lost.\<close>

theorem mongo_read_back:
  assumes "mongo_collection db docs ok avail decode" "ok d" "mg_resCfg cfg rt = None" "rand_bytes e = Inr b" "b \<noteq> []"
    and "mongoID \<notin> set (keys (Attributes (Clone x)))"
    and "mg_Create cfg db e rt x d = (Ok r, d')" "avail e' d'"
  shows "\<exists>q d''. mg_Get cfg db e' rt (ID r) d' = (Ok q, d'') \<and> ID q = ID r \<and> ExternalID q = ExternalID r \<and>
    json_norm_map (Attributes q) = Attributes r \<and> Attributes q = back_map decode (Attributes r) \<and> Schemas q = [] \<and>
    Meta q = empty_meta\<lparr>ResourceType := rt\<rparr>"
  by (rule mongo_collection.create_read [OF assms])

definition mongo_bob :: resource where
  "mongo_bob = empty_resource\<lparr>Schemas := [''urn:u''], Attributes := [(''name'', GMap [(''givenName'', GStr ''Bob'')])]\<rparr>"

definition mongo_env :: env where
  "mongo_env = \<lparr>ctx_err = None, rand_bytes = Inr ''k'', now = 0\<rparr>"

theorem mongo_read_back_witness:
  "\<exists>r d q d''. mg_Create mg_defaultConfig mini_mongodb mongo_env ''User'' mongo_bob [] = (Ok r, d) \<and> Schemas r = [''urn:u''] \<and>
     mg_Get mg_defaultConfig mini_mongodb mongo_env ''User'' (ID r) d = (Ok q, d'') \<and> Schemas q = [] \<and>
     Attributes q = [(''name'', bsonM [(''givenName'', GStr ''Bob'')])]"
proof -
  let ?c = "mg_Create mg_defaultConfig mini_mongodb mongo_env ''User'' mongo_bob []"
  have s: "(case ?c of (Ok r, _) \<Rightarrow> Schemas r = [''urn:u''] \<and> Attributes r = [(''name'', GMap [(''givenName'', GStr ''Bob'')])] | _ \<Rightarrow> False)"
    by code_simp
  obtain r d where c: "?c = (Ok r, d)" "Schemas r = [''urn:u'']" "Attributes r = [(''name'', GMap [(''givenName'', GStr ''Bob'')])]"
    using s by (auto split: prod.splits outcome.splits)
  have p: "mg_resCfg mg_defaultConfig ''User'' = None" "rand_bytes mongo_env = Inr ''k''" "''k'' \<noteq> []"
    "mongoID \<notin> set (keys (Attributes (Clone mongo_bob)))" by code_simp+
  from mongo_read_back [OF mini_mongo.mongo_collection_axioms TrueI p c(1) TrueI] c show ?thesis by fastforce
qed

end
