(* ===== verification/Float_Print.thy ===== *)
theory Float_Print
  imports Go_Float
begin

text \<open>
  \<open>strconv.FormatFloat(f, 'f', -1, 64)\<close>, the shortest decimal without an exponent, and the proof that
  \<open>strconv.ParseFloat\<close> reads it back: rounding depends only on the value of a fraction, every fraction closer to a
  float than a relative \<open>2 ^ -54\<close> rounds to it, and 17 significant digits are that close.
\<close>

definition FormatFloat_f :: "f64 \<Rightarrow> string" where
  "FormatFloat_f f =
     (case shortest double_prec (f_man f) (f_exp f) of
        (ds, dp) \<Rightarrow> (if f_neg f then ''-'' else []) @ fmt_fixed ds dp)"

subsection \<open>Rounding depends on the value only\<close>

lemma le_pow2_quotient: "0 < d \<Longrightarrow> le_pow2 k d n \<longleftrightarrow> 2 powi k \<le> real n / real d"
  unfolding le_pow2_real by (simp add: field_simps)

lemma powi_lessD: "2 powi a < (2 :: real) powi b \<Longrightarrow> a < b"
  by (rule ccontr) (simp add: not_less flip: not_le, erule notE, rule power_int_increasing, simp_all)

lemma log2_frac_quotient:
  assumes "0 < n" "0 < d" "2 powi k \<le> real n / real d" "real n / real d < 2 powi (k + 1)"
  shows "log2_frac n d = k"
  using assms by (intro log2_frac_unique) (simp_all add: le_pow2_quotient)

lemma log2_frac_real:
  assumes "0 < n" "0 < d"
  shows "2 powi (log2_frac n d) \<le> real n / real d" "real n / real d < 2 powi (log2_frac n d + 1)"
  using log2_frac_bounds [OF assms] assms by (simp_all add: le_pow2_quotient)

lemma scaled_real:
  assumes "scaled n d e = (N, D)" "0 < d"
  shows "0 < D" "real N / real D = real n / real d / 2 powi e"
  using assms by (auto simp: scaled_def power_int_def field_simps split: if_splits)

lemma quotient_eq_cross: "0 < (d::nat) \<Longrightarrow> 0 < d' \<Longrightarrow> real n / real d = real n' / real d' \<longleftrightarrow> n * d' = n' * d"
  by (simp add: field_simps flip: of_nat_mult)

lemma round_half_even_scale: "0 < k \<Longrightarrow> round_half_even (n * k) (d * k) = round_half_even n d"
  by (simp add: round_half_even_def Let_def mult_mod_left)

lemma round_half_even_quotient:
  assumes "0 < d" "0 < d'" "real n / real d = real n' / real d'"
  shows "round_half_even n d = round_half_even n' d'"
proof -
  have "n * d' = n' * d" using assms quotient_eq_cross by blast
  then show ?thesis
    using round_half_even_scale [OF assms(1), of n' d'] round_half_even_scale [OF assms(2), of n d]
    by (simp add: mult.commute)
qed

lemma round_frac_quotient:
  assumes "0 < d" "0 < d'" "real n / real d = real n' / real d'"
  shows "round_frac p n d = round_frac p n' d'"
proof (cases "n = 0")
  case True
  then have "n' = 0" using assms by simp
  then show ?thesis using True by (simp add: round_frac_def)
next
  case False
  then have n: "0 < n" "0 < n'" using assms by (auto intro!: Nat.gr0I)
  have l: "log2_frac n d = log2_frac n' d'"
    using log2_frac_real [OF n(2) assms(2)] assms by (intro log2_frac_quotient n) simp_all
  have "(case scaled n d e of (N, D) \<Rightarrow> round_half_even N D) = (case scaled n' d' e of (N, D) \<Rightarrow> round_half_even N D)" for e
    using scaled_real [of n d e] scaled_real [of n' d' e] assms
    by (auto intro!: round_half_even_quotient split: prod.split)
  then show ?thesis unfolding round_frac_scaled [OF n(1)] round_frac_scaled [OF n(2)] l by simp
qed

subsection \<open>Fractions near a float\<close>

lemma round_half_even_near:
  assumes "0 < d" "\<bar>real n / real d - real m\<bar> < 1 / 2"
  shows "round_half_even n d = m"
proof -
  define q r where "q = n div d" and "r = n mod d"
  have n: "real n = real q * real d + real r" and r: "r < d"
    using assms(1) by (simp_all add: q_def r_def flip: of_nat_mult of_nat_add)
  have "(real n / real d - real m) * (2 * real d) = 2 * real n - 2 * real m * real d"
    using assms(1) by (simp add: left_diff_distrib)
  moreover have "\<bar>(real n / real d - real m) * (2 * real d)\<bar> < 1 / 2 * (2 * real d)"
    using assms by (simp add: abs_mult)
  ultimately have b: "\<bar>2 * (real q - real m) * real d + 2 * real r\<bar> < real d"
    using n by (simp add: algebra_simps)
  consider "q < m - 1" | "q + 1 = m" | "q = m" | "m < q" by linarith
  then show ?thesis
  proof cases
    case 1
    then have "real q - real m \<le> -2" by linarith
    then have "(real q - real m) * real d \<le> -2 * real d" by (intro mult_right_mono) simp_all
    then show ?thesis using b r by linarith
  next
    case 2
    then have "real q - real m = -1" by linarith
    then have "\<not> 2 * real r \<le> real d" using b by (simp add: abs_less_iff)
    then have "d < 2 * r" by linarith
    then show ?thesis using 2 by (auto simp: round_half_even_def Let_def q_def r_def)
  next
    case 3
    then have "2 * r < d" using b by simp
    then show ?thesis using 3 by (auto simp: round_half_even_def Let_def q_def r_def)
  next
    case 4
    then have "1 \<le> real q - real m" by linarith
    then have "1 * real d \<le> (real q - real m) * real d" by (intro mult_right_mono) simp_all
    then show ?thesis using b by linarith
  qed
qed

lemma round_frac_at:
  assumes "0 < n" "0 < d" "max (log2_frac n d - int (p_bits p) + 1) (p_emin p) = e"
    and "\<bar>real n / real d / 2 powi e - real m\<bar> < 1 / 2"
  shows "round_frac p n d =
     (let (m', e') = (if m = 2 ^ p_bits p then (m div 2, e + 1) else (m, e))
      in if m' = 0 then Some (0, 0) else if e' > p_emax p then None else Some (m', e'))"
proof -
  obtain N D where s: "scaled n d e = (N, D)" by fastforce
  have "round_half_even N D = m"
    using scaled_real [OF s assms(2)] assms(4) by (intro round_half_even_near) simp_all
  then show ?thesis unfolding round_frac_scaled [OF assms(1)] Let_def assms(3) s by simp
qed

text \<open>A relative distance below \<open>2 ^ -54\<close> is at most a quarter of the step below a power of two, and half the step elsewhere.\<close>

lemma round_frac_near:
  assumes c: "canonical double_prec m e" and "0 < m" "0 < n" "0 < d"
    and v: "v = real m * 2 powi e" and near: "\<bar>real n / real d - v\<bar> * 2 ^ 54 < v"
  shows "round_frac double_prec n d = Some (m, e)"
proof -
  define r where "r = real n / real d"
  define u :: real where "u = 2 powi e"
  have u: "0 < u" by (simp add: u_def)
  have cm: "m < 2 ^ 53" "- 1074 \<le> e" "e \<le> 971" "2 ^ 52 \<le> m \<or> e = - 1074"
    using c assms(2) by (simp_all add: canonical_def double_prec_def)
  have m: "real m \<le> 2 ^ 53 - 1" "1 \<le> real m" using cm(1) assms(2) by simp_all
  have vm: "v = real m * u" by (simp add: v u_def)
  have err: "\<bar>r - v\<bar> * 2 ^ 54 < real m * u" using near vm by (simp add: r_def)
  have mu: "real m * u \<le> (2 ^ 53 - 1) * u" using m(1) u by (intro mult_right_mono) simp_all
  have "real m * u \<le> 2 ^ 53 * u" using mu u by (simp add: left_diff_distrib)
  then have half: "\<bar>r - v\<bar> < u / 2" using err by simp
  have at_e: "\<bar>r / u - real m\<bar> < 1 / 2"
  proof -
    have "r / u - real m = (r - v) / u" using u vm by (simp add: field_simps)
    then show ?thesis using half u by (simp add: field_simps)
  qed
  have pow: "2 powi (e + int k) = 2 ^ k * u" for k by (simp add: u_def power_int_add)
  have "v \<le> 2 ^ 53 * u - u" unfolding vm using mu by (simp only: left_diff_distrib mult_1)
  then have up: "r < 2 ^ 53 * u" using half u by linarith
  have prec: "int (p_bits double_prec) = 53" "p_emin double_prec = - 1074" "p_emax double_prec = 971"
    by (simp_all add: double_prec_def)
  note bounds = log2_frac_real [OF assms(3,4), folded r_def]
  have L_up: "log2_frac n d - 53 + 1 \<le> e"
  proof -
    have "2 powi (log2_frac n d) < (2 :: real) powi (e + 53)" using bounds(1) up pow [of 53] by simp
    then show ?thesis by (auto dest: powi_lessD)
  qed
  show ?thesis
  proof (cases "2 ^ 52 * u \<le> r \<or> e = - 1074")
    case True
    have "max (log2_frac n d - 53 + 1) (- 1074) = e"
    proof (cases "e = - 1074")
      case False
      then have "2 powi (e + 52) < (2 :: real) powi (log2_frac n d + 1)" using True bounds(2) pow [of 52] by simp
      then have "e + 52 < log2_frac n d + 1" by (rule powi_lessD)
      then show ?thesis using L_up cm(2) by simp
    qed (use L_up in simp)
    then show ?thesis
      using round_frac_at [OF assms(3,4), of double_prec e m] at_e cm assms(2)
      by (simp add: prec r_def u_def double_prec_def)
  next
    case False
    then have low: "r < 2 ^ 52 * u" "e \<noteq> - 1074" by simp_all
    have m52: "m = 2 ^ 52"
    proof (rule ccontr)
      assume "m \<noteq> 2 ^ 52"
      then have "2 ^ 52 + 1 \<le> real m" using cm(4) low(2) by simp
      then have "(2 ^ 52 + 1) * u \<le> v" unfolding vm using u by (intro mult_right_mono) simp_all
      then show False using half low(1) u unfolding distrib_right by linarith
    qed
    then have quarter: "\<bar>r - v\<bar> < u / 4" using err by simp
    then have "v - r < u / 4" using abs_ge_minus_self [of "r - v"] by linarith
    moreover have "v = 2 ^ 52 * u" using vm m52 by simp
    ultimately have "2 ^ 51 * u \<le> r" using u by simp
    then have "log2_frac n d = e + 51"
      using low(1) pow [of 51] pow [of 52] by (intro log2_frac_quotient assms) (simp_all add: r_def [symmetric] add.commute)
    then have "max (log2_frac n d - 53 + 1) (- 1074) = e - 1" using low(2) cm(2) by simp
    moreover have "\<bar>r / 2 powi (e - 1) - real (2 ^ 53)\<bar> < 1 / 2"
    proof -
      define w :: real where "w = 2 powi (e - 1)"
      have w: "u = 2 * w" "0 < w" by (simp_all add: u_def w_def power_int_diff)
      have "r / w - real (2 ^ 53) = (r - v) / w" using w vm m52 by (simp add: field_simps)
      then show ?thesis using quarter w unfolding w_def [symmetric] by (simp add: field_simps)
    qed
    ultimately show ?thesis
      using round_frac_at [OF assms(3,4), of double_prec "e - 1" "2 ^ 53"] m52 cm(3)
      by (simp add: prec r_def double_prec_def)
  qed
qed

subsection \<open>Seventeen digits\<close>

lemma nat_str_length: "0 < n \<Longrightarrow> 10 ^ (length (nat_str n) - 1) \<le> n"
proof (induction n rule: nat_str.induct)
  case (1 n)
  show ?case
  proof (cases "n < 10")
    case True
    then show ?thesis using 1(2) by (subst nat_str.simps) simp
  next
    case False
    then have "10 ^ (length (nat_str (n div 10)) - 1) \<le> n div 10" using 1 by simp
    then have "10 * 10 ^ (length (nat_str (n div 10)) - 1) \<le> 10 * (n div 10)" by (rule mult_le_mono2)
    also have "\<dots> \<le> n" by simp
    finally show ?thesis using False nat_str_nonempty [of "n div 10"]
      by (subst nat_str.simps) (cases "length (nat_str (n div 10))", simp_all)
  qed
qed

lemma f_quotient: "real (f_num m e) / real (f_den e) = real m * 2 powi e" "0 < f_den e" "0 < m \<Longrightarrow> 0 < f_num m e"
  by (auto simp: f_num_def f_den_def power_int_def field_simps)

lemma log10_frac_le:
  assumes "0 < n" "0 < d" "d \<le> n * 10 ^ 330"
  shows "10 powi (log10_frac n d) \<le> real n / real d"
proof (cases "d \<le> n")
  case True
  then have "0 < n div d" using assms by (simp add: div_greater_zero_iff)
  then have "10 ^ (length (nat_str (n div d)) - 1) * d \<le> n"
    using nat_str_length [of "n div d"] assms(2) by (simp add: less_eq_div_iff_mult_less_eq)
  then have "real (10 ^ (length (nat_str (n div d)) - 1) * d) \<le> real n" by (rule of_nat_mono)
  then show ?thesis using True assms(2) nat_str_nonempty [of "n div d"]
    by (simp add: log10_frac_def power_int_def field_simps nat_diff_distrib Suc_le_eq del: nat_str_nonempty)
next
  case False
  have "find (\<lambda>t. d \<le> n * 10 ^ t) [1..<331] \<noteq> None"
    unfolding find_None_iff not_not using assms(3) by (intro exI [of _ 330]) simp
  then obtain t where t: "find (\<lambda>t. d \<le> n * 10 ^ t) [1..<331] = Some t" by blast
  then have "d \<le> n * 10 ^ t" by (auto simp: find_Some_iff)
  then have "real d \<le> real (n * 10 ^ t)" by (rule of_nat_mono)
  then show ?thesis using False t assms(2) by (simp add: log10_frac_def power_int_minus field_simps)
qed

lemma least_float: "0 < m \<Longrightarrow> - 1074 \<le> e \<Longrightarrow> f_den e \<le> f_num m e * 10 ^ 330"
proof (cases "0 \<le> e")
  case False
  assume m: "0 < m" and e: "- 1074 \<le> e"
  have "f_den e = 2 ^ nat (- e)" using False by (simp add: f_den_def)
  also have "\<dots> \<le> 2 ^ 1074" using e by (intro power_increasing) simp_all
  also have "\<dots> \<le> 1 * 10 ^ 330" by simp
  also have "\<dots> \<le> f_num m e * 10 ^ 330" using m False by (intro mult_le_mono1) (simp add: f_num_def)
  finally show ?thesis .
qed (simp add: f_den_def f_num_def)

lemma nearest_digit:
  assumes "0 < d"
  obtains c cs where "(if 2 * (n mod d) \<le> d then [n div d, n div d + 1] else [n div d + 1, n div d]) = c # cs"
    and "\<bar>real c - real n / real d\<bar> \<le> 1 / 2"
proof -
  have n: "real n / real d = real (n div d) + real (n mod d) / real d"
    using assms by (simp add: field_simps flip: of_nat_mult of_nat_add)
  show ?thesis
  proof (cases "2 * (n mod d) \<le> d")
    case True
    then have "real (n mod d) / real d \<le> 1 / 2" using assms by (simp add: field_simps)
    then show ?thesis using True n that [of "n div d"] by simp
  next
    case False
    then have "1 / 2 \<le> real (n mod d) / real d" "real (n mod d) / real d < 1"
      using assms by (simp_all add: field_simps)
    then show ?thesis using False n that [of "n div d + 1"] by simp
  qed
qed

lemma seventeen_digits:
  assumes c: "canonical double_prec m e" and m: "0 < m"
  shows "shortest_at double_prec m e (log10_frac (f_num m e) (f_den e)) 17 \<noteq> None"
proof -
  define x where "x = log10_frac (f_num m e) (f_den e)"
  define t where "t = x - 16"
  define v where "v = real m * 2 powi e"
  define n d where "n = f_num m e * (if t < 0 then 10 ^ nat (- t) else 1)"
    and "d = f_den e * (if 0 \<le> t then 10 ^ nat t else 1)"
  have v: "0 < v" using m by (simp add: v_def)
  have d: "0 < d" using f_quotient(2) by (simp add: d_def)
  have "real n / real d = real (f_num m e) / real (f_den e) / 10 powi t"
    by (simp add: n_def d_def power_int_def field_simps)
  then have nd: "real n / real d = v / 10 powi t" by (simp only: f_quotient(1) v_def)
  obtain b cs where b: "(if 2 * (n mod d) \<le> d then [n div d, n div d + 1] else [n div d + 1, n div d]) = b # cs"
    "\<bar>real b - real n / real d\<bar> \<le> 1 / 2"
    using nearest_digit [OF d] by blast
  have "10 powi x \<le> v"
    using log10_frac_le [of "f_num m e" "f_den e"] f_quotient(1,3) [of m e] f_quotient(2) [of e] least_float [OF m, of e] c m
    by (simp add: x_def v_def canonical_def double_prec_def)
  then have x: "10 powi t * 10 ^ 16 \<le> v" by (simp add: t_def power_int_diff)
  have "real b * 10 powi t - v = (real b - real n / real d) * 10 powi t" unfolding nd by (simp add: left_diff_distrib)
  then have "\<bar>real b * 10 powi t - v\<bar> = \<bar>real b - real n / real d\<bar> * 10 powi t" by (simp add: abs_mult)
  also have "\<dots> \<le> 1 / 2 * 10 powi t" using b(2) by (intro mult_right_mono) simp_all
  finally have near: "\<bar>real b * 10 powi t - v\<bar> * 2 ^ 54 < v" using x v by simp
  have b0: "0 < b"
  proof (rule ccontr)
    assume "\<not> 0 < b"
    then show False using near v by simp
  qed
  have "decimal_rounds_to double_prec b t (m, e)"
  proof (cases "0 \<le> t")
    case True
    then show ?thesis
      using round_frac_near [OF c m, of "b * 10 ^ nat t" 1 v] b0 near
      by (simp add: decimal_rounds_to_def v_def power_int_def)
  next
    case False
    then have "real b / 10 ^ nat (- t) = real b * 10 powi t" by (simp add: power_int_def field_simps)
    then show ?thesis
      using round_frac_near [OF c m, of b "10 ^ nat (- t)" v] b0 near False
      by (simp add: decimal_rounds_to_def v_def)
  qed
  then show ?thesis
    using b(1) unfolding x_def [symmetric] shortest_at_def
    by (auto simp: Let_def t_def [symmetric] n_def [symmetric] d_def [symmetric] split: if_splits)
qed

lemma first_some_found: "x \<in> set xs \<Longrightarrow> f x \<noteq> None \<Longrightarrow> \<exists>x y. f x = Some y \<and> first_some f xs = Some y"
  by (induction xs) (auto split: option.split)

text \<open>The digits and the position of the point, as they come from the search.\<close>

lemma shortest_decimal:
  assumes "canonical double_prec m e" "0 < m"
  obtains c t where "shortest double_prec m e = (TrimRightChar (CHR ''0'') (nat_str c), int (length (nat_str c)) + t)"
    and "decimal_rounds_to double_prec c t (m, e)"
proof -
  have "\<exists>k y. shortest_at double_prec m e (log10_frac (f_num m e) (f_den e)) k = Some y \<and>
      first_some (shortest_at double_prec m e (log10_frac (f_num m e) (f_den e))) [1..<18] = Some y"
    by (rule first_some_found [where x = 17]) (use seventeen_digits [OF assms] in simp_all)
  then obtain k c t where y: "shortest_at double_prec m e (log10_frac (f_num m e) (f_den e)) k = Some (c, t)"
    "first_some (shortest_at double_prec m e (log10_frac (f_num m e) (f_den e))) [1..<18] = Some (c, t)"
    by fastforce
  have "decimal_rounds_to double_prec c t (m, e)"
    using y(1) unfolding shortest_at_def Let_def by (auto simp: find_Some_iff)
  then show ?thesis using that y(2) assms(2) by (simp add: shortest_def Let_def)
qed

subsection \<open>The printed form\<close>

lemma digits_val_app: "digits_val (a @ b) = digits_val a * 10 ^ length b + digits_val b"
proof (induction b rule: rev_induct)
  case (snoc c b)
  have "digits_val (a @ b @ [c]) = 10 * digits_val (a @ b) + digit_val c"
    using digits_val_append [of "a @ b" c] by simp
  then show ?case using snoc by (simp add: digits_val_append algebra_simps)
qed (simp add: digits_val_def)

lemma digits_val_zeros [simp]: "digits_val (replicate k (CHR ''0'')) = 0"
  by (induction k) (simp_all add: digits_val_def digit_val_def char_code_def)

lemma zeros_digits [simp]: "list_all is_digit_char (replicate k (CHR ''0''))"
  by (simp add: list_all_iff is_digit_char_def char_code_def)

lemma TrimRightChar_append: "\<exists>k. s = TrimRightChar c s @ replicate k c"
proof -
  have "takeWhile (\<lambda>d. d = c) (rev s) = replicate (length (takeWhile (\<lambda>d. d = c) (rev s))) c"
    by (rule replicate_eqI) (auto dest: set_takeWhileD)
  then have "rev s = replicate (length (takeWhile (\<lambda>d. d = c) (rev s))) c @ dropWhile (\<lambda>d. d = c) (rev s)"
    by (metis takeWhile_dropWhile_id)
  then have "s = TrimRightChar c s @ rev (replicate (length (takeWhile (\<lambda>d. d = c) (rev s))) c)"
    unfolding TrimRightChar_def by (metis rev_append rev_rev_ident)
  then show ?thesis by (metis rev_replicate)
qed

text \<open>The two parts of a printed number, and its value.\<close>

lemma fixed_parts:
  assumes "list_all is_digit_char ds" "ds \<noteq> []"
  obtains ip fp where "fmt_fixed ds dp = ip @ (if fp = [] then [] else CHR ''.'' # fp)"
    and "ip \<noteq> []" "list_all is_digit_char ip" "list_all is_digit_char fp"
    and "real (digits_val (ip @ fp)) / 10 ^ length fp = real (digits_val ds) * 10 powi (dp - int (length ds))"
proof -
  consider "dp \<le> 0" | "0 < dp" "int (length ds) \<le> dp" | "0 < dp" "dp < int (length ds)" by linarith
  then show ?thesis
  proof cases
    case 1
    have "real (digits_val ds) / 10 ^ (nat (- dp) + length ds) = real (digits_val ds) * 10 powi (dp - int (length ds))"
    proof -
      have "dp - int (length ds) = - int (nat (- dp) + length ds)" using 1 by simp
      then show ?thesis by (simp only: power_int_minus power_int_of_nat) (simp add: field_simps)
    qed
    moreover have "is_digit_char (CHR ''0'')" by (simp add: is_digit_char_def char_code_def)
    moreover have "digits_val (replicate (Suc (nat (- dp))) (CHR ''0'') @ ds) = digits_val ds"
      by (simp only: digits_val_app digits_val_zeros)
    then have z: "digits_val (CHR ''0'' # replicate (nat (- dp)) (CHR ''0'') @ ds) = digits_val ds" by simp
    ultimately show ?thesis
      using 1 assms that [of "''0''" "replicate (nat (- dp)) (CHR ''0'') @ ds"] z by (simp add: fmt_fixed_def)
  next
    case 2
    then have "real (10 ^ (nat dp - length ds)) = 10 powi (dp - int (length ds))"
      by (simp add: power_int_def nat_diff_distrib)
    then show ?thesis
      using 2 assms that [of "ds @ replicate (nat dp - length ds) (CHR ''0'')" "[]"]
      by (simp add: fmt_fixed_def digits_val_app)
  next
    case 3
    then have "10 powi (dp - int (length ds)) = (1 :: real) / 10 ^ (length ds - nat dp)"
      by (simp add: power_int_def nat_diff_distrib field_simps)
    moreover have "drop (nat dp) ds \<noteq> []" "take (nat dp) ds \<noteq> []" using 3 by auto
    moreover have "list_all is_digit_char (take (nat dp) ds)" "list_all is_digit_char (drop (nat dp) ds)"
      using assms(1) by (auto simp: list_all_iff dest: in_set_takeD in_set_dropD)
    ultimately show ?thesis
      using 3 that [of "take (nat dp) ds" "drop (nat dp) ds"] by (simp add: fmt_fixed_def)
  qed
qed

lemma parse_decimal_parts:
  assumes "ip \<noteq> []" "list_all is_digit_char ip" "list_all is_digit_char fp"
  shows "parse_decimal ((if neg then ''-'' else []) @ ip @ (if fp = [] then [] else CHR ''.'' # fp)) =
    Some (neg, digits_val (ip @ fp), - int (length fp))"
proof -
  define u where "u = (if fp = [] then [] else CHR ''.'' # fp)"
  obtain c r where ip: "ip = c # r" "is_digit_char c" using assms(1,2) by (cases ip) auto
  have "HasPrefix (ip @ u) ''-'' = False" "TrimPrefix (ip @ u) ''-'' = ip @ u"
    using ip digit_char_not_sign by (auto simp: HasPrefix_def TrimPrefix_def)
  then have sg: "HasPrefix ((if neg then ''-'' else []) @ ip @ u) ''-'' = neg"
    "TrimPrefix ((if neg then ''-'' else []) @ ip @ u) ''-'' = ip @ u"
    using HasPrefix_append [of "''-''" "ip @ u"] TrimPrefix_append [of "''-''" "ip @ u"]
    by (cases neg; simp del: HasPrefix_append TrimPrefix_append)+
  have dot: "\<not> is_digit_char (CHR ''.'')" by (simp add: is_digit_char_def char_code_def)
  have ds: "takeWhile is_digit_char fp = fp" "dropWhile is_digit_char fp = []"
    using assms(3) by (simp_all add: list_all_iff)
  have "takeWhile is_digit_char (ip @ u) = ip @ takeWhile is_digit_char u" "dropWhile is_digit_char (ip @ u) = dropWhile is_digit_char u"
    using assms(2) by (simp_all add: list_all_iff takeWhile_append dropWhile_append)
  moreover have "takeWhile is_digit_char u = []" "dropWhile is_digit_char u = u" using dot by (simp_all add: u_def)
  ultimately have tw: "takeWhile is_digit_char (ip @ u) = ip" "dropWhile is_digit_char (ip @ u) = u" by simp_all
  show ?thesis
    unfolding u_def [symmetric] parse_decimal_def Let_def sg tw by (cases "fp = []") (simp_all add: u_def ds assms(1))
qed

text \<open>The digits of a float before they are placed: decimal digits whose value rounds to it.\<close>

lemma shortest_digits:
  assumes c: "canonical double_prec m e"
  obtains ds dp where "shortest double_prec m e = (ds, dp)" "list_all is_digit_char ds" "ds \<noteq> []"
    and "\<And>n d. 0 < d \<Longrightarrow> real n / real d = real (digits_val ds) * 10 powi (dp - int (length ds)) \<Longrightarrow>
      round_frac double_prec n d = Some (m, e)"
proof (cases "m = 0")
  case True
  then have "shortest double_prec m e = (''0'', 1)" "e = 0"
    using c by (simp_all add: shortest_def canonical_def)
  moreover have "list_all is_digit_char ''0''" "digits_val ''0'' = 0"
    by (simp_all add: is_digit_char_def digits_val_def digit_val_def char_code_def)
  ultimately show ?thesis using True that [of "''0''" 1] by (simp add: round_frac_def)
next
  case False
  then obtain n t where s: "shortest double_prec m e = (TrimRightChar (CHR ''0'') (nat_str n), int (length (nat_str n)) + t)"
    and r: "decimal_rounds_to double_prec n t (m, e)"
    using shortest_decimal [OF c] by blast
  define ds where "ds = TrimRightChar (CHR ''0'') (nat_str n)"
  obtain k where k: "nat_str n = ds @ replicate k (CHR ''0'')" using TrimRightChar_append ds_def by metis
  have n: "n = digits_val ds * 10 ^ k"
    using arg_cong [OF k, of digits_val] by (simp add: digits_val_app)
  have "n \<noteq> 0" using r False by (auto simp: decimal_rounds_to_def round_frac_def split: if_splits)
  then have "ds \<noteq> []" using n by (auto simp: digits_val_def)
  moreover have "list_all is_digit_char ds" using nat_str_digits [of n] k by simp
  moreover have "round_frac double_prec a b = Some (m, e)"
    if "0 < b" "real a / real b = real (digits_val ds) * 10 powi (int (length (nat_str n)) + t - int (length ds))" for a b
  proof -
    have l: "int (length (nat_str n)) + t - int (length ds) = int k + t" using k by simp
    have "real a / real b = real (digits_val ds) * (10 ^ k * 10 powi t)"
      using that(2) unfolding l by (simp add: power_int_add)
    moreover have "real n = real (digits_val ds) * 10 ^ k" by (subst n) simp
    ultimately have q: "real a / real b = real n * 10 powi t" by simp
    show ?thesis
    proof (cases "0 \<le> t")
      case True
      then show ?thesis
        using r q that(1) round_frac_quotient [of b 1 a "n * 10 ^ nat t"]
        by (simp add: decimal_rounds_to_def power_int_def)
    next
      case False
      then have "real n * 10 powi t = real n / real (10 ^ nat (- t))" by (simp add: power_int_def field_simps)
      then show ?thesis
        using r q that(1) False round_frac_quotient [of b "10 ^ nat (- t)" a n] by (simp add: decimal_rounds_to_def)
    qed
  qed
  ultimately show ?thesis using that s ds_def by metis
qed

text \<open>The shape of the printed number, for the scanners, and that it is read back.\<close>

lemma FormatFloat_parts:
  assumes "canonical_f f"
  obtains ip fp where "FormatFloat_f f = (if f_neg f then ''-'' else []) @ ip @ (if fp = [] then [] else CHR ''.'' # fp)"
    and "ip \<noteq> []" "list_all is_digit_char ip" "list_all is_digit_char fp" "ParseFloat (FormatFloat_f f) = Some f"
proof -
  obtain ds dp where ds: "shortest double_prec (f_man f) (f_exp f) = (ds, dp)" "list_all is_digit_char ds" "ds \<noteq> []"
    and r: "\<And>n d. 0 < d \<Longrightarrow> real n / real d = real (digits_val ds) * 10 powi (dp - int (length ds)) \<Longrightarrow>
      round_frac double_prec n d = Some (f_man f, f_exp f)"
    using shortest_digits assms unfolding canonical_f_def by metis
  obtain ip fp where p: "fmt_fixed ds dp = ip @ (if fp = [] then [] else CHR ''.'' # fp)" "ip \<noteq> []"
      "list_all is_digit_char ip" "list_all is_digit_char fp"
    and v: "real (digits_val (ip @ fp)) / 10 ^ length fp = real (digits_val ds) * 10 powi (dp - int (length ds))"
    using fixed_parts [OF ds(2,3)] by metis
  have s: "FormatFloat_f f = (if f_neg f then ''-'' else []) @ ip @ (if fp = [] then [] else CHR ''.'' # fp)"
    using ds(1) p(1) by (simp add: FormatFloat_f_def)
  have "round_frac double_prec (digits_val (ip @ fp)) (10 ^ length fp) = Some (f_man f, f_exp f)"
    using v by (intro r) simp_all
  then have "ParseFloat (FormatFloat_f f) = Some f"
    unfolding ParseFloat_def s parse_decimal_parts [OF p(2-4)] by (cases "fp = []") (simp_all add: mk_f64_def)
  then show ?thesis using that s p(2-4) by blast
qed

end
