(* ===== verification/Client_Text.thy ===== *)
theory Client_Text
  imports Patch_Path Float_Print
begin

text \<open>
  How the SCIM client (\<open>connector/scim/client.go\<close>) writes filters and PATCH targets into a request:
  \<open>filterToString\<close>, \<open>formatFilterValue\<close>, \<open>patchPathToString\<close>.  The round trips say that the parsers of the server
  read back what the client wrote, although the client quotes strings as JSON and the parser unquotes Go literals.
\<close>

subsection \<open>json.Marshal of a string\<close>

text \<open>Valid UTF-8.  The characters of HTML and U+2028, U+2029 (the bytes E2 80 A8 and A9) are escaped.\<close>

definition json_char :: "char \<Rightarrow> string" where
  "json_char c =
     (let n = char_code c
      in if c = dquote \<or> c = backslash then [backslash, c]
         else if n = 8 then [backslash, CHR ''b''] else if n = 12 then [backslash, CHR ''f'']
         else if n = 10 then [backslash, CHR ''n''] else if n = 13 then [backslash, CHR ''r'']
         else if n = 9 then [backslash, CHR ''t'']
         else if n < 32 \<or> c = CHR ''<'' \<or> c = CHR ''>'' \<or> c = CHR ''&'' then
           [backslash, CHR ''u'', CHR ''0'', CHR ''0'', hex_digit (n div 16), hex_digit (n mod 16)]
         else [c])"

definition line_sep :: "string \<Rightarrow> bool" where
  "line_sep s =
     (case s of a # b # c # _ \<Rightarrow> a = CHR 0xE2 \<and> b = CHR 0x80 \<and> (c = CHR 0xA8 \<or> c = CHR 0xA9) | _ \<Rightarrow> False)"

function json_body :: "string \<Rightarrow> string" where
  "json_body s =
     (case s of [] \<Rightarrow> []
      | a # r \<Rightarrow>
        if line_sep s then [backslash, CHR ''u'', CHR ''2'', CHR ''0'', CHR ''2'', hex_digit (char_code (s ! 2) mod 16)] @ json_body (drop 3 s)
        else json_char a @ json_body r)"
  by auto
termination by (relation "measure length") (auto simp: line_sep_def split: list.splits)

declare json_body.simps [simp del]

definition json_string :: "string \<Rightarrow> string" where
  "json_string s = dquote # json_body s @ [dquote]"

subsection \<open>Filters and targets\<close>

fun formatFilterValue :: "gval \<Rightarrow> string" where
  "formatFilterValue GNil = ''null''"
| "formatFilterValue (GStr s) = json_string s"
| "formatFilterValue (GBool b) = (if b then ''true'' else ''false'')"
| "formatFilterValue (GFloat64 f) = FormatFloat_f f"
| "formatFilterValue v = fmt_v v"

fun filterToString :: "FilterExpression \<Rightarrow> string" where
  "filterToString (AttrExpression p op v) =
     (if op = OpPr then path_String p @ '' pr''
      else path_String p @ '' '' @ CompareOp_String op @ '' '' @ formatFilterValue v)"
| "filterToString (LogicalExpression l op r) =
     ''('' @ filterToString l @ '' '' @ (if op = LogicalOr then ''or'' else ''and'') @ '' '' @ filterToString r @ '')''"
| "filterToString (NotExpression e) = ''not ('' @ filterToString e @ '')''"
| "filterToString (ValuePathExpression p e) = path_String p @ ''['' @ filterToString e @ '']''"

definition patchPathToString :: "PatchPath \<Rightarrow> string" where
  "patchPathToString pp =
     path_String (PatchPath.Attribute pp) @
     (case ValueFilter pp of None \<Rightarrow> [] | Some f \<Rightarrow> ''['' @ filterToString f @ '']'') @
     (if PSubAttribute pp = [] then [] else CHR ''.'' # PSubAttribute pp)"

subsection \<open>Strings are read back\<close>

lemma line_sep_cases:
  assumes "line_sep s"
  obtains c r where "s = CHR 0xE2 # CHR 0x80 # c # r" "c = CHR 0xA8 \<or> c = CHR 0xA9"
  using assms unfolding line_sep_def by (auto split: list.splits)

lemma hex_val_digit [simp]: "n < 16 \<Longrightarrow> hex_val (hex_digit n) = Some n"
  by (auto simp: hex_digit_def char_code_def)

lemma hex_digit_not_quote [simp]: "n < 16 \<Longrightarrow> hex_digit n \<noteq> backslash" "n < 16 \<Longrightarrow> hex_digit n \<noteq> dquote"
proof -
  have "hex_val backslash = None" "hex_val dquote = None"
    by (simp_all add: backslash_def dquote_def char_code_def)
  then show "n < 16 \<Longrightarrow> hex_digit n \<noteq> backslash" "n < 16 \<Longrightarrow> hex_digit n \<noteq> dquote"
    by (metis hex_val_digit option.distinct(1))+
qed

lemma hex_digits_four:
  assumes "a < 16" "b < 16" "c < 16" "d < 16"
  shows "hex_digits 4 0 (hex_digit a # hex_digit b # hex_digit c # hex_digit d # t) =
    Some (16 * (16 * (16 * a + b) + c) + d, t)"
proof -
  have "hex_digits (Suc (Suc (Suc (Suc 0)))) 0 (hex_digit a # hex_digit b # hex_digit c # hex_digit d # t) =
    Some (16 * (16 * (16 * a + b) + c) + d, t)"
    using assms by (simp del: hex_val.simps)
  then show ?thesis by (simp only: eval_nat_numeral BitM.simps)
qed

lemma unquote_u:
  assumes "a < 16" "b < 16" "c < 16" "d < 16" "valid_rune (16 * (16 * (16 * a + b) + c) + d)"
  shows "unquote_body (backslash # CHR ''u'' # hex_digit a # hex_digit b # hex_digit c # hex_digit d # t) =
    map_option (\<lambda>u. utf8_encode (16 * (16 * (16 * a + b) + c) + d) @ u) (unquote_body t)"
proof -
  have "unquote_escape (CHR ''u'' # hex_digit a # hex_digit b # hex_digit c # hex_digit d # t) =
      Some (utf8_encode (16 * (16 * (16 * a + b) + c) + d), t)"
    using assms(5) by (simp add: unquote_escape_def hex_digits_four [OF assms(1-4)])
  then show ?thesis by simp
qed

lemma hex_digit_zero: "hex_digit 0 = CHR ''0''" "hex_digit 2 = CHR ''2''"
  by (simp_all add: hex_digit_def char_of_eq_iff)

lemma unquote_plain: "c \<noteq> CHR 0x0A \<Longrightarrow> c \<noteq> dquote \<Longrightarrow> c \<noteq> backslash \<Longrightarrow> unquote_body (c # t) = map_option (\<lambda>u. c # u) (unquote_body t)"
  by simp

lemma unquote_control:
  assumes "char_code c < 128"
  shows "unquote_body (backslash # CHR ''u'' # CHR ''0'' # CHR ''0'' # hex_digit (char_code c div 16) # hex_digit (char_code c mod 16) # t) =
    map_option (\<lambda>u. c # u) (unquote_body t)"
proof -
  have n: "16 * (16 * (16 * 0 + 0) + char_code c div 16) + char_code c mod 16 = char_code c" by simp
  have "utf8_encode (char_code c) = [c]" using assms by (simp add: utf8_encode_def char_code_def)
  then show ?thesis
    using unquote_u [of 0 0 "char_code c div 16" "char_code c mod 16" t, unfolded n] assms
    by (simp add: hex_digit_zero valid_rune_def del: unquote_body.simps)
qed

lemma unquote_json_char: "unquote_body (json_char c @ t) = map_option (\<lambda>u. c # u) (unquote_body t)"
proof (cases "char_code c < 32 \<or> c = CHR ''<'' \<or> c = CHR ''>'' \<or> c = CHR ''&''")
  case True
  have nq: "c \<noteq> dquote" "c \<noteq> backslash" using True by (auto simp: dquote_def backslash_def char_code_def)
  have "c = CHR 0x08 \<or> c = CHR 0x0C \<or> c = CHR 0x0A \<or> c = CHR 0x0D \<or> c = CHR 0x09 \<or> char_code c \<notin> {8, 12, 10, 13, 9}"
    using of_char_eq_iff [of c "CHR 0x08", where 'a = nat] of_char_eq_iff [of c "CHR 0x0C", where 'a = nat]
      of_char_eq_iff [of c "CHR 0x0A", where 'a = nat] of_char_eq_iff [of c "CHR 0x0D", where 'a = nat]
      of_char_eq_iff [of c "CHR 0x09", where 'a = nat]
    by (auto simp: char_code_def)
  then show ?thesis
  proof (elim disjE)
    assume "char_code c \<notin> {8, 12, 10, 13, 9}"
    then have "json_char c = [backslash, CHR ''u'', CHR ''0'', CHR ''0'', hex_digit (char_code c div 16), hex_digit (char_code c mod 16)]"
      using True nq by (auto simp: json_char_def Let_def)
    moreover have "char_code c < 128" using True by (auto simp: char_code_def)
    ultimately show ?thesis using unquote_control by simp
  qed (simp_all add: json_char_def Let_def unquote_escape_def char_code_def dquote_def backslash_def append_Cons [abs_def])
next
  case False
  then have nl: "c \<noteq> CHR 0x0A" by (auto simp: char_code_def)
  show ?thesis
  proof (cases "c = dquote \<or> c = backslash")
    case True
    then have "unquote_escape (c # t) = Some ([c], t)" by auto
    then show ?thesis using True by (simp add: json_char_def append_Cons [abs_def])
  next
    case plain: False
    then have "json_char c = [c]" using False by (auto simp: json_char_def Let_def)
    then show ?thesis using plain nl unquote_plain by simp
  qed
qed

lemma unquote_json: "unquote_body (json_body s @ t) = map_option (\<lambda>u. s @ u) (unquote_body t)"
proof (induction s rule: json_body.induct)
  case (1 s)
  show ?case
  proof (cases s)
    case Nil
    then show ?thesis by (simp add: json_body.simps [of "[]"] option.map_ident)
  next
    case (Cons a r)
    show ?thesis
    proof (cases "line_sep s")
      case True
      then obtain c r' where s: "s = CHR 0xE2 # CHR 0x80 # c # r'" and c: "c = CHR 0xA8 \<or> c = CHR 0xA9"
        by (rule line_sep_cases)
      have len: "8 \<le> char_code c mod 16 \<and> char_code c mod 16 < 16" "char_code c mod 16 = 8 \<or> char_code c mod 16 = 9"
        using c by (auto simp: char_code_def)
      have "utf8_encode (16 * (16 * (16 * 2 + 0) + 2) + char_code c mod 16) = [CHR 0xE2, CHR 0x80, c]"
        using c by (auto simp: utf8_encode_def char_code_def char_of_eq_iff)
      moreover have "json_body s = [backslash, CHR ''u'', CHR ''2'', CHR ''0'', CHR ''2'', hex_digit (char_code c mod 16)] @ json_body r'"
        using True by (subst json_body.simps) (simp add: s)
      moreover have "unquote_body (json_body r' @ t) = map_option (\<lambda>u. r' @ u) (unquote_body t)"
        using 1(1) [of "CHR 0xE2" "CHR 0x80 # c # r'"] True s by simp
      moreover have "valid_rune (16 * (16 * (16 * 2 + 0) + 2) + char_code c mod 16)"
        using len by (auto simp: valid_rune_def)
      ultimately show ?thesis
        using unquote_u [of 2 0 2 "char_code c mod 16" "json_body r' @ t"] len s
        by (simp add: hex_digit_zero option.map_comp comp_def del: unquote_body.simps)
    next
      case False
      then have "json_body s = json_char a @ json_body r" using Cons by (subst json_body.simps) simp
      then show ?thesis using 1(2) [OF Cons False] Cons
        by (simp add: unquote_json_char option.map_comp comp_def)
    qed
  qed
qed

lemma scan_json_char:
  assumes "s \<noteq> []"
  shows "scan_string (json_char c @ s) = map_option (\<lambda>(b, r). (json_char c @ b, r)) (scan_string s)"
proof -
  obtain x y where s: "s = x # y" using assms by (cases s) auto
  have d: "hex_digit (char_code c div 16) \<noteq> backslash" "hex_digit (char_code c div 16) \<noteq> dquote"
    "hex_digit (char_code c mod 16) \<noteq> backslash" "hex_digit (char_code c mod 16) \<noteq> dquote"
    by (simp_all add: char_code_def less_mult_imp_div_less)
  have nz: "CHR ''0'' \<noteq> backslash" "CHR ''0'' \<noteq> dquote" by (simp_all add: backslash_def dquote_def)
  show ?thesis
    unfolding json_char_def Let_def s
    by (simp add: d nz option.map_comp comp_def case_prod_unfold)
qed

lemma scan_json: "scan_string (json_body s @ dquote # t) = Some (json_body s, t)"
proof (induction s rule: json_body.induct)
  case (1 s)
  show ?case
  proof (cases s)
    case Nil
    then show ?thesis by (cases t) (simp_all add: json_body.simps [of "[]"])
  next
    case (Cons a r)
    show ?thesis
    proof (cases "line_sep s")
      case True
      then obtain c r' where s: "s = CHR 0xE2 # CHR 0x80 # c # r'" by (rule line_sep_cases)
      have e: "json_body s = [backslash, CHR ''u'', CHR ''2'', CHR ''0'', CHR ''2'', hex_digit (char_code c mod 16)] @ json_body r'"
        using True by (subst json_body.simps) (simp add: s)
      have "scan_string (json_body r' @ dquote # t) = Some (json_body r', t)"
        using 1(1) [of "CHR 0xE2" "CHR 0x80 # c # r'"] True s by simp
      moreover have "hex_digit (char_code c mod 16) \<noteq> backslash" "hex_digit (char_code c mod 16) \<noteq> dquote" by simp_all
      moreover have "CHR ''0'' \<noteq> backslash" "CHR ''0'' \<noteq> dquote" "CHR ''2'' \<noteq> backslash" "CHR ''2'' \<noteq> dquote"
        by (simp_all add: backslash_def dquote_def)
      moreover obtain x y where "json_body r' @ dquote # t = x # y" by (cases "json_body r'") auto
      ultimately show ?thesis unfolding e by simp
    next
      case False
      then have "json_body s = json_char a @ json_body r" using Cons by (subst json_body.simps) simp
      then show ?thesis using 1(2) [OF Cons False] by (simp add: scan_json_char)
    qed
  qed
qed

lemma parseString_json: "parseString (json_string s @ t) = Inr (s, t)"
  using unquote_json [of s "[]"] by (simp add: parseString_def json_string_def peek_def scan_json)

subsection \<open>Numbers are read back\<close>

lemma scan_number_FormatFloat:
  assumes "canonical_f f" "at_boundary t"
  shows "scan_number (FormatFloat_f f @ t) = (FormatFloat_f f, t)"
proof -
  define sg where "sg = (if f_neg f then ''-'' else [])"
  obtain ip fp where p: "FormatFloat_f f = sg @ ip @ (if fp = [] then [] else CHR ''.'' # fp)"
    "ip \<noteq> []" "list_all is_digit_char ip" "list_all is_digit_char fp"
    using FormatFloat_parts [OF assms(1)] unfolding sg_def by metis
  obtain c r where c: "ip = c # r" "is_digit_char c" using p(2,3) by (cases ip) auto
  have t: "t = [] \<or> \<not> is_digit_char (hd t)"
    "\<not> (t \<noteq> [] \<and> hd t = CHR ''.'')" "\<not> (t \<noteq> [] \<and> (hd t = CHR ''e'' \<or> hd t = CHR ''E''))"
    using assms(2) at_boundary_hd by (cases t; force)+
  have d: "scan_digits (ds @ u) = (ds, u)" if "list_all is_digit_char ds" "u = [] \<or> \<not> is_digit_char (hd u)" for ds u
    using that by (cases u) (auto simp: scan_digits_def list_all_iff takeWhile_append dropWhile_append)
  have sgn: "(if peek (sg @ ip @ u) = CHR ''-'' then (''-'', tl (sg @ ip @ u)) else ([], sg @ ip @ u)) = (sg, ip @ u)" for u
    using c digit_char_not_sign by (auto simp: sg_def peek_def)
  show ?thesis
  proof (cases "fp = []")
    case True
    then show ?thesis
      using scan_number_parts [OF sgn d [OF p(3) t(1)], of "[]" t "[]" t] t(2,3) p(1) by simp
  next
    case False
    have dot: "\<not> is_digit_char (CHR ''.'')" by (simp add: is_digit_char_def char_code_def)
    show ?thesis
      using scan_number_parts [OF sgn d [OF p(3), of "CHR ''.'' # fp @ t"], of "CHR ''.'' # fp" t "[]" t] d [OF p(4) t(1)] t(3) p(1) False dot
      by simp
  qed
qed

lemma parseCompValue_client:
  assumes "comp_value v" and "at_boundary t"
  shows "parseCompValue (formatFilterValue v @ t) = Inr (v, t)"
proof (cases v)
  case (GFloat64 f)
  then have f: "canonical_f f" using assms by simp
  obtain ip fp where p: "FormatFloat_f f = (if f_neg f then ''-'' else []) @ ip @ (if fp = [] then [] else CHR ''.'' # fp)"
    "ip \<noteq> []" "list_all is_digit_char ip" "ParseFloat (FormatFloat_f f) = Some f"
    using FormatFloat_parts [OF f] by metis
  then obtain c r where c: "FormatFloat_f f = c # r" "c = CHR ''-'' \<or> is_digit_char c"
    by (cases ip; cases "f_neg f") auto
  then have c': "\<not> is_ws c" "c \<noteq> dquote" "c \<noteq> CHR ''n''" "c \<noteq> CHR ''t''" "c \<noteq> CHR ''f''"
    by (auto simp: is_ws_def dquote_def is_digit_char_def char_code_def)
  have "parseNumber (FormatFloat_f f @ t) = Inr (f, t)"
    using p(4) by (simp add: parseNumber_def scan_number_FormatFloat [OF f assms(2)])
  then show ?thesis using GFloat64 c c' by (auto simp add: parseCompValue_def HasPrefix_def)
next
  case (GStr s)
  have "\<not> is_ws dquote" by (simp add: is_ws_def dquote_def)
  then show ?thesis using GStr parseString_json [of s t] by (simp add: parseCompValue_def json_string_def)
qed (use assms parseCompValue_show [OF assms] in simp_all)

subsection \<open>Expressions are read back\<close>

lemma filterToString_AttrExpression:
  "filterToString (AttrExpression p op v) =
     path_String p @ '' '' @ CompareOp_String op @ (if op = OpPr then [] else '' '' @ formatFilterValue v)"
  by simp

lemma filterToString_nows: "wf_expr e \<Longrightarrow> skipWS (filterToString e @ t) = filterToString e @ t"
  by (induction e arbitrary: t) (auto simp del: comp_value.simps formatFilterValue.simps)

text \<open>The end of an operand: a closing bracket or the end of the text.\<close>

definition operand_end :: "string \<Rightarrow> bool" where
  "operand_end t = (t = [] \<or> hd t = CHR '')'' \<or> hd t = CHR '']'')"

lemma operand_end_no_keyword:
  assumes "operand_end t"
  shows "skipWS t = t" "matchKeyword ''or'' t = None" "matchKeyword ''and'' t = None" "at_boundary t"
  using assms by (cases t; auto simp: operand_end_def matchKeyword_closed at_boundary_def)+

lemma yields_or_and_end: "yields_and s (Inr (e, t)) \<Longrightarrow> operand_end t \<Longrightarrow> yields_or s (Inr (e, t))"
  using yields_or_I [OF _ yields_orLoop_stop, of s e t] operand_end_no_keyword [of t] by simp

lemma yields_or_end:
  assumes "yields_not s (Inr (e, t))" "operand_end t"
  shows "yields_or s (Inr (e, t))"
proof -
  have "yields_and s (Inr (e, t))"
    using yields_and_I [OF assms(1) yields_andLoop_stop] operand_end_no_keyword [OF assms(2)] by simp
  then show ?thesis using yields_or_and_end assms(2) by blast
qed

lemma yields_or_conjunction:
  assumes "yields_not s (Inr (l, '' and '' @ u))" "skipWS u = u" "yields_not u (Inr (r, t))" "operand_end t"
  shows "yields_or s (Inr (LogicalExpression l LogicalAnd r, t))"
proof -
  note t = operand_end_no_keyword [OF assms(4)]
  have m: "matchKeyword ''and'' (skipWS ('' and '' @ u)) = Some u"
    using assms(2) by (simp only: matchKeyword_skipWS matchKeyword_and)
  have "yields_andLoop (LogicalExpression l LogicalAnd r) t (Inr (LogicalExpression l LogicalAnd r, t))"
    using yields_andLoop_stop [of t "LogicalExpression l LogicalAnd r"] t by simp
  then have "yields_and s (Inr (LogicalExpression l LogicalAnd r, t))"
    by (intro yields_and_I [OF assms(1)] yields_andLoop_step [OF m assms(3)])
  then show ?thesis using assms(4) by (rule yields_or_and_end)
qed

lemma yields_or_disjunction:
  assumes "yields_not s (Inr (l, '' or '' @ u))" "skipWS u = u" "yields_not u (Inr (r, t))" "operand_end t"
  shows "yields_or s (Inr (LogicalExpression l LogicalOr r, t))"
proof -
  note t = operand_end_no_keyword [OF assms(4)]
  let ?s = "skipWS ('' or '' @ u)"
  have "yields_and s (Inr (l, ?s))"
    using no_and_or [of u] by (intro yields_and_I [OF assms(1)] yields_andLoop_stop) (simp only: no_and_def matchKeyword_skipWS)
  moreover have m: "matchKeyword ''or'' (skipWS ?s) = Some u"
    using assms(2) by (simp only: matchKeyword_skipWS matchKeyword_or)
  moreover have "yields_and u (Inr (r, t))"
    using yields_and_I [OF assms(3) yields_andLoop_stop] t by simp
  moreover have "yields_orLoop (LogicalExpression l LogicalOr r) t (Inr (LogicalExpression l LogicalOr r, t))"
    using yields_orLoop_stop [of t "LogicalExpression l LogicalOr r"] t by simp
  ultimately show ?thesis by (metis yields_or_I yields_orLoop_step)
qed

lemma yields_client: "wf_expr e \<Longrightarrow> at_boundary t \<Longrightarrow> yields_not (filterToString e @ t) (Inr (e, t))"
proof (induction e arbitrary: t)
  case (AttrExpression p op v)
  then show ?case
    using yields_not_comparison [of p t op "formatFilterValue v" v] parseCompValue_client [of v t]
    unfolding filterToString_AttrExpression by auto
next
  case (LogicalExpression l op r)
  let ?t = "CHR '')'' # t"
  have r: "yields_not (filterToString r @ ?t) (Inr (r, ?t))" "skipWS (filterToString r @ ?t) = filterToString r @ ?t"
    using LogicalExpression filterToString_nows by simp_all
  have e: "operand_end ?t" by (simp add: operand_end_def)
  show ?case
  proof (cases op)
    case LogicalAnd
    have "yields_not (filterToString l @ '' and '' @ filterToString r @ ?t) (Inr (l, '' and '' @ filterToString r @ ?t))"
      using LogicalExpression by simp
    from yields_not_nested(1) [OF yields_or_conjunction [OF this r(2,1) e]] show ?thesis using LogicalAnd by simp
  next
    case LogicalOr
    have "yields_not (filterToString l @ '' or '' @ filterToString r @ ?t) (Inr (l, '' or '' @ filterToString r @ ?t))"
      using LogicalExpression by simp
    from yields_not_nested(1) [OF yields_or_disjunction [OF this r(2,1) e]] show ?thesis using LogicalOr by simp
  qed
next
  case (NotExpression e)
  have "yields_or (filterToString e @ CHR '')'' # t) (Inr (e, CHR '')'' # t))"
    using NotExpression by (intro yields_or_end) (simp_all add: operand_end_def)
  from yields_not_nested(2) [OF this] show ?case by simp
next
  case (ValuePathExpression p e)
  have "yields_or (filterToString e @ CHR '']'' # t) (Inr (e, CHR '']'' # t))"
    using ValuePathExpression by (intro yields_or_end) (simp_all add: operand_end_def)
  from yields_not_valuePath [OF _ this] show ?case using ValuePathExpression by simp
qed

lemma parse_client: "wf_expr e \<Longrightarrow> ParseFilter (filterToString e) = Inr e"
  using yields_or_end [OF yields_client [of e "[]"]] unfolding ParseFilter_iff yields_or_def
  by (metis append_Nil2 at_boundary_simps(1) operand_end_def skipWS_Nil)

text \<open>C13: Every filter that the parser can produce, of any nesting, with any string (quoted as JSON by the client and unquoted as
  a Go literal by the parser) and any number (printed as the shortest decimal), is read back by a server exactly as
  the client's caller built it, and no other filter is.\<close>

theorem client_filter_round_trip: "ParseFilter (filterToString e) = Inr e \<longleftrightarrow> wf_expr e"
  using parse_client ParseFilter_wf by blast

text \<open>A target, with the same characters behind the attribute as the printer of paths.\<close>

lemma ParsePatchPath_client:
  assumes "wf_patch_path p"
  shows "ParsePatchPath (patchPathToString p) = Inr p"
proof (cases "ValueFilter p")
  case None
  then have "patchPathToString p = show_patch_path p"
    using assms by (simp add: patchPathToString_def show_patch_path_def wf_patch_path_def)
  then show ?thesis using assms ParsePatchPath_show by simp
next
  case (Some f)
  let ?tail = "if PSubAttribute p = [] then [] else CHR ''.'' # PSubAttribute p"
  have wf: "wf_path (PatchPath.Attribute p)" "CHR ''['' \<notin> set (path_String (PatchPath.Attribute p))" "wf_expr f"
    "PSubAttribute p = [] \<or> isValidAttrName (PSubAttribute p)"
    using assms Some by (auto simp: wf_patch_path_def)
  have nb: "CHR '']'' \<notin> set ?tail" using wf(4) valid_name_no_bracket by auto
  have s: "patchPathToString p = path_String (PatchPath.Attribute p) @ CHR ''['' # (filterToString f @ CHR '']'' # ?tail)"
    using Some by (simp add: patchPathToString_def)
  have "ParsePath (path_String (PatchPath.Attribute p)) = Inr (PatchPath.Attribute p)"
    using wf(1) by (simp add: ParsePath_iff)
  then show ?thesis
    unfolding ParsePatchPath_def s cut_first_append [OF wf(2)]
    using nb wf(3,4) Some parse_client [of f]
    by (auto simp: HasPrefix_def cut_last_append simp del: not_None_eq split: if_splits)
qed

end
