(* ===== verification/Go_URL.thy ===== *)
theory Go_URL
  imports Http
begin

text \<open>
  What the SCIM client takes from \<open>net/url\<close>: escaping of a path segment and of query values, \<open>Values.Encode\<close>, and the
  decoding that a server does on arrival (\<open>unescape\<close>, \<open>parse_query\<close>), with the round trips.
\<close>

subsection \<open>Percent encoding\<close>

definition upper_hex :: "nat \<Rightarrow> char" where
  "upper_hex n = (if n < 10 then char_of (48 + n) else char_of (55 + n))"

definition unreserved :: "char \<Rightarrow> bool" where
  "unreserved c =
     (let n = char_code c
      in (97 \<le> n \<and> n \<le> 122) \<or> (65 \<le> n \<and> n \<le> 90) \<or> (48 \<le> n \<and> n \<le> 57) \<or> c \<in> {CHR ''-'', CHR ''_'', CHR ''.'', CHR ''~''})"

definition percent :: "char \<Rightarrow> string" where
  "percent c = [CHR ''%'', upper_hex (char_code c div 16), upper_hex (char_code c mod 16)]"

text \<open>\<open>url.PathEscape\<close> keeps what a path segment may hold, \<open>url.QueryEscape\<close> writes a space as a plus sign.\<close>

definition PathEscape :: "string \<Rightarrow> string" where
  "PathEscape s = concat (map (\<lambda>c.
     if unreserved c \<or> c \<in> {CHR ''$'', CHR ''&'', CHR ''+'', CHR '':'', CHR ''='', CHR ''@''} then [c] else percent c) s)"

definition QueryEscape :: "string \<Rightarrow> string" where
  "QueryEscape s = concat (map (\<lambda>c. if unreserved c then [c] else if c = CHR '' '' then ''+'' else percent c) s)"

text \<open>The flag says whether a plus sign is a space.  A percent sign that two hexadecimal digits do not follow is an error.\<close>

fun unescape :: "bool \<Rightarrow> string \<Rightarrow> string option" where
  "unescape sp [] = Some []"
| "unescape sp (c # s) =
     (if c = CHR ''%'' then
        (case s of
           a # b # r \<Rightarrow>
             (case (hex_val a, hex_val b) of
                (Some x, Some y) \<Rightarrow> map_option (\<lambda>t. char_of (16 * x + y) # t) (unescape sp r)
              | _ \<Rightarrow> None)
         | _ \<Rightarrow> None)
      else map_option (\<lambda>t. (if sp \<and> c = CHR ''+'' then CHR '' '' else c) # t) (unescape sp s))"

lemma hex_val_upper [simp]: "n < 16 \<Longrightarrow> hex_val (upper_hex n) = Some n"
  by (auto simp: upper_hex_def char_code_def)

lemma unescape_percent: "unescape sp (percent c @ s) = map_option (\<lambda>t. c # t) (unescape sp s)"
proof -
  have "char_code c div 16 < 16" "char_code c mod 16 < 16" by (simp_all add: char_code_def less_mult_imp_div_less)
  moreover have "char_of (16 * (char_code c div 16) + char_code c mod 16) = c" by (simp add: char_code_def)
  ultimately show ?thesis by (simp add: percent_def del: hex_val.simps)
qed

lemma unescape_PathEscape: "unescape False (PathEscape s @ t) = map_option (\<lambda>u. s @ u) (unescape False t)"
proof (induction s)
  case (Cons c s)
  have "PathEscape (c # s) = PathEscape [c] @ PathEscape s" by (simp add: PathEscape_def)
  moreover have "unescape False (PathEscape [c] @ u) = map_option (\<lambda>t. c # t) (unescape False u)" for u
    using unescape_percent [of False c u] by (auto simp: PathEscape_def unreserved_def Let_def char_code_def)
  ultimately show ?case using Cons by (simp add: option.map_comp comp_def)
qed (simp add: PathEscape_def option.map_ident)

lemma unescape_QueryEscape: "unescape True (QueryEscape s @ t) = map_option (\<lambda>u. s @ u) (unescape True t)"
proof (induction s)
  case (Cons c s)
  have "QueryEscape (c # s) = QueryEscape [c] @ QueryEscape s" by (simp add: QueryEscape_def)
  moreover have "unescape True (QueryEscape [c] @ u) = map_option (\<lambda>t. c # t) (unescape True u)" for u
    using unescape_percent [of True c u] by (auto simp: QueryEscape_def unreserved_def Let_def char_code_def)
  ultimately show ?case using Cons by (simp add: option.map_comp comp_def)
qed (simp add: QueryEscape_def option.map_ident)

lemma unescape_segment [simp]: "unescape False (PathEscape s) = Some s"
  using unescape_PathEscape [of s "[]"] by simp

lemma unescape_value [simp]: "unescape True (QueryEscape s) = Some s"
  using unescape_QueryEscape [of s "[]"] by simp

subsection \<open>Queries\<close>

text \<open>\<open>Values.Encode\<close>: the keys in order, each value with its key.\<close>

definition query_pair :: "string \<Rightarrow> string \<Rightarrow> string" where
  "query_pair k x = QueryEscape k @ ''='' @ QueryEscape x"

definition query_pairs :: "vals \<Rightarrow> string list" where
  "query_pairs v = concat (map (\<lambda>(k, xs). map (query_pair k) xs) (sort_key fst v))"

definition Encode :: "vals \<Rightarrow> string" where
  "Encode v = Join ''&'' (query_pairs v)"

text \<open>\<open>ParseQuery\<close>, which skips what it cannot read.\<close>

definition add_pair :: "vals \<Rightarrow> string \<Rightarrow> vals" where
  "add_pair v s =
     (let (k, x) = (case cut_first (CHR ''='') s of Some kx \<Rightarrow> kx | None \<Rightarrow> (s, []))
      in if s = [] \<or> CHR '';'' \<in> set s then v
         else (case (unescape True k, unescape True x) of
                 (Some k, Some x) \<Rightarrow> map_put k ((case map_of v k of Some xs \<Rightarrow> xs | None \<Rightarrow> []) @ [x]) v
               | _ \<Rightarrow> v))"

definition parse_query :: "string \<Rightarrow> vals" where
  "parse_query s = foldl add_pair [] (Split (CHR ''&'') s)"

lemma upper_hex_unreserved: "n < 16 \<Longrightarrow> unreserved (upper_hex n)"
proof -
  assume "n < 16"
  then have "char_code (upper_hex n) = (if n < 10 then 48 + n else 55 + n)" by (simp add: upper_hex_def char_code_def)
  then show ?thesis using \<open>n < 16\<close> by (simp add: unreserved_def Let_def)
qed

definition escaped :: "char \<Rightarrow> bool" where
  "escaped c = (unreserved c \<or> c = CHR ''+'' \<or> c = CHR ''%'')"

lemma QueryEscape_chars: "list_all escaped (QueryEscape s)"
proof -
  have "char_code d div 16 < 16" "char_code d mod 16 < 16" for d by (simp_all add: char_code_def less_mult_imp_div_less)
  then have "list_all escaped (percent d)" for d by (simp add: percent_def escaped_def upper_hex_unreserved)
  then show ?thesis by (auto simp: QueryEscape_def list_all_iff escaped_def)
qed

lemma QueryEscape_safe [simp]:
  "CHR ''&'' \<notin> set (QueryEscape s)" "CHR ''='' \<notin> set (QueryEscape s)" "CHR '';'' \<notin> set (QueryEscape s)"
proof -
  have "\<not> escaped (CHR ''&'')" "\<not> escaped (CHR ''='')" "\<not> escaped (CHR '';'')"
    by (simp_all add: escaped_def unreserved_def char_code_def Let_def)
  then show "CHR ''&'' \<notin> set (QueryEscape s)" "CHR ''='' \<notin> set (QueryEscape s)" "CHR '';'' \<notin> set (QueryEscape s)"
    using QueryEscape_chars [of s] by (auto simp: list_all_iff)
qed

lemma add_pair_query: "add_pair v (query_pair k x) = map_put k ((case map_of v k of Some xs \<Rightarrow> xs | None \<Rightarrow> []) @ [x]) v"
  by (simp add: add_pair_def query_pair_def cut_first_append)

lemma Split_Join:
  assumes "ss \<noteq> []" "list_all (\<lambda>s. c \<notin> set s) ss"
  shows "Split c (Join [c] ss) = ss"
  using assms
proof (induction ss rule: induct_list012)
  case (2 s)
  then have "c \<notin> set s" by simp
  then have "Split c s = [s]" by (induction s) auto
  then show ?case by simp
next
  case (3 s t ss)
  then have "c \<notin> set s" by simp
  then have "Split c (s @ c # u) = s # Split c u" for u by (induction s) auto
  then show ?case using 3 by simp
qed simp

lemma add_pairs:
  assumes "k \<notin> fst ` set v"
  shows "foldl add_pair (v @ [(k, xs)]) (map (query_pair k) ys) = v @ [(k, xs @ ys)]"
proof (induction ys arbitrary: xs)
  case (Cons y ys)
  have "map_put k z (v @ [(k, xs)]) = v @ [(k, z)]" for z
    using assms by (induction v) auto
  moreover have "map_of (v @ [(k, xs)]) k = Some xs" using assms by (induction v) auto
  ultimately show ?case using Cons by (simp add: add_pair_query)
qed simp

lemma foldl_query_pairs:
  assumes "distinct (keys (v @ w))" "list_all (\<lambda>(k, xs). xs \<noteq> []) w"
  shows "foldl add_pair v (concat (map (\<lambda>(k, xs). map (query_pair k) xs) w)) = v @ w"
  using assms
proof (induction w arbitrary: v)
  case (Cons e w)
  obtain k x xs where e: "e = (k, x # xs)" using Cons.prems(2) by (cases e; cases "snd e") auto
  have k: "k \<notin> fst ` set v" using Cons.prems(1) e by auto
  then have "map_of v k = None" by (simp add: map_of_eq_None_iff)
  then have "foldl add_pair v (map (query_pair k) (x # xs)) = v @ [e]"
    using add_pairs [OF k, of "[x]" xs] e by (simp add: add_pair_query map_put_fresh [OF k])
  then show ?case using Cons.IH [of "v @ [e]"] Cons.prems e by simp
qed simp

lemma parse_Encode:
  assumes "distinct (keys v)" "list_all (\<lambda>(k, xs). xs \<noteq> []) v"
  shows "parse_query (Encode v) = sort_key fst v"
proof (cases "v = []")
  case True
  then show ?thesis by (simp add: parse_query_def Encode_def query_pairs_def add_pair_def)
next
  case False
  let ?w = "sort_key fst v"
  have w: "distinct (keys ([] @ ?w))" "list_all (\<lambda>(k, xs). xs \<noteq> []) ?w"
    using assms distinct_keys_mset [of v ?w] by (simp_all add: list_all_iff)
  obtain e where "e \<in> set v" using False by (cases v) auto
  then have "e \<in> set ?w" by simp
  then have "query_pairs v \<noteq> []" using w(2) by (cases e) (auto simp: query_pairs_def list_all_iff intro!: bexI [of _ e])
  moreover have "list_all (\<lambda>s. CHR ''&'' \<notin> set s) (query_pairs v)"
    by (auto simp: query_pairs_def query_pair_def list_all_iff)
  ultimately show ?thesis
    using Split_Join foldl_query_pairs [OF w] by (simp add: parse_query_def Encode_def query_pairs_def)
qed

lemma values_Get_parse_Encode:
  assumes "distinct (keys v)" "list_all (\<lambda>(k, xs). xs \<noteq> []) v"
  shows "values_Get (parse_query (Encode v)) k = values_Get v k"
proof -
  have "map_of (sort_key fst v) = map_of v" using assms(1) distinct_keys_mset [of v "sort_key fst v"] by (intro map_of_mset_eq) simp_all
  then show ?thesis unfolding parse_Encode [OF assms] values_Get_def by simp
qed

end
