(* ===== verification/Scim_Client.thy ===== *)
theory Scim_Client
  imports Client_Text Go_URL Protocol "HOL-Library.Word"
begin

text \<open>
  The SCIM client (\<open>connector/scim/client.go\<close>, \<open>options.go\<close>): a store whose operations are requests to a SCIM server.
  The record \<open>transport\<close> stands for the HTTP client over a state \<open>'w\<close>: sending a request gives an error or a response,
  waiting for a number of nanoseconds ends with the error of the context when that is done first.  \<open>purl\<close> stands for
  \<open>url.Parse\<close>: an error, or the query of the URL and its text with another query.  The body of a response is text that is
  not JSON (the error of reading it) or one JSON value.
\<close>

subsection \<open>Configuration\<close>

text \<open>The given \<open>http.Client\<close> is its timeout.\<close>

record ClientConfig =
  BaseURL :: string
  cc_Version :: Version
  HTTPClient :: "int option"
  AuthHeader :: string
  Timeout :: int

type_synonym client_option = "ClientConfig \<Rightarrow> ClientConfig"

definition sc_WithBaseURL :: "string \<Rightarrow> client_option" where
  "sc_WithBaseURL url c = c\<lparr>BaseURL := url\<rparr>"

definition sc_WithBearerToken :: "string \<Rightarrow> client_option" where
  "sc_WithBearerToken tok c = c\<lparr>AuthHeader := ''Bearer '' @ tok\<rparr>"

definition sc_WithBasicAuth :: "string \<Rightarrow> string \<Rightarrow> client_option" where
  "sc_WithBasicAuth username password c = c\<lparr>AuthHeader := ''Basic '' @ base64 (username @ '':'' @ password)\<rparr>"

definition sc_WithTimeout :: "int \<Rightarrow> client_option" where
  "sc_WithTimeout d c = c\<lparr>Timeout := d\<rparr>"

definition sc_WithVersion :: "Version \<Rightarrow> client_option" where
  "sc_WithVersion v c = c\<lparr>cc_Version := v\<rparr>"

definition sc_WithHTTPClient :: "int option \<Rightarrow> client_option" where
  "sc_WithHTTPClient hc c = c\<lparr>HTTPClient := hc\<rparr>"

definition sc_New :: "client_option list \<Rightarrow> string + ClientConfig" where
  "sc_New opts =
     (let cfg = foldl (\<lambda>c opt. opt c)
            \<lparr>BaseURL = [], cc_Version = V2_0, HTTPClient = None, AuthHeader = [], Timeout = 30 * second_ns\<rparr> opts
      in if BaseURL cfg = [] then Inl ''scimconnector: BaseURL is required''
         else (let cfg = cfg\<lparr>BaseURL := TrimRightChar (CHR ''/'') (BaseURL cfg)\<rparr>
               in Inr (cfg\<lparr>HTTPClient := Some
                    (case HTTPClient cfg of
                       None \<Rightarrow> Timeout cfg
                     | Some t \<Rightarrow> if Timeout cfg > 0 \<and> t = 0 then Timeout cfg else t)\<rparr>)))"

definition pluralize :: "string \<Rightarrow> string" where
  "pluralize resourceType = resourceType @ ''s''"

definition resourceURL :: "ClientConfig \<Rightarrow> string \<Rightarrow> string" where
  "resourceURL c resourceType = BaseURL c @ ''/'' @ pluralize resourceType"

definition resourceItemURL :: "ClientConfig \<Rightarrow> string \<Rightarrow> string \<Rightarrow> string" where
  "resourceItemURL c resourceType rid = resourceURL c resourceType @ ''/'' @ PathEscape rid"

subsection \<open>Requests and retries\<close>

record wire =
  w_Method :: string
  w_URL :: string
  w_Header :: headers
  w_Body :: "gval option"

record reply =
  r_Status :: int
  r_Header :: headers
  r_Body :: "string + gval"

record 'w transport =
  tr_send :: "wire \<Rightarrow> 'w \<Rightarrow> (string + reply) \<times> 'w"
  tr_wait :: "int \<Rightarrow> 'w \<Rightarrow> string option \<times> 'w"

type_synonym url_parser = "string \<Rightarrow> string + (vals \<times> (string \<Rightarrow> string))"

definition newRequest :: "ClientConfig \<Rightarrow> url_parser \<Rightarrow> string \<Rightarrow> string \<Rightarrow> gval option \<Rightarrow> store_error + wire" where
  "newRequest c purl mth rawURL b =
     (case purl rawURL of
        Inl e \<Rightarrow> Inl (wrap_err KInternal ('': create request: '' @ e))
      | Inr _ \<Rightarrow>
          Inr \<lparr>w_Method = mth, w_URL = rawURL,
               w_Header = [(''Content-Type'', ContentTypeSCIM), (''Accept'', ContentTypeSCIM)] @
                 (if AuthHeader c \<noteq> [] then [(''Authorization'', AuthHeader c)] else []),
               w_Body = map_option json_norm b\<rparr>)"

definition maxRetries :: nat where "maxRetries = 3"

text \<open>\<open>time.Duration(secs) * time.Second\<close> is a product of 64-bit integers.\<close>

definition seconds :: "int \<Rightarrow> int" where
  "seconds secs = sint (word_of_int (secs * second_ns) :: 64 word)"

definition retry_wait :: "reply \<Rightarrow> int \<Rightarrow> int" where
  "retry_wait r backoff =
     (let ra = header_Get (r_Header r) ''Retry-After''
      in if ra \<noteq> [] then (case Atoi ra of Some secs \<Rightarrow> seconds secs | None \<Rightarrow> backoff) else backoff)"

fun do_attempt :: "'w transport \<Rightarrow> wire \<Rightarrow> nat \<Rightarrow> int \<Rightarrow> 'w \<Rightarrow> (store_error + reply) \<times> 'w" where
  "do_attempt tr q left backoff w =
     (case tr_send tr q w of
        (Inl e, w) \<Rightarrow> (Inl (wrap_err KInternal ('': HTTP request failed: '' @ e)), w)
      | (Inr r, w) \<Rightarrow>
          if r_Status r \<noteq> 429 then (Inr r, w)
          else (case left of
                  0 \<Rightarrow> (Inl (wrap_err KInternal ('': rate limit exceeded after '' @ nat_str maxRetries @ '' retries'')), w)
                | Suc n \<Rightarrow>
                    (case tr_wait tr (retry_wait r backoff) w of
                       (Some e, w) \<Rightarrow> (Inl (SErr KOther e), w)
                     | (None, w) \<Rightarrow> do_attempt tr q n (2 * backoff) w)))"

declare do_attempt.simps [simp del]

definition client_do :: "'w transport \<Rightarrow> wire \<Rightarrow> 'w \<Rightarrow> (store_error + reply) \<times> 'w" where
  "client_do tr q = do_attempt tr q maxRetries (500 * (second_ns div 1000))"

subsection \<open>Responses\<close>

text \<open>The decoder matches the keys of an object with the fields of a struct without regard to case; later keys win.
  Into a string it takes a string, null leaves it as it is, other values are errors, which \<open>mapHTTPError\<close> ignores.\<close>

definition struct_string :: "attrs \<Rightarrow> string \<Rightarrow> string" where
  "struct_string m f = foldl (\<lambda>s (k, v). if EqualFold k f then (case v of GStr x \<Rightarrow> x | _ \<Rightarrow> s) else s) [] m"

record scimErrorBody =
  eb_SCIMType :: string
  eb_Detail :: string
  eb_Status :: string

definition error_body :: "string + gval \<Rightarrow> scimErrorBody" where
  "error_body b =
     (let m = (case b of Inr (GMap m) \<Rightarrow> m | _ \<Rightarrow> [])
      in \<lparr>eb_SCIMType = struct_string m ''scimType'', eb_Detail = struct_string m ''detail'',
          eb_Status = struct_string m ''status''\<rparr>)"

definition mapHTTPError :: "reply \<Rightarrow> store_error" where
  "mapHTTPError r =
     (let b = error_body (r_Body r); detail = eb_Detail b
      in if r_Status r = 404 then wrap_err KNotFound ('': '' @ detail)
         else if r_Status r = 409 then wrap_err KConflict ('': '' @ detail)
         else if r_Status r = 400 then
           (if EqualFold (eb_SCIMType b) ''invalidFilter'' then wrap_err KBadFilter ('': '' @ detail)
            else if EqualFold (eb_SCIMType b) ''invalidPath'' then wrap_err KBadPath ('': '' @ detail)
            else if EqualFold (eb_SCIMType b) ''noTarget'' then wrap_err KNoTarget ('': '' @ detail)
            else wrap_err KInternal ('': HTTP 400: '' @ detail))
         else wrap_err KInternal ('': HTTP '' @ int_str (r_Status r) @ '': '' @ detail))"

definition decodeResource :: "reply \<Rightarrow> (store_error, resource) outcome" where
  "decodeResource r =
     (case decode_object (TextBody (r_Body r)) of
        Ok m \<Rightarrow> Ok (FromMap m)
      | Err e \<Rightarrow> Err (wrap_err KInternal ('': decode response: '' @ e))
      | Panic p \<Rightarrow> Panic p)"

text \<open>A request and what becomes of its response.\<close>

definition exchange ::
    "'w transport \<Rightarrow> store_error + wire \<Rightarrow> (reply \<Rightarrow> 'w \<Rightarrow> (store_error, 'a) outcome \<times> 'w) \<Rightarrow> 'w \<Rightarrow> (store_error, 'a) outcome \<times> 'w" where
  "exchange tr req f w =
     (case req of
        Inl e \<Rightarrow> (Err e, w)
      | Inr q \<Rightarrow> (case client_do tr q w of (Inl e, w) \<Rightarrow> (Err e, w) | (Inr r, w) \<Rightarrow> f r w))"

definition resource_reply :: "int \<Rightarrow> reply \<Rightarrow> 'w \<Rightarrow> (store_error, resource) outcome \<times> 'w" where
  "resource_reply status r w = (if r_Status r \<noteq> status then Err (mapHTTPError r) else decodeResource r, w)"

subsection \<open>Operations on one resource\<close>

definition client_Create ::
    "ClientConfig \<Rightarrow> url_parser \<Rightarrow> 'w transport \<Rightarrow> string \<Rightarrow> resource \<Rightarrow> 'w \<Rightarrow> (store_error, resource) outcome \<times> 'w" where
  "client_Create c purl tr resourceType res =
     exchange tr (newRequest c purl ''POST'' (resourceURL c resourceType) (Some (GMap (ToMap res)))) (resource_reply 201)"

definition client_Get ::
    "ClientConfig \<Rightarrow> url_parser \<Rightarrow> 'w transport \<Rightarrow> string \<Rightarrow> string \<Rightarrow> 'w \<Rightarrow> (store_error, resource) outcome \<times> 'w" where
  "client_Get c purl tr resourceType rid =
     exchange tr (newRequest c purl ''GET'' (resourceItemURL c resourceType rid) None) (resource_reply 200)"

definition client_Replace ::
    "ClientConfig \<Rightarrow> url_parser \<Rightarrow> 'w transport \<Rightarrow> string \<Rightarrow> string \<Rightarrow> resource \<Rightarrow> 'w \<Rightarrow> (store_error, resource) outcome \<times> 'w" where
  "client_Replace c purl tr resourceType rid res =
     exchange tr (newRequest c purl ''PUT'' (resourceItemURL c resourceType rid) (Some (GMap (ToMap res)))) (resource_reply 200)"

fun op_text :: "PatchOpType \<Rightarrow> string" where
  "op_text PatchOpAdd = ''add''"
| "op_text PatchOpRemove = ''remove''"
| "op_text PatchOpReplace = ''replace''"

definition patchOpWire :: "PatchOp \<Rightarrow> gval" where
  "patchOpWire op =
     (let path = (case Path op of None \<Rightarrow> [] | Some p \<Rightarrow> patchPathToString p)
      in GMap ([(''op'', GStr (op_text (Op op)))] @ (if path \<noteq> [] then [(''path'', GStr path)] else []) @
           (if Value op \<noteq> GNil then [(''value'', Value op)] else [])))"

definition patchBody :: "PatchOp list \<Rightarrow> gval" where
  "patchBody ops = GMap [(''schemas'', GStrs [''urn:ietf:params:scim:api:messages:2.0:PatchOp'']),
     (''Operations'', GArr (map patchOpWire ops))]"

definition client_Patch ::
    "ClientConfig \<Rightarrow> url_parser \<Rightarrow> 'w transport \<Rightarrow> string \<Rightarrow> string \<Rightarrow> PatchOp list \<Rightarrow> 'w \<Rightarrow> (store_error, resource) outcome \<times> 'w" where
  "client_Patch c purl tr resourceType rid ops =
     exchange tr (newRequest c purl ''PATCH'' (resourceItemURL c resourceType rid) (Some (patchBody ops)))
       (\<lambda>r w. if r_Status r = 200 then (decodeResource r, w)
              else if r_Status r = 204 then client_Get c purl tr resourceType rid w
              else (Err (mapHTTPError r), w))"

definition client_Delete ::
    "ClientConfig \<Rightarrow> url_parser \<Rightarrow> 'w transport \<Rightarrow> string \<Rightarrow> string \<Rightarrow> 'w \<Rightarrow> (store_error, unit) outcome \<times> 'w" where
  "client_Delete c purl tr resourceType rid =
     exchange tr (newRequest c purl ''DELETE'' (resourceItemURL c resourceType rid) None)
       (\<lambda>r w. (if r_Status r \<noteq> 204 then Err (mapHTTPError r) else Ok (), w))"

subsection \<open>List\<close>

definition list_query :: "vals \<Rightarrow> ListParams \<Rightarrow> vals" where
  "list_query q lp =
     (let q = (case Filter lp of Some f \<Rightarrow> values_Set q ''filter'' (filterToString f) | None \<Rightarrow> q);
          q = (if StartIndex lp > 0 then values_Set q ''startIndex'' (int_str (StartIndex lp)) else q);
          q = (if Count lp > 0 then values_Set q ''count'' (int_str (Count lp)) else q)
      in if SortBy lp \<noteq> [] then
           values_Set (values_Set q ''sortBy'' (SortBy lp)) ''sortOrder''
             (if LSortOrder lp = SortDescending then ''descending'' else ''ascending'')
         else q)"

text \<open>The decoder of \<open>listResponse\<close>.  A number is taken to be written without fraction and exponent when it has an integral
  value; the error of the first field that does not fit is the result.\<close>

definition type_error :: "string \<Rightarrow> string \<Rightarrow> gval \<Rightarrow> string" where
  "type_error f t v =
     ''json: cannot unmarshal '' @ (case v of GMap _ \<Rightarrow> ''object'' | GFloat64 x \<Rightarrow> if t = ''int'' then ''number '' @ FormatFloat_f x else ''number'' | _ \<Rightarrow> json_kind v) @
     '' into Go struct field listResponse.'' @ f @ '' of type '' @ t"

definition struct_int :: "string \<Rightarrow> int \<Rightarrow> gval \<Rightarrow> string + int" where
  "struct_int f old v =
     (case v of
        GNil \<Rightarrow> Inr old
      | GFloat64 x \<Rightarrow>
          (let n = f_trunc x
           in if f_cmp (f64_of_int n) x = 0 \<and> - (2 ^ 63) \<le> n \<and> n < 2 ^ 63 then Inr n else Inl (type_error f ''int'' v))
      | _ \<Rightarrow> Inl (type_error f ''int'' v))"

definition struct_maps :: "gval \<Rightarrow> string + attrs list" where
  "struct_maps v =
     (case v of
        GNil \<Rightarrow> Inr []
      | GArr vs \<Rightarrow>
          map_sum_list (\<lambda>x. case x of GMap m \<Rightarrow> Inr m | GNil \<Rightarrow> Inr []
             | _ \<Rightarrow> Inl (type_error ''Resources'' ''map[string]interface {}'' x)) vs
      | _ \<Rightarrow> Inl (type_error ''Resources'' ''[]map[string]interface {}'' v))"

record listResponse =
  lr_TotalResults :: int
  lr_StartIndex :: int
  lr_ItemsPerPage :: int
  lr_Resources :: "attrs list"

definition list_field :: "listResponse \<Rightarrow> string \<times> gval \<Rightarrow> string + listResponse" where
  "list_field lr kv =
     (case kv of (k, v) \<Rightarrow>
        if EqualFold k ''totalResults'' then
          map_sum (\<lambda>e. e) (\<lambda>n. lr\<lparr>lr_TotalResults := n\<rparr>) (struct_int ''totalResults'' (lr_TotalResults lr) v)
        else if EqualFold k ''startIndex'' then
          map_sum (\<lambda>e. e) (\<lambda>n. lr\<lparr>lr_StartIndex := n\<rparr>) (struct_int ''startIndex'' (lr_StartIndex lr) v)
        else if EqualFold k ''itemsPerPage'' then
          map_sum (\<lambda>e. e) (\<lambda>n. lr\<lparr>lr_ItemsPerPage := n\<rparr>) (struct_int ''itemsPerPage'' (lr_ItemsPerPage lr) v)
        else if EqualFold k ''Resources'' then map_sum (\<lambda>e. e) (\<lambda>ms. lr\<lparr>lr_Resources := ms\<rparr>) (struct_maps v)
        else Inr lr)"

definition decode_list :: "string + gval \<Rightarrow> string + listResponse" where
  "decode_list b =
     (let z = \<lparr>lr_TotalResults = 0, lr_StartIndex = 0, lr_ItemsPerPage = 0, lr_Resources = []\<rparr>
      in case b of
           Inl e \<Rightarrow> Inl e
         | Inr (GMap m) \<Rightarrow> fold_sum list_field z m
         | Inr GNil \<Rightarrow> Inr z
         | Inr v \<Rightarrow> Inl (''json: cannot unmarshal '' @ json_kind v @ '' into Go value of type scimconnector.listResponse''))"

definition list_reply :: "reply \<Rightarrow> 'w \<Rightarrow> (store_error, ListResult) outcome \<times> 'w" where
  "list_reply r w =
     (if r_Status r \<noteq> 200 then Err (mapHTTPError r)
      else (case decode_list (r_Body r) of
              Inl e \<Rightarrow> Err (wrap_err KInternal ('': decode list response: '' @ e))
            | Inr lr \<Rightarrow>
                Ok \<lparr>Resources = map FromMap (lr_Resources lr), TotalResults = lr_TotalResults lr,
                    LStartIndex = (if lr_StartIndex lr = 0 then 1 else lr_StartIndex lr),
                    ItemsPerPage = lr_ItemsPerPage lr, NeedsClientFilter = False\<rparr>), w)"

definition client_List ::
    "ClientConfig \<Rightarrow> url_parser \<Rightarrow> 'w transport \<Rightarrow> string \<Rightarrow> ListParams \<Rightarrow> 'w \<Rightarrow> (store_error, ListResult) outcome \<times> 'w" where
  "client_List c purl tr resourceType lp w =
     (case purl (resourceURL c resourceType) of
        Inl e \<Rightarrow> (Err (wrap_err KInternal ('': build list URL: '' @ e)), w)
      | Inr (q, url_text) \<Rightarrow>
          exchange tr (newRequest c purl ''GET'' (url_text (Encode (list_query q lp))) None) list_reply w)"

end
