(* ===== verification/Client_Facts.thy ===== *)
theory Client_Facts
  imports Scim_Client
begin

text \<open>
  The retry loop of the SCIM client and the errors it reports.
\<close>

subsection \<open>Retries\<close>

text \<open>A transport that records what each sending gave.\<close>

definition logged :: "'w transport \<Rightarrow> ('w \<times> (string + reply) list) transport" where
  "logged tr = \<lparr>
     tr_send = (\<lambda>q (w, l). case tr_send tr q w of (x, w) \<Rightarrow> (x, (w, l @ [x]))),
     tr_wait = (\<lambda>d (w, l). case tr_wait tr d w of (x, w) \<Rightarrow> (x, (w, l)))\<rparr>"

definition busy :: "string + reply \<Rightarrow> bool" where
  "busy x = (case x of Inr r \<Rightarrow> r_Status r = 429 | Inl _ \<Rightarrow> False)"

lemma do_attempt_logged:
  "\<exists>x w' l'. do_attempt (logged tr) q n b (w, l) = (x, (w', l @ l')) \<and> do_attempt tr q n b w = (x, w') \<and>
     l' \<noteq> [] \<and> length l' \<le> Suc n \<and> list_all busy (butlast l') \<and>
     (\<forall>r. x = Inr r \<longrightarrow> last l' = Inr r \<and> r_Status r \<noteq> 429)"
proof (induction n arbitrary: b w l)
  case 0
  show ?case
    by (cases "tr_send tr q w")
      (auto simp: do_attempt.simps [of _ _ 0] logged_def split: sum.split)
next
  case (Suc n)
  obtain x w1 where s: "tr_send tr q w = (x, w1)" by fastforce
  show ?case
  proof (cases "busy x")
    case False
    then show ?thesis using s
      by (auto simp: do_attempt.simps [of _ _ "Suc n"] logged_def busy_def split: sum.splits)
  next
    case True
    then obtain r where r: "x = Inr r" "r_Status r = 429" by (auto simp: busy_def split: sum.splits)
    obtain e w2 where wt: "tr_wait tr (retry_wait r b) w1 = (e, w2)" by fastforce
    show ?thesis
    proof (cases e)
      case (Some t)
      then show ?thesis using s r wt
        by (auto simp: do_attempt.simps [of _ _ "Suc n"] logged_def)
    next
      case None
      obtain y w' l' where y: "do_attempt (logged tr) q n (2 * b) (w2, l @ [x]) = (y, (w', (l @ [x]) @ l'))"
        "do_attempt tr q n (2 * b) w2 = (y, w')" "l' \<noteq> []" "length l' \<le> Suc n" "list_all busy (butlast l')"
        "\<forall>r. y = Inr r \<longrightarrow> last l' = Inr r \<and> r_Status r \<noteq> 429"
        using Suc.IH [of "2 * b" w2 "l @ [x]"] by blast
      have "do_attempt (logged tr) q (Suc n) b (w, l) = (y, (w', l @ [x] @ l'))"
        "do_attempt tr q (Suc n) b w = (y, w')"
        using s r wt None y(1,2) by (simp_all add: do_attempt.simps [of _ _ "Suc n"] logged_def)
      then show ?thesis using y(3-6) True by (intro exI [of _ y] exI [of _ w'] exI [of _ "[x] @ l'"]) simp
    qed
  qed
qed

text \<open>C25: A call of the client sends its request at least once and at most four times: every sending but the last was
  answered with status 429, and a response that is returned is the one to the last sending and has another status.
  Recording the sendings does not change the result.\<close>

theorem client_retries:
  "case client_do (logged tr) q (w, []) of (x, (w', sent)) \<Rightarrow>
     client_do tr q w = (x, w') \<and> sent \<noteq> [] \<and> length sent \<le> 4 \<and> list_all busy (butlast sent) \<and>
     (case x of Inl _ \<Rightarrow> True | Inr r \<Rightarrow> last sent = Inr r \<and> r_Status r \<noteq> 429)"
  using do_attempt_logged [of tr q maxRetries "500 * (second_ns div 1000)" w "[]"]
  by (auto simp: client_do_def maxRetries_def split: sum.split)

text \<open>A server that gives the \<open>n\<close>-th request the answer \<open>answers n\<close>, and a clock.\<close>

definition scripted :: "(nat \<Rightarrow> reply) \<Rightarrow> (nat \<times> int) transport" where
  "scripted answers = \<lparr>tr_send = (\<lambda>q (n, t). (Inr (answers n), (Suc n, t))), tr_wait = (\<lambda>d (n, t). (None, (n, t + d)))\<rparr>"

definition waited :: "(nat \<Rightarrow> reply) \<Rightarrow> int \<Rightarrow> nat \<Rightarrow> nat \<Rightarrow> int" where
  "waited answers b i k = sum_list (map (\<lambda>j. retry_wait (answers (i + j)) (b * 2 ^ j)) [0..<k])"

lemma waited_Suc: "waited answers b i (Suc k) = retry_wait (answers i) b + waited answers (2 * b) (Suc i) k"
proof -
  have u: "[0..<Suc k] = 0 # map Suc [0..<k]" by (simp only: upt_conv_Cons zero_less_Suc map_Suc_upt)
  have "waited answers b i (Suc k) =
      retry_wait (answers i) b + sum_list (map ((\<lambda>j. retry_wait (answers (i + j)) (b * 2 ^ j)) \<circ> Suc) [0..<k])"
    unfolding waited_def u by simp
  then show ?thesis by (simp add: waited_def comp_def ac_simps)
qed

lemma do_attempt_scripted:
  assumes "\<And>j. j < k \<Longrightarrow> r_Status (answers (i + j)) = 429" "r_Status (answers (i + k)) \<noteq> 429" "k \<le> n"
  shows "do_attempt (scripted answers) q n b (i, t) = (Inr (answers (i + k)), (Suc (i + k), t + waited answers b i k))"
  using assms
proof (induction k arbitrary: i n b t)
  case 0
  then show ?case by (simp add: do_attempt.simps [of _ _ n] scripted_def waited_def)
next
  case (Suc k)
  obtain m where n: "n = Suc m" using Suc.prems(3) by (cases n) auto
  have "r_Status (answers (Suc i + j)) = 429" if "j < k" for j using Suc.prems(1) [of "Suc j"] that by simp
  then have "do_attempt (scripted answers) q m (2 * b) (Suc i, t + retry_wait (answers i) b) = (Inr (answers (Suc i + k)),
      (Suc (Suc i + k), t + retry_wait (answers i) b + waited answers (2 * b) (Suc i) k))"
    using Suc.prems(2,3) n by (intro Suc.IH) simp_all
  then show ?case
    using Suc.prems(1) [of 0] n
    by (simp add: do_attempt.simps [of _ _ "Suc m"] waited_Suc) (simp add: scripted_def ac_simps)
qed

text \<open>C19: A server that limits the rate of at most three requests in a row is answered in the end: the client returns its
  first answer with another status, and has waited what the answers asked for, or half a second, one and two seconds.\<close>

theorem client_outwaits_rate_limit:
  assumes "\<And>j. j < k \<Longrightarrow> r_Status (answers j) = 429" "r_Status (answers k) \<noteq> 429" "k \<le> 3"
  shows "client_do (scripted answers) q (0, t) =
    (Inr (answers k), (Suc k, t + sum_list (map (\<lambda>j. retry_wait (answers j) (500000000 * 2 ^ j)) [0..<k])))"
  using do_attempt_scripted [of k answers 0 maxRetries q "500 * (second_ns div 1000)" t] assms
  by (simp add: client_do_def maxRetries_def waited_def second_ns_def)

definition limit_twice :: "nat \<Rightarrow> reply" where
  "limit_twice n = \<lparr>r_Status = (if n < 2 then 429 else 200), r_Header = (if n = 1 then [(''Retry-After'', ''7'')] else []),
     r_Body = Inr (GMap [])\<rparr>"

definition any_wire :: wire where
  "any_wire = \<lparr>w_Method = ''GET'', w_URL = ''http://h/Users'', w_Header = [], w_Body = None\<rparr>"

theorem client_outwaits_rate_limit_witness:
  "client_do (scripted limit_twice) any_wire (0, 0) = (Inr (limit_twice 2), (3, 7500000000))"
proof -
  have "client_do (scripted limit_twice) any_wire (0, 0) = (Inr (limit_twice 2),
      (Suc 2, 0 + sum_list (map (\<lambda>j. retry_wait (limit_twice j) (500000000 * 2 ^ j)) [0..<2])))"
    by (rule client_outwaits_rate_limit) (simp_all add: limit_twice_def)
  moreover have "sum_list (map (\<lambda>j. retry_wait (limit_twice j) (500000000 * 2 ^ j)) [0..<2]) = 7500000000"
    by code_simp
  ultimately show ?thesis by simp
qed

subsection \<open>Errors over the wire\<close>

text \<open>The reply that the client gets for what the server writes of a store error.\<close>

definition error_reply :: "store_error \<Rightarrow> reply" where
  "error_reply err =
     (let resp = SCIMError_Write (ErrorFromStoreError err) []
      in \<lparr>r_Status = resp_Status resp, r_Header = resp_Header resp,
          r_Body = (case resp_Body resp of Some v \<Rightarrow> Inr (json_norm v) | None \<Rightarrow> Inl ''EOF'')\<rparr>)"

text \<open>C37: Of the errors of a store, a client of the server sees the kind of five: not found, conflict, bad filter, bad path
  and no target.  A mutability, invalid value, bad patch or too many error, which a client caused, reaches it as an
  internal error.\<close>

theorem client_error_kinds:
  "err_kind (mapHTTPError (error_reply err)) =
     (if err_kind err \<in> {KNotFound, KConflict, KBadFilter, KBadPath, KNoTarget} then err_kind err else KInternal)"
  by (cases "err_kind err")
    (simp_all add: error_reply_def ErrorFromStoreError_def SCIMError_Write_def NewSCIMError_def error_json_def
      mapHTTPError_def error_body_def struct_string_def Let_def EqualFold_def ToLower_def lower_char_def char_code_def)

end
