(* ===== verification/Client_Server.thy ===== *)
theory Client_Server
  imports Client_Facts Server_Samples
begin

text \<open>
  The SCIM client against the modelled server with the in-memory store.  \<open>deliver\<close> is what \<open>net/http\<close> makes of a request on
  arrival at a server whose address is \<open>base\<close>: the path and the query are decoded, a missing body reads as the end of the
  input.  \<open>http_transport\<close> sends requests to \<open>ServeHTTP\<close> and returns what was written.
\<close>

definition deliver :: "string \<Rightarrow> string \<Rightarrow> wire \<Rightarrow> request" where
  "deliver base host q =
     (let target = TrimPrefix (w_URL q) base;
          (path, qs) = (case cut_first (CHR ''?'') target of Some pq \<Rightarrow> pq | None \<Rightarrow> (target, []))
      in \<lparr>Method = w_Method q, URL_Path = (case unescape False path of Some p \<Rightarrow> p | None \<Rightarrow> path),
          Query = parse_query qs, Header = map (\<lambda>(k, x). (k, [x])) (w_Header q), Host = host, TLS = False,
          Body = TextBody (case w_Body q of Some v \<Rightarrow> Inr v | None \<Rightarrow> Inl ''EOF'')\<rparr>)"

definition reply_of :: "response \<Rightarrow> reply" where
  "reply_of resp = \<lparr>r_Status = resp_Status resp, r_Header = resp_Header resp,
     r_Body = (case resp_Body resp of Some v \<Rightarrow> Inr (json_norm v) | None \<Rightarrow> Inl ''EOF'')\<rparr>"

definition http_transport ::
    "'s config \<Rightarrow> world \<Rightarrow> (string \<Rightarrow> string + vals) \<Rightarrow> string \<Rightarrow> string \<Rightarrow> 's sstate transport" where
  "http_transport cfg W purl base host =
     \<lparr>tr_send = (\<lambda>q st. case ServeHTTP cfg W purl (deliver base host q) st of (x, st) \<Rightarrow> (map_sum (\<lambda>p. p) reply_of x, st)),
      tr_wait = (\<lambda>d st. (None, st))\<rparr>"

subsection \<open>List parameters\<close>

lemma list_query_wf:
  "distinct (keys (list_query [] lp))" "list_all (\<lambda>(k, xs). xs \<noteq> []) (list_query [] lp)"
proof -
  have s: "distinct (keys (values_Set v k x))" "list_all (\<lambda>(k, xs). xs \<noteq> []) (values_Set v k x)"
    if "distinct (keys v)" "list_all (\<lambda>(k, xs). xs \<noteq> []) v" for v k x
    using that set_map_put_subset [of k "[x]" v] by (auto simp: values_Set_def list_all_iff)
  have "distinct (keys (list_query [] lp)) \<and> list_all (\<lambda>(k, xs). xs \<noteq> []) (list_query [] lp)"
    unfolding list_query_def Let_def by (auto split: option.split intro!: s)
  then show "distinct (keys (list_query [] lp))" "list_all (\<lambda>(k, xs). xs \<noteq> []) (list_query [] lp)" by simp_all
qed

lemma list_query_values:
  "values_Get (list_query [] lp) ''filter'' = (case Filter lp of Some f \<Rightarrow> filterToString f | None \<Rightarrow> [])"
  "values_Get (list_query [] lp) ''startIndex'' = (if StartIndex lp > 0 then int_str (StartIndex lp) else [])"
  "values_Get (list_query [] lp) ''count'' = (if Count lp > 0 then int_str (Count lp) else [])"
  "values_Get (list_query [] lp) ''sortBy'' = SortBy lp"
  "values_Get (list_query [] lp) ''sortOrder'' =
     (if SortBy lp = [] then [] else if LSortOrder lp = SortDescending then ''descending'' else ''ascending'')"
  "values_Get (list_query [] lp) ''attributes'' = []"
  "values_Get (list_query [] lp) ''excludedAttributes'' = []"
  by (auto simp: list_query_def Let_def split: option.split)

lemma filterToString_nonempty: "wf_expr e \<Longrightarrow> filterToString e \<noteq> []"
  by (cases e) (auto dest: filter_path_nonempty)


subsection \<open>Create, then read\<close>

lemma do_attempt_last:
  assumes "\<And>d w. tr_wait tr d w = (None, w)" "do_attempt tr q n b w = (Inr r, w')"
  shows "\<exists>w0. tr_send tr q w0 = (Inr r, w') \<and> r_Status r \<noteq> 429"
  using assms(2)
proof (induction n arbitrary: b w)
  case 0
  then show ?case by (auto simp: do_attempt.simps [of _ _ 0] split: prod.splits sum.splits if_splits)
next
  case (Suc n)
  then show ?case using assms(1)
    by (cases "tr_send tr q w") (auto simp: do_attempt.simps [of _ _ "Suc n"] split: sum.splits if_splits)
qed

lemma PathEscape_no_query: "CHR ''?'' \<notin> set (PathEscape s)"
proof -
  have lt: "char_code d div 16 < 16" "char_code d mod 16 < 16" for d by (simp_all add: char_code_def less_mult_imp_div_less)
  have u: "\<not> unreserved (CHR ''?'')" by (simp add: unreserved_def char_code_def Let_def)
  have h: "CHR ''?'' \<noteq> upper_hex n" if "n < 16" for n using upper_hex_unreserved [OF that] u by auto
  have "CHR ''?'' \<notin> set (percent d)" for d using h [OF lt(1)] h [OF lt(2)] by (simp add: percent_def)
  then show ?thesis using u by (auto simp: PathEscape_def)
qed

lemma deliver_post:
  assumes "newRequest c cp ''POST'' (resourceURL c ''User'') (Some b) = Inr q"
  shows "Method (deliver (BaseURL c) host q) = ''POST''" "URL_Path (deliver (BaseURL c) host q) = ''/Users''"
proof -
  have "TrimPrefix (BaseURL c @ ''/Users'') (BaseURL c) = ''/Users''" by (rule TrimPrefix_append)
  moreover have "w_Method q = ''POST''" "w_URL q = BaseURL c @ ''/Users''"
    using assms by (auto simp: newRequest_def resourceURL_def pluralize_def split: sum.splits)
  ultimately show "Method (deliver (BaseURL c) host q) = ''POST''" "URL_Path (deliver (BaseURL c) host q) = ''/Users''"
    by (simp_all add: deliver_def)
qed

lemma deliver_get:
  assumes "newRequest c cp ''GET'' (resourceItemURL c ''User'' rid) None = Inr q"
  shows "Method (deliver (BaseURL c) host q) = ''GET''" "URL_Path (deliver (BaseURL c) host q) = ''/Users/'' @ rid"
    "IsAcceptable (deliver (BaseURL c) host q)"
proof -
  have w: "w_Method q = ''GET''" "w_URL q = BaseURL c @ ''/Users/'' @ PathEscape rid"
    "map_of (w_Header q) ''Accept'' = Some ContentTypeSCIM"
    using assms by (auto simp: newRequest_def resourceItemURL_def resourceURL_def pluralize_def split: sum.splits)
  have t: "TrimPrefix (BaseURL c @ ''/Users/'' @ PathEscape rid) (BaseURL c) = ''/Users/'' @ PathEscape rid"
    by (rule TrimPrefix_append)
  have "cut_first (CHR ''?'') (''/Users/'' @ PathEscape rid) = None"
    using PathEscape_no_query [of rid] by (simp add: cut_first_None_iff)
  moreover have "unescape False (''/Users/'' @ PathEscape rid) = Some (''/Users/'' @ rid)" by simp
  ultimately show "URL_Path (deliver (BaseURL c) host q) = ''/Users/'' @ rid"
    unfolding deliver_def w(2) t Let_def by simp
  show "Method (deliver (BaseURL c) host q) = ''GET''" by (simp add: deliver_def w(1) Let_def split_def)
  have "map_of (map (\<lambda>(k, x). (k, [x])) h) k = map_option (\<lambda>x. [x]) (map_of h k)" for h :: headers and k
    by (induction h) auto
  then have "values_Get (Header (deliver (BaseURL c) host q)) ''Accept'' = ContentTypeSCIM"
    by (simp add: deliver_def Let_def split_def values_Get_def w(3))
  moreover have "list_ex (\<lambda>part. media_type part \<in> {ContentTypeSCIM, ContentTypeJSON, anyType, anyAppType})
      (Split (CHR '','') ContentTypeSCIM)" by code_simp
  ultimately show "IsAcceptable (deliver (BaseURL c) host q)" unfolding IsAcceptable_def Let_def by metis
qed

lemma client_do_first:
  assumes "tr_send tr q w = (Inr r, w')" "r_Status r \<noteq> 429"
  shows "client_do tr q w = (Inr r, w')"
  using assms by (simp add: client_do_def do_attempt.simps [of _ _ maxRetries])

text \<open>What the client has created and the server stored.\<close>

lemma client_created:
  assumes cfg: "cfg_registry cfg = default_registry" "cfg_basePath cfg = []" "cfg_authFunc cfg = None"
    and created: "client_Create c cp (http_transport (mem_config h cfg) W purl (BaseURL c) host) ''User'' x st = (Ok r, st1)"
  shows "\<exists>rid y. content (ss_store st1) (''User'', rid) = Some y \<and> ID y = rid \<and> wf_resource y \<and>
     CHR ''/'' \<notin> set rid \<and> rid \<noteq> ''.search'' \<and> r = Clone (located (''http://'' @ host @ ''/Users/'' @ rid) (Clone y))"
proof -
  let ?tr = "http_transport (mem_config h cfg) W purl (BaseURL c) host"
  obtain q where q: "newRequest c cp ''POST'' (resourceURL c ''User'') (Some (GMap (ToMap x))) = Inr q"
    using created by (auto simp: client_Create_def exchange_def split: sum.splits)
  obtain rep where rep: "client_do ?tr q st = (Inr rep, st1)" "r_Status rep = 201" "decodeResource rep = Ok r"
    using created q by (auto simp: client_Create_def exchange_def resource_reply_def split: prod.splits sum.splits if_splits)
  obtain s0 where s0: "tr_send ?tr q s0 = (Inr rep, st1)"
    using do_attempt_last [of ?tr q maxRetries _ st rep st1] rep(1) by (auto simp: client_do_def http_transport_def)
  let ?p = "deliver (BaseURL c) host q"
  note p = deliver_post [OF q, of host]
  have host: "Host ?p = host" "TLS ?p = False" by (simp_all add: deliver_def Let_def split_def)
  obtain resp where resp: "ServeHTTP (mem_config h cfg) W purl ?p s0 = (Inr resp, st1)" "rep = reply_of resp"
    using s0 by (auto simp: http_transport_def map_sum_def split: prod.splits sum.splits)
  have c: "cfg_registry (mem_config h cfg) = default_registry" "cfg_basePath (mem_config h cfg) = []"
    "cfg_authFunc (mem_config h cfg) = None"
    using cfg by simp_all
  have status: "resp_Status resp = 201" using rep(2) resp(2) by (simp add: reply_of_def)
  have n: "rt_Name UserResourceType = ''User''" "rt_Endpoint UserResourceType = ''/Users''"
    by (simp_all add: UserResourceType_def)
  obtain s1 where s1: "route (mem_config h cfg) W purl ?p s0 = (Inr resp, s1)" "ss_store st1 = ss_store s1"
    using ServeHTTP_open [OF c(3) resp(1)] status by auto
  have "handleCreate (mem_config h cfg) W ''User'' ?p s0 = (Inr resp, s1)"
    using s1(1) route_users [OF c(1,2), of ?p "[]" "[]"] p
    by (simp add: routeResource_def cfg users_endpoint n)
  from handleCreate_created [OF this status] obtain rid y where y:
    "content (ss_store s1) (''User'', rid) = Some y" "ID y = rid" "wf_resource y" "CHR ''/'' \<notin> set rid"
    "rid \<noteq> ''.search''" "resp_Body resp = Some (GMap (ToMap (located (resourceLocation cfg ?p ''User'' rid) (Clone y))))" by blast
  have l: "resourceLocation cfg ?p ''User'' rid = ''http://'' @ host @ ''/Users/'' @ rid"
    by (simp add: resourceLocation_def cfg user_by_name n host scheme_def)
  have "r = Clone (located (''http://'' @ host @ ''/Users/'' @ rid) (Clone y))"
    using rep(3) resp(2) y(6) by (simp add: decodeResource_def reply_of_def l Clone_def json_norm_map_def)
  then show ?thesis using y s1(2) by metis
qed

text \<open>C12: What the client created it reads back: the resource that \<open>Create\<close> returned, through the requests, the server, its
  store and the two decoders, is the one that \<open>Get\<close> then returns for its id.\<close>

theorem client_reads_what_it_created:
  assumes cfg: "cfg_registry cfg = default_registry" "cfg_basePath cfg = []" "cfg_authFunc cfg = None"
    and created: "client_Create c cp (http_transport (mem_config h cfg) W purl (BaseURL c) host) ''User'' x st = (Ok r, st1)"
    and live: "ID r \<noteq> []" "cp (resourceItemURL c ''User'' (ID r)) = Inr z" "ctx_err (W (ss_tick st1)) = None"
  shows "\<exists>st2. client_Get c cp (http_transport (mem_config h cfg) W purl (BaseURL c) host) ''User'' (ID r) st1 = (Ok r, st2)"
proof -
  let ?tr = "http_transport (mem_config h cfg) W purl (BaseURL c) host"
  obtain rid y where y: "content (ss_store st1) (''User'', rid) = Some y" "ID y = rid" "wf_resource y" "CHR ''/'' \<notin> set rid"
    "rid \<noteq> ''.search''" "r = Clone (located (''http://'' @ host @ ''/Users/'' @ rid) (Clone y))"
    using client_created [OF cfg created] by blast
  have rid: "ID r = rid" using y(2,3,6) by (simp add: located_def)
  obtain q where q: "newRequest c cp ''GET'' (resourceItemURL c ''User'' rid) None = Inr q"
    using live(2) rid by (simp add: newRequest_def)
  let ?g = "deliver (BaseURL c) host q"
  note g = deliver_get [OF q, of host]
  have host: "Host ?g = host" "TLS ?g = False" by (simp_all add: deliver_def Let_def split_def)
  have c: "cfg_registry (mem_config h cfg) = default_registry" "cfg_basePath (mem_config h cfg) = []"
    "cfg_authFunc (mem_config h cfg) = None"
    using cfg by simp_all
  have n: "rt_Name UserResourceType = ''User''" "rt_Endpoint UserResourceType = ''/Users''"
    by (simp_all add: UserResourceType_def)
  have path: "URL_Path ?g = ''/Users'' @ ''/'' @ rid" using g(2) by simp
  have "route (mem_config h cfg) W purl ?g st1 = handleGet (mem_config h cfg) W ''User'' rid ?g st1"
    using route_users [OF c(1,2) path, of rid] g(1) y(4,5) live(1) rid
    by (simp add: routeResource_def cfg users_endpoint n SplitN2_def)
  moreover obtain resp s2 where resp: "handleGet (mem_config h cfg) W ''User'' rid ?g st1 = (Inr resp, s2)"
    "resp_Status resp = 200" "resp_Body resp = Some (GMap (ToMap (located (resourceLocation cfg ?g ''User'' rid) (Clone y))))"
    using handleGet_stored [of st1 "''User''" rid y W h cfg ?g] y(1-3) live(3) by auto
  ultimately obtain st2 where st2: "ServeHTTP (mem_config h cfg) W purl ?g st1 = (Inr resp, st2)"
    using ServeHTTP_get [OF c(3) g(3,1)] by metis
  have l: "resourceLocation cfg ?g ''User'' rid = ''http://'' @ host @ ''/Users/'' @ rid"
    by (simp add: resourceLocation_def cfg user_by_name n host scheme_def)
  have "client_do ?tr q st1 = (Inr (reply_of resp), st2)"
    using st2 resp(2) by (intro client_do_first) (simp_all add: http_transport_def reply_of_def)
  moreover have "decodeResource (reply_of resp) = Ok r"
    using resp(3) y(6) by (simp add: decodeResource_def reply_of_def l Clone_def json_norm_map_def)
  ultimately show ?thesis
    using q rid resp(2) by (auto simp: client_Get_def exchange_def resource_reply_def reply_of_def)
qed

definition sample_client :: ClientConfig where
  "sample_client = \<lparr>BaseURL = ''http://h'', cc_Version = V2_0, HTTPClient = Some 0, AuthHeader = [], Timeout = 0\<rparr>"

definition sample_url :: url_parser where
  "sample_url u = Inr ([], \<lambda>q. u @ ''?'' @ q)"

definition bob :: resource where
  "bob = empty_resource\<lparr>Attributes := [(''userName'', GStr ''bob'')]\<rparr>"

definition sample_link :: "mem sstate transport" where
  "sample_link = http_transport plain_config sample_world sample_purl ''http://h'' ''h''"

lemma client_create_bob: "(case client_Create sample_client sample_url sample_link ''User'' bob sample_state of
    (Ok r, st) \<Rightarrow> ID r = ''00'' \<and> Attributes r = [(''userName'', GStr ''bob'')] | _ \<Rightarrow> False)"
  by code_simp

theorem client_reads_what_it_created_witness:
  "case client_Create sample_client sample_url sample_link ''User'' bob sample_state of
     (Ok r, st) \<Rightarrow> ID r = ''00'' \<and> (\<exists>st2. client_Get sample_client sample_url sample_link ''User'' ''00'' st = (Ok r, st2))
   | _ \<Rightarrow> False"
proof -
  obtain r st1 where c: "client_Create sample_client sample_url sample_link ''User'' bob sample_state = (Ok r, st1)" "ID r = ''00''"
    using client_create_bob by (auto split: prod.splits outcome.splits)
  have p: "cfg_registry plain_config = default_registry" "cfg_basePath plain_config = []" "cfg_authFunc plain_config = None"
    by (simp_all add: plain_config_def)
  have l: "sample_link = http_transport (mem_config no_hooks plain_config) sample_world sample_purl (BaseURL sample_client) ''h''"
    by (simp add: sample_link_def sample_config sample_client_def)
  have "\<exists>st2. client_Get sample_client sample_url sample_link ''User'' (ID r) st1 = (Ok r, st2)"
    unfolding l
    by (rule client_reads_what_it_created [OF p c(1) [unfolded l]]) (simp_all add: c(2) sample_url_def sample_world_def)
  then show ?thesis using c by simp
qed

definition bob_first :: ListParams where
  "bob_first = \<lparr>Filter = Some (AttrExpression \<lparr>attr_path.Schema = [], AttributeName = ''userName'', SubAttribute = []\<rparr> OpEq (GStr ''bob'')),
     SortBy = ''userName'', LSortOrder = SortDescending, StartIndex = 3, Count = 5, LAttributes = [], LExcludedAttributes = []\<rparr>"

definition bob_request :: request where
  "bob_request = \<lparr>Method = ''GET'', URL_Path = ''/Users'', Query = parse_query (Encode (list_query [] bob_first)), Header = [],
     Host = ''h'', TLS = False, Body = TextBody (Inl ''EOF'')\<rparr>"


end
