(* ===== verification/Configuration.thy ===== *)
theory Configuration
  imports Go_Value Go_Quote
begin

text \<open>
  The configuration file (\<open>config/config.go\<close>): its sections with their defaults, \<open>Load\<close>, and durations, which are read by
  \<open>time.ParseDuration\<close>.  Reading the file and decoding YAML into a configuration, which keeps the value of every key
  that the text does not name, are parameters.
\<close>

subsection \<open>Durations\<close>

text \<open>\<open>float64(f) * (float64(unit) / scale)\<close>, truncated; \<open>scale\<close> is an exact power of ten.\<close>

definition fraction_units :: "nat \<Rightarrow> nat \<Rightarrow> nat \<Rightarrow> nat" where
  "fraction_units f k unit_ns =
     (case round_frac double_prec unit_ns (10 ^ k) of
        None \<Rightarrow> 0
      | Some (m, e) \<Rightarrow>
          (let a = f64_of_int (int f); p = f_man a * m; x = f_exp a + e
           in case (if 0 \<le> x then round_frac double_prec (p * 2 ^ nat x) 1 else round_frac double_prec p (2 ^ nat (- x))) of
                None \<Rightarrow> 0
              | Some me \<Rightarrow> nat (f_trunc (mk_f64 False me))))"

text \<open>The digits of a fraction: the value, the number of digits used; digits beyond the range are ignored.\<close>

fun leadingFraction :: "nat \<Rightarrow> nat \<Rightarrow> string \<Rightarrow> nat \<times> nat" where
  "leadingFraction x k [] = (x, k)"
| "leadingFraction x k (c # ds) =
     (let y = 10 * x + digit_val c
      in if x > (2 ^ 63 - 1) div 10 \<or> y > 2 ^ 63 then (x, k) else leadingFraction y (Suc k) ds)"

definition unit_of :: "string \<Rightarrow> nat option" where
  "unit_of u =
     (if u = ''ns'' then Some 1
      else if u = ''us'' \<or> u = [CHR 0xC2, CHR 0xB5, CHR ''s''] \<or> u = [CHR 0xCE, CHR 0xBC, CHR ''s''] then Some 1000
      else if u = ''ms'' then Some 1000000
      else if u = ''s'' then Some 1000000000
      else if u = ''m'' then Some 60000000000
      else if u = ''h'' then Some 3600000000000
      else None)"

text \<open>The quoting of the package \<open>time\<close>.\<close>

definition time_quote :: "string \<Rightarrow> string" where
  "time_quote s =
     dquote # concat (map (\<lambda>c. let n = char_code c
        in if n < 32 \<or> 128 \<le> n then [backslash, CHR ''x'', hex_digit (n div 16), hex_digit (n mod 16)]
           else if c = dquote \<or> c = backslash then [backslash, c] else [c]) s) @ [dquote]"

definition not_unit :: "char \<Rightarrow> bool" where
  "not_unit c = (c = CHR ''.'' \<or> is_digit_char c)"

text \<open>One number with its unit: the nanoseconds and the rest, or the error.\<close>

definition duration_part :: "string \<Rightarrow> string \<Rightarrow> string + nat \<times> string" where
  "duration_part orig s =
     (let invalid = Inl (''time: invalid duration '' @ time_quote orig);
          pre = takeWhile is_digit_char s; s1 = dropWhile is_digit_char s;
          (post, s2) = (case s1 of c # r \<Rightarrow>
                if c = CHR ''.'' then (takeWhile is_digit_char r, dropWhile is_digit_char r) else ([], s1)
              | [] \<Rightarrow> ([], []));
          v = digits_val pre; (f, k) = leadingFraction 0 0 post;
          u = takeWhile (\<lambda>c. \<not> not_unit c) s2; s3 = dropWhile (\<lambda>c. \<not> not_unit c) s2
      in if \<not> (s \<noteq> [] \<and> not_unit (hd s)) \<or> v > 2 ^ 63 \<or> (pre = [] \<and> post = []) then invalid
         else if u = [] then Inl (''time: missing unit in duration '' @ time_quote orig)
         else (case unit_of u of
                 None \<Rightarrow> Inl (''time: unknown unit '' @ time_quote u @ '' in duration '' @ time_quote orig)
               | Some n \<Rightarrow>
                   if v > 2 ^ 63 div n then invalid
                   else (let w = v * n + (if f > 0 then fraction_units f k n else 0)
                         in if w > 2 ^ 63 then invalid else Inr (w, s3))))"

lemma duration_part_length: "duration_part orig s = Inr (w, r) \<Longrightarrow> length r < length s"
proof -
  assume a: "duration_part orig s = Inr (w, r)"
  obtain post s2 where p: "(case dropWhile is_digit_char s of c # r \<Rightarrow>
        if c = CHR ''.'' then (takeWhile is_digit_char r, dropWhile is_digit_char r) else ([], dropWhile is_digit_char s)
      | [] \<Rightarrow> ([], [])) = (post, s2)" by fastforce
  have d: "length (dropWhile is_digit_char t) \<le> length t" for t by (rule length_dropWhile_le)
  have len: "length s2 \<le> length s"
  proof (cases "dropWhile is_digit_char s")
    case (Cons c r)
    then show ?thesis using p d [of s] d [of r] unfolding Cons by (auto split: if_splits)
  next
    case Nil
    show ?thesis using p unfolding Nil by simp
  qed
  have "takeWhile (\<lambda>c. \<not> not_unit c) s2 \<noteq> []" "r = dropWhile (\<lambda>c. \<not> not_unit c) s2"
    using a unfolding duration_part_def Let_def p by (auto split: if_splits option.splits prod.splits)
  then have "length r < length s2"
    by (metis add_less_same_cancel2 length_append length_greater_0_conv not_less_iff_gr_or_eq takeWhile_dropWhile_id
        less_add_same_cancel2)
  then show ?thesis using len by simp
qed

function duration_sum :: "string \<Rightarrow> nat \<Rightarrow> string \<Rightarrow> string + nat" where
  "duration_sum orig d s =
     (if s = [] then Inr d
      else (case duration_part orig s of
              Inl e \<Rightarrow> Inl e
            | Inr (w, r) \<Rightarrow>
                if d + w > 2 ^ 63 then Inl (''time: invalid duration '' @ time_quote orig) else duration_sum orig (d + w) r))"
  by auto
termination by (relation "measure (\<lambda>(_, _, s). length s)") (auto dest: duration_part_length)

declare duration_sum.simps [simp del]

definition ParseDuration :: "string \<Rightarrow> string + int" where
  "ParseDuration orig =
     (let (neg, s) = (case orig of c # r \<Rightarrow>
            if c = CHR ''-'' then (True, r) else if c = CHR ''+'' then (False, r) else (False, orig)
          | [] \<Rightarrow> (False, []));
          invalid = Inl (''time: invalid duration '' @ time_quote orig)
      in if s = ''0'' then Inr 0
         else if s = [] then invalid
         else (case duration_sum orig 0 s of
                 Inl e \<Rightarrow> Inl e
               | Inr d \<Rightarrow> if neg then Inr (- int d) else if d > 2 ^ 63 - 1 then invalid else Inr (int d)))"

text \<open>\<open>UnmarshalYAML\<close> of a scalar node.\<close>

definition UnmarshalYAML :: "string \<Rightarrow> string + int" where
  "UnmarshalYAML v =
     (case ParseDuration v of Inl e \<Rightarrow> Inl (''invalid duration '' @ Quote v @ '': '' @ e) | Inr d \<Rightarrow> Inr d)"

subsection \<open>Sections\<close>

record TelemetryConfig =
  tel_Endpoint :: string
  tel_Headers :: "string gmap option"

record TLSConfig =
  tls_CertFile :: string
  tls_KeyFile :: string

record ServerConfig =
  srv_Addr :: string
  srv_BasePath :: string
  srv_ReadTimeout :: int
  srv_WriteTimeout :: int
  srv_ShutdownTimeout :: int
  srv_DefaultPageSize :: int
  srv_MaxPageSize :: int
  srv_MaxBulkOps :: int
  srv_TLS :: TLSConfig

record AuthConfig =
  aut_Type :: string
  aut_Tokens :: "string list"

record PostgresConfig =
  pgc_DSN :: string
  pgc_TablePrefix :: string
  pgc_MaxConns :: int
  pgc_MinConns :: int
  pgc_ConnTimeout :: int
  pgc_AutoMigrate :: bool

record MySQLConfig =
  myc_DSN :: string
  myc_TablePrefix :: string
  myc_MaxConns :: int
  myc_AutoMigrate :: bool

record MongoDBConfig =
  mgc_URI :: string
  mgc_Database :: string
  mgc_CollectionPrefix :: string
  mgc_Timeout :: int
  mgc_AutoMigrate :: bool

record SCIMConfig =
  scc_BaseURL :: string
  scc_Token :: string
  scc_Timeout :: int
  scc_Version :: string

record StoreConfig =
  st_Type :: string
  st_Postgres :: PostgresConfig
  st_MySQL :: MySQLConfig
  st_MongoDB :: MongoDBConfig
  st_SCIM :: SCIMConfig

record AuditConfig =
  audit_Type :: string
  audit_Output :: string

record LogConfig =
  log_Level :: string
  log_Format :: string

record Config =
  conf_Server :: ServerConfig
  conf_Auth :: AuthConfig
  conf_Store :: StoreConfig
  conf_Audit :: AuditConfig
  conf_Log :: LogConfig
  conf_Telemetry :: TelemetryConfig

definition defaultPrefix :: string where "defaultPrefix = ''scim_''"

definition defaultConfig :: Config where
  "defaultConfig = \<lparr>
     conf_Server = \<lparr>srv_Addr = '':8080'', srv_BasePath = ''/scim/v2'', srv_ReadTimeout = 5 * second_ns,
       srv_WriteTimeout = 10 * second_ns, srv_ShutdownTimeout = 30 * second_ns, srv_DefaultPageSize = 100,
       srv_MaxPageSize = 1000, srv_MaxBulkOps = 100, srv_TLS = \<lparr>tls_CertFile = [], tls_KeyFile = []\<rparr>\<rparr>,
     conf_Auth = \<lparr>aut_Type = ''none'', aut_Tokens = []\<rparr>,
     conf_Store = \<lparr>st_Type = ''memory'',
       st_Postgres = \<lparr>pgc_DSN = [], pgc_TablePrefix = defaultPrefix, pgc_MaxConns = 10, pgc_MinConns = 2,
         pgc_ConnTimeout = 30 * second_ns, pgc_AutoMigrate = False\<rparr>,
       st_MySQL = \<lparr>myc_DSN = [], myc_TablePrefix = defaultPrefix, myc_MaxConns = 10, myc_AutoMigrate = False\<rparr>,
       st_MongoDB = \<lparr>mgc_URI = [], mgc_Database = ''scim'', mgc_CollectionPrefix = defaultPrefix,
         mgc_Timeout = 30 * second_ns, mgc_AutoMigrate = False\<rparr>,
       st_SCIM = \<lparr>scc_BaseURL = [], scc_Token = [], scc_Timeout = 30 * second_ns, scc_Version = ''v2''\<rparr>\<rparr>,
     conf_Audit = \<lparr>audit_Type = ''none'', audit_Output = ''stdout''\<rparr>,
     conf_Log = \<lparr>log_Level = ''info'', log_Format = ''json''\<rparr>,
     conf_Telemetry = \<lparr>tel_Endpoint = [], tel_Headers = None\<rparr>\<rparr>"

definition Load :: "(string \<Rightarrow> string + string) \<Rightarrow> (string \<Rightarrow> Config \<Rightarrow> string + Config) \<Rightarrow> string \<Rightarrow> string + Config" where
  "Load read_file yaml path =
     (case read_file path of
        Inl e \<Rightarrow> Inl (''read config: '' @ e)
      | Inr data \<Rightarrow> (case yaml data defaultConfig of Inl e \<Rightarrow> Inl (''parse config: '' @ e) | Inr cfg \<Rightarrow> Inr cfg))"

subsection \<open>What a duration says\<close>

lemma duration_part_seconds:
  assumes "n * 1000000000 \<le> 2 ^ 63"
  shows "duration_part orig (nat_str n @ ''s'') = Inr (n * 1000000000, [])"
proof -
  obtain c r where c: "nat_str n = c # r" "is_digit_char c" using nat_str_hd [of n] by blast
  have n: "\<not> n > 2 ^ 63" "\<not> n > 2 ^ 63 div 1000000000" using assms by (simp_all add: less_eq_div_iff_mult_less_eq not_less)
  have s: "\<not> is_digit_char (CHR ''s'')" "\<not> not_unit (CHR ''s'')" by (simp_all add: not_unit_def is_digit_char_def char_code_def)
  have "not_unit (hd (nat_str n @ ''s''))" using c by (simp add: not_unit_def)
  then show ?thesis
    using n s assms by (simp add: duration_part_def Let_def unit_of_def)
qed

text \<open>A whole number of seconds, as the documentation writes timeouts, is read exactly as long as it fits 64 bits.\<close>

theorem seconds_read:
  assumes "int n * second_ns < 2 ^ 63"
  shows "ParseDuration (nat_str n @ ''s'') = Inr (int n * second_ns)"
proof -
  obtain c r where c: "nat_str n = c # r" "is_digit_char c" using nat_str_hd [of n] by blast
  have n: "n * 1000000000 < 2 ^ 63" using assms by (simp add: second_ns_def flip: of_nat_less_iff [where 'a = int])
  have "duration_sum orig 0 (nat_str n @ ''s'') = Inr (n * 1000000000)" for orig
    using n duration_part_seconds [of n orig] by (subst duration_sum.simps) (simp add: duration_sum.simps [of _ _ "[]"])
  then show ?thesis
    using c digit_char_not_sign [of c] n by (simp add: ParseDuration_def second_ns_def)
qed

end
