(* ===== verification/Serve.thy ===== *)
theory Serve
  imports Configuration Postgres_Store Mysql_Store Mongo_Store Client_Server Tracing
begin

text \<open>
  The command \<open>serve\<close> (\<open>cmd/serve/root.go\<close>): the server that a configuration file describes.  The record \<open>hosts\<close> holds what
  the command reaches outside: the files, the three databases and the HTTP client; their states and the in-memory store
  are the parts of \<open>surroundings\<close>, and the store of the server works on its own part.
\<close>

subsection \<open>Logging\<close>

definition log_level :: "LogConfig \<Rightarrow> int" where
  "log_level cfg =
     (if log_Level cfg = ''debug'' then -4 else if log_Level cfg = ''warn'' then 4
      else if log_Level cfg = ''error'' then 8 else 0)"

record 'r slog_handler =
  sh_Enabled :: "int \<Rightarrow> bool"
  sh_Handle :: "'r \<Rightarrow> string option"

text \<open>A record goes to every handler that takes its level; the errors are joined.\<close>

definition multi_Enabled :: "'r slog_handler list \<Rightarrow> int \<Rightarrow> bool" where
  "multi_Enabled ms level = list_ex (\<lambda>h. sh_Enabled h level) ms"

definition multi_Handle :: "'r slog_handler list \<Rightarrow> int \<Rightarrow> 'r \<Rightarrow> string option" where
  "multi_Handle ms level r =
     (let errs = List.map_filter (\<lambda>h. if sh_Enabled h level then sh_Handle h r else None) ms
      in if errs = [] then None else Some (Join [CHR 0x0A] errs))"

definition multi_WithAttrs :: "('a \<Rightarrow> 'r slog_handler \<Rightarrow> 'r slog_handler) \<Rightarrow> 'a \<Rightarrow> 'r slog_handler list \<Rightarrow> 'r slog_handler list" where
  "multi_WithAttrs with_attrs as ms = map (with_attrs as) ms"

definition multi_WithGroup :: "(string \<Rightarrow> 'r slog_handler \<Rightarrow> 'r slog_handler) \<Rightarrow> string \<Rightarrow> 'r slog_handler list \<Rightarrow> 'r slog_handler list" where
  "multi_WithGroup with_group name ms = map (with_group name) ms"

text \<open>\<open>text\<close> and \<open>json\<close> make the handler of standard error, \<open>otel\<close> is the other one.\<close>

definition buildLogger ::
    "(int \<Rightarrow> 'r slog_handler) \<Rightarrow> (int \<Rightarrow> 'r slog_handler) \<Rightarrow> 'r slog_handler \<Rightarrow> LogConfig \<Rightarrow> 'r slog_handler list" where
  "buildLogger text json otel cfg =
     [if log_Format cfg = ''text'' then text (log_level cfg) else json (log_level cfg), otel]"

datatype audit_sink = AuditNoop | AuditStdout | AuditStderr | AuditFile string

definition buildAuditLogger :: "(string \<Rightarrow> string option) \<Rightarrow> AuditConfig \<Rightarrow> string + audit_sink" where
  "buildAuditLogger open_file cfg =
     (if audit_Type cfg \<noteq> ''json'' then Inr AuditNoop
      else if audit_Output cfg = ''stderr'' then Inr AuditStderr
      else if audit_Output cfg \<in> {[], ''stdout''} then Inr AuditStdout
      else (case open_file (audit_Output cfg) of
              Some e \<Rightarrow> Inl (''open audit log '' @ Quote (audit_Output cfg) @ '': '' @ e)
            | None \<Rightarrow> Inr (AuditFile (audit_Output cfg))))"

subsection \<open>The store\<close>

datatype backend = BMemory | BPostgres pg_config | BMySQL my_config | BMongoDB mg_config | BSCIM ClientConfig

record ('p, 'm, 'g, 'w) hosts =
  h_read :: "string \<Rightarrow> string + string"
  h_yaml :: "string \<Rightarrow> Config \<Rightarrow> string + Config"
  h_open :: "string \<Rightarrow> string option"
  h_dsn_err :: "string \<Rightarrow> string option"
  h_pg :: "'p sqldb"
  h_my :: "'m sqldb"
  h_mg :: "'g mongodb"
  h_url :: url_parser
  h_net :: "env \<Rightarrow> 'w transport"

record ('p, 'm, 'g, 'w) surroundings =
  sur_mem :: mem
  sur_pg :: 'p
  sur_my :: 'm
  sur_mg :: 'g
  sur_net :: 'w

text \<open>\<open>New\<close>, then \<open>Init\<close>, with the prefix of the error of each.\<close>

definition new_and_init ::
    "string \<Rightarrow> string + 'c \<Rightarrow> ('c \<Rightarrow> backend) \<Rightarrow> ('c \<Rightarrow> 's \<Rightarrow> string option \<times> 's) \<Rightarrow> 's \<Rightarrow> (string + backend) \<times> 's" where
  "new_and_init kind made mk init s =
     (case made of
        Inl e \<Rightarrow> (Inl (''create '' @ kind @ '' store: '' @ e), s)
      | Inr c \<Rightarrow> (case init c s of
            (Some e, s) \<Rightarrow> (Inl (''init '' @ kind @ '' store: '' @ e), s)
          | (None, s) \<Rightarrow> (Inr (mk c), s)))"

definition scim_options :: "SCIMConfig \<Rightarrow> client_option list" where
  "scim_options sc =
     [sc_WithBaseURL (scc_BaseURL sc), sc_WithTimeout (scc_Timeout sc)] @
     (if scc_Token sc \<noteq> [] then [sc_WithBearerToken (scc_Token sc)] else []) @
     (if scc_Version sc = ''v1'' \<or> scc_Version sc = ''1.1'' then [sc_WithVersion V1_1] else [])"

definition postgres_options :: "PostgresConfig \<Rightarrow> pg_option list" where
  "postgres_options pc =
     [pg_WithDSN (pgc_DSN pc), pg_WithTablePrefix (pgc_TablePrefix pc), pg_WithMaxConns (pgc_MaxConns pc),
      pg_WithMinConns (pgc_MinConns pc), pg_WithConnTimeout (pgc_ConnTimeout pc), pg_WithAutoMigrate (pgc_AutoMigrate pc)]"

definition mysql_options :: "MySQLConfig \<Rightarrow> my_option list" where
  "mysql_options mc =
     [my_WithDSN (myc_DSN mc), my_WithTablePrefix (myc_TablePrefix mc), my_WithMaxConns (myc_MaxConns mc),
      my_WithAutoMigrate (myc_AutoMigrate mc)]"

definition mongodb_options :: "MongoDBConfig \<Rightarrow> mg_option list" where
  "mongodb_options mdc =
     [mg_WithURI (mgc_URI mdc), mg_WithDatabase (mgc_Database mdc), mg_WithCollectionPrefix (mgc_CollectionPrefix mdc),
      mg_WithTimeout (mgc_Timeout mdc), mg_WithAutoMigrate (mgc_AutoMigrate mdc)]"

definition buildStore ::
    "('p, 'm, 'g, 'w) hosts \<Rightarrow> env \<Rightarrow> StoreConfig \<Rightarrow> ('p, 'm, 'g, 'w) surroundings \<Rightarrow> (string + backend) \<times> ('p, 'm, 'g, 'w) surroundings" where
  "buildStore H e cfg s =
     (if st_Type cfg \<in> {[], ''memory''} then (Inr BMemory, s\<lparr>sur_mem := []\<rparr>)
      else if st_Type cfg = ''postgres'' then
        new_and_init ''postgres'' (pg_New (postgres_options (st_Postgres cfg))) BPostgres
          (\<lambda>c s. case pg_Init c (h_dsn_err H (pg_dsn c)) (h_pg H) e (sur_pg s) of (x, d) \<Rightarrow> (x, s\<lparr>sur_pg := d\<rparr>)) s
      else if st_Type cfg = ''mysql'' then
        new_and_init ''mysql'' (my_New (mysql_options (st_MySQL cfg))) BMySQL
          (\<lambda>c s. case my_Init c (h_my H) e (sur_my s) of (x, d) \<Rightarrow> (x, s\<lparr>sur_my := d\<rparr>)) s
      else if st_Type cfg = ''mongodb'' then
        new_and_init ''mongodb'' (mg_New (mongodb_options (st_MongoDB cfg))) BMongoDB
          (\<lambda>c s. case mg_Init c (h_mg H) e (sur_mg s) of (x, d) \<Rightarrow> (x, s\<lparr>sur_mg := d\<rparr>)) s
      else if st_Type cfg = ''scim'' then
        (case sc_New (scim_options (st_SCIM cfg)) of
           Inl e \<Rightarrow> (Inl (''create scim connector: '' @ e), s)
         | Inr c \<Rightarrow> (Inr (BSCIM c), s))
      else (Inl (''unknown store type '' @ Quote (st_Type cfg)), s))"

text \<open>The store of a backend, on its part of the surroundings.\<close>

definition on_part :: "('s \<Rightarrow> 't) \<Rightarrow> ('t \<Rightarrow> 's \<Rightarrow> 's) \<Rightarrow> ('t \<Rightarrow> 'a \<times> 't) \<Rightarrow> 's \<Rightarrow> 'a \<times> 's" where
  "on_part prj upd f s = (case f (prj s) of (x, t) \<Rightarrow> (x, upd t s))"

definition lift_ops :: "('s \<Rightarrow> 't) \<Rightarrow> ('t \<Rightarrow> 's \<Rightarrow> 's) \<Rightarrow> 't store_ops \<Rightarrow> 's store_ops" where
  "lift_ops prj upd ops =
     \<lparr>st_Create = (\<lambda>e rt x. on_part prj upd (st_Create ops e rt x)), st_Get = (\<lambda>e rt rid. on_part prj upd (st_Get ops e rt rid)),
      st_List = (\<lambda>e rt p. on_part prj upd (st_List ops e rt p)),
      st_Replace = (\<lambda>e rt rid x. on_part prj upd (st_Replace ops e rt rid x)),
      st_Patch = (\<lambda>e rt rid pops. on_part prj upd (st_Patch ops e rt rid pops)),
      st_Delete = (\<lambda>e rt rid. on_part prj upd (st_Delete ops e rt rid))\<rparr>"

definition scim_ops :: "ClientConfig \<Rightarrow> url_parser \<Rightarrow> (env \<Rightarrow> 'w transport) \<Rightarrow> 'w store_ops" where
  "scim_ops c purl net =
     \<lparr>st_Create = (\<lambda>e. client_Create c purl (net e)), st_Get = (\<lambda>e. client_Get c purl (net e)),
      st_List = (\<lambda>e. client_List c purl (net e)), st_Replace = (\<lambda>e. client_Replace c purl (net e)),
      st_Patch = (\<lambda>e. client_Patch c purl (net e)), st_Delete = (\<lambda>e. client_Delete c purl (net e))\<rparr>"

fun backend_ops :: "('p, 'm, 'g, 'w) hosts \<Rightarrow> backend \<Rightarrow> ('p, 'm, 'g, 'w) surroundings store_ops" where
  "backend_ops H BMemory = lift_ops sur_mem (\<lambda>t s. s\<lparr>sur_mem := t\<rparr>) (memory_ops no_hooks)"
| "backend_ops H (BPostgres c) = lift_ops sur_pg (\<lambda>t s. s\<lparr>sur_pg := t\<rparr>) (postgres_ops c (h_pg H))"
| "backend_ops H (BMySQL c) = lift_ops sur_my (\<lambda>t s. s\<lparr>sur_my := t\<rparr>) (mysql_ops c (h_my H))"
| "backend_ops H (BMongoDB c) = lift_ops sur_mg (\<lambda>t s. s\<lparr>sur_mg := t\<rparr>) (mongo_ops c (h_mg H))"
| "backend_ops H (BSCIM c) = lift_ops sur_net (\<lambda>t s. s\<lparr>sur_net := t\<rparr>) (scim_ops c (h_url H) (h_net H))"

subsection \<open>The server\<close>

definition token_auth :: "string list \<Rightarrow> string \<Rightarrow> string + bool" where
  "token_auth toks tok = Inr (tok \<in> set toks)"

definition buildAuth :: "AuthConfig \<Rightarrow> string + ('s options \<Rightarrow> 's options) list" where
  "buildAuth cfg =
     (if aut_Type cfg \<in> {[], ''none''} then Inr []
      else if aut_Type cfg = ''bearer_token'' then Inr [WithBearerTokenAuth (token_auth (aut_Tokens cfg))]
      else Inl (''unknown auth type '' @ Quote (aut_Type cfg)))"

definition server_options :: "Config \<Rightarrow> 's store_ops \<Rightarrow> ('s options \<Rightarrow> 's options) list" where
  "server_options cfg st =
     [WithStore st, WithSchemaRegistry (RegisterDefaults NewRegistry), WithBasePath (srv_BasePath (conf_Server cfg)),
      WithDefaultPageSize (srv_DefaultPageSize (conf_Server cfg)), WithMaxPageSize (srv_MaxPageSize (conf_Server cfg)),
      WithMaxBulkOps (srv_MaxBulkOps (conf_Server cfg))]"

definition serve_config ::
    "('p, 'm, 'g, 'w) hosts \<Rightarrow> env \<Rightarrow> Config \<Rightarrow> ('p, 'm, 'g, 'w) surroundings \<Rightarrow>
     (string + (('p, 'm, 'g, 'w) surroundings \<times> span list) config \<times> backend \<times> audit_sink) \<times> ('p, 'm, 'g, 'w) surroundings" where
  "serve_config H e cfg s =
     (case buildAuditLogger (h_open H) (conf_Audit cfg) of
        Inl err \<Rightarrow> (Inl err, s)
      | Inr sink \<Rightarrow>
          (case buildStore H e (conf_Store cfg) s of
             (Inl err, s) \<Rightarrow> (Inl err, s)
           | (Inr b, s) \<Rightarrow>
               (case buildAuth (conf_Auth cfg) of
                  Inl err \<Rightarrow> (Inl err, s)
                | Inr authOpts \<Rightarrow>
                    (case New (server_options cfg (NewTracingStore (backend_ops H b)) @ authOpts) of
                       Inl err \<Rightarrow> (Inl (''create server: '' @ err), s)
                     | Inr srv \<Rightarrow> (Inr (srv, b, sink), s)))))"

definition runServe ::
    "('p, 'm, 'g, 'w) hosts \<Rightarrow> env \<Rightarrow> string \<Rightarrow> ('p, 'm, 'g, 'w) surroundings \<Rightarrow>
     (string + (('p, 'm, 'g, 'w) surroundings \<times> span list) config \<times> backend \<times> audit_sink) \<times> ('p, 'm, 'g, 'w) surroundings" where
  "runServe H e configFile s =
     (case Load (h_read H) (h_yaml H) configFile of
        Inl err \<Rightarrow> (Inl (''load config: '' @ err), s)
      | Inr cfg \<Rightarrow> serve_config H e cfg s)"

text \<open>The end: the listener failed, the server was closed, or a signal shuts it down, which closes the database of a store
  that has one.\<close>

datatype serve_event = ListenFailed string | ServerClosed | Interrupted

datatype shut_action = Shutdown int | CloseStore

definition serve_end :: "Config \<Rightarrow> backend \<Rightarrow> serve_event \<Rightarrow> string option \<times> shut_action list" where
  "serve_end cfg b ev =
     (case ev of
        ListenFailed e \<Rightarrow> (Some (''server error: '' @ e), [])
      | ServerClosed \<Rightarrow> (None, [])
      | Interrupted \<Rightarrow> (None, Shutdown (srv_ShutdownTimeout (conf_Server cfg)) #
          (case b of BMemory \<Rightarrow> [] | BSCIM _ \<Rightarrow> [] | _ \<Rightarrow> [CloseStore])))"

end
