(* ===== verification/Serve_Facts.thy ===== *)
theory Serve_Facts
  imports Serve Mongo_Facts
begin

text \<open>
  What the command \<open>serve\<close> starts: the decorated store on its part of the surroundings is invisible to the server, a server
  with bearer tokens lets no other request through, and what becomes of \<open>auto_migrate\<close>.
\<close>

subsection \<open>A store on its part of a larger state\<close>

locale part =
  fixes prj :: "'s \<Rightarrow> 't" and upd :: "'t \<Rightarrow> 's \<Rightarrow> 's"
  assumes prj_upd: "prj (upd t s) = t"
begin

lemma on_part_agree: "agree (\<lambda>t s. t = prj (fst s)) (f (prj (fst s))) (spanned n as (on_part prj upd f (fst s)) sp)"
  by (cases "f (prj (fst s))") (simp add: on_part_def spanned_def agree_def prj_upd)

lemma traced_part: "store_simulation ops (NewTracingStore (lift_ops prj upd ops)) (\<lambda>t s. t = prj (fst s))"
  by unfold_locales (simp_all add: traced_defs lift_ops_def on_part_agree)

end

interpretation mem_part: part sur_mem "\<lambda>t s. s\<lparr>sur_mem := t\<rparr>" by unfold_locales simp
interpretation pg_part: part sur_pg "\<lambda>t s. s\<lparr>sur_pg := t\<rparr>" by unfold_locales simp
interpretation my_part: part sur_my "\<lambda>t s. s\<lparr>sur_my := t\<rparr>" by unfold_locales simp
interpretation mg_part: part sur_mg "\<lambda>t s. s\<lparr>sur_mg := t\<rparr>" by unfold_locales simp
interpretation net_part: part sur_net "\<lambda>t s. s\<lparr>sur_net := t\<rparr>" by unfold_locales simp

interpretation served_memory: store_simulation "memory_ops no_hooks" "NewTracingStore (backend_ops H BMemory)"
    "\<lambda>t s. t = sur_mem (fst s)" for H
  unfolding backend_ops.simps by (rule mem_part.traced_part)

interpretation served_postgres: store_simulation "postgres_ops c (h_pg H)" "NewTracingStore (backend_ops H (BPostgres c))"
    "\<lambda>t s. t = sur_pg (fst s)" for H c
  unfolding backend_ops.simps by (rule pg_part.traced_part)

interpretation served_mysql: store_simulation "mysql_ops c (h_my H)" "NewTracingStore (backend_ops H (BMySQL c))"
    "\<lambda>t s. t = sur_my (fst s)" for H c
  unfolding backend_ops.simps by (rule my_part.traced_part)

interpretation served_mongodb: store_simulation "mongo_ops c (h_mg H)" "NewTracingStore (backend_ops H (BMongoDB c))"
    "\<lambda>t s. t = sur_mg (fst s)" for H c
  unfolding backend_ops.simps by (rule mg_part.traced_part)

interpretation served_scim: store_simulation "scim_ops c (h_url H) (h_net H)" "NewTracingStore (backend_ops H (BSCIM c))"
    "\<lambda>t s. t = sur_net (fst s)" for H c
  unfolding backend_ops.simps by (rule net_part.traced_part)

text \<open>The server of a configuration, field by field.\<close>

lemma serve_config_server:
  assumes "serve_config H e cfg s = (Inr (srv, b, snk), s1)"
  shows "cfg_store srv = NewTracingStore (backend_ops H b)" "cfg_registry srv = default_registry"
    "cfg_basePath srv = TrimRightChar (CHR ''/'') (srv_BasePath (conf_Server cfg))"
    "cfg_maxPageSize srv = srv_MaxPageSize (conf_Server cfg)" "cfg_maxBulkOps srv = srv_MaxBulkOps (conf_Server cfg)"
    "cfg_authFunc srv =
       (if aut_Type (conf_Auth cfg) = ''bearer_token'' then Some (bearer_auth (token_auth (aut_Tokens (conf_Auth cfg)))) else None)"
    "buildStore H e (conf_Store cfg) s = (Inr b, s1)"
proof -
  obtain opts :: "((('a, 'b, 'c, 'd) surroundings \<times> span list) options \<Rightarrow> (('a, 'b, 'c, 'd) surroundings \<times> span list) options) list"
    where a: "buildAuth (conf_Auth cfg) = Inr opts"
      and n: "New (server_options cfg (NewTracingStore (backend_ops H b)) @ opts) = Inr srv"
      and b: "buildStore H e (conf_Store cfg) s = (Inr b, s1)"
    using assms by (auto simp: serve_config_def split: sum.splits prod.splits)
  have o: "opts = (if aut_Type (conf_Auth cfg) = ''bearer_token'' then [WithBearerTokenAuth (token_auth (aut_Tokens (conf_Auth cfg)))] else [])"
    using a by (auto simp: buildAuth_def split: if_splits)
  show "cfg_store srv = NewTracingStore (backend_ops H b)" "cfg_registry srv = default_registry"
    "cfg_basePath srv = TrimRightChar (CHR ''/'') (srv_BasePath (conf_Server cfg))"
    "cfg_maxPageSize srv = srv_MaxPageSize (conf_Server cfg)" "cfg_maxBulkOps srv = srv_MaxBulkOps (conf_Server cfg)"
    "cfg_authFunc srv =
       (if aut_Type (conf_Auth cfg) = ''bearer_token'' then Some (bearer_auth (token_auth (aut_Tokens (conf_Auth cfg)))) else None)"
    using n unfolding o
    by (auto simp: New_def server_options_def WithStore_def WithSchemaRegistry_def WithBasePath_def WithDefaultPageSize_def
        WithMaxPageSize_def WithMaxBulkOps_def WithBearerTokenAuth_def WithAuthFunc_def default_registry_def Let_def split: if_splits)
  show "buildStore H e (conf_Store cfg) s = (Inr b, s1)" by (rule b)
qed

lemma with_store_again: "with_store (cfg_store c) (with_store ops c) = c"
  by (simp add: with_store_def)

subsection \<open>Started servers\<close>

text \<open>C10: A server started without a database answers every request exactly as a server over the in-memory store itself: the
  tracing decorator and the other parts of the process do not show, and the start leaves the store empty.\<close>

theorem served_memory_store:
  assumes "serve_config H e cfg s = (Inr (srv, b, snk), s1)" "st_Type (conf_Store cfg) \<in> {[], ''memory''}"
    and "ss_store st = sur_mem (fst (ss_store st'))" "ss_audit st = ss_audit st'" "ss_log st = ss_log st'" "ss_tick st = ss_tick st'"
    and "ServeHTTP (with_store (memory_ops no_hooks) srv) W purl r st = (res, st1)" "ServeHTTP srv W purl r st' = (res', st1')"
  shows "res' = res \<and> sur_mem (fst (ss_store st1')) = ss_store st1 \<and> ss_audit st1' = ss_audit st1 \<and> ss_log st1' = ss_log st1 \<and>
     sur_mem s1 = []"
proof -
  note srv = serve_config_server [OF assms(1)]
  have b: "b = BMemory" "sur_mem s1 = []" using srv(7) assms(2) by (auto simp: buildStore_def)
  have own: "with_store (NewTracingStore (backend_ops H BMemory)) (with_store (memory_ops no_hooks) srv) = srv"
    using with_store_again [of srv "memory_ops no_hooks"] srv(1) b(1) by simp
  have "sim_state (\<lambda>t s. t = sur_mem (fst s)) st st'" using assms(3-6) by (simp add: sim_state_def)
  from served_memory.ServeHTTP_sim [OF _ this, where cfg = "with_store (memory_ops no_hooks) srv" and H = H and W = W and purl = purl and r = r]
  show ?thesis using b(2) by (simp add: own assms(7,8) sim_state_def del: backend_ops.simps)
qed

text \<open>C17: A server started with bearer tokens lets no other request through: whatever does not carry one of the tokens of the
  configuration changes nothing, not the store, the audit trail or the log, and is answered 401, or 406 or 415 for its
  content types.\<close>

theorem served_with_tokens:
  assumes "serve_config H e cfg s = (Inr (srv, b, snk), s1)" "aut_Type (conf_Auth cfg) = ''bearer_token''"
    and no_token: "\<And>tok. tok \<in> set (aut_Tokens (conf_Auth cfg)) \<Longrightarrow> values_Get (Header r) ''Authorization'' \<noteq> ''Bearer '' @ tok"
    and "ServeHTTP srv W purl r st = (Inr resp, st')"
  shows "st' = st \<and> resp_Status resp \<in> {401, 406, 415}"
proof -
  let ?fn = "bearer_auth (token_auth (aut_Tokens (conf_Auth cfg)))"
  have fn: "cfg_authFunc srv = Some ?fn" using serve_config_server(6) [OF assms(1)] assms(2) by simp
  have "?fn r \<noteq> Inr True" using no_token by (auto simp: bearer_auth_accepts token_auth_def)
  moreover have "\<exists>ok. ?fn r = Inr ok"
    by (cases "?fn r") (auto simp: bearer_auth_def token_auth_def Let_def split: if_splits)
  ultimately have "?fn r = Inr False" by auto
  then show ?thesis using fn assms(4)
    by (auto simp: ServeHTTP_def chain_def recoveryMiddleware_def contentTypeMiddleware_def authMiddleware_def Let_def
        error_response_def SCIMError_Write_def NewSCIMError_def split: if_splits)
qed

text \<open>C38: With PostgreSQL the key \<open>auto_migrate\<close> has no effect: a start opens the pool and executes nothing, so that no table is
  created whatever the key says.\<close>

theorem served_postgres_never_migrates:
  assumes "serve_config H e cfg s = (Inr (srv, b, snk), s1)" "st_Type (conf_Store cfg) = ''postgres''"
  shows "sur_pg s1 = snd (db_open (h_pg H) (pgc_DSN (st_Postgres (conf_Store cfg))) (sur_pg s))"
proof -
  note b = serve_config_server(7) [OF assms(1)]
  define c where "c = foldl (\<lambda>c opt. opt c) pg_defaultConfig (postgres_options (st_Postgres (conf_Store cfg)))"
  have c: "pg_registry c = None" "pg_dsn c = pgc_DSN (st_Postgres (conf_Store cfg))"
    by (simp_all add: c_def postgres_options_def pg_defaultConfig_def pg_WithDSN_def pg_WithTablePrefix_def pg_WithMaxConns_def
        pg_WithMinConns_def pg_WithConnTimeout_def pg_WithAutoMigrate_def)
  have n: "pg_New (postgres_options (st_Postgres (conf_Store cfg))) = (if pg_dsn c = [] then Inl ''postgres store: DSN is required (use WithDSN)'' else Inr c)"
    unfolding pg_New_def Let_def c_def [symmetric] ..
  show ?thesis using b assms(2)
    by (auto simp: buildStore_def new_and_init_def n pg_Init_def pg_migrate_def c split: if_splits option.splits prod.splits)
qed

subsection \<open>A configuration\<close>

definition token_config :: Config where
  "token_config = defaultConfig\<lparr>conf_Auth := \<lparr>aut_Type = ''bearer_token'', aut_Tokens = [''secret'']\<rparr>\<rparr>"

definition postgres_config :: Config where
  "postgres_config = defaultConfig\<lparr>conf_Store := (conf_Store defaultConfig)
     \<lparr>st_Type := ''postgres'', st_Postgres := (st_Postgres (conf_Store defaultConfig))
       \<lparr>pgc_DSN := ''postgres://h/scim'', pgc_AutoMigrate := True\<rparr>\<rparr>\<rparr>"

text \<open>Databases whose state counts the calls made to them, and no network.\<close>

definition counting_db :: "nat sqldb" where
  "counting_db = \<lparr>db_open = (\<lambda>_ n. (None, n + 1)), db_ping = (\<lambda>_ n. (None, n + 1)), db_close = (\<lambda>n. (None, n + 1)),
     db_exec = (\<lambda>_ _ _ n. (Inr 0, n + 1)), db_query = (\<lambda>_ _ _ n. (Inr ([], None), n + 1)), db_begin = (\<lambda>_ n. (None, n + 1)),
     db_commit = (\<lambda>n. (None, n + 1)), db_rollback = (\<lambda>n. n + 1), db_iface = (\<lambda>_. GNil)\<rparr>"

definition sample_hosts :: "(nat, nat, mini_mongo, unit) hosts" where
  "sample_hosts = \<lparr>h_read = (\<lambda>p. if p = ''scimply.yaml'' then Inr [] else Inl ''no such file''), h_yaml = (\<lambda>_ c. Inr c),
     h_open = (\<lambda>_. None), h_dsn_err = (\<lambda>_. None), h_pg = counting_db, h_my = counting_db, h_mg = mini_mongodb,
     h_url = sample_url, h_net = (\<lambda>_. \<lparr>tr_send = (\<lambda>_ w. (Inl ''offline'', w)), tr_wait = (\<lambda>_ w. (None, w))\<rparr>)\<rparr>"

definition sample_surroundings :: "(nat, nat, mini_mongo, unit) surroundings" where
  "sample_surroundings = \<lparr>sur_mem = [], sur_pg = 0, sur_my = 0, sur_mg = [], sur_net = ()\<rparr>"

definition sample_env :: env where
  "sample_env = \<lparr>ctx_err = None, rand_bytes = Inr ''r'', now = 0\<rparr>"

definition started :: "string + 'a \<times> 'b \<times> 'c \<Rightarrow> bool" where
  "started x = (case x of Inr _ \<Rightarrow> True | Inl _ \<Rightarrow> False)"

lemma serve_starts:
  "started (fst (serve_config sample_hosts sample_env defaultConfig sample_surroundings))"
  "started (fst (serve_config sample_hosts sample_env token_config sample_surroundings))"
  "started (fst (serve_config sample_hosts sample_env postgres_config sample_surroundings))"
  by code_simp+

lemma startedE:
  assumes "started (fst x)"
  obtains srv b snk s1 where "x = (Inr (srv, b, snk), s1)"
  using assms by (cases x; cases "fst x") (auto simp: started_def)

theorem served_postgres_never_migrates_witness:
  "sur_pg (snd (serve_config sample_hosts sample_env postgres_config sample_surroundings)) = 1"
proof -
  obtain srv b snk s1 where s: "serve_config sample_hosts sample_env postgres_config sample_surroundings = (Inr (srv, b, snk), s1)"
    using serve_starts(3) by (rule startedE)
  have "st_Type (conf_Store postgres_config) = ''postgres''" by (simp add: postgres_config_def)
  from served_postgres_never_migrates [OF s this] s show ?thesis
    by (simp add: sample_hosts_def counting_db_def sample_surroundings_def)
qed

theorem served_with_tokens_witness:
  "case serve_config sample_hosts sample_env token_config sample_surroundings of
     (Inr (srv, b, snk), s1) \<Rightarrow>
       answer_status (ServeHTTP srv sample_world sample_purl post_bob
         \<lparr>ss_store = (s1, []), ss_audit = [], ss_log = [], ss_tick = 0\<rparr>) \<in> {401, 406, 415}
   | _ \<Rightarrow> False"
proof -
  obtain srv b snk s1 where s: "serve_config sample_hosts sample_env token_config sample_surroundings = (Inr (srv, b, snk), s1)"
    using serve_starts(2) by (rule startedE)
  let ?st = "\<lparr>ss_store = (s1, []), ss_audit = [], ss_log = [], ss_tick = 0\<rparr>"
  obtain resp where r: "fst (ServeHTTP srv sample_world sample_purl post_bob ?st) = Inr resp"
    using ServeHTTP_good by blast
  then obtain st' where r': "ServeHTTP srv sample_world sample_purl post_bob ?st = (Inr resp, st')" by (metis prod.collapse)
  have "aut_Type (conf_Auth token_config) = ''bearer_token''" by (simp add: token_config_def)
  from served_with_tokens [OF s this _ r'] have "resp_Status resp \<in> {401, 406, 415}"
    by (simp add: post_bob_def sample_request_def)
  then show ?thesis using s r' by (simp add: answer_status_def)
qed

theorem served_memory_store_witness:
  "case serve_config sample_hosts sample_env defaultConfig sample_surroundings of
     (Inr (srv, b, snk), s1) \<Rightarrow>
       fst (ServeHTTP srv sample_world sample_purl post_bob \<lparr>ss_store = (s1, []), ss_audit = [], ss_log = [], ss_tick = 0\<rparr>) =
       fst (ServeHTTP (with_store (memory_ops no_hooks) srv) sample_world sample_purl post_bob sample_state)
   | _ \<Rightarrow> False"
proof -
  obtain srv b snk s1 where s: "serve_config sample_hosts sample_env defaultConfig sample_surroundings = (Inr (srv, b, snk), s1)"
    using serve_starts(1) by (rule startedE)
  have t: "st_Type (conf_Store defaultConfig) \<in> {[], ''memory''}" by (simp add: defaultConfig_def)
  have empty: "sur_mem s1 = []" using serve_config_server(7) [OF s] t by (auto simp: buildStore_def)
  let ?st = "\<lparr>ss_store = (s1, []), ss_audit = [], ss_log = [], ss_tick = 0\<rparr>"
  obtain res st1 where r: "ServeHTTP (with_store (memory_ops no_hooks) srv) sample_world sample_purl post_bob sample_state = (res, st1)"
    by fastforce
  obtain res' st1' where r': "ServeHTTP srv sample_world sample_purl post_bob ?st = (res', st1')" by fastforce
  have "res' = res"
    using served_memory_store [OF s t _ _ _ _ r r'] empty by (simp add: sample_state_def)
  then show ?thesis using s r r' by simp
qed

end
