(* ===== verification/Compliance.thy ===== *)
theory Compliance
  imports Client_Server
begin

text \<open>
  The compliance suite (package \<open>compliance\<close>): tests that send requests to a SCIM server.  A test is a function of the state
  of the package \<open>testing\<close> (\<open>tstate\<close>: the report of the running test, its clean-up, the reports of the finished ones) and of
  the world of the HTTP client; \<open>None\<close> says that the test has stopped (\<open>Fatalf\<close>, \<open>Skipf\<close>).  Messages leave out the text of
  a response body.
\<close>

subsection \<open>Tests\<close>

record report =
  rep_Name :: string
  rep_Errors :: "string list"
  rep_Logs :: "string list"
  rep_Skipped :: bool

record 'w tstate =
  ts_world :: 'w
  ts_T :: report
  ts_Cleanup :: "string list"
  ts_Reports :: "report list"

type_synonym ('w, 'a) test = "'w tstate \<Rightarrow> 'a option \<times> 'w tstate"

definition andthen :: "('w, 'a) test \<Rightarrow> ('a \<Rightarrow> ('w, 'b) test) \<Rightarrow> ('w, 'b) test" where
  "andthen m f s = (case m s of (None, s) \<Rightarrow> (None, s) | (Some a, s) \<Rightarrow> f a s)"

definition pass :: "'a \<Rightarrow> ('w, 'a) test" where
  "pass a s = (Some a, s)"

definition Errorf :: "string \<Rightarrow> ('w, unit) test" where
  "Errorf msg s = (Some (), s\<lparr>ts_T := (ts_T s)\<lparr>rep_Errors := rep_Errors (ts_T s) @ [msg]\<rparr>\<rparr>)"

definition Logf :: "string \<Rightarrow> ('w, unit) test" where
  "Logf msg s = (Some (), s\<lparr>ts_T := (ts_T s)\<lparr>rep_Logs := rep_Logs (ts_T s) @ [msg]\<rparr>\<rparr>)"

definition Fatalf :: "string \<Rightarrow> ('w, 'a) test" where
  "Fatalf msg s = (None, snd (Errorf msg s))"

definition Skipf :: "string \<Rightarrow> ('w, 'a) test" where
  "Skipf msg s = (case Logf msg s of (_, s) \<Rightarrow> (None, s\<lparr>ts_T := (ts_T s)\<lparr>rep_Skipped := True\<rparr>\<rparr>))"

text \<open>\<open>if !ok { t.Errorf(msg) }\<close>\<close>

definition expect :: "bool \<Rightarrow> string \<Rightarrow> ('w, unit) test" where
  "expect ok msg = (if ok then pass () else Errorf msg)"

fun for_each :: "(nat \<Rightarrow> 'a \<Rightarrow> ('w, unit) test) \<Rightarrow> nat \<Rightarrow> 'a list \<Rightarrow> ('w, unit) test" where
  "for_each f i [] = pass ()"
| "for_each f i (x # xs) = andthen (f i x) (\<lambda>_. for_each f (Suc i) xs)"

subsection \<open>Requests\<close>

text \<open>What the suite takes from \<open>net/http\<close>: the error of \<open>NewRequest\<close> for a URL, and \<open>Client.Do\<close>.\<close>

record 'w http_client =
  hc_url_error :: "string \<Rightarrow> string option"
  hc_Do :: "wire \<Rightarrow> 'w \<Rightarrow> (string + reply) \<times> 'w"

record 'w SuiteConfig =
  cs_BaseURL :: string
  cs_AuthHeader :: string
  cs_SCIMVersion :: string
  cs_SkipBulk :: bool
  cs_SkipETags :: bool
  cs_HTTPClient :: "'w http_client option"

definition send :: "'w SuiteConfig \<Rightarrow> wire \<Rightarrow> string \<Rightarrow> string \<Rightarrow> ('w, reply) test" where
  "send cfg q new_err unreachable s =
     (case cs_HTTPClient cfg of
        None \<Rightarrow> Fatalf nil_deref s
      | Some hc \<Rightarrow>
          (case hc_url_error hc (w_URL q) of
             Some e \<Rightarrow> Fatalf (new_err @ e) s
           | None \<Rightarrow>
               (case hc_Do hc q (ts_world s) of
                  (Inl e, w) \<Rightarrow> Skipf (unreachable @ e) (s\<lparr>ts_world := w\<rparr>)
                | (Inr r, w) \<Rightarrow> (Some r, s\<lparr>ts_world := w\<rparr>))))"

definition auth_header :: "'w SuiteConfig \<Rightarrow> headers" where
  "auth_header cfg = (if cs_AuthHeader cfg \<noteq> [] then [(''Authorization'', cs_AuthHeader cfg)] else [])"

text \<open>The bodies are built of text, booleans, lists, maps and decoded JSON, which \<open>json.Marshal\<close> takes.\<close>

definition doRequest :: "'w SuiteConfig \<Rightarrow> string \<Rightarrow> string \<Rightarrow> gval option \<Rightarrow> ('w, reply) test" where
  "doRequest cfg mth path b =
     (let url = cs_BaseURL cfg @ path
      in send cfg \<lparr>w_Method = mth, w_URL = url,
             w_Header = [(''Accept'', ContentTypeSCIM)] @ (if b \<noteq> None then [(''Content-Type'', ContentTypeSCIM)] else []) @
               auth_header cfg,
             w_Body = map_option json_norm b\<rparr>
           (''doRequest: new request '' @ mth @ '' '' @ url @ '': '')
           (''compliance: server unreachable ('' @ mth @ '' '' @ url @ ''): ''))"

definition doRequestWithAccept :: "'w SuiteConfig \<Rightarrow> string \<Rightarrow> string \<Rightarrow> string \<Rightarrow> ('w, reply) test" where
  "doRequestWithAccept cfg mth path accept =
     andthen (doRequest cfg mth path None) (\<lambda>_.
       send cfg \<lparr>w_Method = mth, w_URL = cs_BaseURL cfg @ path, w_Header = [(''Accept'', accept)] @ auth_header cfg, w_Body = None\<rparr>
         ''doRequestWithAccept: new request: '' ''compliance: server unreachable: '')"

definition mustDecodeJSON :: "reply \<Rightarrow> ('w, attrs) test" where
  "mustDecodeJSON r =
     (case decode_object (TextBody (r_Body r)) of
        Ok m \<Rightarrow> pass m
      | Err e \<Rightarrow> Fatalf (''mustDecodeJSON: unmarshal: '' @ e)
      | Panic e \<Rightarrow> Fatalf e)"

text \<open>A test of its own, with the clean-up after it, the last one registered first.\<close>

definition clean_up :: "'w SuiteConfig \<Rightarrow> 'w tstate \<Rightarrow> 'w tstate" where
  "clean_up cfg s = foldl (\<lambda>s path. snd (doRequest cfg ''DELETE'' path None s)) s (ts_Cleanup s)"

definition Cleanup :: "string \<Rightarrow> ('w, unit) test" where
  "Cleanup path s = (Some (), s\<lparr>ts_Cleanup := path # ts_Cleanup s\<rparr>)"

definition Run :: "'w SuiteConfig \<Rightarrow> string \<Rightarrow> ('w, unit) test \<Rightarrow> ('w, unit) test" where
  "Run cfg name f s =
     (let s1 = clean_up cfg (snd (f (s\<lparr>ts_T := \<lparr>rep_Name = rep_Name (ts_T s) @ ''/'' @ name, rep_Errors = [], rep_Logs = [],
                                           rep_Skipped = False\<rparr>, ts_Cleanup := []\<rparr>)))
      in (Some (), s1\<lparr>ts_T := ts_T s, ts_Cleanup := ts_Cleanup s, ts_Reports := ts_Reports s1 @ [ts_T s1]\<rparr>))"

definition uniqueSuffix :: "string \<Rightarrow> ('w, string) test" where
  "uniqueSuffix extra s =
     (let name = map (\<lambda>c. if c = CHR ''/'' \<or> c = CHR '' '' then CHR ''-'' else c) (rep_Name (ts_T s))
      in (Some (if extra \<noteq> [] then name @ ''-'' @ extra else name), s))"

subsection \<open>Fixtures and checks\<close>

text \<open>\<open>v, _ := m[k].(T)\<close>: the zero value for a value of another type.\<close>

definition str_at :: "attrs \<Rightarrow> string \<Rightarrow> string" where
  "str_at m k = (case map_of m k of Some (GStr s) \<Rightarrow> s | _ \<Rightarrow> [])"

definition arr_at :: "attrs \<Rightarrow> string \<Rightarrow> gval list" where
  "arr_at m k = (case map_of m k of Some (GArr vs) \<Rightarrow> vs | _ \<Rightarrow> [])"

definition bool_at :: "attrs \<Rightarrow> string \<Rightarrow> bool" where
  "bool_at m k = (case map_of m k of Some (GBool b) \<Rightarrow> b | _ \<Rightarrow> False)"

definition float_at :: "attrs \<Rightarrow> string \<Rightarrow> f64" where
  "float_at m k = (case map_of m k of Some (GFloat64 x) \<Rightarrow> x | _ \<Rightarrow> f64_of_int 0)"

fun map_or_empty :: "gval \<Rightarrow> attrs" where
  "map_or_empty (GMap m) = m"
| "map_or_empty _ = []"

definition has :: "attrs \<Rightarrow> string \<Rightarrow> bool" where
  "has m k = (map_of m k \<noteq> None)"

definition expected_got :: "string \<Rightarrow> int \<Rightarrow> int \<Rightarrow> string" where
  "expected_got what want got = what @ '': expected '' @ int_str want @ '', got '' @ int_str got"

definition urn :: "string \<Rightarrow> string" where
  "urn s = ''urn:ietf:params:scim:'' @ s"

definition NewTestUser :: "string \<Rightarrow> gval" where
  "NewTestUser suffix = GMap
     [(''schemas'', GArr [GStr (urn ''schemas:core:2.0:User'')]), (''userName'', GStr (''test-user-'' @ suffix)),
      (''name'', GMap [(''givenName'', GStr ''Test''), (''familyName'', GStr (''User'' @ suffix))]),
      (''emails'', GArr [GMap [(''value'', GStr (''test-'' @ suffix @ ''@example.com'')), (''type'', GStr ''work''),
                              (''primary'', GBool True)]]),
      (''active'', GBool True)]"

definition NewTestGroup :: "string \<Rightarrow> gval" where
  "NewTestGroup suffix = GMap
     [(''schemas'', GArr [GStr (urn ''schemas:core:2.0:Group'')]), (''displayName'', GStr (''Test Group '' @ suffix))]"

definition sq :: "string \<Rightarrow> string" where
  "sq s = CHR 0x27 # s @ [CHR 0x27]"

definition checkSchemas :: "attrs \<Rightarrow> string \<Rightarrow> ('w, unit) test" where
  "checkSchemas m uri =
     (case map_of m ''schemas'' of
        None \<Rightarrow> Errorf (''response missing '' @ sq ''schemas'' @ '' field'')
      | Some raw \<Rightarrow>
          (case raw of
             GArr vs \<Rightarrow> expect (GStr uri \<in> set vs)
                 (sq ''schemas'' @ '' does not contain '' @ Quote uri @ ''; got '' @ fmt_v (GArr vs))
           | _ \<Rightarrow> Errorf (sq ''schemas'' @ '' field is not an array, got '' @ type_name raw)))"

definition checkID :: "attrs \<Rightarrow> ('w, string) test" where
  "checkID m =
     (case map_of m ''id'' of
        None \<Rightarrow> andthen (Errorf (''response missing '' @ sq ''id'' @ '' field'')) (\<lambda>_. pass [])
      | Some raw \<Rightarrow>
          if str_at m ''id'' = [] then
            andthen (Errorf (sq ''id'' @ '' field is empty or not a string, got '' @ fmt_v raw)) (\<lambda>_. pass [])
          else pass (str_at m ''id''))"

definition checkErrorResponse :: "reply \<Rightarrow> int \<Rightarrow> ('w, unit) test" where
  "checkErrorResponse r status =
     andthen (expect (r_Status r = status) (''expected HTTP '' @ int_str status @ '', got '' @ int_str (r_Status r))) (\<lambda>_.
     andthen (mustDecodeJSON r) (\<lambda>m.
     andthen (checkSchemas m (urn ''api:messages:2.0:Error'')) (\<lambda>_.
       expect (has m ''status'') (''SCIM error response missing '' @ sq ''status'' @ '' field''))))"

text \<open>\<open>createUser\<close> and \<open>createGroup\<close> differ in the endpoint, the fixture and a word of the messages.\<close>

definition create_fixture :: "string \<Rightarrow> string \<Rightarrow> (string \<Rightarrow> gval) \<Rightarrow> 'w SuiteConfig \<Rightarrow> string \<Rightarrow> ('w, string \<times> attrs) test" where
  "create_fixture name endpoint fixture cfg suffix =
     andthen (doRequest cfg ''POST'' endpoint (Some (fixture suffix))) (\<lambda>r.
       if r_Status r \<noteq> 201 then Skipf (name @ '': POST '' @ endpoint @ '' returned '' @ int_str (r_Status r))
       else andthen (mustDecodeJSON r) (\<lambda>m.
            andthen (checkID m) (\<lambda>rid.
              if rid = [] then Skipf (name @ '': server returned empty id'')
              else andthen (Cleanup (endpoint @ ''/'' @ rid)) (\<lambda>_. pass (rid, m)))))"

definition createUser :: "'w SuiteConfig \<Rightarrow> string \<Rightarrow> ('w, string \<times> attrs) test" where
  "createUser = create_fixture ''createUser'' ''/Users'' NewTestUser"

definition createGroup :: "'w SuiteConfig \<Rightarrow> string \<Rightarrow> ('w, string \<times> attrs) test" where
  "createGroup = create_fixture ''createGroup'' ''/Groups'' NewTestGroup"

text \<open>A user of the running test, and its suffix.\<close>

definition with_user :: "'w SuiteConfig \<Rightarrow> string \<Rightarrow> (string \<Rightarrow> attrs \<Rightarrow> ('w, unit) test) \<Rightarrow> ('w, unit) test" where
  "with_user cfg extra f =
     andthen (uniqueSuffix extra) (\<lambda>suffix. andthen (createUser cfg suffix) (\<lambda>(rid, m). if rid = [] then pass () else f rid m))"

text \<open>A request whose status decides whether the test goes on, and the object it returns.\<close>

definition fetch :: "'w SuiteConfig \<Rightarrow> string \<Rightarrow> string \<Rightarrow> (attrs \<Rightarrow> ('w, unit) test) \<Rightarrow> ('w, unit) test" where
  "fetch cfg path what f =
     andthen (doRequest cfg ''GET'' path None) (\<lambda>r.
       if r_Status r \<noteq> 200 then Fatalf (expected_got (''GET '' @ what) 200 (r_Status r))
       else andthen (mustDecodeJSON r) f)"

definition reread :: "'w SuiteConfig \<Rightarrow> string \<Rightarrow> (attrs \<Rightarrow> ('w, unit) test) \<Rightarrow> ('w, unit) test" where
  "reread cfg path f = andthen (doRequest cfg ''GET'' path None) (\<lambda>r. andthen (mustDecodeJSON r) f)"

definition buildPatch :: "attrs list \<Rightarrow> gval" where
  "buildPatch ops = GMap [(''schemas'', GArr [GStr (urn ''api:messages:2.0:PatchOp'')]), (''Operations'', GArr (map GMap ops))]"

definition status_200_204 :: "reply \<Rightarrow> bool" where
  "status_200_204 r = (r_Status r = 200 \<or> r_Status r = 204)"

definition patched :: "'w SuiteConfig \<Rightarrow> string \<Rightarrow> string \<Rightarrow> attrs \<Rightarrow> ('w, unit) test \<Rightarrow> ('w, unit) test" where
  "patched cfg what path pop f =
     andthen (doRequest cfg ''PATCH'' path (Some (buildPatch [pop]))) (\<lambda>r.
       if status_200_204 r then f
       else Fatalf (''PATCH '' @ what @ '' '' @ path @ '': expected 200 or 204, got '' @ int_str (r_Status r)))"

definition encodeQueryParam :: "string \<Rightarrow> string" where
  "encodeQueryParam s = concat (map (\<lambda>c.
     if c = CHR '' '' then ''%20'' else if c = dquote then ''%22'' else if c = CHR ''('' then ''%28'' else if c = CHR '')'' then ''%29''
     else if c = CHR ''['' then ''%5B'' else if c = CHR '']'' then ''%5D'' else [c]) s)"

subsection \<open>Discovery\<close>

definition listResponseSchema :: string where "listResponseSchema = urn ''api:messages:2.0:ListResponse''"

definition testServiceProviderConfig :: "'w SuiteConfig \<Rightarrow> ('w, unit) test" where
  "testServiceProviderConfig cfg =
     fetch cfg ''/ServiceProviderConfig'' ''/ServiceProviderConfig'' (\<lambda>m.
       andthen (checkSchemas m (urn ''schemas:core:2.0:ServiceProviderConfig'')) (\<lambda>_.
         for_each (\<lambda>_ field. expect (has m field) (''ServiceProviderConfig missing field '' @ Quote field)) 0
           [''patch'', ''bulk'', ''filter'', ''changePassword'', ''sort'', ''etag'', ''authenticationSchemes'']))"

text \<open>The list of a discovery endpoint: every entry has the schema and the fields, and the wanted names are among them.\<close>

definition check_entries ::
    "'w SuiteConfig \<Rightarrow> string \<Rightarrow> string \<Rightarrow> string list \<Rightarrow> string \<Rightarrow> string list \<Rightarrow> (string \<Rightarrow> string) \<Rightarrow> ('w, unit) test" where
  "check_entries cfg what schema needed key wanted missing =
     fetch cfg (''/'' @ what) (''/'' @ what) (\<lambda>m.
       andthen (checkSchemas m listResponseSchema) (\<lambda>_.
         let resources = arr_at m ''Resources''
         in if resources = [] then Fatalf (''GET /'' @ what @ '': '' @ sq ''Resources'' @ '' is empty or missing'')
            else andthen (for_each (\<lambda>i raw.
                     case raw of
                       GMap entry \<Rightarrow>
                         andthen (checkSchemas entry schema) (\<lambda>_.
                           for_each (\<lambda>_ k. expect (str_at entry k \<noteq> [])
                             (what @ ''['' @ nat_str i @ '']: missing or empty '' @ sq k)) 0 needed)
                     | _ \<Rightarrow> Errorf (what @ ''['' @ nat_str i @ '']: not an object'')) 0 resources) (\<lambda>_.
                   for_each (\<lambda>_ w. expect (w \<in> (\<lambda>raw. str_at (map_or_empty raw) key) ` set resources)
                     (''GET /'' @ what @ '': '' @ missing w)) 0 wanted)))"

definition testSchemas :: "'w SuiteConfig \<Rightarrow> ('w, unit) test" where
  "testSchemas cfg = check_entries cfg ''Schemas'' (urn ''schemas:core:2.0:Schema'') [''id''] ''id''
     [urn ''schemas:core:2.0:User'', urn ''schemas:core:2.0:Group'']
     (\<lambda>w. ''core schema '' @ Quote w @ '' not found in response'')"

definition testResourceTypes :: "'w SuiteConfig \<Rightarrow> ('w, unit) test" where
  "testResourceTypes cfg = check_entries cfg ''ResourceTypes'' (urn ''schemas:core:2.0:ResourceType'') [''name'', ''endpoint''] ''name''
     [''User'', ''Group''] (\<lambda>w. ''resource type '' @ Quote w @ '' not found in response'')"

subsection \<open>Users\<close>

definition user_path :: "string \<Rightarrow> string" where "user_path rid = ''/Users/'' @ rid"

definition userSchemaURI :: string where "userSchemaURI = urn ''schemas:core:2.0:User''"

definition testCreateUser :: "'w SuiteConfig \<Rightarrow> ('w, unit) test" where
  "testCreateUser cfg =
     with_user cfg [] (\<lambda>rid m.
       andthen (checkSchemas m userSchemaURI) (\<lambda>_.
       andthen (expect (HasPrefix (str_at m ''userName'') ''test-user-'')
         (''userName '' @ Quote (str_at m ''userName'') @ '' does not start with '' @ sq ''test-user-'')) (\<lambda>_.
       expect (bool_at m ''active'')
         (''expected active=true, got '' @ fmt_v (case map_of m ''active'' of Some v \<Rightarrow> v | None \<Rightarrow> GNil)))))"

definition testGetUser :: "'w SuiteConfig \<Rightarrow> ('w, unit) test" where
  "testGetUser cfg =
     with_user cfg [] (\<lambda>rid _.
       fetch cfg (user_path rid) (user_path rid) (\<lambda>m.
         andthen (checkSchemas m userSchemaURI) (\<lambda>_.
         andthen (checkID m) (\<lambda>got.
           expect (got = rid) (''GET returned id '' @ Quote got @ '', expected '' @ Quote rid)))))"

definition testListUsers :: "'w SuiteConfig \<Rightarrow> ('w, unit) test" where
  "testListUsers cfg =
     with_user cfg [] (\<lambda>_ _.
       fetch cfg ''/Users'' ''/Users'' (\<lambda>m.
         andthen (checkSchemas m listResponseSchema) (\<lambda>_.
           for_each (\<lambda>_ k. expect (has m k) (''ListResponse missing '' @ sq k)) 0
             [''totalResults'', ''startIndex'', ''itemsPerPage'', ''Resources''])))"

definition testFilterUsers :: "'w SuiteConfig \<Rightarrow> ('w, unit) test" where
  "testFilterUsers cfg =
     with_user cfg [] (\<lambda>_ created.
       let userName = str_at created ''userName''
       in fetch cfg (''/Users?filter='' @ encodeQueryParam (''userName eq '' @ Quote userName)) ''/Users?filter=...'' (\<lambda>m.
            andthen (checkSchemas m listResponseSchema) (\<lambda>_.
              let resources = arr_at m ''Resources''
              in if resources = [] then Errorf (''filter returned 0 results for userName eq '' @ Quote userName)
                 else for_each (\<lambda>i raw. let got = str_at (map_or_empty raw) ''userName''
                        in expect (got = userName)
                             (''Resources['' @ nat_str i @ '']: userName='' @ Quote got @ '', expected '' @ Quote userName)) 0 resources)))"

definition testPagination :: "'w SuiteConfig \<Rightarrow> ('w, unit) test" where
  "testPagination cfg =
     with_user cfg ''p1'' (\<lambda>_ _. with_user cfg ''p2'' (\<lambda>_ _.
       fetch cfg ''/Users?startIndex=1&count=1'' ''/Users?startIndex=1&count=1'' (\<lambda>page1.
         let n = length (arr_at page1 ''Resources''); tot = float_at page1 ''totalResults''
         in andthen (expect (n \<le> 1) (''count=1 but received '' @ nat_str n @ '' resources'')) (\<lambda>_.
            andthen (if f_lt tot (f64_of_int 2) then
                       Logf (''totalResults='' @ fmt_v (GFloat64 tot) @ '', expected '' @ [CHR 0xE2, CHR 0x89, CHR 0xA5] @
                         '' 2 (may have other users from prior tests)'')
                     else pass ()) (\<lambda>_.
            fetch cfg ''/Users?startIndex=2&count=1'' ''/Users?startIndex=2&count=1'' (\<lambda>page2.
              expect (f_cmp (float_at page2 ''startIndex'') (f64_of_int 2) = 0)
                (''startIndex expected 2, got '' @ fmt_v (GFloat64 (float_at page2 ''startIndex'')))))))))"

definition testReplaceUser :: "'w SuiteConfig \<Rightarrow> ('w, unit) test" where
  "testReplaceUser cfg =
     with_user cfg [] (\<lambda>rid m.
       let m' = map_put ''schemas'' (GArr [GStr userSchemaURI]) (map_put ''displayName'' (GStr ''Replaced Name'') m)
       in andthen (doRequest cfg ''PUT'' (user_path rid) (Some (GMap m'))) (\<lambda>r.
            if r_Status r \<noteq> 200 then Fatalf (expected_got (''PUT '' @ user_path rid) 200 (r_Status r))
            else andthen (mustDecodeJSON r) (\<lambda>b.
                 andthen (checkSchemas b userSchemaURI) (\<lambda>_.
                   expect (str_at b ''displayName'' = ''Replaced Name'')
                     (''PUT: displayName='' @ Quote (str_at b ''displayName'') @ '', expected '' @ Quote ''Replaced Name'')))))"

definition testPatchAdd :: "'w SuiteConfig \<Rightarrow> ('w, unit) test" where
  "testPatchAdd cfg =
     with_user cfg [] (\<lambda>rid _.
       patched cfg ''add'' (user_path rid)
         [(''op'', GStr ''add''), (''path'', GStr ''nickName''), (''value'', GStr ''patches-nickname'')]
         (reread cfg (user_path rid) (\<lambda>m.
           expect (str_at m ''nickName'' = ''patches-nickname'')
             (''after PATCH add, nickName='' @ Quote (str_at m ''nickName'') @ '', expected '' @ Quote ''patches-nickname''))))"

definition testPatchRemove :: "'w SuiteConfig \<Rightarrow> ('w, unit) test" where
  "testPatchRemove cfg =
     with_user cfg [] (\<lambda>rid _.
       andthen (doRequest cfg ''PATCH'' (user_path rid) (Some (buildPatch
         [[(''op'', GStr ''add''), (''path'', GStr ''nickName''), (''value'', GStr ''to-be-removed'')]]))) (\<lambda>_.
       patched cfg ''remove'' (user_path rid) [(''op'', GStr ''remove''), (''path'', GStr ''nickName'')]
         (reread cfg (user_path rid) (\<lambda>m.
           case map_of m ''nickName'' of
             None \<Rightarrow> pass ()
           | Some nn \<Rightarrow> expect (nn = GNil \<or> nn = GStr []) (''after PATCH remove, nickName still present: '' @ fmt_v nn)))))"

definition testPatchReplace :: "'w SuiteConfig \<Rightarrow> ('w, unit) test" where
  "testPatchReplace cfg =
     with_user cfg [] (\<lambda>rid _.
       patched cfg ''replace'' (user_path rid)
         [(''op'', GStr ''replace''), (''path'', GStr ''displayName''), (''value'', GStr ''Patched Display'')]
         (reread cfg (user_path rid) (\<lambda>m.
           expect (str_at m ''displayName'' = ''Patched Display'')
             (''after PATCH replace, displayName='' @ Quote (str_at m ''displayName'') @ '', expected '' @ Quote ''Patched Display''))))"

definition testPatchComplex :: "'w SuiteConfig \<Rightarrow> ('w, unit) test" where
  "testPatchComplex cfg =
     with_user cfg [] (\<lambda>rid created.
       if arr_at created ''emails'' = [] then Skipf ''testPatchComplex: user has no emails, skipping complex patch test''
       else andthen (doRequest cfg ''PATCH'' (user_path rid) (Some (buildPatch
              [[(''op'', GStr ''replace''), (''path'', GStr (''emails[type eq '' @ [dquote] @ ''work'' @ [dquote] @ ''].value'')),
                (''value'', GStr ''updated@example.com'')]]))) (\<lambda>r.
              if \<not> status_200_204 r then
                Logf (''PATCH complex '' @ user_path rid @ '': got '' @ int_str (r_Status r) @ '' (server may not support value filters)'')
              else reread cfg (user_path rid) (\<lambda>m.
                let emails = arr_at m ''emails''
                in expect (\<exists>raw \<in> set emails. str_at (map_or_empty raw) ''value'' = ''updated@example.com'')
                     (''after complex PATCH, expected email '' @ sq ''updated@example.com'' @ '' not found in '' @ fmt_v (GArr emails)))))"

text \<open>\<open>testDeleteUser\<close> and \<open>testDeleteGroup\<close>.\<close>

definition test_delete :: "string \<Rightarrow> string \<Rightarrow> (string \<Rightarrow> gval) \<Rightarrow> 'w SuiteConfig \<Rightarrow> ('w, unit) test" where
  "test_delete name endpoint fixture cfg =
     andthen (uniqueSuffix []) (\<lambda>suffix.
     andthen (doRequest cfg ''POST'' endpoint (Some (fixture suffix))) (\<lambda>r.
       if r_Status r \<noteq> 201 then Skipf (name @ '': POST '' @ endpoint @ '' returned '' @ int_str (r_Status r))
       else andthen (mustDecodeJSON r) (\<lambda>m.
            andthen (checkID m) (\<lambda>rid.
              if rid = [] then pass ()
              else let path = endpoint @ ''/'' @ rid
                   in andthen (doRequest cfg ''DELETE'' path None) (\<lambda>del.
                        if r_Status del \<noteq> 204 then Fatalf (expected_got (''DELETE '' @ path) 204 (r_Status del))
                        else andthen (doRequest cfg ''GET'' path None) (\<lambda>get.
                               if r_Status get \<noteq> 404 then Errorf (expected_got (''GET after DELETE '' @ path) 404 (r_Status get))
                               else checkErrorResponse get 404))))))"

definition testDeleteUser :: "'w SuiteConfig \<Rightarrow> ('w, unit) test" where
  "testDeleteUser = test_delete ''testDeleteUser'' ''/Users'' NewTestUser"

subsection \<open>Groups\<close>

definition testDeleteGroup :: "'w SuiteConfig \<Rightarrow> ('w, unit) test" where
  "testDeleteGroup = test_delete ''testDeleteGroup'' ''/Groups'' NewTestGroup"

definition with_group :: "'w SuiteConfig \<Rightarrow> string \<Rightarrow> (string \<Rightarrow> attrs \<Rightarrow> ('w, unit) test) \<Rightarrow> ('w, unit) test" where
  "with_group cfg extra f =
     andthen (uniqueSuffix extra) (\<lambda>suffix. andthen (createGroup cfg suffix) (\<lambda>(rid, m). if rid = [] then pass () else f rid m))"

definition testCreateGroup :: "'w SuiteConfig \<Rightarrow> ('w, unit) test" where
  "testCreateGroup cfg =
     with_group cfg [] (\<lambda>_ m.
       andthen (checkSchemas m (urn ''schemas:core:2.0:Group'')) (\<lambda>_.
         expect (str_at m ''displayName'' \<noteq> []) (''Group response missing '' @ sq ''displayName'')))"

definition is_member :: "attrs \<Rightarrow> string \<Rightarrow> bool" where
  "is_member m rid = (\<exists>raw \<in> set (arr_at m ''members''). str_at (map_or_empty raw) ''value'' = rid)"

definition testGroupMembership :: "'w SuiteConfig \<Rightarrow> ('w, unit) test" where
  "testGroupMembership cfg =
     with_user cfg ''u'' (\<lambda>user _. with_group cfg ''g'' (\<lambda>group _.
       let path = ''/Groups/'' @ group
       in patched cfg ''add member'' path
            [(''op'', GStr ''add''), (''path'', GStr ''members''), (''value'', GArr [GMap [(''value'', GStr user)]])]
            (andthen (doRequest cfg ''GET'' path None) (\<lambda>r.
               if r_Status r \<noteq> 200 then Fatalf (expected_got (''GET '' @ path @ '' after add member'') 200 (r_Status r))
               else andthen (mustDecodeJSON r) (\<lambda>m.
                    andthen (expect (is_member m user) (''user '' @ Quote user @ '' not found in group members after PATCH add'')) (\<lambda>_.
                    andthen (doRequest cfg ''PATCH'' path (Some (buildPatch
                      [[(''op'', GStr ''remove''), (''path'', GStr (''members[value eq '' @ Quote user @ '']''))]]))) (\<lambda>r.
                      if \<not> status_200_204 r then
                        Logf (''PATCH remove member '' @ path @ '': got '' @ int_str (r_Status r) @
                          '' (server may not support value-filter remove)'')
                      else reread cfg path (\<lambda>m.
                             expect (\<not> is_member m user)
                               (''user '' @ Quote user @ '' still present in group members after PATCH remove'')))))))))"

subsection \<open>Errors and content types\<close>

definition testNotFound :: "'w SuiteConfig \<Rightarrow> ('w, unit) test" where
  "testNotFound cfg =
     andthen (doRequest cfg ''GET'' ''/Users/nonexistent-id-that-does-not-exist-xyz'' None) (\<lambda>r. checkErrorResponse r 404)"

definition testConflict :: "'w SuiteConfig \<Rightarrow> ('w, unit) test" where
  "testConflict cfg =
     andthen (uniqueSuffix ''dup'') (\<lambda>suffix.
     andthen (createUser cfg suffix) (\<lambda>(rid, _).
       if rid = [] then pass ()
       else andthen (doRequest cfg ''POST'' ''/Users'' (Some (NewTestUser suffix))) (\<lambda>r.
              if r_Status r = 201 then
                andthen (mustDecodeJSON r) (\<lambda>m.
                andthen (checkID m) (\<lambda>dup.
                andthen (if dup \<noteq> [] then andthen (doRequest cfg ''DELETE'' (user_path dup) None) (\<lambda>_. pass ()) else pass ()) (\<lambda>_.
                  Errorf ''expected 409 for duplicate userName, got 201'')))
              else checkErrorResponse r 409)))"

definition testBadFilter :: "'w SuiteConfig \<Rightarrow> ('w, unit) test" where
  "testBadFilter cfg =
     andthen (doRequest cfg ''GET'' ''/Users?filter=!!!invalid_filter!!!'' None) (\<lambda>r.
       if r_Status r \<noteq> 400 then Fatalf (expected_got ''GET /Users?filter=!!!...'' 400 (r_Status r))
       else andthen (mustDecodeJSON r) (\<lambda>m.
            andthen (checkSchemas m (urn ''api:messages:2.0:Error'')) (\<lambda>_.
            andthen (expect (has m ''status'') (''SCIM error response missing '' @ sq ''status'' @ '' field'')) (\<lambda>_.
              if str_at m ''scimType'' \<notin> {[], ''invalidFilter''} then
                Logf (''testBadFilter: scimType='' @ Quote (str_at m ''scimType'') @ '', expected '' @ sq ''invalidFilter'' @ '' (non-fatal)'')
              else pass ()))))"

definition testContentType :: "'w SuiteConfig \<Rightarrow> ('w, unit) test" where
  "testContentType cfg =
     andthen (doRequest cfg ''GET'' ''/ServiceProviderConfig'' None) (\<lambda>r.
       if r_Status r \<noteq> 200 then Fatalf (expected_got ''GET /ServiceProviderConfig'' 200 (r_Status r))
       else andthen (expect (header_Get (r_Header r) ''Content-Type'' \<noteq> []) ''GET /ServiceProviderConfig: missing Content-Type header'') (\<lambda>_.
            andthen (doRequest cfg ''GET'' ''/ServiceProviderConfig'' None) (\<lambda>_.
              Run cfg ''AcceptJSON''
                (andthen (doRequestWithAccept cfg ''GET'' ''/ServiceProviderConfig'' ''application/json'') (\<lambda>r.
                   expect (r_Status r \<noteq> 406)
                     (''server rejected Accept: application/json with 406; RFC 7644 '' @ [CHR 0xC2, CHR 0xA7] @ ''3.8 requires support''))))))"

subsection \<open>The suite\<close>

definition suite_tests :: "(string \<times> ('w SuiteConfig \<Rightarrow> ('w, unit) test)) list" where
  "suite_tests =
     [(''ServiceProviderConfig'', testServiceProviderConfig), (''Schemas'', testSchemas), (''ResourceTypes'', testResourceTypes),
      (''Users/Create'', testCreateUser), (''Users/Get'', testGetUser), (''Users/List'', testListUsers),
      (''Users/Filter'', testFilterUsers), (''Users/Pagination'', testPagination), (''Users/Replace'', testReplaceUser),
      (''Users/Patch/Add'', testPatchAdd), (''Users/Patch/Remove'', testPatchRemove), (''Users/Patch/Replace'', testPatchReplace),
      (''Users/Patch/Complex'', testPatchComplex), (''Users/Delete'', testDeleteUser), (''Groups/Create'', testCreateGroup),
      (''Groups/MembershipPatch'', testGroupMembership), (''Groups/Delete'', testDeleteGroup), (''Errors/NotFound'', testNotFound),
      (''Errors/Conflict'', testConflict), (''Errors/BadFilter'', testBadFilter), (''ContentType'', testContentType)]"

definition RunSuite :: "'w http_client \<Rightarrow> 'w SuiteConfig \<Rightarrow> ('w, unit) test" where
  "RunSuite default_client cfg =
     (if cs_BaseURL cfg = [] then Skipf ''compliance: BaseURL is not set''
      else let cfg = cfg\<lparr>cs_SCIMVersion := if cs_SCIMVersion cfg = [] then ''v2'' else cs_SCIMVersion cfg,
                         cs_HTTPClient := (case cs_HTTPClient cfg of None \<Rightarrow> Some default_client | Some c \<Rightarrow> Some c)\<rparr>
           in for_each (\<lambda>_ (name, f). Run cfg name (f cfg)) 0 suite_tests)"

text \<open>The reports of a whole test.\<close>

definition suite_reports :: "'w http_client \<Rightarrow> 'w SuiteConfig \<Rightarrow> string \<Rightarrow> 'w \<Rightarrow> report list \<times> 'w" where
  "suite_reports default_client cfg name w =
     (let s = snd (RunSuite default_client cfg \<lparr>ts_world = w,
            ts_T = \<lparr>rep_Name = name, rep_Errors = [], rep_Logs = [], rep_Skipped = False\<rparr>, ts_Cleanup = [], ts_Reports = []\<rparr>)
      in (ts_Reports s, ts_world s))"

end
