(* ===== verification/Compliance_Facts.thy ===== *)
theory Compliance_Facts
  imports Compliance
begin

text \<open>
  What the tests of the compliance suite say of a server, whatever server it is, and a run of tests against the modelled one.
\<close>

subsection \<open>Tests that stop\<close>

text \<open>Nothing has been reported against the running test.\<close>

definition quiet :: "'w tstate \<Rightarrow> bool" where
  "quiet s = (rep_Errors (ts_T s) = [] \<and> \<not> rep_Skipped (ts_T s))"

text \<open>A step that stops the test, or finds an error, says so, and what was said stays.\<close>

definition honest :: "('w, 'a) test \<Rightarrow> bool" where
  "honest m = (\<forall>s. quiet (snd (m s)) \<longrightarrow> quiet s \<and> fst (m s) \<noteq> None)"

named_theorems honest_steps

lemma honestI: "(\<And>s. quiet (snd (m s)) \<Longrightarrow> quiet s \<and> fst (m s) \<noteq> None) \<Longrightarrow> honest m"
  by (simp add: honest_def)

lemma honestD: "honest m \<Longrightarrow> quiet (snd (m s)) \<Longrightarrow> quiet s \<and> fst (m s) \<noteq> None"
  by (simp add: honest_def)

lemma honest_andthen [honest_steps]:
  assumes "honest m" "\<And>a. honest (f a)" shows "honest (andthen m f)"
proof (rule honestI)
  fix s assume q: "quiet (snd (andthen m f s))"
  obtain x s1 where m: "m s = (x, s1)" by fastforce
  show "quiet s \<and> fst (andthen m f s) \<noteq> None"
  proof (cases x)
    case None
    then show ?thesis using q m honestD [OF assms(1), of s] by (simp add: andthen_def)
  next
    case (Some a)
    then show ?thesis using q m honestD [OF assms(1), of s] honestD [OF assms(2), of a s1] by (simp add: andthen_def)
  qed
qed

lemma honest_basic [honest_steps]:
  "honest (pass a)" "honest (Errorf msg)" "honest (Logf msg)" "honest (Fatalf msg)" "honest (Skipf msg)" "honest (uniqueSuffix extra)"
  "honest (Cleanup path)" "honest (Run cfg name f)"
  by (rule honestI; simp add: quiet_def pass_def Errorf_def Logf_def Fatalf_def Skipf_def uniqueSuffix_def Cleanup_def Run_def Let_def)+

lemma honest_control [honest_steps]:
  "honest m \<Longrightarrow> honest m' \<Longrightarrow> honest (if c then m else m')"
  "(\<And>x. honest (f x)) \<Longrightarrow> honest (Let v f)"
  "(\<And>a b. honest (g a b)) \<Longrightarrow> honest (case_prod g p)"
  "honest m \<Longrightarrow> (\<And>y. honest (h y)) \<Longrightarrow> honest (case w of None \<Rightarrow> m | Some y \<Rightarrow> h y)"
  by (simp_all add: Let_def split: prod.split option.split)

lemma honest_for_each [honest_steps]: "(\<And>i x. honest (f i x)) \<Longrightarrow> honest (for_each f i xs)"
  by (induction xs arbitrary: i) (simp_all add: honest_steps)

lemma honest_expect [honest_steps]: "honest (expect ok msg)"
  unfolding expect_def by (intro honest_steps)

lemma honest_send [honest_steps]: "honest (send cfg q e u)"
  by (rule honestI) (auto simp: send_def quiet_def Fatalf_def Errorf_def Skipf_def Logf_def split: option.splits prod.splits sum.splits)

lemma honest_requests [honest_steps]: "honest (doRequest cfg mth path b)" "honest (doRequestWithAccept cfg mth path acc)"
  unfolding doRequest_def doRequestWithAccept_def by (intro honest_steps)+

lemma honest_decode [honest_steps]: "honest (mustDecodeJSON r)"
  unfolding mustDecodeJSON_def by (simp add: honest_steps split: outcome.split)

lemma honest_schemas [honest_steps]: "honest (checkSchemas m uri)"
  unfolding checkSchemas_def by (simp add: honest_steps split: option.split gval.split)

lemma honest_checks [honest_steps]: "honest (checkID m)" "honest (checkErrorResponse r status)"
  unfolding checkID_def checkErrorResponse_def by (intro honest_steps)+

lemma honest_create [honest_steps]: "honest (create_fixture name endpoint fixture cfg suffix)"
  unfolding create_fixture_def by (intro honest_steps)

lemma honest_fetch [honest_steps]:
  "(\<And>m. honest (f m)) \<Longrightarrow> honest (fetch cfg path what f)" "(\<And>m. honest (f m)) \<Longrightarrow> honest (reread cfg path f)"
  "honest g \<Longrightarrow> honest (patched cfg what path pop g)"
  unfolding fetch_def reread_def patched_def by (intro honest_steps, assumption?)+

lemma honest_with [honest_steps]:
  "(\<And>rid m. honest (f rid m)) \<Longrightarrow> honest (with_user cfg extra f)" "(\<And>rid m. honest (f rid m)) \<Longrightarrow> honest (with_group cfg extra f)"
  unfolding with_user_def with_group_def createUser_def createGroup_def by (intro honest_steps, assumption?)+

lemma honest_object [honest_steps]:
  "(\<And>entry. honest (f entry)) \<Longrightarrow> honest (case raw of GMap entry \<Rightarrow> f entry | _ \<Rightarrow> Errorf msg)"
  by (cases raw) (simp_all add: honest_steps)

lemma honest_entries [honest_steps]: "honest (check_entries cfg what schema needed key wanted missing)"
  unfolding check_entries_def by (intro honest_steps)

lemma honest_delete [honest_steps]: "honest (test_delete name endpoint fixture cfg)"
  unfolding test_delete_def by (intro honest_steps)

lemma honest_all [honest_steps]:
  "honest (testServiceProviderConfig cfg)" "honest (testSchemas cfg)" "honest (testResourceTypes cfg)"
  "honest (testCreateUser cfg)" "honest (testGetUser cfg)" "honest (testListUsers cfg)" "honest (testFilterUsers cfg)"
  "honest (testPagination cfg)" "honest (testReplaceUser cfg)" "honest (testPatchAdd cfg)" "honest (testPatchRemove cfg)"
  "honest (testPatchReplace cfg)" "honest (testPatchComplex cfg)" "honest (testDeleteUser cfg)" "honest (testCreateGroup cfg)" "honest (testGroupMembership cfg)" "honest (testDeleteGroup cfg)" "honest (testNotFound cfg)"
  "honest (testConflict cfg)" "honest (testBadFilter cfg)" "honest (testContentType cfg)"
  unfolding testServiceProviderConfig_def testSchemas_def testResourceTypes_def testCreateUser_def testGetUser_def testListUsers_def
    testFilterUsers_def testPagination_def testReplaceUser_def testPatchAdd_def testPatchRemove_def testPatchReplace_def
    testPatchComplex_def testDeleteUser_def testCreateGroup_def testGroupMembership_def testDeleteGroup_def testNotFound_def
    testConflict_def testBadFilter_def testContentType_def createUser_def
  by (intro honest_steps)+

lemma honest_tests:
  assumes "(name, f) \<in> set suite_tests" shows "honest (f cfg)"
  using assms unfolding suite_tests_def by (auto intro: honest_all)


subsection \<open>What a passed test says\<close>

definition request_wire :: "'w SuiteConfig \<Rightarrow> string \<Rightarrow> string \<Rightarrow> gval option \<Rightarrow> wire" where
  "request_wire cfg mth path b =
     \<lparr>w_Method = mth, w_URL = cs_BaseURL cfg @ path,
      w_Header = [(''Accept'', ContentTypeSCIM)] @ (if b \<noteq> None then [(''Content-Type'', ContentTypeSCIM)] else []) @ auth_header cfg,
      w_Body = map_option json_norm b\<rparr>"

named_theorems quiet_steps

lemma not_quiet [quiet_steps]:
  "\<not> quiet (snd (Errorf msg s))" "\<not> quiet (snd (Fatalf msg s))" "\<not> quiet (snd (Skipf msg s))"
  by (simp_all add: quiet_def Errorf_def Fatalf_def Skipf_def Logf_def)

lemma quiet_suffix [quiet_steps]:
  "quiet (snd (andthen (uniqueSuffix extra) f s)) \<longleftrightarrow> quiet (snd (f (the (fst (uniqueSuffix extra s))) s))"
  by (simp add: andthen_def uniqueSuffix_def Let_def)

lemma quiet_send:
  assumes "cs_HTTPClient cfg = Some hc" "hc_Do hc q (ts_world s) = (y, w)"
  shows "quiet (snd (andthen (send cfg q e u) f s)) \<longleftrightarrow>
    hc_url_error hc (w_URL q) = None \<and> (\<exists>r. y = Inr r \<and> quiet (snd (f r (s\<lparr>ts_world := w\<rparr>))))"
  using assms by (cases y; cases "hc_url_error hc (w_URL q)")
    (simp_all add: andthen_def send_def Fatalf_def Skipf_def Errorf_def Logf_def quiet_def)

lemma quiet_request [quiet_steps]:
  assumes "cs_HTTPClient cfg = Some hc"
  shows "quiet (snd (andthen (doRequest cfg mth path b) f s)) \<longleftrightarrow>
    hc_url_error hc (cs_BaseURL cfg @ path) = None \<and>
    (\<exists>r w. hc_Do hc (request_wire cfg mth path b) (ts_world s) = (Inr r, w) \<and> quiet (snd (f r (s\<lparr>ts_world := w\<rparr>))))"
proof -
  obtain y w where y: "hc_Do hc (request_wire cfg mth path b) (ts_world s) = (y, w)" by fastforce
  from quiet_send [OF assms this] show ?thesis
    unfolding doRequest_def Let_def request_wire_def [symmetric] by (auto simp: y) (auto simp: request_wire_def)
qed

lemma quiet_decode [quiet_steps]:
  "quiet (snd (andthen (mustDecodeJSON r) f s)) \<longleftrightarrow>
     (\<exists>m. decode_object (TextBody (r_Body r)) = Ok m \<and> quiet (snd (f m s)))"
  by (auto simp: andthen_def mustDecodeJSON_def pass_def Fatalf_def Errorf_def quiet_def split: outcome.split)

lemma quiet_ID [quiet_steps]:
  assumes "\<And>a. honest (f a)"
  shows "quiet (snd (andthen (checkID m) f s)) \<longleftrightarrow>
    (\<exists>rid. rid \<noteq> [] \<and> map_of m ''id'' = Some (GStr rid) \<and> quiet (snd (f rid s)))"
proof -
  have "\<not> quiet (snd (f a (snd (Errorf msg s))))" for a msg
    using honestD [OF assms, of a "snd (Errorf msg s)"] not_quiet(1) by blast
  then show ?thesis
    by (auto simp: checkID_def andthen_def str_at_def pass_def Errorf_def split: option.splits gval.splits if_splits)
qed

lemma quiet_schemas [quiet_steps]:
  assumes "\<And>a. honest (f a)"
  shows "quiet (snd (andthen (checkSchemas m uri) f s)) \<longleftrightarrow>
    (\<exists>vs. map_of m ''schemas'' = Some (GArr vs) \<and> GStr uri \<in> set vs) \<and> quiet (snd (f () s))"
proof -
  have "\<not> quiet (snd (f a (snd (Errorf msg s))))" for a msg
    using honestD [OF assms, of a "snd (Errorf msg s)"] not_quiet(1) by blast
  then show ?thesis
    by (auto simp: checkSchemas_def andthen_def expect_def pass_def Errorf_def split: option.splits gval.splits if_splits)
qed

lemma quiet_expect [quiet_steps]:
  "quiet (snd (expect ok msg s)) \<longleftrightarrow> ok \<and> quiet s"
  by (simp add: expect_def pass_def quiet_def Errorf_def)

lemma quiet_expect_then [quiet_steps]:
  assumes "\<And>a. honest (f a)"
  shows "quiet (snd (andthen (expect ok msg) f s)) \<longleftrightarrow> ok \<and> quiet (snd (f () s))"
  using honestD [OF assms, of "()" "snd (Errorf msg s)"] not_quiet(1)
  by (auto simp: expect_def andthen_def pass_def Errorf_def)

text \<open>A response that \<open>checkErrorResponse\<close> takes for an error.\<close>

definition scim_error :: "int \<Rightarrow> reply \<Rightarrow> bool" where
  "scim_error status r =
     (r_Status r = status \<and>
      (case decode_object (TextBody (r_Body r)) of
         Ok m \<Rightarrow> GStr (urn ''api:messages:2.0:Error'') \<in> set (arr_at m ''schemas'') \<and> has m ''status''
       | _ \<Rightarrow> False))"

lemma quiet_error [quiet_steps]: "quiet (snd (checkErrorResponse r status s)) \<Longrightarrow> scim_error status r"
  unfolding checkErrorResponse_def scim_error_def
  by (auto simp: quiet_steps honest_steps arr_at_def)

lemma andthen_assoc: "andthen (andthen m g) h = andthen m (\<lambda>a. andthen (g a) h)"
  by (auto simp: andthen_def fun_eq_iff split: prod.split option.split)

lemma andthen_steps:
  "andthen (Skipf msg) f = Skipf msg" "andthen (pass a) f = f a"
  "andthen (if c then m else m') f = (if c then andthen m f else andthen m' f)"
  "andthen (Cleanup path) g s = g () (s\<lparr>ts_Cleanup := path # ts_Cleanup s\<rparr>)"
  by (auto simp: andthen_def Skipf_def pass_def Cleanup_def fun_eq_iff split: prod.split)

lemma ends_in_error [quiet_steps]:
  assumes "honest m" shows "\<not> quiet (snd (andthen m (\<lambda>_. Errorf msg) s))"
proof
  assume q: "quiet (snd (andthen m (\<lambda>_. Errorf msg) s))"
  obtain x s1 where "m s = (x, s1)" by fastforce
  then show False using q honestD [OF assms, of s] not_quiet(1) by (cases x) (auto simp: andthen_def)
qed

lemma honest_registered [honest_steps]: "honest g \<Longrightarrow> honest (\<lambda>s. g (s\<lparr>ts_Cleanup := path # ts_Cleanup s\<rparr>))"
  by (rule honestI, drule (1) honestD) (simp add: quiet_def)

lemma quiet_create [quiet_steps]:
  assumes "\<And>a. honest (f a)" "cs_HTTPClient cfg = Some hc"
  shows "quiet (snd (andthen (create_fixture name endpoint fixture cfg suffix) f s)) \<longleftrightarrow>
    hc_url_error hc (cs_BaseURL cfg @ endpoint) = None \<and>
    (\<exists>r w m rid. hc_Do hc (request_wire cfg ''POST'' endpoint (Some (fixture suffix))) (ts_world s) = (Inr r, w) \<and>
       r_Status r = 201 \<and> decode_object (TextBody (r_Body r)) = Ok m \<and> rid \<noteq> [] \<and> map_of m ''id'' = Some (GStr rid) \<and>
       quiet (snd (f (rid, m) (s\<lparr>ts_world := w, ts_Cleanup := (endpoint @ ''/'' @ rid) # ts_Cleanup s\<rparr>))))"
  unfolding create_fixture_def andthen_assoc andthen_steps
  by (auto simp: quiet_steps honest_steps assms andthen_steps cong: conj_cong)

lemma quiet_if [quiet_steps]:
  "quiet (snd ((if c then f else g) s)) \<longleftrightarrow> (if c then quiet (snd (f s)) else quiet (snd (g s)))"
  by simp

text \<open>C40: Whatever server the suite talks to, one that passes the test \<open>Users/Delete\<close> has created a user under an id, has
  answered the DELETE of it with 204 and the next GET with a SCIM error 404.\<close>

theorem delete_test_sound:
  assumes "testDeleteUser cfg s = (x, s')" "rep_Errors (ts_T s') = []" "\<not> rep_Skipped (ts_T s')" "cs_HTTPClient cfg = Some hc"
  shows "\<exists>suffix r m rid w1 r2 w2 r3 w3.
     hc_Do hc (request_wire cfg ''POST'' ''/Users'' (Some (NewTestUser suffix))) (ts_world s) = (Inr r, w1) \<and> r_Status r = 201 \<and>
     decode_object (TextBody (r_Body r)) = Ok m \<and> rid \<noteq> [] \<and> map_of m ''id'' = Some (GStr rid) \<and>
     hc_Do hc (request_wire cfg ''DELETE'' (user_path rid) None) w1 = (Inr r2, w2) \<and> r_Status r2 = 204 \<and>
     hc_Do hc (request_wire cfg ''GET'' (user_path rid) None) w2 = (Inr r3, w3) \<and> scim_error 404 r3"
proof -
  have "quiet (snd (testDeleteUser cfg s))" using assms(1-3) by (simp add: quiet_def)
  then show ?thesis
    unfolding testDeleteUser_def test_delete_def Let_def
    by (simp add: quiet_steps assms(4) honest_steps split: if_splits) (fastforce simp: user_path_def dest: quiet_error)
qed

text \<open>A server that passes the test \<open>Errors/Conflict\<close> has created a user and has answered the second POST of the same user
  with a SCIM error 409.\<close>

theorem conflict_test_sound:
  assumes "testConflict cfg s = (x, s')" "rep_Errors (ts_T s') = []" "\<not> rep_Skipped (ts_T s')" "cs_HTTPClient cfg = Some hc"
  shows "\<exists>q r w1 r2 w2. q = request_wire cfg ''POST'' ''/Users'' (Some (NewTestUser (the (fst (uniqueSuffix ''dup'' s))))) \<and>
     hc_Do hc q (ts_world s) = (Inr r, w1) \<and> r_Status r = 201 \<and> hc_Do hc q w1 = (Inr r2, w2) \<and> scim_error 409 r2"
proof -
  have "quiet (snd (testConflict cfg s))" using assms(1-3) by (simp add: quiet_def)
  then show ?thesis
    unfolding testConflict_def createUser_def
    by (simp add: quiet_steps assms(4) honest_steps split: if_splits) (fastforce dest: quiet_error)
qed

subsection \<open>Scripted servers\<close>

text \<open>A server that gives the replies of a list, one after the other, and is unreachable after the last one.\<close>

definition scripted :: "reply list SuiteConfig" where
  "scripted = \<lparr>cs_BaseURL = ''http://h'', cs_AuthHeader = [], cs_SCIMVersion = ''v2'', cs_SkipBulk = False, cs_SkipETags = False,
     cs_HTTPClient = Some \<lparr>hc_url_error = (\<lambda>_. None),
       hc_Do = (\<lambda>_ w. case w of [] \<Rightarrow> (Inl ''connection refused'', []) | r # rs \<Rightarrow> (Inr r, rs))\<rparr>\<rparr>"

definition scripted_start :: "reply list \<Rightarrow> reply list tstate" where
  "scripted_start rs = \<lparr>ts_world = rs, ts_T = \<lparr>rep_Name = ''Test'', rep_Errors = [], rep_Logs = [], rep_Skipped = False\<rparr>,
     ts_Cleanup = [], ts_Reports = []\<rparr>"

definition created_reply :: reply where
  "created_reply = \<lparr>r_Status = 201, r_Header = [], r_Body = Inr (GMap [(''id'', GStr ''7'')])\<rparr>"

definition error_reply :: "int \<Rightarrow> reply" where
  "error_reply status = \<lparr>r_Status = status, r_Header = [],
     r_Body = Inr (GMap [(''schemas'', GArr [GStr (urn ''api:messages:2.0:Error'')]), (''status'', GStr (int_str status))])\<rparr>"

definition no_content_reply :: reply where
  "no_content_reply = \<lparr>r_Status = 204, r_Header = [], r_Body = Inl ''EOF''\<rparr>"


theorem delete_test_sound_witness:
  "\<exists>suffix r w1. hc_Do (the (cs_HTTPClient scripted)) (request_wire scripted ''POST'' ''/Users'' (Some (NewTestUser suffix)))
     [created_reply, no_content_reply, error_reply 404] = (Inr r, w1) \<and> r_Status r = 201"
proof -
  let ?s = "scripted_start [created_reply, no_content_reply, error_reply 404]"
  obtain x s' where t: "testDeleteUser scripted ?s = (x, s')" by fastforce
  have "rep_Errors (ts_T (snd (testDeleteUser scripted ?s))) = [] \<and> \<not> rep_Skipped (ts_T (snd (testDeleteUser scripted ?s)))"
    by code_simp
  then have "rep_Errors (ts_T s') = []" "\<not> rep_Skipped (ts_T s')" using t by simp_all
  from delete_test_sound [OF t this, of "the (cs_HTTPClient scripted)"] show ?thesis
    by (auto simp: scripted_def scripted_start_def)
qed

theorem conflict_test_sound_witness:
  "\<exists>q r2 w2. hc_Do (the (cs_HTTPClient scripted)) q [error_reply 409] = (Inr r2, w2) \<and> scim_error 409 r2"
proof -
  let ?s = "scripted_start [created_reply, error_reply 409]"
  obtain x s' where t: "testConflict scripted ?s = (x, s')" by fastforce
  have "rep_Errors (ts_T (snd (testConflict scripted ?s))) = [] \<and> \<not> rep_Skipped (ts_T (snd (testConflict scripted ?s)))"
    by code_simp
  then have "rep_Errors (ts_T s') = []" "\<not> rep_Skipped (ts_T s')" using t by simp_all
  from conflict_test_sound [OF t this, of "the (cs_HTTPClient scripted)"] show ?thesis
    by (auto simp: scripted_def scripted_start_def)
qed

end
