(* ===== verification/Compliance_Run.thy ===== *)
theory Compliance_Run
  imports Compliance_Facts
begin

text \<open>
  Nine of the tests of the compliance suite run in the kernel against the modelled server, at least one of every group but those of
  \<open>Groups\<close> and the content types; the others differ in what they send and are left out for the time their evaluation takes.
\<close>

text \<open>The sample server behind the client of the suite.\<close>

definition local_do :: "wire \<Rightarrow> mem sstate \<Rightarrow> (string + reply) \<times> mem sstate" where
  "local_do q st = (case serve (deliver ''http://h'' ''h'' q) st of (x, st) \<Rightarrow> (map_sum (\<lambda>p. p) reply_of x, st))"

lemma local_do_transport:
  "local_do = tr_send (http_transport plain_config sample_world sample_purl ''http://h'' ''h'')"
  by (simp add: fun_eq_iff local_do_def serve_def http_transport_def)

definition local_suite :: "mem sstate SuiteConfig" where
  "local_suite = \<lparr>cs_BaseURL = ''http://h'', cs_AuthHeader = [], cs_SCIMVersion = ''v2'', cs_SkipBulk = False,
     cs_SkipETags = False, cs_HTTPClient = Some \<lparr>hc_url_error = (\<lambda>_. None), hc_Do = local_do\<rparr>\<rparr>"

text \<open>The test of the suite runs against the server with an empty store, reports nothing, and leaves no resource behind.\<close>

definition passes_alone :: "string \<Rightarrow> bool" where
  "passes_alone name =
     (case map_of suite_tests name of
        None \<Rightarrow> False
      | Some f \<Rightarrow>
          (let s = snd (Run local_suite name (f local_suite) \<lparr>ts_world = sample_state,
                 ts_T = \<lparr>rep_Name = ''Test'', rep_Errors = [], rep_Logs = [], rep_Skipped = False\<rparr>, ts_Cleanup = [],
                 ts_Reports = []\<rparr>)
           in ts_Reports s = [\<lparr>rep_Name = ''Test/'' @ name, rep_Errors = [], rep_Logs = [], rep_Skipped = False\<rparr>] \<and>
              list_all (\<lambda>(rt, m). m = []) (ss_store (ts_world s))))"

lemma run_ServiceProviderConfig: "passes_alone ''ServiceProviderConfig''"
  by code_simp

lemma run_ResourceTypes: "passes_alone ''ResourceTypes''"
  by code_simp

lemma run_Users_Create: "passes_alone ''Users/Create''"
  by code_simp

lemma run_Users_Get: "passes_alone ''Users/Get''"
  by code_simp

lemma run_Users_Patch_Complex: "passes_alone ''Users/Patch/Complex''"
  by code_simp

lemma run_Users_Delete: "passes_alone ''Users/Delete''"
  by code_simp

lemma run_Errors_NotFound: "passes_alone ''Errors/NotFound''"
  by code_simp

lemma run_Errors_Conflict: "passes_alone ''Errors/Conflict''"
  by code_simp

lemma run_Errors_BadFilter: "passes_alone ''Errors/BadFilter''"
  by code_simp


end
