(* ===== verification/Spec2Isabelle.thy ===== *)
theory Spec2Isabelle
  imports Server_Samples Filter_Print V1 Tracing Audit_Json Sql_Schema Sql_Store_Facts Mongo_Facts Client_Server Serve_Facts Compliance_Run
begin

text \<open>
  The verification development of scimply, a SCIM 2.0 server library in Go.

  The program.  A SCIM server keeps resources (users, groups) and answers HTTP requests about them.  Package
  \<open>resource\<close> is the data model: a resource, its attributes as dynamic Go values, attribute paths, the filter
  language with its parser and evaluator, sorting, and the PATCH engine.  Package \<open>schema\<close> describes resource types
  and validates resources against them.  Package \<open>store\<close> is the interface of a backend and the in-memory backend.
  Package \<open>protocol\<close> holds what every handler uses of the protocol: list parameters, errors, responses.  Package
  \<open>server\<close> routes a request through the middleware to a handler, which decodes the body, calls the store, logs an audit
  event and writes the response; a bulk request calls the router again for each of its operations.  Behind the interface of
  a store there are four more backends in \<open>connector\<close>: PostgreSQL, MySQL, MongoDB, and a client of another SCIM server.
  The command \<open>serve\<close> builds a server from a configuration file.

  How Go is modelled.  \<open>Prelude\<close> has association lists for Go maps: a list in some order, so that the order stands
  for the iteration order that the language leaves open; a result that must not depend on it is a theorem about
  permutations.  \<open>Go_Strings\<close>, \<open>Go_Float\<close>, \<open>Go_Time\<close>, \<open>Go_Quote\<close> and \<open>Go_Value\<close> model what the
  code uses of the standard library: strings as byte lists with ASCII case mapping, \<open>float64\<close> with exact rounding,
  times as nanoseconds with the Gregorian calendar and RFC 3339, quoted literals, and the values behind
  \<open>interface{}\<close> with \<open>fmt\<close>, JSON normalisation and type switches.  Go's machine integers are integers with the
  wrap-around written out (\<open>wrap64\<close>).  A panic is a value.  Time, randomness and the hooks of a store are read from
  an environment \<open>env\<close>, one per store operation; a server runs in a \<open>world\<close>, the environment of every step.

  The parts.
  \<^item> \<open>resource/path.go\<close>: \<open>Attr_Path\<close> (parsing and printing, round trip).
  \<^item> \<open>resource/filter.go\<close>: \<open>Filter_Syntax\<close> (AST, lexer), \<open>Filter_Parser\<close> (the recursive-descent methods and
    \<open>ParseFilter\<close>), \<open>Filter_Print\<close> (a minimal printer, the round trip, which fixes precedence and associativity, and
    termination: the fuel of \<open>ParseFilter\<close> is the length of its input plus one, and it is always enough).
  \<^item> \<open>resource/filter_eval.go\<close>: \<open>Filter_Eval\<close>.  \<open>resource/sort.go\<close>: \<open>Sort\<close>.
  \<^item> \<open>resource/resource.go\<close>: \<open>Resource\<close> (\<open>ToMap\<close>, \<open>FromMap\<close>, JSON, \<open>Clone\<close>); \<open>resource/accessor.go\<close>:
    \<open>Accessor\<close> (\<open>Get\<close>, \<open>Set\<close>, \<open>Delete\<close>).
  \<^item> \<open>resource/patch.go\<close>: \<open>Patch_Path\<close> and \<open>Patch\<close>.  \<open>resource/bulk.go\<close>: \<open>Bulk_Request\<close>.
  \<^item> \<open>schema/\<close>: \<open>Schema\<close> (the registry), \<open>Core_Schema\<close> (\<open>core.go\<close>, every attribute of the built-in schemas),
    \<open>Validation\<close> (\<open>validation.go\<close>, equivalent to the predicate \<open>conforms\<close>).
  \<^item> \<open>store/\<close>: \<open>Store_API\<close> (the interface as a record of operations over a state, errors, hooks), \<open>Memory_Store\<close>
    (\<open>memory.go\<close>), and its invariant.
  \<^item> \<open>protocol/\<close>: \<open>Http\<close> (requests, responses and bodies as \<open>net/http\<close> shows them), \<open>Protocol\<close>.
  \<^item> \<open>server/\<close>, \<open>audit/audit.go\<close>: \<open>Server\<close> (options, \<open>New\<close>, the handlers of \<open>handler.go\<close>), \<open>Discovery\<close>,
    \<open>Routing\<close> (the router, \<open>bulk.go\<close>, the middleware and \<open>ServeHTTP\<close>).  The router is recursive through bulk
    requests; its fuel is the depth of the request body plus one, and \<open>Routing_Facts\<close> shows it is enough.
    \<open>Server_Relation\<close> is the interface between the server and a store: a relation that the six operations keep
    is kept by every request; \<open>Memory_Server\<close> interprets it on the in-memory store.  \<open>Server_Simulation\<close> is the contract
    between two stores that answer alike: then so do their servers.
    \<open>Server_Responses\<close>, \<open>Server_Props\<close>, \<open>Server_Sessions\<close> state what a client sees; \<open>Server_Samples\<close> runs a
    sample server.
  \<^item> \<open>store/otel.go\<close>, \<open>store/event.go\<close>: \<open>Tracing\<close>, a simulation of the wrapped store.  \<open>audit/json.go\<close>,
    \<open>audit/noop.go\<close>: \<open>Audit_Json\<close>.  \<open>v1/\<close>: \<open>V1\<close> (conversion of resources, round trip).
  \<^item> \<open>connector/sql/\<close>: \<open>Sql_Filter\<close> (column mapping, translation of filters, which keeps values out of the text),
    \<open>Sql_Schema\<close> (table definitions), \<open>Sql_Reconstruct\<close> (flat maps of columns, round trip).
  \<^item> \<open>connector/mysql/\<close>, \<open>connector/postgres/\<close>: \<open>Sql_Database\<close> (what both use of a database, and the helpers they share),
    \<open>Sql_Columns\<close> (column mode), \<open>Mysql_Store\<close>, \<open>Postgres_Store\<close> (options, start and migration, the six operations with
    their statements).  \<open>Document_Store\<close> is the locale of a store over rows with a primary key, and \<open>Sql_Laws\<close> the locale of
    a database that keeps such rows; \<open>Mysql_Contract\<close> and \<open>Postgres_Contract\<close> show that the statements of the connectors
    give the first from the second, \<open>Sql_Mini\<close> runs the statements on a small database and so shows that the laws can hold.
    \<open>Store_Calls\<close> is the abstract store, a map with the answers it allows; \<open>Sql_Store_Facts\<close> has the refinement over
    every sequence of calls, the lost update of two PATCH requests, and what a filter that is not translated does.
  \<^item> \<open>connector/mongodb/\<close>: \<open>Mongo_Docs\<close> (filters, documents), \<open>Mongo_Store\<close>, \<open>Mongo_Facts\<close> (the laws of a collection as a
    locale, a small instance, what is read back).
  \<^item> \<open>connector/scim/\<close>: \<open>Client_Text\<close> (filters and PATCH targets as text, the inverse of the parser; \<open>Float_Print\<close> proves that
    shortest decimals are read back), \<open>Go_URL\<close> (escaping and query strings of \<open>net/url\<close>), \<open>Scim_Client\<close> (requests, retries,
    responses), \<open>Client_Facts\<close> (number of retries, waiting, error kinds), \<open>Client_Server\<close> (the client joined to the
    modelled server: the stages are the request, the router, the store, the response and the decoder).
  \<^item> \<open>config/config.go\<close>: \<open>Configuration\<close>.  \<open>cmd/serve/root.go\<close>: \<open>Serve\<close> (the start as a function from a configuration to a
    server, a store on its part of the surroundings, and an audit sink), \<open>Serve_Facts\<close> (what a started server does).
  \<^item> \<open>compliance/\<close>: \<open>Compliance\<close> (the tests over the state of the package \<open>testing\<close>), \<open>Compliance_Facts\<close> (no test stops
    in silence, and what a passed test says of any server: the rules \<open>quiet_steps\<close> read a test backwards, request by
    request), \<open>Compliance_Run\<close> (tests run against the modelled server).

  Bounds.  The fuel of the filter parser and of the router are said above; the retry loop of the client counts its attempts up
  to the constant of the code; all other functions are total by structure or by a measure.

  Parameters.  \<open>purl\<close> is what \<open>net/url\<close> makes of a request target inside a bulk request, \<open>url_parser\<close> what it makes of a
  base URL.  The stores are a parameter of the server (\<open>store_ops\<close>), instantiated with the five backends.  \<open>sqldb\<close> is a SQL
  connection pool, \<open>mongodb\<close> a MongoDB client, \<open>transport\<close> an HTTP client with its waiting; the file system and the YAML
  decoder are arguments of \<open>Load\<close> and \<open>serve_config\<close>.  What is supposed of them is in the locales \<open>sql_database\<close>
  (statements act on rows under an id compared byte by byte, a JSON cell is read back as the document that was written) and
  \<open>mongo_collection\<close> (documents under \<open>_id\<close>, values as the driver decodes them), each with an interpretation, and in the
  assumptions of the properties.  Text is taken to be valid UTF-8; the numbers of a list response are written as integers.

  Not modelled.
  \<^item> \<open>cmd/main.go\<close>, \<open>examples/\<close>: the command entry point and sample programs, which only call what is modelled.
  \<^item> Of \<open>cmd/serve/root.go\<close>: the set-up of telemetry, the goroutine that listens and the timeouts of the HTTP server, which
    belong to third-party libraries and \<open>net/http\<close>.
  \<^item> Tracing spans, metrics counters and log texts of the server, which no request depends on.
\<close>

section \<open>Properties that span components\<close>

subsection \<open>Schemas and paths\<close>

text \<open>The paths a schema offers: its attributes, and their sub-attributes behind a dot.\<close>

definition schema_paths :: "Schema \<Rightarrow> string list" where
  "schema_paths s = concat (map (\<lambda>a. attr_Name a # map (\<lambda>b. attr_Name a @ ''.'' @ attr_Name b) (attr_SubAttributes a))
     (sch_Attributes s))"

definition parses_back :: "string \<Rightarrow> bool" where
  "parses_back p = (case ParsePath p of Inr q \<Rightarrow> path_String q = p \<and> AttributeName q \<noteq> [] | Inl _ \<Rightarrow> False)"

text \<open>Every attribute and sub-attribute of the built-in schemas can be named in a filter, a sort or a PATCH
  path, and is read back as itself, except the sub-attribute \<open>$ref\<close>, which the path grammar rejects.\<close>

theorem schema_paths_parse:
  "list_all (\<lambda>s. list_all (\<lambda>p. parses_back p = (\<not> HasSuffix p ''.$ref'')) (schema_paths s))
     (Registry_Schemas default_registry)"
proof -
  have "list_all (\<lambda>p. parses_back p = (\<not> HasSuffix p ''.$ref'')) (schema_paths CoreUserSchema)" by code_simp
  moreover have "list_all (\<lambda>p. parses_back p = (\<not> HasSuffix p ''.$ref'')) (schema_paths CoreGroupSchema)" by code_simp
  moreover have "list_all (\<lambda>p. parses_back p = (\<not> HasSuffix p ''.$ref'')) (schema_paths EnterpriseUserSchema)" by code_simp
  ultimately show ?thesis by (simp add: default_schemas)
qed

subsection \<open>The identity of a resource\<close>

lemma FromMap_last_id: "ToLower k = ''id'' \<Longrightarrow> ID (FromMap (m @ [(k, GStr v)])) = v"
  by (simp add: FromMap_def from_entry_def)

lemma fold_ID: "ToLower ''ID'' = ''id''"
  by code_simp

lemma fold_id: "ToLower ''id'' = ''id''"
  by code_simp

lemma last_entry_decides:
  assumes "map_of l k = Some (GStr v)" "ToLower k = ''id''"
  shows "\<exists>m. mset m = mset l \<and> ID (FromMap m) = v"
proof (intro exI conjI)
  have "(k, GStr v) \<in> set l" using assms(1) by (rule map_of_SomeD)
  then show "mset (remove1 (k, GStr v) l @ [(k, GStr v)]) = mset l" by simp
  show "ID (FromMap (remove1 (k, GStr v) l @ [(k, GStr v)])) = v" using assms(2) by (rule FromMap_last_id)
qed

text \<open>A PATCH of an attribute called \<open>ID\<close> makes the id of the resource depend on the iteration order of a map:
  the map that the next clone decodes has an order in which the id is the given text, and one in which it is
  the old id.\<close>

theorem patched_id_depends_on_order:
  assumes "wf_resource r" "ID r \<noteq> []"
  shows "\<exists>r' m m'. ApplyPatch r [\<lparr>Op = PatchOpReplace, Path = Some (plain_path (attr_named ''ID'')), Value = GStr v\<rparr>] = Inr r' \<and>
    mset m = mset (json_norm_map (ToMap r')) \<and> ID (FromMap m) = v \<and>
    mset m' = mset (json_norm_map (ToMap r')) \<and> ID (FromMap m') = ID r"
proof -
  let ?A = "Attributes (Clone r)"
  let ?r' = "(Clone r)\<lparr>Attributes := map_put ''ID'' (GStr v) ?A\<rparr>"
  have "\<forall>k \<in> fst ` set ?A. ToLower k \<noteq> ''id''"
    using Clone_wf [of r] unfolding wf_resource_def wf_attrs_iff reserved_def by blast
  then have "fold_key ?A ''ID'' = None" unfolding fold_key_None fold_ID .
  then have "Set (Clone r) (attr_named ''ID'') (GStr v) = ?r'" by (simp add: Set_def setAttr_def attr_named_def)
  then have patched: "ApplyPatch r [\<lparr>Op = PatchOpReplace, Path = Some (plain_path (attr_named ''ID'')), Value = GStr v\<rparr>] = Inr ?r'"
    by (simp add: ApplyPatch_def apply_plain)
  have "map_of (ToMap ?r') ''ID'' = Some (GStr v)" "map_of (ToMap ?r') ''id'' = Some (GStr (ID r))"
    using assms by (simp_all add: ToMap_def Let_def put_str_def)
  then have "map_of (json_norm_map (ToMap ?r')) ''ID'' = Some (GStr v)"
    "map_of (json_norm_map (ToMap ?r')) ''id'' = Some (GStr (ID r))" by (simp_all add: map_of_json_norm_map)
  from last_entry_decides [OF this(1)] last_entry_decides [OF this(2)] obtain m m' where
    "mset m = mset (json_norm_map (ToMap ?r')) \<and> ID (FromMap m) = v"
    "mset m' = mset (json_norm_map (ToMap ?r')) \<and> ID (FromMap m') = ID r"
    by (metis fold_ID fold_id)
  then show ?thesis using patched by blast
qed

theorem patched_id_depends_on_order_witness:
  "\<exists>r' m. ApplyPatch sample_user [\<lparr>Op = PatchOpReplace, Path = Some (plain_path (attr_named ''ID'')), Value = GStr ''9''\<rparr>] = Inr r' \<and>
    mset m = mset (json_norm_map (ToMap r')) \<and> ID (FromMap m) = ''9''"
  using patched_id_depends_on_order [OF sample_user_wf, of "''9''"] by (auto simp: sample_user_def)

end
